(* ===== verification/Prelude.thy ===== *)
theory Prelude
  imports Complex_Main
begin

text \<open>
  The vocabulary every component theory shares: Python exceptions as values of a sum type,
  the composition of fallible computations, and the few facts about lists and options the
  components use. Nothing here models a file of the repository on its own.
\<close>

named_theorems res_simps \<open>rewriting of fallible computations\<close>
named_theorems dec_simps \<open>decimal arithmetic in terms of rational values\<close>
named_theorems frame_simps \<open>tables an operation leaves alone\<close>
named_theorems gate_simps \<open>outcomes of single rules\<close>

section \<open>Exceptions as values\<close>

text \<open>
  The exceptions the modelled code can raise. \<open>ValueError\<close> and its subclass
  \<open>FxPairMismatchError\<close> carry their message; the two signals of the \<open>decimal\<close>
  module are traps of the default context; \<open>IntegrityError\<close> is the database refusing a
  constraint; \<open>InvalidURLError\<close> is \<open>httpx.InvalidURL\<close>, which is no \<open>HTTPError\<close>; the rest are the application's own exceptions of \<open>errors.py\<close>.
\<close>

datatype py_error =
    ValueError string
  | FxPairMismatchError string
  | DivisionByZero
  | InvalidOperation
  | AssertionError
  | IndexError
  | OverflowError
  | InvalidURLError
  | InvalidProposalTransition string string
  | IntegrityError
  | ProposalAlreadyConsumed string
  | ProposalExpired string
  | ProposalInvalidated string
  | RiskBlocked string "string list"
  | AuthorizationNotPermitted string
  | ApprovalActionInvalid string
  | ApprovalActionForeign string
  | ApprovalActionConsumed string
  | ApprovalActionExpired string

type_synonym 'a res = "py_error + 'a"

text \<open>What \<open>except ValueError\<close> catches.\<close>

fun is_value_error :: "py_error \<Rightarrow> string option" where
  "is_value_error (ValueError m) = Some m"
| "is_value_error (FxPairMismatchError m) = Some m"
| "is_value_error _ = None"

definition bindE :: "'a res \<Rightarrow> ('a \<Rightarrow> 'b res) \<Rightarrow> 'b res" where
  "bindE m f = (case m of Inl e \<Rightarrow> Inl e | Inr x \<Rightarrow> f x)"

definition okE :: "'a res \<Rightarrow> bool" where
  "okE m = (case m of Inl _ \<Rightarrow> False | Inr _ \<Rightarrow> True)"

lemma bindE_Inr [simp, res_simps]: "bindE (Inr x) f = f x"
  by (simp add: bindE_def)

lemma bindE_Inl [simp, res_simps]: "bindE (Inl e) f = Inl e"
  by (simp add: bindE_def)

lemma okE_simps [simp, res_simps]: "okE (Inr x)" "\<not> okE (Inl e)"
  by (simp_all add: okE_def)

lemma bindE_eq_Inr [res_simps]: "bindE m f = Inr y \<longleftrightarrow> (\<exists>x. m = Inr x \<and> f x = Inr y)"
  by (cases m) simp_all

lemma bindE_eq_Inl: "bindE m f = Inl e \<longleftrightarrow> m = Inl e \<or> (\<exists>x. m = Inr x \<and> f x = Inl e)"
  by (cases m) simp_all

lemma okE_conv: "okE m \<longleftrightarrow> (\<exists>x. m = Inr x)"
  by (cases m) simp_all

text \<open>A comprehension over a fallible body: the first exception ends it.\<close>

fun mapE :: "('a \<Rightarrow> 'b res) \<Rightarrow> 'a list \<Rightarrow> 'b list res" where
  "mapE f [] = Inr []"
| "mapE f (x # xs) = bindE (f x) (\<lambda>y. bindE (mapE f xs) (\<lambda>ys. Inr (y # ys)))"

lemma mapE_Inr_list_all2: "mapE f xs = Inr ys \<Longrightarrow> list_all2 (\<lambda>x y. f x = Inr y) xs ys"
  by (induction xs arbitrary: ys) (auto simp: bindE_eq_Inr)

lemma mapE_Inr_length: "mapE f xs = Inr ys \<Longrightarrow> length ys = length xs"
  using list_all2_lengthD[OF mapE_Inr_list_all2] by metis

lemma mapE_total: "(\<And>x. x \<in> set xs \<Longrightarrow> \<exists>y. f x = Inr y) \<Longrightarrow> \<exists>ys. mapE f xs = Inr ys"
  by (induction xs) (force simp: bindE_eq_Inr)+

section \<open>Options as Python's None\<close>

definition is_none :: "'a option \<Rightarrow> bool" where
  "is_none x = (case x of None \<Rightarrow> True | Some _ \<Rightarrow> False)"

lemma is_none_simps [simp]: "is_none None" "\<not> is_none (Some x)"
  by (simp_all add: is_none_def)

definition or_else :: "'a option \<Rightarrow> 'a \<Rightarrow> 'a" where
  "or_else x d = (case x of None \<Rightarrow> d | Some y \<Rightarrow> y)"

lemma or_else_simps [simp]: "or_else None d = d" "or_else (Some y) d = y"
  by (simp_all add: or_else_def)

section \<open>Status machines\<close>

text \<open>
  What a transition table and the run that checks every step against it promise. The two
  lemmas are the ones a lifecycle argument needs: a set the table never leaves holds every later
  status, and a set that can only be entered over one edge is entered over that edge.
\<close>

locale status_machine =
  fixes allowed :: "'s \<Rightarrow> 's set"
    and run :: "'s \<Rightarrow> 's list \<Rightarrow> 's res"
  assumes run_Nil: "run s [] = Inr s"
    and run_Cons: "run s (t # ts) = Inr u \<longleftrightarrow> t \<in> allowed s \<and> run t ts = Inr u"
begin

lemma run_closed:
  assumes closed: "\<And>a. a \<in> C \<Longrightarrow> allowed a \<subseteq> C"
  shows "s \<in> C \<Longrightarrow> run s ts = Inr u \<Longrightarrow> set ts \<subseteq> C \<and> u \<in> C"
proof (induction ts arbitrary: s)
  case (Cons t ts)
  then have "t \<in> C" "run t ts = Inr u" using closed[of s] by (auto simp: run_Cons)
  then show ?case using Cons.IH by auto
qed (simp add: run_Nil)

lemma run_cut:
  assumes edge: "\<And>a b. a \<notin> C \<Longrightarrow> b \<in> C \<Longrightarrow> b \<in> allowed a \<Longrightarrow> a = g \<and> b = h"
  shows "s \<notin> C \<Longrightarrow> run s ts = Inr u \<Longrightarrow> u \<in> C \<Longrightarrow> \<exists>us vs. s # ts = us @ g # h # vs"
proof (induction ts arbitrary: s)
  case (Cons t ts)
  then have t: "t \<in> allowed s" "run t ts = Inr u" by (auto simp: run_Cons)
  show ?case
  proof (cases "t \<in> C")
    case True
    then show ?thesis
      using edge[OF Cons.prems(1) True t(1)] by (intro exI[of _ "[]"] exI[of _ ts]) simp
  next
    case False
    then obtain us vs where "t # ts = us @ g # h # vs" using Cons.IH t(2) Cons.prems(3) by blast
    then show ?thesis by (intro exI[of _ "s # us"] exI[of _ vs]) simp
  qed
qed (auto simp: run_Nil)

lemma run_append: "run s (ts @ us) = Inr u \<longleftrightarrow> (\<exists>t. run s ts = Inr t \<and> run t us = Inr u)"
  by (induction ts arbitrary: s) (auto simp: run_Nil run_Cons)

lemma run_stuck: "allowed s = {} \<Longrightarrow> run s ts = Inr u \<longleftrightarrow> ts = [] \<and> u = s"
  by (cases ts) (auto simp: run_Nil run_Cons)

end

section \<open>Tables of rows\<close>

text \<open>A table is a list of rows with a key; an update rewrites the rows with one key and keeps the key.\<close>

definition upd_rows :: "('r \<Rightarrow> 'k) \<Rightarrow> 'k \<Rightarrow> ('r \<Rightarrow> 'r) \<Rightarrow> 'r list \<Rightarrow> 'r list" where
  "upd_rows key k f rs = map (\<lambda>r. if key r = k then f r else r) rs"

definition find_row :: "('r \<Rightarrow> 'k) \<Rightarrow> 'k \<Rightarrow> 'r list \<Rightarrow> 'r option" where
  "find_row key k rs = find (\<lambda>r. key r = k) rs"

lemma find_row_Nil [simp]: "find_row key k [] = None"
  by (simp add: find_row_def)

lemma find_row_Cons [simp]: "find_row key k (r # rs) = (if key r = k then Some r else find_row key k rs)"
  by (simp add: find_row_def)

lemma find_row_append: "find_row key k (rs @ ss) = (case find_row key k rs of None \<Rightarrow> find_row key k ss | Some r \<Rightarrow> Some r)"
  by (induction rs) auto

lemma find_row_Some: "find_row key k rs = Some r \<Longrightarrow> r \<in> set rs \<and> key r = k"
  by (induction rs) (auto split: if_splits)

lemma find_row_None: "find_row key k rs = None \<longleftrightarrow> k \<notin> key ` set rs"
  by (induction rs) auto

lemma find_row_unique: "distinct (map key rs) \<Longrightarrow> r \<in> set rs \<Longrightarrow> find_row key (key r) rs = Some r"
  by (induction rs) (auto simp: image_iff)

lemma map_key_upd_rows [simp]: "(\<And>r. key r = k \<Longrightarrow> key (f r) = k) \<Longrightarrow> map key (upd_rows key k f rs) = map key rs"
  by (simp add: upd_rows_def)

lemma find_row_upd_rows:
  assumes "\<And>r. key r = k \<Longrightarrow> key (f r) = k"
  shows "find_row key k' (upd_rows key k f rs) = map_option (\<lambda>r. if k' = k then f r else r) (find_row key k' rs)"
  using assms by (induction rs) (auto simp: upd_rows_def)

lemma set_upd_rows: "r' \<in> set (upd_rows key k f rs) \<Longrightarrow> \<exists>r \<in> set rs. r' = (if key r = k then f r else r)"
  by (auto simp: upd_rows_def)

lemma upd_rows_unique:
  assumes "distinct (map key rs)" "r \<in> set rs" "key r = k"
  shows "upd_rows key k f rs = map (\<lambda>s. if s = r then f r else s) rs"
  using assms by (auto simp: upd_rows_def distinct_map dest: inj_onD)

section \<open>Reachable states\<close>

text \<open>
  The states a system gets into by single steps, and the proof rule for invariants: what holds at
  the start and survives every step holds of every reachable state.
\<close>

inductive reach :: "('s \<Rightarrow> bool) \<Rightarrow> ('s \<Rightarrow> 's \<Rightarrow> bool) \<Rightarrow> 's \<Rightarrow> bool" for start step where
  reach_init: "start s \<Longrightarrow> reach start step s"
| reach_step: "reach start step s \<Longrightarrow> step s s' \<Longrightarrow> reach start step s'"

locale invariant_system =
  fixes start :: "'s \<Rightarrow> bool"
    and step :: "'s \<Rightarrow> 's \<Rightarrow> bool"
    and inv :: "'s \<Rightarrow> bool"
  assumes inv_start: "start s \<Longrightarrow> inv s"
    and inv_step: "inv s \<Longrightarrow> step s s' \<Longrightarrow> inv s'"
begin

lemma reach_inv: "reach start step s \<Longrightarrow> inv s"
  by (induction rule: reach.induct) (auto intro: inv_start inv_step)

end

end
