(* ===== verification/PyDecimal.thy ===== *)
theory PyDecimal
  imports Prelude
begin

text \<open>
  Python's \<open>decimal.Decimal\<close> under the default context (precision 28,
  \<open>ROUND_HALF_EVEN\<close>), which is the arithmetic of every money value of the program.
  A finite value is a coefficient and an exponent, so that printing, which shows trailing
  zeros, can be modelled; \<open>dval\<close> is the number it stands for. Every operation computes the
  exact result and rounds it to 28 significant digits, as the library does; a division by
  zero and a \<open>quantize\<close> whose result needs more than 28 digits raise.
  Not modelled: NaN and infinities, the sign of a zero, and the exponent range (beyond
  \<open>10 ^ 999999\<close>).
\<close>

section \<open>Values\<close>

datatype decimal = Dec (coeff: int) (expo: int)

definition dval :: "decimal \<Rightarrow> rat" where
  "dval d = of_int (coeff d) * 10 powi (expo d)"

definition dec_prec :: int where
  "dec_prec = 28"

text \<open>Values that need no rounding: at most 28 digits.\<close>

definition dec_ok :: "decimal \<Rightarrow> bool" where
  "dec_ok d = (\<bar>coeff d\<bar> < 10 ^ 28)"

fun ndigits :: "int \<Rightarrow> int" where
  "ndigits n = (if n < 10 then 1 else 1 + ndigits (n div 10))"

declare ndigits.simps [simp del]

definition aligned :: "decimal \<Rightarrow> int \<Rightarrow> int" where
  "aligned d e = coeff d * 10 ^ nat (expo d - e)"

definition min_expo :: "decimal \<Rightarrow> decimal \<Rightarrow> int" where
  "min_expo a b = min (expo a) (expo b)"

lemma dval_Dec [dec_simps]: "dval (Dec c e) = of_int c * 10 powi e"
  by (simp add: dval_def)

lemma dval_aligned: "e \<le> expo d \<Longrightarrow> dval d = of_int (aligned d e) * 10 powi e"
proof -
  assume le: "e \<le> expo d"
  obtain k where k: "expo d = e + int k"
    using le zle_iff_zadd by blast
  then have "(10::rat) powi (expo d) = 10 ^ k * 10 powi e"
    by (simp add: power_int_add)
  then show ?thesis
    by (simp add: dval_def aligned_def k)
qed

lemma powi10_pos [simp]: "(0::rat) < 10 powi e"
  by (simp add: zero_less_power_int)

lemma powi10_not_le [simp]: "\<not> (10::rat) powi e \<le> 0"
  using powi10_pos[of e] by (simp only: not_le)

lemma dval_nonneg_iff: "0 \<le> dval d \<longleftrightarrow> 0 \<le> coeff d"
  by (auto simp: dval_def zero_le_mult_iff)

lemma aligned_le_iff:
  assumes "e \<le> expo a" "e \<le> expo b"
  shows "aligned a e \<le> aligned b e \<longleftrightarrow> dval a \<le> dval b"
  by (simp add: dval_aligned[OF assms(1)] dval_aligned[OF assms(2)])

lemma aligned_eq_iff:
  assumes "e \<le> expo a" "e \<le> expo b"
  shows "aligned a e = aligned b e \<longleftrightarrow> dval a = dval b"
  by (simp add: dval_aligned[OF assms(1)] dval_aligned[OF assms(2)])

section \<open>Comparison\<close>

text \<open>
  Two decimals compare by value; \<open>2.0\<close> and \<open>2\<close> are equal numbers and different
  representations, so the order is a preorder.
\<close>

instantiation decimal :: preorder
begin

definition less_eq_decimal :: "decimal \<Rightarrow> decimal \<Rightarrow> bool" where
  "a \<le> b \<longleftrightarrow> (let e = min_expo a b in aligned a e \<le> aligned b e)"

definition less_decimal :: "decimal \<Rightarrow> decimal \<Rightarrow> bool" where
  "a < b \<longleftrightarrow> (let e = min_expo a b in aligned a e < aligned b e)"

instance
proof
  have le: "a \<le> b \<longleftrightarrow> dval a \<le> dval b" for a b :: decimal
    by (simp add: less_eq_decimal_def aligned_le_iff min_expo_def)
  have lt: "a < b \<longleftrightarrow> dval a < dval b" for a b :: decimal
    using aligned_le_iff[of "min_expo a b" b a]
    by (simp add: less_decimal_def min_expo_def linorder_not_le [of "dval b" "dval a", symmetric]
      linorder_not_le [of "aligned b (min (expo a) (expo b))", symmetric])
  fix x y z :: decimal
  show "(x < y) = (x \<le> y \<and> \<not> y \<le> x)" by (auto simp: le lt)
  show "x \<le> x" by (simp add: le)
  show "x \<le> y \<Longrightarrow> y \<le> z \<Longrightarrow> x \<le> z" by (simp add: le)
qed

end

lemma dec_le_iff [dec_simps]: "a \<le> b \<longleftrightarrow> dval a \<le> dval b"
  by (simp add: less_eq_decimal_def aligned_le_iff min_expo_def)

lemma dec_less_iff [dec_simps]: "a < b \<longleftrightarrow> dval a < dval b"
  using less_le_not_le[of a b] by (auto simp: dec_le_iff)

definition dec_eq :: "decimal \<Rightarrow> decimal \<Rightarrow> bool" where
  "dec_eq a b = (let e = min_expo a b in aligned a e = aligned b e)"

lemma dec_eq_iff [dec_simps]: "dec_eq a b \<longleftrightarrow> dval a = dval b"
  by (simp add: dec_eq_def aligned_eq_iff min_expo_def)

text \<open>\<open>min\<close> and \<open>max\<close> keep the first of two equal arguments.\<close>

definition dmin :: "decimal \<Rightarrow> decimal \<Rightarrow> decimal" where
  "dmin a b = (if b < a then b else a)"

definition dmax :: "decimal \<Rightarrow> decimal \<Rightarrow> decimal" where
  "dmax a b = (if a < b then b else a)"

lemma dval_dmin [dec_simps]: "dval (dmin a b) = min (dval a) (dval b)"
  by (simp add: dmin_def dec_less_iff min_def)

lemma dval_dmax [dec_simps]: "dval (dmax a b) = max (dval a) (dval b)"
  by (simp add: dmax_def dec_less_iff max_def)

lemma dec_ok_dmin: "dec_ok a \<Longrightarrow> dec_ok b \<Longrightarrow> dec_ok (dmin a b)"
  by (simp add: dmin_def)

lemma dec_ok_dmax: "dec_ok a \<Longrightarrow> dec_ok b \<Longrightarrow> dec_ok (dmax a b)"
  by (simp add: dmax_def)

text \<open>Python's \<open>min(iterable)\<close> over a non-empty list.\<close>

fun dmin_list :: "decimal \<Rightarrow> decimal list \<Rightarrow> decimal" where
  "dmin_list m [] = m"
| "dmin_list m (x # xs) = dmin_list (dmin m x) xs"

lemma dmin_list_le: "dmin_list m xs \<le> m" "x \<in> set xs \<Longrightarrow> dmin_list m xs \<le> x"
proof (induction xs arbitrary: m)
  case (Cons y ys)
  { case 1 show ?case using Cons.IH(1)[of "dmin m y"] by (auto simp: dec_simps) }
  { case 2 then show ?case
      using Cons.IH(1)[of "dmin m y"] Cons.IH(2)[of "dmin m y"] by (auto simp: dec_simps) }
qed (simp_all)

lemma dmin_list_mem: "dmin_list m xs \<in> insert m (set xs)"
proof (induction xs arbitrary: m)
  case (Cons x xs)
  then show ?case by (cases "x < m") (auto simp: dmin_def)
qed simp

section \<open>Rounding to the context's precision\<close>

definition div_half_even :: "int \<Rightarrow> int \<Rightarrow> int" where
  "div_half_even n d =
     (let q = n div d; r = n mod d
      in if 2 * r > d \<or> (2 * r = d \<and> odd q) then q + 1 else q)"

definition div_down :: "int \<Rightarrow> int \<Rightarrow> int" where
  "div_down n d = sgn n * (\<bar>n\<bar> div d)"

definition dfix :: "decimal \<Rightarrow> decimal" where
  "dfix d =
     (let k = ndigits \<bar>coeff d\<bar>
      in if k \<le> dec_prec then d
         else let s = k - dec_prec; c = div_half_even (coeff d) (10 ^ nat s)
              in if \<bar>c\<bar> = 10 ^ nat dec_prec then Dec (c div 10) (expo d + s + 1)
                 else Dec c (expo d + s))"

lemma ndigits_pos: "1 \<le> ndigits n"
proof (induction n rule: ndigits.induct)
  case (1 n)
  then show ?case by (subst ndigits.simps) force
qed

lemma ndigits_upper: "0 \<le> n \<Longrightarrow> n < 10 ^ nat (ndigits n)"
proof (induction n rule: ndigits.induct)
  case (1 n)
  show ?case
  proof (cases "n < 10")
    case True
    then show ?thesis by (subst ndigits.simps) simp
  next
    case False
    have "n div 10 < 10 ^ nat (ndigits (n div 10))"
      using 1 False by simp
    then have "n < 10 * 10 ^ nat (ndigits (n div 10))" by linarith
    moreover have "nat (1 + ndigits (n div 10)) = Suc (nat (ndigits (n div 10)))"
      using ndigits_pos[of "n div 10"] by simp
    ultimately show ?thesis
      using False by (subst ndigits.simps) simp
  qed
qed

lemma ndigits_lower: "0 < n \<Longrightarrow> 10 ^ nat (ndigits n - 1) \<le> n"
proof (induction n rule: ndigits.induct)
  case (1 n)
  show ?case
  proof (cases "n < 10")
    case True
    then show ?thesis using 1 by (subst ndigits.simps) simp
  next
    case False
    have "10 ^ nat (ndigits (n div 10) - 1) \<le> n div 10"
      using 1 False by simp
    then have "10 * 10 ^ nat (ndigits (n div 10) - 1) \<le> n" by linarith
    moreover have "nat (ndigits (n div 10)) = Suc (nat (ndigits (n div 10) - 1))"
      using ndigits_pos[of "n div 10"] by simp
    ultimately show ?thesis
      using False by (subst ndigits.simps) simp
  qed
qed

lemma ndigits_le_iff: "0 \<le> n \<Longrightarrow> 1 \<le> k \<Longrightarrow> ndigits n \<le> k \<longleftrightarrow> n < 10 ^ nat k"
proof
  assume "0 \<le> n" "1 \<le> k" "ndigits n \<le> k"
  then have "n < 10 ^ nat (ndigits n)" using ndigits_upper by blast
  also have "\<dots> \<le> 10 ^ nat k" using \<open>ndigits n \<le> k\<close> by (simp add: power_increasing)
  finally show "n < 10 ^ nat k" .
next
  assume a: "0 \<le> n" "1 \<le> k" "n < 10 ^ nat k"
  show "ndigits n \<le> k"
  proof (rule ccontr)
    assume "\<not> ndigits n \<le> k"
    then have le: "nat k \<le> nat (ndigits n - 1)" and "0 < n"
      using a ndigits.simps[of 0] by (auto intro: le_neq_trans)
    then have "10 ^ nat k \<le> (10::int) ^ nat (ndigits n - 1)" by (simp add: power_increasing)
    also have "\<dots> \<le> n" using \<open>0 < n\<close> by (rule ndigits_lower)
    finally show False using a by simp
  qed
qed

lemma dec_ok_iff_ndigits: "dec_ok d \<longleftrightarrow> ndigits \<bar>coeff d\<bar> \<le> dec_prec"
  by (simp add: dec_ok_def dec_prec_def ndigits_le_iff)

lemma dfix_ok_id: "dec_ok d \<Longrightarrow> dfix d = d"
  by (simp add: dfix_def dec_ok_iff_ndigits)

lemma div_half_even_ge: "0 < d \<Longrightarrow> m * d \<le> n \<Longrightarrow> m \<le> div_half_even n d"
proof -
  assume d: "0 < d" "m * d \<le> n"
  then have "m \<le> n div d" by (simp add: zdiv_mono1 [of "m * d" n d, simplified])
  then show ?thesis by (auto simp: div_half_even_def Let_def)
qed

lemma div_half_even_le: "0 < d \<Longrightarrow> n \<le> m * d \<Longrightarrow> div_half_even n d \<le> m"
proof -
  assume d: "0 < d" "n \<le> m * d"
  have eq: "n = n div d * d + n mod d" by simp
  have r: "0 \<le> n mod d" using d by simp
  have q: "n div d \<le> m"
    using zdiv_mono1[OF d(2) d(1)] d(1) by simp
  show ?thesis
  proof (cases "n div d = m")
    case True
    then have "n = m * d + n mod d" using eq by simp
    then have "n mod d \<le> 0" using d by linarith
    then have "n mod d = 0" using r by simp
    then show ?thesis using q d by (simp add: div_half_even_def Let_def)
  qed (use q in \<open>auto simp: div_half_even_def Let_def\<close>)
qed

lemma div_half_even_error: "0 < d \<Longrightarrow> \<bar>2 * (div_half_even n d * d - n)\<bar> \<le> d"
proof -
  assume d: "0 < d"
  define q r where "q = n div d" and "r = n mod d"
  have n: "n = q * d + r" by (simp add: q_def r_def)
  have "0 \<le> r" "r < d" using d by (simp_all add: r_def)
  then show ?thesis
    by (auto simp: div_half_even_def Let_def q_def[symmetric] r_def[symmetric] n algebra_simps)
qed

lemma div_half_even_uminus: "0 < d \<Longrightarrow> div_half_even (- n) d = - div_half_even n d"
  by (cases "n mod d = 0")
    (auto simp: div_half_even_def Let_def zdiv_zminus1_eq_if zmod_zminus1_eq_if)

lemma not_ok_digits:
  assumes "\<not> dec_ok d"
  defines "s \<equiv> ndigits \<bar>coeff d\<bar> - dec_prec"
  shows "0 < s" "10 ^ 27 * 10 ^ nat s \<le> \<bar>coeff d\<bar>"
proof -
  show s: "0 < s" using assms by (simp add: dec_ok_iff_ndigits)
  have "coeff d \<noteq> 0" using assms(1) by (auto simp: dec_ok_def)
  then have "10 ^ nat (ndigits \<bar>coeff d\<bar> - 1) \<le> \<bar>coeff d\<bar>" by (intro ndigits_lower) simp
  moreover have "nat (ndigits \<bar>coeff d\<bar> - 1) = 27 + nat s"
    using s by (simp add: s_def dec_prec_def)
  ultimately show "10 ^ 27 * 10 ^ nat s \<le> \<bar>coeff d\<bar>" by (simp add: power_add)
qed

lemma powi10_add_nat: "(10::rat) powi (e + s) = 10 ^ nat s * 10 powi e" if "0 \<le> s"
proof -
  have "e + s = int (nat s) + e" using that by simp
  then show ?thesis by (metis power_int_add power_int_of_nat zero_neq_numeral)
qed

lemma dval_dfix:
  assumes "\<not> dec_ok d"
  defines "s \<equiv> ndigits \<bar>coeff d\<bar> - dec_prec"
  shows "dval (dfix d) = of_int (div_half_even (coeff d) (10 ^ nat s)) * 10 powi (expo d + s)"
proof -
  let ?c = "div_half_even (coeff d) (10 ^ nat s)"
  have s: "0 < s" using assms by (simp add: dec_ok_iff_ndigits)
  have carry: "of_int (?c div 10) * 10 powi (expo d + s + 1) = of_int ?c * (10::rat) powi (expo d + s)"
    if "\<bar>?c\<bar> = 10 ^ nat dec_prec"
  proof -
    have "10 dvd \<bar>?c\<bar>" using that by (simp add: dec_prec_def)
    then have "?c = ?c div 10 * 10" by simp
    then have "(of_int ?c::rat) = of_int (?c div 10) * 10"
      by (metis of_int_mult of_int_numeral)
    then show ?thesis
      using powi10_add_nat[of 1 "expo d + s"] by simp
  qed
  show ?thesis
    using s carry by (auto simp: dfix_def Let_def s_def dval_Dec)
qed

lemma small_coeff_bound:
  assumes "dec_ok r" "expo r < E"
  shows "\<bar>dval r\<bar> < 10 ^ 27 * 10 powi E"
proof -
  have "\<bar>dval r\<bar> < 10 ^ 28 * 10 powi (expo r)"
    using assms(1) by (simp add: dval_def abs_mult dec_ok_def of_int_less_iff[of _ "10 ^ 28", symmetric, where 'a=rat])
  also have "\<dots> \<le> 10 ^ 28 * 10 powi (E - 1)"
    using assms(2) by (simp add: power_int_increasing)
  also have "\<dots> = 10 ^ 27 * 10 powi E"
    using powi10_add_nat[of 1 "E - 1"] by simp
  finally show ?thesis .
qed

lemma dfix_ge: "dec_ok r \<Longrightarrow> dval r \<le> dval d \<Longrightarrow> dval r \<le> dval (dfix d)"
proof (cases "dec_ok d")
  assume r: "dec_ok r" "dval r \<le> dval d" and nok: "\<not> dec_ok d"
  define s where "s = ndigits \<bar>coeff d\<bar> - dec_prec"
  define E where "E = expo d + s"
  let ?c = "div_half_even (coeff d) (10 ^ nat s)" and ?S = "(10::int) ^ nat s"
  note s = not_ok_digits[OF nok, folded s_def]
  have fixed: "dval (dfix d) = of_int ?c * 10 powi E"
    using dval_dfix[OF nok] by (simp add: s_def E_def)
  have E: "(10::rat) powi E = of_int ?S * 10 powi (expo d)"
    using s(1) by (simp add: E_def powi10_add_nat)
  show ?thesis
  proof (cases "E \<le> expo r")
    case True
    have "of_int (aligned r E * ?S) * (10::rat) powi (expo d) = dval r"
      by (simp add: dval_aligned[OF True] E)
    also note r(2)
    also have "dval d = of_int (coeff d) * 10 powi (expo d)" by (simp add: dval_def)
    finally have "of_int (aligned r E * ?S) * (10::rat) powi (expo d) \<le> of_int (coeff d) * 10 powi (expo d)" .
    then have "aligned r E * ?S \<le> coeff d" by (simp only: mult_le_cancel_right_pos powi10_pos of_int_le_iff)
    then have "aligned r E \<le> ?c" by (rule div_half_even_ge[rotated]) simp
    then show ?thesis by (simp add: fixed dval_aligned[OF True])
  next
    case False
    then have small: "\<bar>dval r\<bar> < 10 ^ 27 * 10 powi E"
      using r(1) by (intro small_coeff_bound) auto
    have large: "(10 ^ 27 * ?S \<le> coeff d) \<or> (coeff d \<le> - (10 ^ 27 * ?S))"
      using s(2) by linarith
    then show ?thesis
    proof
      assume "10 ^ 27 * ?S \<le> coeff d"
      then have "10 ^ 27 \<le> ?c" by (rule div_half_even_ge[rotated]) simp
      then have "(10 ^ 27 :: rat) \<le> of_int ?c"
        by (metis of_int_le_iff of_int_numeral of_int_power)
      then have "10 ^ 27 * 10 powi E \<le> dval (dfix d)" by (simp add: fixed)
      then show ?thesis using small by linarith
    next
      assume "coeff d \<le> - (10 ^ 27 * ?S)"
      then have "(of_int (coeff d) :: rat) \<le> of_int (- (10 ^ 27 * ?S))" by (simp only: of_int_le_iff)
      then have "dval d \<le> of_int (- (10 ^ 27 * ?S)) * 10 powi (expo d)"
        unfolding dval_def by (rule mult_right_mono) simp
      then have "dval d \<le> - (10 ^ 27 * 10 powi E)" by (simp add: E)
      then show ?thesis using small r(2) by linarith
    qed
  qed
qed (simp add: dfix_ok_id)

definition dneg :: "decimal \<Rightarrow> decimal" where
  "dneg d = Dec (- coeff d) (expo d)"

lemma dval_dneg [dec_simps]: "dval (dneg d) = - dval d"
  by (simp add: dneg_def dval_def)

lemma dec_ok_dneg [simp]: "dec_ok (dneg d) \<longleftrightarrow> dec_ok d"
  by (simp add: dneg_def dec_ok_def)

lemma dval_dfix_dneg: "dval (dfix (dneg d)) = - dval (dfix d)"
proof (cases "dec_ok d")
  case False
  then show ?thesis
    using dval_dfix[of d] dval_dfix[of "dneg d"] by (simp add: dneg_def div_half_even_uminus dec_ok_def)
qed (simp add: dfix_ok_id dval_dneg)

lemma dfix_le: "dec_ok r \<Longrightarrow> dval d \<le> dval r \<Longrightarrow> dval (dfix d) \<le> dval r"
  using dfix_ge[of "dneg r" "dneg d"] by (simp add: dval_dneg dval_dfix_dneg)

lemma dfix_ok [simp]: "dec_ok (dfix d)"
proof (cases "dec_ok d")
  case False
  define s where "s = ndigits \<bar>coeff d\<bar> - dec_prec"
  let ?c = "div_half_even (coeff d) (10 ^ nat s)" and ?S = "(10::int) ^ nat s"
  have s: "0 < s" using not_ok_digits[OF False] by (simp add: s_def)
  have "nat (ndigits \<bar>coeff d\<bar>) = 28 + nat s" using s by (simp add: s_def dec_prec_def)
  then have "\<bar>coeff d\<bar> < 10 ^ 28 * ?S"
    using ndigits_upper[of "\<bar>coeff d\<bar>"] by (simp add: power_add)
  then have "coeff d \<le> 10 ^ 28 * ?S" "(- (10 ^ 28)) * ?S \<le> coeff d" by linarith+
  then have "?c \<le> 10 ^ 28" "- (10 ^ 28) \<le> ?c"
    by (auto intro: div_half_even_le div_half_even_ge simp del: mult_minus_left)
  moreover have "coeff (dfix d) = (if \<bar>?c\<bar> = 10 ^ 28 then ?c div 10 else ?c)"
    using s by (simp add: dfix_def Let_def s_def dec_prec_def)
  ultimately show ?thesis by (auto simp: dec_ok_def abs_if split: if_splits)
qed (simp add: dfix_ok_id)

lemma dfix_err: "2 * 10 ^ 27 * \<bar>dval (dfix d) - dval d\<bar> \<le> \<bar>dval d\<bar>"
proof (cases "dec_ok d")
  case False
  define s where "s = ndigits \<bar>coeff d\<bar> - dec_prec"
  let ?c = "div_half_even (coeff d) (10 ^ nat s)" and ?S = "(10::int) ^ nat s"
  note s = not_ok_digits[OF False, folded s_def]
  have fixed: "dval (dfix d) = of_int (?c * ?S) * 10 powi (expo d)"
    using dval_dfix[OF False] s(1) by (simp add: s_def[symmetric] powi10_add_nat)
  have "\<bar>2 * (?c * ?S - coeff d)\<bar> \<le> ?S" by (rule div_half_even_error) simp
  then have "2 * \<bar>?c * ?S - coeff d\<bar> \<le> ?S" by (simp only: abs_mult abs_numeral)
  then have "10 ^ 27 * (2 * \<bar>?c * ?S - coeff d\<bar>) \<le> 10 ^ 27 * ?S"
    by (intro mult_left_mono) simp_all
  then have "2 * 10 ^ 27 * \<bar>?c * ?S - coeff d\<bar> \<le> \<bar>coeff d\<bar>"
    using s(2) by (simp only: mult.assoc mult.left_commute[of "10 ^ 27"])
  then have "(of_int (2 * 10 ^ 27 * \<bar>?c * ?S - coeff d\<bar>) :: rat) \<le> of_int \<bar>coeff d\<bar>"
    by (simp only: of_int_le_iff)
  then have "of_int (2 * 10 ^ 27 * \<bar>?c * ?S - coeff d\<bar>) * (10::rat) powi (expo d)
    \<le> of_int \<bar>coeff d\<bar> * 10 powi (expo d)"
    by (rule mult_right_mono) simp
  moreover have "\<bar>dval (dfix d) - dval d\<bar>
    = of_int \<bar>?c * ?S - coeff d\<bar> * (10::rat) powi (expo d)"
    by (simp add: fixed dval_def[of d] abs_mult flip: left_diff_distrib)
  moreover have "\<bar>dval d\<bar> = of_int \<bar>coeff d\<bar> * 10 powi (expo d)"
    by (simp add: dval_def abs_mult)
  ultimately show ?thesis by (simp add: mult.assoc)
qed (simp add: dfix_ok_id)

section \<open>Arithmetic\<close>

text \<open>
  Every operator is an exact result, rounded. \<open>rounded_op\<close> is what the components know of
  one: the result fits the precision, representable bounds of the exact result bound the
  rounded one, and the relative error is at most \<open>10 ^ -27\<close>.
\<close>

locale rounded_op =
  fixes pre :: "decimal \<Rightarrow> decimal \<Rightarrow> bool"
    and exact :: "decimal \<Rightarrow> decimal \<Rightarrow> rat"
    and op :: "decimal \<Rightarrow> decimal \<Rightarrow> decimal"
  assumes op_ok: "pre a b \<Longrightarrow> dec_ok (op a b)"
    and op_ge: "pre a b \<Longrightarrow> dec_ok r \<Longrightarrow> dval r \<le> exact a b \<Longrightarrow> dval r \<le> dval (op a b)"
    and op_le: "pre a b \<Longrightarrow> dec_ok r \<Longrightarrow> exact a b \<le> dval r \<Longrightarrow> dval (op a b) \<le> dval r"
    and op_err: "pre a b \<Longrightarrow> 10 ^ 27 * \<bar>dval (op a b) - exact a b\<bar> \<le> \<bar>exact a b\<bar>"
begin

lemma op_exact: "pre a b \<Longrightarrow> dec_ok r \<Longrightarrow> exact a b = dval r \<Longrightarrow> dval (op a b) = dval r"
  using op_ge[of a b r] op_le[of a b r] by simp

lemma op_nonneg: "pre a b \<Longrightarrow> 0 \<le> exact a b \<Longrightarrow> 0 \<le> dval (op a b)"
  using op_ge[of a b "Dec 0 0"] by (simp add: dec_ok_def dval_Dec)

lemma op_nonpos: "pre a b \<Longrightarrow> exact a b \<le> 0 \<Longrightarrow> dval (op a b) \<le> 0"
  using op_le[of a b "Dec 0 0"] by (simp add: dec_ok_def dval_Dec)

lemma op_pos: "pre a b \<Longrightarrow> 0 < exact a b \<Longrightarrow> 0 < dval (op a b)"
  using op_err[of a b] op_nonneg[of a b] by (cases "dval (op a b) = 0") auto

lemma op_upper: "pre a b \<Longrightarrow> 0 \<le> exact a b \<Longrightarrow>
    10 ^ 27 * dval (op a b) \<le> (10 ^ 27 + 1) * exact a b"
  using op_err[of a b] by (simp add: algebra_simps abs_if split: if_splits)

lemma op_lower: "pre a b \<Longrightarrow> 0 \<le> exact a b \<Longrightarrow>
    (10 ^ 27 - 1) * exact a b \<le> 10 ^ 27 * dval (op a b)"
  using op_err[of a b] by (simp add: algebra_simps abs_if split: if_splits)

end

instantiation decimal :: "{plus, minus, times, uminus, zero, one, abs}"
begin

definition plus_decimal :: "decimal \<Rightarrow> decimal \<Rightarrow> decimal" where
  "a + b = (let e = min_expo a b in dfix (Dec (aligned a e + aligned b e) e))"

definition minus_decimal :: "decimal \<Rightarrow> decimal \<Rightarrow> decimal" where
  "a - b = (let e = min_expo a b in dfix (Dec (aligned a e - aligned b e) e))"

definition times_decimal :: "decimal \<Rightarrow> decimal \<Rightarrow> decimal" where
  "a * b = dfix (Dec (coeff a * coeff b) (expo a + expo b))"

definition uminus_decimal :: "decimal \<Rightarrow> decimal" where
  "- a = dfix (dneg a)"

definition abs_decimal :: "decimal \<Rightarrow> decimal" where
  "\<bar>a\<bar> = dfix (Dec \<bar>coeff a\<bar> (expo a))"

definition zero_decimal :: decimal where
  "0 = Dec 0 0"

definition one_decimal :: decimal where
  "1 = Dec 1 0"

instance ..

end

lemma dval_0 [simp]: "dval 0 = 0" and dval_1 [simp]: "dval 1 = 1"
  by (simp_all add: zero_decimal_def one_decimal_def dval_Dec)

lemma dec_ok_0 [simp]: "dec_ok 0" and dec_ok_1 [simp]: "dec_ok 1"
  by (simp_all add: zero_decimal_def one_decimal_def dec_ok_def)

lemma exact_plus: "dval (Dec (aligned a (min_expo a b) + aligned b (min_expo a b)) (min_expo a b))
    = dval a + dval b"
  using dval_aligned[of "min_expo a b" a] dval_aligned[of "min_expo a b" b]
  by (simp add: min_expo_def dval_Dec algebra_simps)

lemma exact_minus: "dval (Dec (aligned a (min_expo a b) - aligned b (min_expo a b)) (min_expo a b))
    = dval a - dval b"
  using dval_aligned[of "min_expo a b" a] dval_aligned[of "min_expo a b" b]
  by (simp add: min_expo_def dval_Dec algebra_simps)

lemma exact_times: "dval (Dec (coeff a * coeff b) (expo a + expo b)) = dval a * dval b"
  by (simp add: dval_Dec dval_def power_int_add)

lemma dfix_err': "10 ^ 27 * \<bar>dval (dfix d) - dval d\<bar> \<le> \<bar>dval d\<bar>"
  using dfix_err[of d] by simp

lemma plus_err: "10 ^ 27 * \<bar>dval (a + b) - (dval a + dval b)\<bar> \<le> \<bar>dval a + dval b\<bar>"
  using dfix_err'[of "Dec (aligned a (min_expo a b) + aligned b (min_expo a b)) (min_expo a b)"]
  by (simp only: exact_plus plus_decimal_def Let_def)

interpretation add: rounded_op "\<lambda>_ _. True" "\<lambda>a b. dval a + dval b" "(+)"
proof unfold_locales
  show "10 ^ 27 * \<bar>dval (a + b) - (dval a + dval b)\<bar> \<le> \<bar>dval a + dval b\<bar>" for a b
    by (rule plus_err)
qed (simp_all add: plus_decimal_def Let_def dfix_ge dfix_le exact_plus)

lemma minus_err: "10 ^ 27 * \<bar>dval (a - b) - (dval a - dval b)\<bar> \<le> \<bar>dval a - dval b\<bar>"
  using dfix_err'[of "Dec (aligned a (min_expo a b) - aligned b (min_expo a b)) (min_expo a b)"]
  by (simp only: exact_minus minus_decimal_def Let_def)

interpretation sub: rounded_op "\<lambda>_ _. True" "\<lambda>a b. dval a - dval b" "(-)"
proof unfold_locales
  show "10 ^ 27 * \<bar>dval (a - b) - (dval a - dval b)\<bar> \<le> \<bar>dval a - dval b\<bar>" for a b
    by (rule minus_err)
qed (simp_all add: minus_decimal_def Let_def dfix_ge dfix_le exact_minus)

lemma times_err: "10 ^ 27 * \<bar>dval (a * b) - (dval a * dval b)\<bar> \<le> \<bar>dval a * dval b\<bar>"
  using dfix_err'[of "Dec (coeff a * coeff b) (expo a + expo b)"]
  by (simp only: exact_times times_decimal_def Let_def)

interpretation mul: rounded_op "\<lambda>_ _. True" "\<lambda>a b. dval a * dval b" "(*)"
proof unfold_locales
  show "10 ^ 27 * \<bar>dval (a * b) - (dval a * dval b)\<bar> \<le> \<bar>dval a * dval b\<bar>" for a b
    by (rule times_err)
qed (simp_all add: times_decimal_def Let_def dfix_ge dfix_le exact_times)

lemma dval_uminus: "dec_ok a \<Longrightarrow> dval (- a) = - dval a"
  by (simp add: uminus_decimal_def dfix_ok_id dval_dneg)

lemma dval_abs: "dec_ok a \<Longrightarrow> dval \<bar>a\<bar> = \<bar>dval a\<bar>"
  by (simp add: abs_decimal_def dfix_ok_id dec_ok_def dval_def abs_mult)

lemma abs_nonneg: "0 \<le> dval \<bar>a\<bar>"
  using dfix_ge[of 0 "Dec \<bar>coeff a\<bar> (expo a)"] by (simp add: abs_decimal_def dval_Dec)

section \<open>Division\<close>

text \<open>
  The quotient is computed to at least 29 digits; an inexact one that ends in 0 or 5 is bumped
  by one, so that the final rounding cannot mistake it for a tie. An exact one is stripped of
  trailing zeros down to the exponent of the operands.
\<close>

function strip_to :: "int \<Rightarrow> int \<Rightarrow> int \<Rightarrow> decimal" where
  "strip_to c e ideal =
     (if e < ideal \<and> c mod 10 = 0 then strip_to (c div 10) (e + 1) ideal else Dec c e)"
  by pat_completeness auto
termination
  by (relation "measure (\<lambda>(c, e, ideal). nat (ideal - e))") auto

declare strip_to.simps [simp del]

lemma dval_strip_to: "dval (strip_to c e ideal) = of_int c * 10 powi e"
proof (induction c e ideal rule: strip_to.induct)
  case (1 c e ideal)
  show ?case
  proof (cases "e < ideal \<and> c mod 10 = 0")
    case True
    then have "c = c div 10 * 10" by auto
    then have "(of_int c :: rat) = of_int (c div 10) * 10" by (metis of_int_mult of_int_numeral)
    then show ?thesis
      using True 1 powi10_add_nat[of 1 e] by (subst strip_to.simps) simp
  next
    case False
    then show ?thesis by (subst strip_to.simps) (auto simp: dval_Dec)
  qed
qed

definition quot_coeff :: "int \<Rightarrow> int \<Rightarrow> int" where
  "quot_coeff n m =
     (let q = n div m in if n mod m \<noteq> 0 \<and> q mod 5 = 0 then q + 1 else q)"

definition dquot :: "decimal \<Rightarrow> decimal \<Rightarrow> decimal" where
  "dquot a b =
     (if coeff a = 0 then dfix (Dec 0 (expo a - expo b))
      else let sg = sgn (coeff a) * sgn (coeff b); x = \<bar>coeff a\<bar>; y = \<bar>coeff b\<bar>;
               shift = ndigits y - ndigits x + dec_prec + 1;
               e = expo a - expo b - shift;
               n = x * 10 ^ nat shift; m = y * 10 ^ nat (- shift);
               q = quot_coeff n m
           in if n mod m \<noteq> 0 then dfix (Dec (sg * q) e)
              else dfix (strip_to (sg * q) e (expo a - expo b)))"

definition ddiv :: "decimal \<Rightarrow> decimal \<Rightarrow> decimal res" where
  "ddiv a b =
     (if coeff b = 0 then Inl (if coeff a = 0 then InvalidOperation else DivisionByZero)
      else Inr (dquot a b))"

lemma quot_coeff_le: "0 < m \<Longrightarrow> n \<le> M * m \<Longrightarrow> quot_coeff n m \<le> M"
proof -
  assume m: "0 < m" "n \<le> M * m"
  have eq: "n = n div m * m + n mod m" by simp
  have r: "0 \<le> n mod m" using m by simp
  have q: "n div m \<le> M" using zdiv_mono1[OF m(2) m(1)] m(1) by simp
  show ?thesis
  proof (cases "n div m = M")
    case True
    then have "n = M * m + n mod m" using eq by simp
    then have "n mod m \<le> 0" using m by linarith
    then show ?thesis using q r by (simp add: quot_coeff_def Let_def)
  qed (use q in \<open>auto simp: quot_coeff_def Let_def\<close>)
qed

lemma quot_coeff_ge: "0 < m \<Longrightarrow> M * m \<le> n \<Longrightarrow> M \<le> quot_coeff n m"
proof -
  assume m: "0 < m" "M * m \<le> n"
  then have "M \<le> n div m" by (simp add: zdiv_mono1 [of "M * m" n m, simplified])
  then show ?thesis by (auto simp: quot_coeff_def Let_def)
qed

lemma quot_coeff_err: "0 < m \<Longrightarrow> \<bar>quot_coeff n m * m - n\<bar> \<le> m"
proof -
  assume m: "0 < m"
  define q r where "q = n div m" and "r = n mod m"
  have n: "n = q * m + r" by (simp add: q_def r_def)
  have "0 \<le> r" "r < m" using m by (simp_all add: r_def)
  then show ?thesis
    by (auto simp: quot_coeff_def Let_def q_def[symmetric] r_def[symmetric] n algebra_simps)
qed

text \<open>The unrounded quotient coefficient already respects every representable bound.\<close>

lemma quot_grid:
  assumes m: "0 < m" and big: "10 ^ 28 * m \<le> n" and r: "dec_ok r"
  shows "of_int n / of_int m * 10 powi e \<le> dval r \<Longrightarrow> dval (Dec (quot_coeff n m) e) \<le> dval r"
    and "dval r \<le> of_int n / of_int m * 10 powi e \<Longrightarrow> dval r \<le> dval (Dec (quot_coeff n m) e)"
proof -
  let ?q = "quot_coeff n m" and ?x = "(of_int n :: rat) / of_int m"
  have mpos: "(0::rat) < of_int m" using m by simp
  have "(of_int (10 ^ 28 * m) :: rat) \<le> of_int n" using big by (simp only: of_int_le_iff)
  then have x: "10 ^ 28 \<le> ?x" using mpos by (simp add: pos_le_divide_eq)
  have "10 ^ 28 \<le> ?q" using m big by (intro quot_coeff_ge)
  then have q: "(10 ^ 28 :: rat) \<le> of_int ?q" by (metis of_int_le_iff of_int_numeral of_int_power)
  have grid: "?x \<le> of_int M \<Longrightarrow> ?q \<le> M" "of_int M \<le> ?x \<Longrightarrow> M \<le> ?q" for M
  proof -
    assume "?x \<le> of_int M"
    then have "(of_int n :: rat) \<le> of_int (M * m)" using mpos by (simp add: pos_divide_le_eq)
    then show "?q \<le> M" using m by (intro quot_coeff_le) (simp_all only: of_int_le_iff)
  next
    assume "of_int M \<le> ?x"
    then have "(of_int (M * m) :: rat) \<le> of_int n" using mpos by (simp add: pos_le_divide_eq)
    then show "M \<le> ?q" using m by (intro quot_coeff_ge) (simp_all only: of_int_le_iff)
  qed
  have tiny: "\<bar>dval r\<bar> < 10 ^ 28 * 10 powi e" if "\<not> e \<le> expo r"
  proof -
    have "\<bar>dval r\<bar> < 10 ^ 27 * 10 powi e" using that r by (intro small_coeff_bound) auto
    also have "\<dots> \<le> 10 ^ 28 * (10::rat) powi e" by simp
    finally show ?thesis .
  qed
  have xe: "10 ^ 28 * 10 powi e \<le> ?x * 10 powi e" by (rule mult_right_mono[OF x]) simp
  have qe: "10 ^ 28 * 10 powi e \<le> of_int ?q * (10::rat) powi e" by (rule mult_right_mono[OF q]) simp
  show "?x * 10 powi e \<le> dval r \<Longrightarrow> dval (Dec ?q e) \<le> dval r"
  proof (cases "e \<le> expo r")
    case True
    assume "?x * 10 powi e \<le> dval r"
    then have "?x \<le> of_int (aligned r e)"
      by (simp only: dval_aligned[OF True] mult_le_cancel_right_pos powi10_pos)
    then show ?thesis using grid(1) by (simp add: dval_aligned[OF True] dval_Dec)
  next
    case False
    then show "?x * 10 powi e \<le> dval r \<Longrightarrow> ?thesis" using tiny xe by linarith
  qed
  show "dval r \<le> ?x * 10 powi e \<Longrightarrow> dval r \<le> dval (Dec ?q e)"
  proof (cases "e \<le> expo r")
    case True
    assume "dval r \<le> ?x * 10 powi e"
    then have "of_int (aligned r e) \<le> ?x"
      by (simp only: dval_aligned[OF True] mult_le_cancel_right_pos powi10_pos)
    then show ?thesis using grid(2) by (simp add: dval_aligned[OF True] dval_Dec)
  next
    case False
    then have "dval r \<le> of_int ?q * 10 powi e" using tiny qe by linarith
    then show ?thesis by (simp add: dval_Dec)
  qed
qed

lemma powi10_nat_diff: "(10::rat) powi e = 10 ^ nat e / 10 ^ nat (- e)"
  by (cases "0 \<le> e") (simp_all add: power_int_def field_simps)

text \<open>What \<open>dquot\<close> rounds: a signed quotient coefficient on a grid of at least 29 digits.\<close>

lemma dquot_rep:
  assumes "coeff a \<noteq> 0" "coeff b \<noteq> 0"
  obtains sg n m e D where
    "sg = 1 \<or> sg = (-1::int)" "0 < m" "10 ^ 28 * m \<le> n"
    "dquot a b = dfix D" "dval D = of_int sg * dval (Dec (quot_coeff n m) e)"
    "dval a / dval b = of_int sg * (of_int n / of_int m * 10 powi e)"
proof -
  define sg where "sg = sgn (coeff a) * sgn (coeff b)"
  define x y where "x = \<bar>coeff a\<bar>" and "y = \<bar>coeff b\<bar>"
  define shift where "shift = ndigits y - ndigits x + dec_prec + 1"
  define e where "e = expo a - expo b - shift"
  define n m where "n = x * 10 ^ nat shift" and "m = y * 10 ^ nat (- shift)"
  have pos: "0 < x" "0 < y" using assms by (simp_all add: x_def y_def)
  have sg: "sg = 1 \<or> sg = -1" using assms by (auto simp: sg_def sgn_if)
  have m: "0 < m" using pos by (simp add: m_def)
  have "10 ^ 28 * m \<le> n"
  proof -
    have exps: "28 + (nat (ndigits y) + nat (- shift)) = nat (ndigits x - 1) + nat shift"
      using ndigits_pos[of x] ndigits_pos[of y] shift_def dec_prec_def by arith
    have "10 ^ 28 * m \<le> 10 ^ 28 * (10 ^ nat (ndigits y) * 10 ^ nat (- shift))"
      using ndigits_upper[of y] pos by (simp add: m_def less_imp_le)
    also have "\<dots> = 10 ^ nat (ndigits x - 1) * 10 ^ nat shift"
      by (simp only: power_add[symmetric] exps)
    also have "\<dots> \<le> n"
      using ndigits_lower[OF pos(1)] by (simp add: n_def)
    finally show ?thesis .
  qed
  moreover have "dval a / dval b = of_int sg * (of_int n / of_int m * 10 powi e)"
  proof -
    have split: "(10::rat) powi (expo a) = 10 powi e * (10 ^ nat shift / 10 ^ nat (- shift)) * 10 powi (expo b)"
      by (simp add: e_def flip: powi10_nat_diff power_int_add)
    have signed: "(of_int (sgn c) * of_int \<bar>c\<bar> :: rat) = of_int c" for c :: int
      by (metis of_int_mult mult_sgn_abs)
    have "dval a = of_int (sgn (coeff a)) * of_int x * 10 powi (expo a)"
      "dval b = of_int (sgn (coeff b)) * of_int y * 10 powi (expo b)"
      by (simp_all only: dval_def x_def y_def signed)
    moreover have "sgn (coeff b) = 1 \<or> sgn (coeff b) = -1" using assms(2) by (simp add: sgn_if)
    ultimately show ?thesis
      using pos by (auto simp: split sg_def n_def m_def field_simps)
  qed
  moreover define D where "D = (if n mod m \<noteq> 0 then Dec (sg * quot_coeff n m) e
    else strip_to (sg * quot_coeff n m) e (expo a - expo b))"
  moreover have "dquot a b = dfix D"
    using assms(1) by (simp add: dquot_def Let_def D_def n_def m_def e_def shift_def x_def y_def sg_def)
  moreover have "dval D = of_int sg * dval (Dec (quot_coeff n m) e)"
    by (simp add: D_def dval_Dec dval_strip_to)
  ultimately show thesis using that sg m by blast
qed

text \<open>\<open>d.normalize()\<close>: no trailing zeros.\<close>

definition dnormalize :: "decimal \<Rightarrow> decimal" where
  "dnormalize d =
     (let r = dfix d
      in if coeff r = 0 then Dec 0 0
         else strip_to (coeff r) (expo r) (expo r + ndigits \<bar>coeff r\<bar>))"

lemma dval_dnormalize: "dec_ok d \<Longrightarrow> dval (dnormalize d) = dval d"
  by (simp add: dnormalize_def Let_def dval_strip_to dfix_ok_id dval_Dec dval_def[of d])

lemma dquot_zero: "coeff a = 0 \<Longrightarrow> dval (dquot a b) = 0 \<and> dval a = 0"
  by (simp add: dquot_def dfix_ok_id dec_ok_def dval_def)

lemma dquot_ok: "dec_ok (dquot a b)"
  by (simp add: dquot_def Let_def)

lemma dquot_ge: "coeff b \<noteq> 0 \<Longrightarrow> dec_ok r \<Longrightarrow> dval r \<le> dval a / dval b \<Longrightarrow> dval r \<le> dval (dquot a b)"
proof (cases "coeff a = 0")
  case False
  assume b: "coeff b \<noteq> 0" and r: "dec_ok r" "dval r \<le> dval a / dval b"
  obtain sg n m e D where rep:
    "sg = 1 \<or> sg = (-1::int)" "0 < m" "10 ^ 28 * m \<le> n"
    "dquot a b = dfix D" "dval D = of_int sg * dval (Dec (quot_coeff n m) e)"
    "dval a / dval b = of_int sg * (of_int n / of_int m * 10 powi e)"
    using dquot_rep[OF False b] by metis
  note grid = quot_grid[OF rep(2,3), of _ e]
  have "dval r \<le> dval D"
    using rep(1) grid(2)[of r] grid(1)[of "dneg r"] r by (auto simp: rep(5,6) dval_dneg)
  then show ?thesis using r(1) by (simp add: rep(4) dfix_ge)
qed (simp add: dquot_zero)

lemma dquot_le: "coeff b \<noteq> 0 \<Longrightarrow> dec_ok r \<Longrightarrow> dval a / dval b \<le> dval r \<Longrightarrow> dval (dquot a b) \<le> dval r"
proof (cases "coeff a = 0")
  case False
  assume b: "coeff b \<noteq> 0" and r: "dec_ok r" "dval a / dval b \<le> dval r"
  obtain sg n m e D where rep:
    "sg = 1 \<or> sg = (-1::int)" "0 < m" "10 ^ 28 * m \<le> n"
    "dquot a b = dfix D" "dval D = of_int sg * dval (Dec (quot_coeff n m) e)"
    "dval a / dval b = of_int sg * (of_int n / of_int m * 10 powi e)"
    using dquot_rep[OF False b] by metis
  note grid = quot_grid[OF rep(2,3), of _ e]
  have "dval D \<le> dval r"
    using rep(1) grid(1)[of r] grid(2)[of "dneg r"] r by (auto simp: rep(5,6) dval_dneg)
  then show ?thesis using r(1) by (simp add: rep(4) dfix_le)
qed (simp add: dquot_zero)

lemma two_step_error:
  fixes x d f :: rat
  assumes "10 ^ 28 * \<bar>d - x\<bar> \<le> \<bar>x\<bar>" "2 * 10 ^ 27 * \<bar>f - d\<bar> \<le> \<bar>d\<bar>"
  shows "10 ^ 27 * \<bar>f - x\<bar> \<le> \<bar>x\<bar>"
  using assms by (simp add: abs_if split: if_splits)

lemma dquot_err: "coeff b \<noteq> 0 \<Longrightarrow>
    10 ^ 27 * \<bar>dval (dquot a b) - dval a / dval b\<bar> \<le> \<bar>dval a / dval b\<bar>"
proof (cases "coeff a = 0")
  case False
  assume b: "coeff b \<noteq> 0"
  obtain sg n m e D where rep:
    "sg = 1 \<or> sg = (-1::int)" "0 < m" "10 ^ 28 * m \<le> n"
    "dquot a b = dfix D" "dval D = of_int sg * dval (Dec (quot_coeff n m) e)"
    "dval a / dval b = of_int sg * (of_int n / of_int m * 10 powi e)"
    using dquot_rep[OF False b] by metis
  let ?q = "quot_coeff n m" and ?x = "(of_int n :: rat) / of_int m"
  have mpos: "(0::rat) < of_int m" using rep(2) by simp
  have "(of_int (10 ^ 28 * m) :: rat) \<le> of_int n" using rep(3) by (simp only: of_int_le_iff)
  then have x: "10 ^ 28 \<le> ?x" using mpos by (simp add: pos_le_divide_eq)
  have "(of_int \<bar>?q * m - n\<bar> :: rat) \<le> of_int m"
    using quot_coeff_err[OF rep(2), of n] by (simp only: of_int_le_iff)
  then have "\<bar>of_int ?q * of_int m - of_int n\<bar> / of_int m \<le> (1::rat)"
    using mpos by (simp add: pos_divide_le_eq)
  moreover have "\<bar>of_int ?q - ?x\<bar> = \<bar>of_int ?q * of_int m - of_int n\<bar> / of_int m"
    using mpos by (simp add: field_simps abs_divide)
  ultimately have "10 ^ 28 * \<bar>of_int ?q - ?x\<bar> \<le> 10 ^ 28 * 1" by (intro mult_left_mono) simp_all
  then have "10 ^ 28 * \<bar>of_int ?q - ?x\<bar> \<le> \<bar>?x\<bar>" using x abs_ge_self[of ?x] by (simp only: mult_1_right)
  then have "10 ^ 28 * \<bar>of_int ?q - ?x\<bar> * 10 powi e \<le> \<bar>?x\<bar> * 10 powi e"
    by (rule mult_right_mono) simp
  moreover have "\<bar>dval D - dval a / dval b\<bar> = \<bar>of_int ?q - ?x\<bar> * 10 powi e"
  proof -
    have "dval D - dval a / dval b = of_int sg * ((of_int ?q - ?x) * 10 powi e)"
      by (simp add: rep(5,6) dval_Dec algebra_simps)
    then show ?thesis using rep(1) by (auto simp: abs_mult)
  qed
  moreover have "\<bar>dval a / dval b\<bar> = \<bar>?x\<bar> * 10 powi e"
    using rep(1) by (auto simp only: rep(6) abs_mult) (simp_all add: abs_mult)
  ultimately have "10 ^ 28 * \<bar>dval D - dval a / dval b\<bar> \<le> \<bar>dval a / dval b\<bar>"
    by (simp only: mult.assoc)
  then show ?thesis
    unfolding rep(4) by (rule two_step_error[OF _ dfix_err])
qed (simp add: dquot_zero)

interpretation quot: rounded_op "\<lambda>_ b. coeff b \<noteq> 0" "\<lambda>a b. dval a / dval b" dquot
  by unfold_locales (simp_all add: dquot_ok dquot_ge dquot_le dquot_err[simplified])

lemma coeff_zero_iff [dec_simps]: "coeff a = 0 \<longleftrightarrow> dval a = 0"
  using powi10_pos[of "expo a"] by (auto simp: dval_def)

lemma ddiv_Inr: "ddiv a b = Inr q \<longleftrightarrow> dval b \<noteq> 0 \<and> q = dquot a b"
  by (auto simp: ddiv_def coeff_zero_iff)

section \<open>Quantising\<close>

text \<open>
  \<open>d.quantize(exp, rounding)\<close>: the exponent of the result is that of \<open>exp\<close>; a result of more
  than 28 digits raises \<open>InvalidOperation\<close> instead of losing digits.
\<close>

definition rescale :: "(int \<Rightarrow> int \<Rightarrow> int) \<Rightarrow> decimal \<Rightarrow> int \<Rightarrow> decimal" where
  "rescale rnd d e =
     (if e \<le> expo d then Dec (aligned d e) e
      else Dec (rnd (coeff d) (10 ^ nat (e - expo d))) e)"

definition quantize :: "(int \<Rightarrow> int \<Rightarrow> int) \<Rightarrow> decimal \<Rightarrow> int \<Rightarrow> decimal res" where
  "quantize rnd d e =
     (if coeff d = 0 then Inr (Dec 0 e)
      else if expo d + ndigits \<bar>coeff d\<bar> - e > dec_prec then Inl InvalidOperation
      else let q = rescale rnd d e
           in if ndigits \<bar>coeff q\<bar> > dec_prec then Inl InvalidOperation else Inr q)"

definition quantize_down :: "decimal \<Rightarrow> int \<Rightarrow> decimal res" where
  "quantize_down = quantize div_down"

definition quantize_even :: "decimal \<Rightarrow> int \<Rightarrow> decimal res" where
  "quantize_even = quantize div_half_even"

lemma quantize_expo: "quantize rnd d e = Inr q \<Longrightarrow> expo q = e"
  by (auto simp: quantize_def rescale_def Let_def split: if_splits)

lemma quantize_ok: "quantize rnd d e = Inr q \<Longrightarrow> dec_ok q"
  by (auto simp: quantize_def Let_def dec_ok_iff_ndigits split: if_splits)
    (simp add: dec_prec_def ndigits.simps)

lemma rescale_down_bounds:
  assumes "0 \<le> dval d"
  shows "0 \<le> dval (rescale div_down d e)" "dval (rescale div_down d e) \<le> dval d"
    "dval d < dval (rescale div_down d e) + 10 powi e"
proof -
  have c: "0 \<le> coeff d" using assms by (simp add: dval_nonneg_iff)
  have "0 \<le> dval (rescale div_down d e) \<and> dval (rescale div_down d e) \<le> dval d \<and> dval d < dval (rescale div_down d e) + 10 powi e"
  proof (cases "e \<le> expo d")
    case True
    then have "dval (rescale div_down d e) = dval d"
      by (simp add: rescale_def dval_Dec dval_aligned)
    then show ?thesis using assms by simp
  next
    case False
    let ?S = "(10::int) ^ nat (e - expo d)" and ?u = "(10::rat) powi (expo d)"
    define q where "q = coeff d div ?S"
    have "div_down (coeff d) ?S = q"
      using c by (auto simp: div_down_def q_def sgn_if)
    moreover have u: "(10::rat) powi e = of_int ?S * ?u"
      using False powi10_add_nat[of "e - expo d" "expo d"] by simp
    ultimately have val: "dval (rescale div_down d e) = of_int (q * ?S) * ?u"
      using False by (simp add: rescale_def dval_Dec)
    have S: "0 < ?S" by simp
    have "coeff d = q * ?S + coeff d mod ?S" by (simp only: q_def div_mult_mod_eq)
    moreover have "0 \<le> coeff d mod ?S" "coeff d mod ?S < ?S" using S by simp_all
    ultimately have "q * ?S \<le> coeff d" "coeff d < q * ?S + ?S" by linarith+
    moreover have "0 \<le> q * ?S" using S c by (simp add: q_def pos_imp_zdiv_nonneg_iff)
    ultimately have "0 \<le> (of_int (q * ?S) :: rat)" "(of_int (q * ?S) :: rat) \<le> of_int (coeff d)"
      "(of_int (coeff d) :: rat) < of_int (q * ?S + ?S)"
      by (simp_all only: of_int_0_le_iff of_int_le_iff of_int_less_iff)
    then have "0 \<le> of_int (q * ?S) * ?u" "of_int (q * ?S) * ?u \<le> of_int (coeff d) * ?u"
      "of_int (coeff d) * ?u < of_int (q * ?S + ?S) * ?u"
      by (simp_all only: mult_le_cancel_right_pos mult_less_cancel_right_pos powi10_pos
          mult_nonneg_nonneg less_imp_le)
    then show ?thesis
      by (simp add: val u dval_def[of d] distrib_right)
  qed
  then show "0 \<le> dval (rescale div_down d e)" "dval (rescale div_down d e) \<le> dval d" "dval d < dval (rescale div_down d e) + 10 powi e"
    by simp_all
qed

lemma quantize_down_value: "quantize_down d e = Inr q \<Longrightarrow> dval q = dval (rescale div_down d e)"
  by (auto simp: quantize_down_def quantize_def rescale_def Let_def aligned_def div_down_def dval_Dec
      split: if_splits)

lemma quantize_down_bounds:
  assumes "quantize_down d e = Inr q" "0 \<le> dval d"
  shows "0 \<le> dval q" "dval q \<le> dval d" "dval d < dval q + 10 powi e"
  using rescale_down_bounds[OF assms(2), of e] by (simp_all add: quantize_down_value[OF assms(1)])

lemma rescale_down_mono:
  assumes "0 \<le> dval a" "dval a \<le> dval b"
  shows "dval (rescale div_down a e) \<le> dval (rescale div_down b e)"
proof (rule ccontr)
  assume "\<not> ?thesis"
  moreover obtain m n where
    "dval (rescale div_down a e) = of_int m * 10 powi e" "dval (rescale div_down b e) = of_int n * 10 powi e"
    by (metis rescale_def dval_Dec)
  ultimately have "n + 1 \<le> m" and vals:
    "dval (rescale div_down a e) = of_int m * 10 powi e" "dval (rescale div_down b e) = of_int n * 10 powi e"
    by simp_all
  then have "(of_int (n + 1) :: rat) * 10 powi e \<le> of_int m * 10 powi e"
    by (intro mult_right_mono) (simp_all only: of_int_le_iff powi10_pos less_imp_le)
  then show False
    using rescale_down_bounds(2)[OF assms(1), of e] rescale_down_bounds(3)[of b e] assms
    by (simp add: vals distrib_right)
qed

lemma quantize_down_mono:
  assumes "quantize_down a e = Inr qa" "quantize_down b e = Inr qb"
    "0 \<le> dval a" "dval a \<le> dval b"
  shows "dval qa \<le> dval qb"
  using rescale_down_mono[OF assms(3,4), of e]
  by (simp add: quantize_down_value[OF assms(1)] quantize_down_value[OF assms(2)])

text \<open>\<open>Decimal(1).scaleb(n)\<close> and \<open>Decimal(n)\<close>.\<close>

definition dscaleb :: "decimal \<Rightarrow> int \<Rightarrow> decimal" where
  "dscaleb d n = dfix (Dec (coeff d) (expo d + n))"

definition dec_of_int :: "int \<Rightarrow> decimal" where
  "dec_of_int n = Dec n 0"

lemma dval_dec_of_int [simp]: "dval (dec_of_int n) = of_int n"
  by (simp add: dec_of_int_def dval_Dec)

lemma expo_scaleb_one [simp]: "expo (dscaleb 1 n) = n"
  by (simp add: dscaleb_def one_decimal_def dfix_ok_id dec_ok_def)

text \<open>When \<open>quantize\<close> cannot raise.\<close>

lemma ndigits_expo_le:
  assumes "coeff d \<noteq> 0" "\<bar>dval d\<bar> < 10 powi k"
  shows "expo d + ndigits \<bar>coeff d\<bar> \<le> k"
proof (rule ccontr)
  assume "\<not> ?thesis"
  then have k: "k - expo d \<le> ndigits \<bar>coeff d\<bar> - 1" by simp
  have "(10::rat) powi k = 10 powi (k - expo d) * 10 powi (expo d)"
    by (simp flip: power_int_add)
  also have "\<dots> \<le> 10 powi (ndigits \<bar>coeff d\<bar> - 1) * 10 powi (expo d)"
    using k by (simp add: power_int_increasing)
  also have "10 powi (ndigits \<bar>coeff d\<bar> - 1) = (10::rat) ^ nat (ndigits \<bar>coeff d\<bar> - 1)"
    using ndigits_pos[of "\<bar>coeff d\<bar>"] by (simp add: power_int_def)
  also have "(10::rat) ^ nat (ndigits \<bar>coeff d\<bar> - 1) \<le> of_int \<bar>coeff d\<bar>"
    using ndigits_lower[of "\<bar>coeff d\<bar>"] assms(1)
    by (metis of_int_le_iff of_int_numeral of_int_power zero_less_abs_iff)
  also have "of_int \<bar>coeff d\<bar> * 10 powi (expo d) = \<bar>dval d\<bar>"
    by (simp add: dval_def abs_mult)
  finally show False using assms(2) by simp
qed

lemma quantize_total:
  assumes rnd: "\<And>n S M :: int. 0 < S \<Longrightarrow> \<bar>n\<bar> < M * S \<Longrightarrow> \<bar>rnd n S\<bar> \<le> M"
    and "\<bar>dval d\<bar> < 10 powi k" "0 \<le> k - e" "k - e < 28"
  shows "\<exists>q. quantize rnd d e = Inr q"
proof (cases "coeff d = 0")
  case False
  note k = ndigits_expo_le[OF False assms(2)]
  have "ndigits \<bar>coeff (rescale rnd d e)\<bar> \<le> dec_prec"
  proof (cases "e \<le> expo d")
    case True
    have "\<bar>coeff d\<bar> < 10 ^ nat (ndigits \<bar>coeff d\<bar>)" by (rule ndigits_upper) simp
    then have "\<bar>aligned d e\<bar> < 10 ^ nat (ndigits \<bar>coeff d\<bar>) * 10 ^ nat (expo d - e)"
      by (simp add: aligned_def abs_mult)
    also have "\<dots> = 10 ^ (nat (ndigits \<bar>coeff d\<bar>) + nat (expo d - e))" by (simp add: power_add)
    also have "\<dots> \<le> 10 ^ 28"
      using k assms True ndigits_pos[of "\<bar>coeff d\<bar>"] by (intro power_increasing) auto
    finally show ?thesis using True by (simp add: rescale_def ndigits_le_iff dec_prec_def)
  next
    case False
    let ?S = "(10::int) ^ nat (e - expo d)"
    have "\<bar>coeff d\<bar> < 10 ^ nat (ndigits \<bar>coeff d\<bar>)" by (rule ndigits_upper) simp
    also have "\<dots> \<le> 10 ^ (nat (k - e) + nat (e - expo d))"
      using k assms False by (intro power_increasing) auto
    finally have "\<bar>coeff d\<bar> < 10 ^ nat (k - e) * ?S" by (simp add: power_add)
    then have "\<bar>rnd (coeff d) ?S\<bar> \<le> 10 ^ nat (k - e)" by (intro rnd) simp_all
    also have "\<dots> \<le> (10::int) ^ 27"
      using assms(4) by (intro power_increasing) auto
    finally show ?thesis using False by (simp add: rescale_def ndigits_le_iff dec_prec_def)
  qed
  then show ?thesis
    using k assms(4) False by (simp add: quantize_def Let_def dec_prec_def)
qed (simp add: quantize_def)

lemma quantize_even_total:
  assumes "\<bar>dval d\<bar> < 10 powi k" "0 \<le> k - e" "k - e < 28"
  shows "\<exists>q. quantize_even d e = Inr q"
  unfolding quantize_even_def
proof (rule quantize_total[OF _ assms])
  fix n S M :: int assume S: "0 < S" "\<bar>n\<bar> < M * S"
  then have "n \<le> M * S" "(- M) * S \<le> n" by auto
  then show "\<bar>div_half_even n S\<bar> \<le> M"
    using div_half_even_le[OF S(1)] div_half_even_ge[OF S(1)] by (simp add: abs_le_iff minus_le_iff del: mult_minus_left)
qed

lemma quantize_down_total:
  assumes "\<bar>dval d\<bar> < 10 powi k" "0 \<le> k - e" "k - e < 28"
  shows "\<exists>q. quantize_down d e = Inr q"
  unfolding quantize_down_def
proof (rule quantize_total[OF _ assms])
  fix n S M :: int assume S: "0 < S" "\<bar>n\<bar> < M * S"
  have "\<bar>n\<bar> div S < M"
  proof (rule ccontr)
    assume "\<not> \<bar>n\<bar> div S < M"
    then have "M * S \<le> \<bar>n\<bar> div S * S" using S(1) by (intro mult_right_mono) simp_all
    also have "\<dots> \<le> \<bar>n\<bar>" using S(1) by (simp add: minus_mod_eq_div_mult[symmetric])
    finally show False using S(2) by simp
  qed
  moreover have "0 \<le> \<bar>n\<bar> div S" using S(1) by (simp add: pos_imp_zdiv_nonneg_iff)
  ultimately show "\<bar>div_down n S\<bar> \<le> M" by (simp add: div_down_def abs_mult sgn_if abs_if split: if_splits)
qed

section \<open>Exact arithmetic on a grid\<close>

text \<open>
  \<open>grid k m x\<close>: \<open>x\<close> has \<open>k\<close> decimal places and \<open>m\<close> digits in all. Sums and products of such
  values that stay within 28 digits are exact.
\<close>

definition grid :: "nat \<Rightarrow> nat \<Rightarrow> rat \<Rightarrow> bool" where
  "grid k m x = (\<exists>n::int. x = of_int n / 10 ^ k \<and> \<bar>n\<bar> < 10 ^ m)"

lemma gridI: "x = of_int n / 10 ^ k \<Longrightarrow> \<bar>n\<bar> < 10 ^ m \<Longrightarrow> grid k m x"
  by (auto simp: grid_def)

lemma grid_dec:
  assumes "grid k m x" "m \<le> 28"
  obtains r where "dec_ok r" "dval r = x"
proof -
  obtain n :: int where n: "x = of_int n / 10 ^ k" "\<bar>n\<bar> < 10 ^ m" using assms(1) by (auto simp: grid_def)
  have "(10::int) ^ m \<le> 10 ^ 28" using assms(2) by (intro power_increasing) auto
  then have "dec_ok (Dec n (- int k))" using n(2) by (simp add: dec_ok_def)
  moreover have "dval (Dec n (- int k)) = x" by (simp add: dval_Dec n(1) power_int_minus divide_inverse)
  ultimately show thesis by (rule that)
qed

lemma grid_add: "grid k m x \<Longrightarrow> grid k m y \<Longrightarrow> grid k (Suc m) (x + y)"
proof -
  assume "grid k m x" "grid k m y"
  then obtain a b :: int where "x = of_int a / 10 ^ k" "\<bar>a\<bar> < 10 ^ m" "y = of_int b / 10 ^ k" "\<bar>b\<bar> < 10 ^ m"
    by (auto simp: grid_def)
  then show ?thesis by (intro gridI[of _ "a + b"]) (auto simp: add_divide_distrib)
qed

lemma grid_uminus: "grid k m x \<Longrightarrow> grid k m (- x)"
  unfolding grid_def by (metis abs_minus_cancel minus_divide_left of_int_minus)

lemma grid_diff: "grid k m x \<Longrightarrow> grid k m y \<Longrightarrow> grid k (Suc m) (x - y)"
  using grid_add[of k m x "- y"] grid_uminus[of k m y] by simp

lemma grid_mult: "grid k m x \<Longrightarrow> grid j n y \<Longrightarrow> grid (k + j) (m + n) (x * y)"
proof -
  assume "grid k m x" "grid j n y"
  then obtain a b :: int where "x = of_int a / 10 ^ k" "\<bar>a\<bar> < 10 ^ m" "y = of_int b / 10 ^ j" "\<bar>b\<bar> < 10 ^ n"
    by (auto simp: grid_def)
  then show ?thesis
    by (intro gridI[of _ "a * b"]) (simp_all add: power_add abs_mult mult_strict_mono)
qed

lemma grid_half: "grid k m x \<Longrightarrow> grid (Suc k) (Suc m) (x / 2)"
proof -
  assume "grid k m x"
  then obtain a :: int where "x = of_int a / 10 ^ k" "\<bar>a\<bar> < 10 ^ m" by (auto simp: grid_def)
  then show ?thesis by (intro gridI[of _ "5 * a"]) (simp_all add: abs_mult)
qed

lemma grid_mono: "grid k m x \<Longrightarrow> m \<le> n \<Longrightarrow> grid k n x"
  unfolding grid_def
  by (metis less_le_trans one_le_numeral power_increasing)

lemma grid_plus: "grid k m (dval a) \<Longrightarrow> grid k m (dval b) \<Longrightarrow> m < 28 \<Longrightarrow> dval (a + b) = dval a + dval b"
  using grid_dec[OF grid_add] add.op_exact by (metis Suc_leI)

lemma grid_minus: "grid k m (dval a) \<Longrightarrow> grid k m (dval b) \<Longrightarrow> m < 28 \<Longrightarrow> dval (a - b) = dval a - dval b"
  using grid_dec[OF grid_diff] sub.op_exact by (metis Suc_leI)

lemma grid_times: "grid k m (dval a) \<Longrightarrow> grid j n (dval b) \<Longrightarrow> m + n \<le> 28 \<Longrightarrow> dval (a * b) = dval a * dval b"
  using grid_dec[OF grid_mult] mul.op_exact by metis

lemma grid_quot_half: "grid k m (dval a) \<Longrightarrow> m < 28 \<Longrightarrow> dval (dquot a (dec_of_int 2)) = dval a / 2"
  using grid_dec[OF grid_half] quot.op_exact[of "dec_of_int 2"]
  by (metis Suc_leI coeff_zero_iff dval_dec_of_int of_int_numeral zero_neq_numeral)

end
