(* ===== verification/PyText.thy ===== *)
theory PyText
  imports PyDecimal
begin

text \<open>
  What the program uses of Python's strings and clocks: printing of integers and decimals
  (\<open>str\<close> and the format specifications \<open>f\<close>, \<open>.Nf\<close> and \<open>+.2%\<close>), \<open>join\<close>, \<open>strip\<close>, \<open>upper\<close>,
  \<open>in\<close>, \<open>replace\<close>, and UTC instants with \<open>isoformat\<close> and \<open>total_seconds\<close>.
  Strings are ASCII. An instant is the number of microseconds since 1970-01-01 UTC, which is
  the resolution of \<open>datetime\<close>.
\<close>

section \<open>Strings\<close>

definition is_space :: "char \<Rightarrow> bool" where
  "is_space c = (c \<in> {CHR '' '', CHR 0x09, CHR 0x0A, CHR 0x0B, CHR 0x0C, CHR 0x0D,
     CHR 0x1C, CHR 0x1D, CHR 0x1E, CHR 0x1F})"

definition upper_char :: "char \<Rightarrow> char" where
  "upper_char c =
     (let n = of_char c :: nat in if 97 \<le> n \<and> n \<le> 122 then char_of (n - 32) else c)"

definition lower_char :: "char \<Rightarrow> char" where
  "lower_char c =
     (let n = of_char c :: nat in if 65 \<le> n \<and> n \<le> 90 then char_of (n + 32) else c)"

definition upper :: "string \<Rightarrow> string" where
  "upper = map upper_char"

definition lower :: "string \<Rightarrow> string" where
  "lower = map lower_char"

definition lstrip :: "string \<Rightarrow> string" where
  "lstrip = dropWhile is_space"

definition rstrip :: "string \<Rightarrow> string" where
  "rstrip s = rev (dropWhile is_space (rev s))"

definition strip :: "string \<Rightarrow> string" where
  "strip s = rstrip (lstrip s)"

fun join :: "string \<Rightarrow> string list \<Rightarrow> string" where
  "join sep [] = []"
| "join sep [x] = x"
| "join sep (x # y # ys) = x @ sep @ join sep (y # ys)"

text \<open>\<open>pat in s\<close>\<close>

fun contains :: "string \<Rightarrow> string \<Rightarrow> bool" where
  "contains pat [] = (pat = [])"
| "contains pat (c # cs) = (take (length pat) (c # cs) = pat \<or> contains pat cs)"

text \<open>\<open>s.replace("  ", " ")\<close>\<close>

fun squeeze_spaces :: "string \<Rightarrow> string" where
  "squeeze_spaces (a # b # s) =
     (if a = CHR '' '' \<and> b = CHR '' '' then CHR '' '' # squeeze_spaces s
      else a # squeeze_spaces (b # s))"
| "squeeze_spaces s = s"

text \<open>\<open>repr\<close> of a string without quotes, backslashes or control characters.\<close>

definition repr_str :: "string \<Rightarrow> string" where
  "repr_str s = [CHR 0x27] @ s @ [CHR 0x27]"

lemma contains_iff: "contains pat s \<longleftrightarrow> (\<exists>u v. s = u @ pat @ v)"
proof (induction pat s rule: contains.induct)
  case (2 pat c cs)
  have "take (length pat) (c # cs) = pat \<longleftrightarrow> (\<exists>v. c # cs = pat @ v)"
  proof
    assume "take (length pat) (c # cs) = pat"
    then have "c # cs = pat @ drop (length pat) (c # cs)" by (metis append_take_drop_id)
    then show "\<exists>v. c # cs = pat @ v" ..
  next
    assume "\<exists>v. c # cs = pat @ v"
    then obtain v where eq: "c # cs = pat @ v" ..
    have "take (length pat) (pat @ v) = pat" by simp
    then show "take (length pat) (c # cs) = pat" by (simp only: eq)
  qed
  moreover have "(\<exists>u v. c # cs = u @ pat @ v)
    \<longleftrightarrow> (\<exists>v. c # cs = pat @ v) \<or> (\<exists>u v. cs = u @ pat @ v)"
  proof
    assume "\<exists>u v. c # cs = u @ pat @ v"
    then obtain u v where "c # cs = u @ pat @ v" by blast
    then show "(\<exists>v. c # cs = pat @ v) \<or> (\<exists>u v. cs = u @ pat @ v)"
      by (cases u) auto
  next
    assume "(\<exists>v. c # cs = pat @ v) \<or> (\<exists>u v. cs = u @ pat @ v)"
    then show "\<exists>u v. c # cs = u @ pat @ v"
      by (metis append_Cons append_Nil)
  qed
  ultimately show ?case using "2.IH" by simp
qed auto

lemma contains_append: "contains pat (u @ pat @ v)"
  by (auto simp: contains_iff)

lemma contains_appendI1: "contains pat a \<Longrightarrow> contains pat (a @ b)"
  and contains_appendI2: "contains pat b \<Longrightarrow> contains pat (a @ b)"
  unfolding contains_iff by (metis append.assoc)+

lemma contains_join: "s \<in> set xs \<Longrightarrow> contains pat s \<Longrightarrow> contains pat (join sep xs)"
proof (induction sep xs rule: join.induct)
  case (3 sep x y ys)
  then show ?case by (auto intro: contains_appendI1 contains_appendI2)
qed simp_all

lemma of_char_upper_char:
  "(of_char (upper_char c) :: nat) = (let n = of_char c in if 97 \<le> n \<and> n \<le> 122 then n - 32 else n)"
  by (auto simp: upper_char_def Let_def)

lemma upper_char_idem [simp]: "upper_char (upper_char c) = upper_char c"
  by (subst upper_char_def) (auto simp: of_char_upper_char Let_def)

lemma is_space_code: "is_space c \<longleftrightarrow> (of_char c :: nat) \<in> {32, 9, 10, 11, 12, 13, 28, 29, 30, 31}"
proof -
  have inj: "c = d \<longleftrightarrow> (of_char c :: nat) = of_char d" for c d by simp
  show ?thesis unfolding is_space_def by (simp only: insert_iff empty_iff inj) simp
qed

lemma is_space_upper [simp]: "is_space (upper_char c) \<longleftrightarrow> is_space c"
  by (auto simp: is_space_code of_char_upper_char Let_def)

lemma lstrip_hd: "lstrip s \<noteq> [] \<Longrightarrow> \<not> is_space (hd (lstrip s))"
  using hd_dropWhile[of is_space s] by (simp add: lstrip_def)

lemma dropWhile_id: "s = [] \<or> \<not> P (hd s) \<Longrightarrow> dropWhile P s = s"
  by (cases s) auto

lemma upper_dropWhile: "upper (dropWhile is_space s) = dropWhile is_space (upper s)"
  by (simp add: upper_def dropWhile_map comp_def)

lemma upper_strip: "upper (strip s) = strip (upper s)"
proof -
  have "upper (rev t) = rev (upper t)" for t by (simp add: upper_def rev_map)
  then show ?thesis by (simp add: strip_def rstrip_def lstrip_def upper_dropWhile)
qed

lemma rstrip_prefix: "\<exists>t. s = rstrip s @ t \<and> (\<forall>c \<in> set t. is_space c)"
proof -
  have "rev s = takeWhile is_space (rev s) @ dropWhile is_space (rev s)" by simp
  then have "s = rstrip s @ rev (takeWhile is_space (rev s))"
    unfolding rstrip_def by (metis rev_append rev_rev_ident)
  then show ?thesis by (intro exI conjI) (auto dest: set_takeWhileD)
qed

lemma strip_idem [simp]: "strip (strip s) = strip s"
proof -
  let ?l = "lstrip s"
  have "lstrip (rstrip ?l) = rstrip ?l"
  proof (cases "rstrip ?l")
    case (Cons c cs)
    then have "hd ?l = c" using rstrip_prefix[of ?l] by (metis hd_append2 list.discI list.sel(1))
    moreover have "?l \<noteq> []" using Cons by (auto simp: rstrip_def)
    ultimately show ?thesis using lstrip_hd[of s] Cons by (simp add: lstrip_def)
  qed (simp add: lstrip_def)
  moreover have "rstrip (rstrip t) = rstrip t" for t
    by (simp add: rstrip_def dropWhile_idem)
  ultimately show ?thesis by (simp add: strip_def)
qed

lemma upper_idem [simp]: "upper (upper s) = upper s"
  by (simp add: upper_def)

section \<open>Numbers as text\<close>

fun show_uint :: "int \<Rightarrow> string" where
  "show_uint n =
     (if n < 10 then [''0123456789'' ! nat n]
      else show_uint (n div 10) @ [''0123456789'' ! nat (n mod 10)])"

declare show_uint.simps [simp del]

definition show_int :: "int \<Rightarrow> string" where
  "show_int n = (if n < 0 then ''-'' @ show_uint (- n) else show_uint n)"

definition zeros :: "int \<Rightarrow> string" where
  "zeros n = replicate (nat n) (CHR ''0'')"

text \<open>The digits of a coefficient with the decimal point after \<open>dot\<close> of them.\<close>

definition place_dot :: "string \<Rightarrow> int \<Rightarrow> string" where
  "place_dot ds dot =
     (if dot \<le> 0 then ''0.'' @ zeros (- dot) @ ds
      else if int (length ds) \<le> dot then ds @ zeros (dot - int (length ds))
      else take (nat dot) ds @ ''.'' @ drop (nat dot) ds)"

text \<open>\<open>str(d)\<close>: scientific notation outside the range of plain notation.\<close>

definition dec_str :: "decimal \<Rightarrow> string" where
  "dec_str d =
     (let ds = show_uint \<bar>coeff d\<bar>; left = expo d + int (length ds);
          dot = (if expo d \<le> 0 \<and> - 6 < left then left else 1);
          sign = (if coeff d < 0 then ''-'' else []);
          ex = (if left = dot then []
                else ''E'' @ (if left - dot < 0 then show_int (left - dot)
                              else ''+'' @ show_int (left - dot)))
      in sign @ place_dot ds dot @ ex)"

text \<open>\<open>format(d, "f")\<close>: plain notation, whatever the exponent.\<close>

definition fixed_str :: "decimal \<Rightarrow> string" where
  "fixed_str d =
     (let d = (if coeff d = 0 \<and> 0 < expo d then Dec 0 0 else d);
          ds = show_uint \<bar>coeff d\<bar>
      in (if coeff d < 0 then ''-'' else []) @ place_dot ds (expo d + int (length ds)))"

text \<open>\<open>f"{d:.nf}"\<close>, \<open>f"{d:.n%}"\<close> and \<open>f"{d:+.n%}"\<close>: rounded half to even.\<close>

definition fixed_n :: "int \<Rightarrow> decimal \<Rightarrow> string" where
  "fixed_n n d = fixed_str (rescale div_half_even d (- n))"

definition percent_n :: "int \<Rightarrow> decimal \<Rightarrow> string" where
  "percent_n n d = fixed_n n (Dec (coeff d) (expo d + 2)) @ ''%''"

definition signed_percent_n :: "int \<Rightarrow> decimal \<Rightarrow> string" where
  "signed_percent_n n d =
     (if coeff (rescale div_half_even (Dec (coeff d) (expo d + 2)) (- n)) < 0 then [] else ''+'')
       @ percent_n n d"

definition opt_str :: "decimal option \<Rightarrow> string option" where
  "opt_str = map_option dec_str"

text \<open>An optional string inside a formatted message.\<close>

definition show_opt :: "string option \<Rightarrow> string" where
  "show_opt s = or_else s ''None''"

definition show_opt_dec :: "decimal option \<Rightarrow> string" where
  "show_opt_dec d = show_opt (opt_str d)"

section \<open>Instants\<close>

type_synonym instant = int
type_synonym date = int

definition usec :: int where
  "usec = 1000000"

definition day_usec :: int where
  "day_usec = 86400 * usec"

text \<open>\<open>t.date()\<close>: days since 1970-01-01.\<close>

definition date_of :: "instant \<Rightarrow> date" where
  "date_of t = t div day_usec"

text \<open>
  \<open>Decimal(str(max(0.0, (a - b).total_seconds())))\<close>. A difference below 31 years has at most
  15 significant digits in seconds, so the shortest text of the float is its exact decimal,
  with at least one digit after the point.
\<close>

fun strip_seconds :: "nat \<Rightarrow> int \<Rightarrow> int \<Rightarrow> decimal" where
  "strip_seconds 0 c e = Dec c e"
| "strip_seconds (Suc k) c e =
     (if e < - 1 \<and> c mod 10 = 0 then strip_seconds k (c div 10) (e + 1) else Dec c e)"

definition elapsed_seconds :: "instant \<Rightarrow> instant \<Rightarrow> decimal" where
  "elapsed_seconds now since = strip_seconds 5 (max 0 (now - since)) (- 6)"

lemma dval_strip_seconds: "dval (strip_seconds k c e) = of_int c * 10 powi e"
proof (induction k c e rule: strip_seconds.induct)
  case (2 k c e)
  show ?case
  proof (cases "e < - 1 \<and> c mod 10 = 0")
    case True
    then have "c = c div 10 * 10" by auto
    then have "(of_int c :: rat) = of_int (c div 10) * 10" by (metis of_int_mult of_int_numeral)
    then show ?thesis using True 2 powi10_add_nat[of 1 e] by simp
  qed (auto simp: dval_Dec)
qed (simp add: dval_Dec)

lemma dval_elapsed: "dval (elapsed_seconds now since) = of_int (max 0 (now - since)) / 10 ^ 6"
  by (simp add: elapsed_seconds_def dval_strip_seconds power_int_minus field_simps)

lemma elapsed_nonneg: "0 \<le> dval (elapsed_seconds now since)"
  by (simp add: dval_elapsed)

text \<open>The calendar date of a day number (proleptic Gregorian), and \<open>isoformat\<close> in UTC.\<close>

definition civil :: "date \<Rightarrow> int \<times> int \<times> int" where
  "civil day =
     (let z = day + 719468; era = z div 146097; doe = z mod 146097;
          yoe = (doe - doe div 1460 + doe div 36524 - doe div 146096) div 365;
          doy = doe - (365 * yoe + yoe div 4 - yoe div 100);
          mp = (5 * doy + 2) div 153;
          m = (if mp < 10 then mp + 3 else mp - 9)
      in (yoe + era * 400 + (if m \<le> 2 then 1 else 0), m, doy - (153 * mp + 2) div 5 + 1))"

definition pad :: "nat \<Rightarrow> int \<Rightarrow> string" where
  "pad n i = (let s = show_uint i in replicate (n - length s) (CHR ''0'') @ s)"

definition isoformat :: "instant \<Rightarrow> string" where
  "isoformat t =
     (let (y, m, d) = civil (date_of t); r = t mod day_usec; s = r div usec; f = r mod usec
      in pad 4 y @ ''-'' @ pad 2 m @ ''-'' @ pad 2 d @ ''T'' @ pad 2 (s div 3600) @ '':''
         @ pad 2 (s div 60 mod 60) @ '':'' @ pad 2 (s mod 60)
         @ (if f = 0 then [] else ''.'' @ pad 6 f) @ ''+00:00'')"

section \<open>JSON-ready values\<close>

text \<open>
  What the \<open>as_dict\<close> methods build: dictionaries keep the order of their keys. \<open>jopt\<close> maps a
  missing value to \<open>None\<close>.
\<close>

datatype json =
    JNull
  | JBool bool
  | JInt int
  | JStr string
  | JList "json list"
  | JObj "(string \<times> json) list"

definition jopt :: "('a \<Rightarrow> json) \<Rightarrow> 'a option \<Rightarrow> json" where
  "jopt f x = (case x of None \<Rightarrow> JNull | Some y \<Rightarrow> f y)"

definition jdec :: "decimal \<Rightarrow> json" where
  "jdec d = JStr (dec_str d)"

definition jtime :: "instant \<Rightarrow> json" where
  "jtime t = JStr (isoformat t)"

fun jfield :: "string \<Rightarrow> json \<Rightarrow> json option" where
  "jfield k (JObj kvs) = map_of kvs k"
| "jfield k _ = None"

end
