(* ===== verification/Json_Digest.thy ===== *)
theory Json_Digest
  imports PyText "HOL-Library.Word" "HOL-Library.Char_ord" "HOL-Library.List_Lexorder"
begin

text \<open>
  The two library calls behind every content hash of the program:
  \<open>json.dumps(payload, sort_keys=True, separators=(",", ":"))\<close> and
  \<open>hashlib.sha256(...).hexdigest()\<close>. The text is injective on payloads whose objects list
  their keys in order, so two records with one text are the same record; the hash is
  the function of FIPS 180-4 on 32-bit words.
\<close>

unbundle bit_operations_syntax

section \<open>Canonical JSON text\<close>

fun sort_keys :: "json \<Rightarrow> json" where
  "sort_keys (JList xs) = JList (map sort_keys xs)"
| "sort_keys (JObj kvs) = JObj (sort_key fst (map (\<lambda>(k, v). (k, sort_keys v)) kvs))"
| "sort_keys j = j"

definition hex_digit :: "nat \<Rightarrow> char" where
  "hex_digit i = ''0123456789abcdef'' ! i"

text \<open>Printable ASCII stands for itself; everything else is escaped, with four digits by default.\<close>

definition escape_char :: "char \<Rightarrow> string" where
  "escape_char c =
     (let n = of_char c :: nat
      in if c = CHR 0x22 then [CHR 0x5C, CHR 0x22]
         else if c = CHR 0x5C then [CHR 0x5C, CHR 0x5C]
         else if n = 10 then [CHR 0x5C, CHR ''n'']
         else if n = 13 then [CHR 0x5C, CHR ''r'']
         else if n = 9 then [CHR 0x5C, CHR ''t'']
         else if n = 8 then [CHR 0x5C, CHR ''b'']
         else if n = 12 then [CHR 0x5C, CHR ''f'']
         else if n < 32 \<or> 126 < n
         then [CHR 0x5C] @ ''u00'' @ [hex_digit (n div 16), hex_digit (n mod 16)]
         else [c])"

definition quoted :: "string \<Rightarrow> string" where
  "quoted s = [CHR 0x22] @ concat (map escape_char s) @ [CHR 0x22]"

fun dumps :: "json \<Rightarrow> string"
  and dumps_list :: "json list \<Rightarrow> string"
  and dumps_fields :: "(string \<times> json) list \<Rightarrow> string" where
  "dumps JNull = ''null''"
| "dumps (JBool b) = (if b then ''true'' else ''false'')"
| "dumps (JInt n) = show_int n"
| "dumps (JStr s) = quoted s"
| "dumps (JList xs) = ''['' @ dumps_list xs"
| "dumps (JObj kvs) = ''{'' @ dumps_fields kvs"
| "dumps_list [] = '']''"
| "dumps_list (x # xs) = dumps x @ (if xs = [] then '']'' else '','' @ dumps_list xs)"
| "dumps_fields [] = ''}''"
| "dumps_fields (kv # kvs) =
     quoted (fst kv) @ '':'' @ dumps (snd kv) @ (if kvs = [] then ''}'' else '','' @ dumps_fields kvs)"

section \<open>SHA-256\<close>

type_synonym w32 = "32 word"

definition sha_k :: "w32 list" where
  "sha_k =
    [0x428a2f98, 0x71374491, 0xb5c0fbcf, 0xe9b5dba5, 0x3956c25b, 0x59f111f1, 0x923f82a4, 0xab1c5ed5,
     0xd807aa98, 0x12835b01, 0x243185be, 0x550c7dc3, 0x72be5d74, 0x80deb1fe, 0x9bdc06a7, 0xc19bf174,
     0xe49b69c1, 0xefbe4786, 0x0fc19dc6, 0x240ca1cc, 0x2de92c6f, 0x4a7484aa, 0x5cb0a9dc, 0x76f988da,
     0x983e5152, 0xa831c66d, 0xb00327c8, 0xbf597fc7, 0xc6e00bf3, 0xd5a79147, 0x06ca6351, 0x14292967,
     0x27b70a85, 0x2e1b2138, 0x4d2c6dfc, 0x53380d13, 0x650a7354, 0x766a0abb, 0x81c2c92e, 0x92722c85,
     0xa2bfe8a1, 0xa81a664b, 0xc24b8b70, 0xc76c51a3, 0xd192e819, 0xd6990624, 0xf40e3585, 0x106aa070,
     0x19a4c116, 0x1e376c08, 0x2748774c, 0x34b0bcb5, 0x391c0cb3, 0x4ed8aa4a, 0x5b9cca4f, 0x682e6ff3,
     0x748f82ee, 0x78a5636f, 0x84c87814, 0x8cc70208, 0x90befffa, 0xa4506ceb, 0xbef9a3f7, 0xc67178f2]"

definition sha_init :: "w32 list" where
  "sha_init =
    [0x6a09e667, 0xbb67ae85, 0x3c6ef372, 0xa54ff53a, 0x510e527f, 0x9b05688c, 0x1f83d9ab, 0x5be0cd19]"

text \<open>The padded message as words: the bytes, \<open>0x80\<close>, zeros, and the bit length in 8 bytes.\<close>

definition sha_pad :: "int list \<Rightarrow> int list" where
  "sha_pad bs =
     (let n = length bs; z = (119 - n mod 64) mod 64
      in bs @ [0x80] @ replicate z 0
           @ map (\<lambda>i. 8 * int n div 256 ^ (7 - i) mod 256) [0..<8])"

fun words_of :: "int list \<Rightarrow> w32 list" where
  "words_of (a # b # c # d # bs) = word_of_int (a * 2 ^ 24 + b * 2 ^ 16 + c * 2 ^ 8 + d) # words_of bs"
| "words_of _ = []"

fun chunks :: "nat \<Rightarrow> w32 list \<Rightarrow> w32 list list" where
  "chunks 0 ws = []"
| "chunks (Suc k) ws = (if ws = [] then [] else take 16 ws # chunks k (drop 16 ws))"

definition schedule_step :: "w32 list \<Rightarrow> w32 list" where
  "schedule_step w =
     (let n = length w; a = w ! (n - 15); b = w ! (n - 2);
          s0 = word_rotr 7 a XOR word_rotr 18 a XOR drop_bit 3 a;
          s1 = word_rotr 17 b XOR word_rotr 19 b XOR drop_bit 10 b
      in w @ [w ! (n - 16) + s0 + w ! (n - 7) + s1])"

definition sha_round :: "w32 \<times> w32 \<Rightarrow> w32 list \<Rightarrow> w32 list" where
  "sha_round kw s =
     (let a = s ! 0; b = s ! 1; c = s ! 2; d = s ! 3; e = s ! 4; f = s ! 5; g = s ! 6; h = s ! 7;
          s1 = word_rotr 6 e XOR word_rotr 11 e XOR word_rotr 25 e;
          ch = (e AND f) XOR (NOT e AND g);
          t1 = h + s1 + ch + fst kw + snd kw;
          s0 = word_rotr 2 a XOR word_rotr 13 a XOR word_rotr 22 a;
          maj = (a AND b) XOR (a AND c) XOR (b AND c)
      in [t1 + (s0 + maj), a, b, c, d + t1, e, f, g])"

definition sha_block :: "w32 list \<Rightarrow> w32 list \<Rightarrow> w32 list" where
  "sha_block chunk s =
     map2 (+) s (fold sha_round (zip sha_k ((schedule_step ^^ 48) chunk)) s)"

definition sha256_words :: "int list \<Rightarrow> w32 list" where
  "sha256_words bs =
     (let ws = words_of (sha_pad bs) in fold sha_block (chunks (length ws) ws) sha_init)"

definition hex_word :: "w32 \<Rightarrow> string" where
  "hex_word w = map (\<lambda>i. ''0123456789abcdef'' ! nat (uint w div 16 ^ (7 - i) mod 16)) [0..<8]"

definition sha256_hex :: "string \<Rightarrow> string" where
  "sha256_hex s = concat (map hex_word (sha256_words (map of_char s)))"

text \<open>\<open>hashlib.sha256(json.dumps(payload, sort_keys=True, ...).encode("utf-8")).hexdigest()\<close>\<close>

definition json_digest :: "json \<Rightarrow> string" where
  "json_digest payload = sha256_hex (dumps (sort_keys payload))"

end
