(* ===== verification/Enums.thy ===== *)
theory Enums
  imports PyText
begin

text \<open>
  The closed vocabularies of \<open>backend/stockbrain/enums.py\<close>: one datatype per \<open>StrEnum\<close>, with
  the source's member names as constructors, and its \<open>.value\<close> as a function. Constructors are
  written with their type (\<open>thesis_action.BUY\<close>, \<open>order_side.BUY\<close>), as the source writes
  \<open>ThesisAction.BUY\<close>.
\<close>

datatype thesis_action =
    BUY
  | HOLD
  | REDUCE
  | SELL
  | NO_ACTION

fun thesis_action_value :: "thesis_action \<Rightarrow> string" where
  "thesis_action_value thesis_action.BUY = ''BUY''"
| "thesis_action_value thesis_action.HOLD = ''HOLD''"
| "thesis_action_value thesis_action.REDUCE = ''REDUCE''"
| "thesis_action_value thesis_action.SELL = ''SELL''"
| "thesis_action_value thesis_action.NO_ACTION = ''NO_ACTION''"

datatype time_horizon =
    INTRADAY
  | DAYS
  | WEEKS
  | MONTHS

fun time_horizon_value :: "time_horizon \<Rightarrow> string" where
  "time_horizon_value time_horizon.INTRADAY = ''intraday''"
| "time_horizon_value time_horizon.DAYS = ''days''"
| "time_horizon_value time_horizon.WEEKS = ''weeks''"
| "time_horizon_value time_horizon.MONTHS = ''months''"

datatype broker =
    TRADING212

fun broker_value :: "broker \<Rightarrow> string" where
  "broker_value broker.TRADING212 = ''TRADING212''"

datatype order_side =
    BUY
  | SELL

fun order_side_value :: "order_side \<Rightarrow> string" where
  "order_side_value order_side.BUY = ''BUY''"
| "order_side_value order_side.SELL = ''SELL''"

datatype order_type =
    MARKET
  | LIMIT
  | STOP
  | STOP_LIMIT

fun order_type_value :: "order_type \<Rightarrow> string" where
  "order_type_value order_type.MARKET = ''MARKET''"
| "order_type_value order_type.LIMIT = ''LIMIT''"
| "order_type_value order_type.STOP = ''STOP''"
| "order_type_value order_type.STOP_LIMIT = ''STOP_LIMIT''"

datatype proposal_status =
    DRAFT
  | READY
  | NOTIFIED
  | APPROVAL_PENDING
  | APPROVED
  | REJECTED
  | EXPIRED
  | EXECUTING
  | EXECUTED
  | EXECUTION_AMBIGUOUS
  | FAILED
  | CANCELLED
  | INVALIDATED

fun proposal_status_value :: "proposal_status \<Rightarrow> string" where
  "proposal_status_value proposal_status.DRAFT = ''DRAFT''"
| "proposal_status_value proposal_status.READY = ''READY''"
| "proposal_status_value proposal_status.NOTIFIED = ''NOTIFIED''"
| "proposal_status_value proposal_status.APPROVAL_PENDING = ''APPROVAL_PENDING''"
| "proposal_status_value proposal_status.APPROVED = ''APPROVED''"
| "proposal_status_value proposal_status.REJECTED = ''REJECTED''"
| "proposal_status_value proposal_status.EXPIRED = ''EXPIRED''"
| "proposal_status_value proposal_status.EXECUTING = ''EXECUTING''"
| "proposal_status_value proposal_status.EXECUTED = ''EXECUTED''"
| "proposal_status_value proposal_status.EXECUTION_AMBIGUOUS = ''EXECUTION_AMBIGUOUS''"
| "proposal_status_value proposal_status.FAILED = ''FAILED''"
| "proposal_status_value proposal_status.CANCELLED = ''CANCELLED''"
| "proposal_status_value proposal_status.INVALIDATED = ''INVALIDATED''"

datatype execution_policy =
    MANUAL
  | AUTOMATIC

fun execution_policy_value :: "execution_policy \<Rightarrow> string" where
  "execution_policy_value execution_policy.MANUAL = ''MANUAL''"
| "execution_policy_value execution_policy.AUTOMATIC = ''AUTOMATIC''"

datatype authorization_source =
    HUMAN_WEB
  | HUMAN_TELEGRAM
  | SYSTEM_AUTOMATIC

fun authorization_source_value :: "authorization_source \<Rightarrow> string" where
  "authorization_source_value authorization_source.HUMAN_WEB = ''HUMAN_WEB''"
| "authorization_source_value authorization_source.HUMAN_TELEGRAM = ''HUMAN_TELEGRAM''"
| "authorization_source_value authorization_source.SYSTEM_AUTOMATIC = ''SYSTEM_AUTOMATIC''"

datatype approval_channel =
    WEB
  | TELEGRAM

fun approval_channel_value :: "approval_channel \<Rightarrow> string" where
  "approval_channel_value approval_channel.WEB = ''WEB''"
| "approval_channel_value approval_channel.TELEGRAM = ''TELEGRAM''"

datatype risk_outcome =
    ALLOW
  | REDUCE_SIZE
  | BLOCK

fun risk_outcome_value :: "risk_outcome \<Rightarrow> string" where
  "risk_outcome_value risk_outcome.ALLOW = ''ALLOW''"
| "risk_outcome_value risk_outcome.REDUCE_SIZE = ''REDUCE_SIZE''"
| "risk_outcome_value risk_outcome.BLOCK = ''BLOCK''"

datatype rule_outcome =
    PASS
  | WARN
  | REDUCE
  | BLOCK

fun rule_outcome_value :: "rule_outcome \<Rightarrow> string" where
  "rule_outcome_value rule_outcome.PASS = ''PASS''"
| "rule_outcome_value rule_outcome.WARN = ''WARN''"
| "rule_outcome_value rule_outcome.REDUCE = ''REDUCE''"
| "rule_outcome_value rule_outcome.BLOCK = ''BLOCK''"

datatype spread_status =
    OK
  | MISSING
  | NON_POSITIVE
  | ONE_SIDED
  | CROSSED
  | LOCKED
  | EXCESSIVE

fun spread_status_value :: "spread_status \<Rightarrow> string" where
  "spread_status_value spread_status.OK = ''OK''"
| "spread_status_value spread_status.MISSING = ''MISSING''"
| "spread_status_value spread_status.NON_POSITIVE = ''NON_POSITIVE''"
| "spread_status_value spread_status.ONE_SIDED = ''ONE_SIDED''"
| "spread_status_value spread_status.CROSSED = ''CROSSED''"
| "spread_status_value spread_status.LOCKED = ''LOCKED''"
| "spread_status_value spread_status.EXCESSIVE = ''EXCESSIVE''"

datatype execution_outcome =
    PENDING
  | FAILED_BEFORE_SEND
  | SUBMITTED
  | REJECTED_BY_BROKER
  | AMBIGUOUS
  | RECONCILED_FILLED
  | RECONCILED_NOT_PLACED

fun execution_outcome_value :: "execution_outcome \<Rightarrow> string" where
  "execution_outcome_value execution_outcome.PENDING = ''PENDING''"
| "execution_outcome_value execution_outcome.FAILED_BEFORE_SEND = ''FAILED_BEFORE_SEND''"
| "execution_outcome_value execution_outcome.SUBMITTED = ''SUBMITTED''"
| "execution_outcome_value execution_outcome.REJECTED_BY_BROKER = ''REJECTED_BY_BROKER''"
| "execution_outcome_value execution_outcome.AMBIGUOUS = ''AMBIGUOUS''"
| "execution_outcome_value execution_outcome.RECONCILED_FILLED = ''RECONCILED_FILLED''"
| "execution_outcome_value execution_outcome.RECONCILED_NOT_PLACED = ''RECONCILED_NOT_PLACED''"

datatype execution_failure =
    PREFLIGHT_REFUSED
  | RATE_LIMITED_LOCALLY
  | CONNECT_FAILED
  | BROKER_REJECTED
  | BROKER_AUTH_REJECTED
  | BROKER_RATE_LIMITED
  | BROKER_TIMEOUT
  | TRANSPORT_AMBIGUOUS
  | UNREADABLE_SUCCESS
  | UNEXPECTED_STATUS
  | CRASH_RECOVERY
  | PENDING_ORDER_LIMIT

fun execution_failure_value :: "execution_failure \<Rightarrow> string" where
  "execution_failure_value execution_failure.PREFLIGHT_REFUSED = ''PREFLIGHT_REFUSED''"
| "execution_failure_value execution_failure.RATE_LIMITED_LOCALLY = ''RATE_LIMITED_LOCALLY''"
| "execution_failure_value execution_failure.CONNECT_FAILED = ''CONNECT_FAILED''"
| "execution_failure_value execution_failure.BROKER_REJECTED = ''BROKER_REJECTED''"
| "execution_failure_value execution_failure.BROKER_AUTH_REJECTED = ''BROKER_AUTH_REJECTED''"
| "execution_failure_value execution_failure.BROKER_RATE_LIMITED = ''BROKER_RATE_LIMITED''"
| "execution_failure_value execution_failure.BROKER_TIMEOUT = ''BROKER_TIMEOUT''"
| "execution_failure_value execution_failure.TRANSPORT_AMBIGUOUS = ''TRANSPORT_AMBIGUOUS''"
| "execution_failure_value execution_failure.UNREADABLE_SUCCESS = ''UNREADABLE_SUCCESS''"
| "execution_failure_value execution_failure.UNEXPECTED_STATUS = ''UNEXPECTED_STATUS''"
| "execution_failure_value execution_failure.CRASH_RECOVERY = ''CRASH_RECOVERY''"
| "execution_failure_value execution_failure.PENDING_ORDER_LIMIT = ''PENDING_ORDER_LIMIT''"

datatype market_session =
    PRE_MARKET
  | REGULAR
  | AFTER_HOURS
  | OVERNIGHT
  | CLOSED
  | UNKNOWN

fun market_session_value :: "market_session \<Rightarrow> string" where
  "market_session_value market_session.PRE_MARKET = ''PRE_MARKET''"
| "market_session_value market_session.REGULAR = ''REGULAR''"
| "market_session_value market_session.AFTER_HOURS = ''AFTER_HOURS''"
| "market_session_value market_session.OVERNIGHT = ''OVERNIGHT''"
| "market_session_value market_session.CLOSED = ''CLOSED''"
| "market_session_value market_session.UNKNOWN = ''UNKNOWN''"

datatype price_source =
    ALPACA_IEX
  | ALPACA_SIP
  | ALPACA_DELAYED_SIP
  | YFINANCE
  | BROKER_T212
  | MANUAL

fun price_source_value :: "price_source \<Rightarrow> string" where
  "price_source_value price_source.ALPACA_IEX = ''ALPACA_IEX''"
| "price_source_value price_source.ALPACA_SIP = ''ALPACA_SIP''"
| "price_source_value price_source.ALPACA_DELAYED_SIP = ''ALPACA_DELAYED_SIP''"
| "price_source_value price_source.YFINANCE = ''YFINANCE''"
| "price_source_value price_source.BROKER_T212 = ''BROKER_T212''"
| "price_source_value price_source.MANUAL = ''MANUAL''"

datatype resolution_status =
    PENDING
  | RESOLVED
  | AMBIGUOUS
  | NOT_FOUND
  | UNSUPPORTED

fun resolution_status_value :: "resolution_status \<Rightarrow> string" where
  "resolution_status_value resolution_status.PENDING = ''PENDING''"
| "resolution_status_value resolution_status.RESOLVED = ''RESOLVED''"
| "resolution_status_value resolution_status.AMBIGUOUS = ''AMBIGUOUS''"
| "resolution_status_value resolution_status.NOT_FOUND = ''NOT_FOUND''"
| "resolution_status_value resolution_status.UNSUPPORTED = ''UNSUPPORTED''"

section \<open>Sets and properties of members\<close>

definition is_human :: "authorization_source \<Rightarrow> bool" where
  "is_human s = (s \<in> {authorization_source.HUMAN_WEB, authorization_source.HUMAN_TELEGRAM})"

definition channel :: "authorization_source \<Rightarrow> approval_channel option" where
  "channel s =
     (if s = authorization_source.HUMAN_WEB then Some approval_channel.WEB
      else if s = authorization_source.HUMAN_TELEGRAM then Some approval_channel.TELEGRAM
      else None)"

definition outcome_is_terminal :: "execution_outcome \<Rightarrow> bool" where
  "outcome_is_terminal r =
     (r \<in> {execution_outcome.FAILED_BEFORE_SEND, execution_outcome.SUBMITTED,
            execution_outcome.REJECTED_BY_BROKER, execution_outcome.RECONCILED_FILLED,
            execution_outcome.RECONCILED_NOT_PLACED})"

definition TRANSIENT_RULE_IDS :: "string set" where
  "TRANSIENT_RULE_IDS =
     {''price_source_execution_grade'', ''quote_available'', ''quote_freshness'',
      ''quote_two_sided'', ''spread_ceiling'', ''market_session'', ''account_state_available'',
      ''account_state_freshness'', ''fx_available'', ''fx_freshness''}"

definition EXECUTION_GRADE_PRICE_SOURCES :: "price_source set" where
  "EXECUTION_GRADE_PRICE_SOURCES = {price_source.ALPACA_IEX, price_source.ALPACA_SIP}"

end
