(* ===== verification/Risk_Config.thy ===== *)
theory Risk_Config
  imports Json_Digest Enums
begin

text \<open>
  \<open>backend/stockbrain/risk/config.py\<close>: every threshold of the risk engine in one record, its
  content-addressed version, and its construction from the typed settings; together with the
  three validators of \<open>backend/stockbrain/config.py\<close> that refuse settings whose limits cannot
  mean anything. A float setting is the decimal that its text denotes.
\<close>

section \<open>Defaults and policies\<close>

definition DEFAULT_ALLOWED_INSTRUMENT_TYPES :: "string list" where
  "DEFAULT_ALLOWED_INSTRUMENT_TYPES = [''STOCK'', ''ETF'']"

definition DEFAULT_ALLOWED_SESSIONS :: "market_session list" where
  "DEFAULT_ALLOWED_SESSIONS = [market_session.REGULAR]"

definition SPREAD_BLOCK :: string where
  "SPREAD_BLOCK = ''block''"

definition SPREAD_REDUCE :: string where
  "SPREAD_REDUCE = ''reduce''"

definition SPREAD_ALL :: "string list" where
  "SPREAD_ALL = [SPREAD_BLOCK, SPREAD_REDUCE]"

definition DEFAULT_ROI_DECAY :: "(time_horizon \<times> int \<times> decimal) list" where
  "DEFAULT_ROI_DECAY =
     [(time_horizon.INTRADAY, 0, Dec 4 (- 2)),
      (time_horizon.INTRADAY, 240, Dec 2 (- 2)),
      (time_horizon.INTRADAY, 480, Dec 0 0),
      (time_horizon.DAYS, 0, Dec 6 (- 2)),
      (time_horizon.DAYS, 1440, Dec 3 (- 2)),
      (time_horizon.DAYS, 4320, Dec 0 0),
      (time_horizon.WEEKS, 0, Dec 15 (- 2)),
      (time_horizon.WEEKS, 10080, Dec 8 (- 2)),
      (time_horizon.WEEKS, 30240, Dec 0 0),
      (time_horizon.MONTHS, 0, Dec 30 (- 2)),
      (time_horizon.MONTHS, 43200, Dec 15 (- 2)),
      (time_horizon.MONTHS, 129600, Dec 0 0)]"

section \<open>The configuration\<close>

record risk_config =
  rc_allowed_instrument_types :: "string list"
  rc_allowed_sessions :: "market_session list"
  rc_require_known_session :: bool
  rc_max_quote_age_seconds :: decimal
  rc_max_spread_bps :: decimal
  rc_spread_policy :: string
  rc_wide_spread_size_factor :: decimal
  rc_max_account_state_age_seconds :: decimal
  rc_require_same_currency :: bool
  rc_max_notional_per_trade :: decimal
  rc_max_trade_pct_of_portfolio :: decimal
  rc_max_position_pct_of_portfolio :: decimal
  rc_max_aggregate_exposure_pct :: decimal
  rc_min_cash_reserve_pct :: decimal
  rc_min_trade_notional :: decimal
  rc_sizing_mode :: string
  rc_target_positions :: int
  rc_conviction_full_confidence :: decimal
  rc_conviction_min_weight :: decimal
  rc_conviction_max_weight :: decimal
  rc_min_fill_fraction :: decimal
  rc_allow_fractional_quantity :: bool
  rc_default_quantity_precision :: int
  rc_max_active_proposals :: int
  rc_max_active_proposal_exposure_pct :: decimal
  rc_proposal_ttl_minutes :: int
  rc_max_reference_price_drift_pct :: decimal
  rc_max_exit_price_drift_pct :: decimal
  rc_min_research_confidence :: decimal
  rc_confidence_modulates_size :: bool
  rc_min_confidence_size_factor :: decimal
  rc_calibration_modulates_size :: bool
  rc_calibration_min_samples :: int
  rc_min_calibration_size_factor :: decimal
  rc_reduce_fraction :: decimal
  rc_allow_short_selling :: bool
  rc_exit_hard_stop_pct :: decimal
  rc_exit_trailing_pct :: decimal
  rc_exit_trailing_arm_pct :: decimal
  rc_exit_min_peak_observations :: int
  rc_exit_roi_decay :: "(time_horizon \<times> int \<times> decimal) list"
  rc_exit_atr_multiplier :: decimal
  rc_exit_atr_period :: int
  rc_exit_atr_max_age_days :: int

text \<open>\<open>_jsonable\<close> of a decimal: canonical, so that \<open>300\<close> and \<open>300.0\<close> are one limit.\<close>

definition jcanon :: "decimal \<Rightarrow> json" where
  "jcanon d = JStr (fixed_str (dnormalize d))"

definition roi_json :: "time_horizon \<times> int \<times> decimal \<Rightarrow> json" where
  "roi_json row =
     (case row of (h, minutes, profit) \<Rightarrow>
        JList [JStr (time_horizon_value h), JInt minutes, jcanon profit])"

definition rc_as_dict :: "risk_config \<Rightarrow> json" where
  "rc_as_dict c = JObj
     [(''allow_fractional_quantity'', JBool (rc_allow_fractional_quantity c)),
      (''allow_short_selling'', JBool (rc_allow_short_selling c)),
      (''allowed_instrument_types'', JList (map JStr (rc_allowed_instrument_types c))),
      (''allowed_sessions'', JList (map (\<lambda>s. JStr (market_session_value s)) (rc_allowed_sessions c))),
      (''calibration_min_samples'', JInt (rc_calibration_min_samples c)),
      (''calibration_modulates_size'', JBool (rc_calibration_modulates_size c)),
      (''confidence_modulates_size'', JBool (rc_confidence_modulates_size c)),
      (''conviction_full_confidence'', jcanon (rc_conviction_full_confidence c)),
      (''conviction_max_weight'', jcanon (rc_conviction_max_weight c)),
      (''conviction_min_weight'', jcanon (rc_conviction_min_weight c)),
      (''default_quantity_precision'', JInt (rc_default_quantity_precision c)),
      (''exit_atr_max_age_days'', JInt (rc_exit_atr_max_age_days c)),
      (''exit_atr_multiplier'', jcanon (rc_exit_atr_multiplier c)),
      (''exit_atr_period'', JInt (rc_exit_atr_period c)),
      (''exit_hard_stop_pct'', jcanon (rc_exit_hard_stop_pct c)),
      (''exit_min_peak_observations'', JInt (rc_exit_min_peak_observations c)),
      (''exit_roi_decay'', JList (map roi_json (rc_exit_roi_decay c))),
      (''exit_trailing_arm_pct'', jcanon (rc_exit_trailing_arm_pct c)),
      (''exit_trailing_pct'', jcanon (rc_exit_trailing_pct c)),
      (''max_account_state_age_seconds'', jcanon (rc_max_account_state_age_seconds c)),
      (''max_active_proposal_exposure_pct'', jcanon (rc_max_active_proposal_exposure_pct c)),
      (''max_active_proposals'', JInt (rc_max_active_proposals c)),
      (''max_aggregate_exposure_pct'', jcanon (rc_max_aggregate_exposure_pct c)),
      (''max_exit_price_drift_pct'', jcanon (rc_max_exit_price_drift_pct c)),
      (''max_notional_per_trade'', jcanon (rc_max_notional_per_trade c)),
      (''max_position_pct_of_portfolio'', jcanon (rc_max_position_pct_of_portfolio c)),
      (''max_quote_age_seconds'', jcanon (rc_max_quote_age_seconds c)),
      (''max_reference_price_drift_pct'', jcanon (rc_max_reference_price_drift_pct c)),
      (''max_spread_bps'', jcanon (rc_max_spread_bps c)),
      (''max_trade_pct_of_portfolio'', jcanon (rc_max_trade_pct_of_portfolio c)),
      (''min_calibration_size_factor'', jcanon (rc_min_calibration_size_factor c)),
      (''min_cash_reserve_pct'', jcanon (rc_min_cash_reserve_pct c)),
      (''min_confidence_size_factor'', jcanon (rc_min_confidence_size_factor c)),
      (''min_fill_fraction'', jcanon (rc_min_fill_fraction c)),
      (''min_research_confidence'', jcanon (rc_min_research_confidence c)),
      (''min_trade_notional'', jcanon (rc_min_trade_notional c)),
      (''proposal_ttl_minutes'', JInt (rc_proposal_ttl_minutes c)),
      (''reduce_fraction'', jcanon (rc_reduce_fraction c)),
      (''require_known_session'', JBool (rc_require_known_session c)),
      (''require_same_currency'', JBool (rc_require_same_currency c)),
      (''sizing_mode'', JStr (rc_sizing_mode c)),
      (''spread_policy'', JStr (rc_spread_policy c)),
      (''target_positions'', JInt (rc_target_positions c)),
      (''wide_spread_size_factor'', jcanon (rc_wide_spread_size_factor c))]"

definition rc_version :: "risk_config \<Rightarrow> string" where
  "rc_version c = take 32 (json_digest (rc_as_dict c))"

text \<open>Construction runs \<open>__post_init__\<close>.\<close>

definition make_risk_config :: "risk_config \<Rightarrow> risk_config res" where
  "make_risk_config c =
     (if rc_spread_policy c \<notin> set SPREAD_ALL
      then Inl (ValueError (''spread_policy must be one of ('' @ join '', '' (map repr_str SPREAD_ALL) @ '')''))
      else Inr c)"

definition default_risk_config :: risk_config where
  "default_risk_config =
     \<lparr>rc_allowed_instrument_types = DEFAULT_ALLOWED_INSTRUMENT_TYPES,
      rc_allowed_sessions = DEFAULT_ALLOWED_SESSIONS,
      rc_require_known_session = True,
      rc_max_quote_age_seconds = dec_of_int 15,
      rc_max_spread_bps = dec_of_int 50,
      rc_spread_policy = SPREAD_BLOCK,
      rc_wide_spread_size_factor = Dec 5 (- 1),
      rc_max_account_state_age_seconds = dec_of_int 300,
      rc_require_same_currency = True,
      rc_max_notional_per_trade = dec_of_int 500,
      rc_max_trade_pct_of_portfolio = Dec 2 (- 2),
      rc_max_position_pct_of_portfolio = Dec 3 (- 2),
      rc_max_aggregate_exposure_pct = Dec 60 (- 2),
      rc_min_cash_reserve_pct = Dec 10 (- 2),
      rc_min_trade_notional = dec_of_int 20,
      rc_sizing_mode = ''cap'',
      rc_target_positions = 8,
      rc_conviction_full_confidence = Dec 90 (- 2),
      rc_conviction_min_weight = Dec 75 (- 2),
      rc_conviction_max_weight = Dec 20 (- 1),
      rc_min_fill_fraction = Dec 5 (- 1),
      rc_allow_fractional_quantity = False,
      rc_default_quantity_precision = 2,
      rc_max_active_proposals = 5,
      rc_max_active_proposal_exposure_pct = Dec 10 (- 2),
      rc_proposal_ttl_minutes = 30,
      rc_max_reference_price_drift_pct = Dec 1 (- 2),
      rc_max_exit_price_drift_pct = Dec 5 (- 2),
      rc_min_research_confidence = Dec 70 (- 2),
      rc_confidence_modulates_size = True,
      rc_min_confidence_size_factor = Dec 5 (- 1),
      rc_calibration_modulates_size = True,
      rc_calibration_min_samples = 10,
      rc_min_calibration_size_factor = Dec 5 (- 1),
      rc_reduce_fraction = Dec 5 (- 1),
      rc_allow_short_selling = False,
      rc_exit_hard_stop_pct = Dec 8 (- 2),
      rc_exit_trailing_pct = Dec 5 (- 2),
      rc_exit_trailing_arm_pct = Dec 10 (- 2),
      rc_exit_min_peak_observations = 3,
      rc_exit_roi_decay = DEFAULT_ROI_DECAY,
      rc_exit_atr_multiplier = dec_of_int 3,
      rc_exit_atr_period = 14,
      rc_exit_atr_max_age_days = 3\<rparr>"

section \<open>Settings\<close>

record settings =
  st_market_data_max_quote_age_seconds :: decimal
  st_risk_allowed_instrument_types :: "string list"
  st_risk_allowed_sessions :: "string list"
  st_risk_require_known_session :: bool
  st_risk_max_spread_bps :: decimal
  st_risk_spread_policy :: string
  st_risk_wide_spread_size_factor :: decimal
  st_risk_max_account_state_age_seconds :: decimal
  st_risk_require_same_currency :: bool
  st_risk_max_notional_per_trade :: decimal
  st_risk_max_trade_pct :: decimal
  st_risk_max_position_pct :: decimal
  st_risk_max_aggregate_exposure_pct :: decimal
  st_risk_min_cash_reserve_pct :: decimal
  st_risk_min_trade_notional :: decimal
  st_risk_sizing_mode :: string
  st_risk_target_positions :: int
  st_risk_conviction_full_confidence :: decimal
  st_risk_conviction_min_weight :: decimal
  st_risk_conviction_max_weight :: decimal
  st_risk_min_fill_fraction :: decimal
  st_risk_allow_fractional_quantity :: bool
  st_risk_default_quantity_precision :: int
  st_risk_max_active_proposals :: int
  st_risk_max_active_proposal_exposure_pct :: decimal
  st_risk_proposal_ttl_minutes :: int
  st_risk_max_reference_price_drift_pct :: decimal
  st_risk_max_exit_price_drift_pct :: decimal
  st_risk_min_research_confidence :: decimal
  st_risk_confidence_modulates_size :: bool
  st_risk_min_confidence_size_factor :: decimal
  st_risk_calibration_modulates_size :: bool
  st_risk_calibration_min_samples :: int
  st_risk_min_calibration_size_factor :: decimal
  st_risk_reduce_fraction :: decimal
  st_risk_exit_hard_stop_pct :: decimal
  st_risk_exit_trailing_pct :: decimal
  st_risk_exit_trailing_arm_pct :: decimal
  st_risk_exit_min_peak_observations :: int
  st_risk_exit_atr_multiplier :: decimal
  st_risk_exit_atr_period :: int
  st_risk_exit_atr_max_age_days :: int
  st_portfolio_rotation_min_candidate_confidence :: decimal
  st_portfolio_rotation_min_confidence_advantage :: decimal
  st_portfolio_rotation_interval_seconds :: decimal
  st_proposal_deferral_max_hours :: int
  st_exit_sweep_interval_seconds :: decimal
  st_volatility_refresh_interval_seconds :: decimal
  st_volatility_bars_days :: int
  st_memory_grade_interval_seconds :: decimal
  st_memory_standing_thesis_max_age_days :: int
  st_memory_benchmark_symbol :: string

text \<open>\<open>MarketSession(name)\<close>\<close>

definition market_session_of :: "string \<Rightarrow> market_session res" where
  "market_session_of name =
     (case find (\<lambda>m. market_session_value m = name)
             [market_session.PRE_MARKET, market_session.REGULAR, market_session.AFTER_HOURS,
              market_session.OVERNIGHT, market_session.CLOSED, market_session.UNKNOWN] of
        Some m \<Rightarrow> Inr m
      | None \<Rightarrow> Inl (ValueError (repr_str name @ '' is not a valid MarketSession'')))"

definition config_of_settings :: "settings \<Rightarrow> market_session list \<Rightarrow> risk_config" where
  "config_of_settings s sessions =
     \<lparr>rc_allowed_instrument_types = (if st_risk_allowed_instrument_types s = [] then DEFAULT_ALLOWED_INSTRUMENT_TYPES
         else st_risk_allowed_instrument_types s),
      rc_allowed_sessions = (if sessions = [] then DEFAULT_ALLOWED_SESSIONS else sessions),
      rc_require_known_session = st_risk_require_known_session s,
      rc_max_quote_age_seconds = st_market_data_max_quote_age_seconds s,
      rc_max_spread_bps = st_risk_max_spread_bps s,
      rc_spread_policy = st_risk_spread_policy s,
      rc_wide_spread_size_factor = st_risk_wide_spread_size_factor s,
      rc_max_account_state_age_seconds = st_risk_max_account_state_age_seconds s,
      rc_require_same_currency = st_risk_require_same_currency s,
      rc_max_notional_per_trade = st_risk_max_notional_per_trade s,
      rc_max_trade_pct_of_portfolio = st_risk_max_trade_pct s,
      rc_max_position_pct_of_portfolio = st_risk_max_position_pct s,
      rc_max_aggregate_exposure_pct = st_risk_max_aggregate_exposure_pct s,
      rc_min_cash_reserve_pct = st_risk_min_cash_reserve_pct s,
      rc_min_trade_notional = st_risk_min_trade_notional s,
      rc_sizing_mode = st_risk_sizing_mode s,
      rc_target_positions = st_risk_target_positions s,
      rc_conviction_full_confidence = st_risk_conviction_full_confidence s,
      rc_conviction_min_weight = st_risk_conviction_min_weight s,
      rc_conviction_max_weight = st_risk_conviction_max_weight s,
      rc_min_fill_fraction = st_risk_min_fill_fraction s,
      rc_allow_fractional_quantity = st_risk_allow_fractional_quantity s,
      rc_default_quantity_precision = st_risk_default_quantity_precision s,
      rc_max_active_proposals = st_risk_max_active_proposals s,
      rc_max_active_proposal_exposure_pct = st_risk_max_active_proposal_exposure_pct s,
      rc_proposal_ttl_minutes = st_risk_proposal_ttl_minutes s,
      rc_max_reference_price_drift_pct = st_risk_max_reference_price_drift_pct s,
      rc_max_exit_price_drift_pct = st_risk_max_exit_price_drift_pct s,
      rc_min_research_confidence = st_risk_min_research_confidence s,
      rc_confidence_modulates_size = st_risk_confidence_modulates_size s,
      rc_min_confidence_size_factor = st_risk_min_confidence_size_factor s,
      rc_calibration_modulates_size = st_risk_calibration_modulates_size s,
      rc_calibration_min_samples = st_risk_calibration_min_samples s,
      rc_min_calibration_size_factor = st_risk_min_calibration_size_factor s,
      rc_reduce_fraction = st_risk_reduce_fraction s,
      rc_allow_short_selling = False,
      rc_exit_hard_stop_pct = st_risk_exit_hard_stop_pct s,
      rc_exit_trailing_pct = st_risk_exit_trailing_pct s,
      rc_exit_trailing_arm_pct = st_risk_exit_trailing_arm_pct s,
      rc_exit_min_peak_observations = st_risk_exit_min_peak_observations s,
      rc_exit_roi_decay = DEFAULT_ROI_DECAY,
      rc_exit_atr_multiplier = st_risk_exit_atr_multiplier s,
      rc_exit_atr_period = st_risk_exit_atr_period s,
      rc_exit_atr_max_age_days = st_risk_exit_atr_max_age_days s\<rparr>"

definition risk_config_from_settings :: "settings \<Rightarrow> risk_config res" where
  "risk_config_from_settings s =
     bindE (mapE market_session_of (st_risk_allowed_sessions s)) (\<lambda>sessions.
       make_risk_config (config_of_settings s sessions))"

section \<open>Validation of the settings\<close>

definition problem :: "bool \<Rightarrow> string \<Rightarrow> string list" where
  "problem bad message = (if bad then [message] else [])"

definition got :: "string \<Rightarrow> string" where
  "got v = '' (got '' @ v @ '')''"

definition fraction_limits :: "settings \<Rightarrow> (string \<times> decimal) list" where
  "fraction_limits s =
     [(''RISK_MAX_TRADE_PCT'', st_risk_max_trade_pct s),
      (''RISK_MAX_POSITION_PCT'', st_risk_max_position_pct s),
      (''RISK_MAX_AGGREGATE_EXPOSURE_PCT'', st_risk_max_aggregate_exposure_pct s),
      (''RISK_MIN_CASH_RESERVE_PCT'', st_risk_min_cash_reserve_pct s),
      (''RISK_MAX_ACTIVE_PROPOSAL_EXPOSURE_PCT'', st_risk_max_active_proposal_exposure_pct s),
      (''RISK_MAX_REFERENCE_PRICE_DRIFT_PCT'', st_risk_max_reference_price_drift_pct s),
      (''RISK_MAX_EXIT_PRICE_DRIFT_PCT'', st_risk_max_exit_price_drift_pct s),
      (''RISK_MIN_RESEARCH_CONFIDENCE'', st_risk_min_research_confidence s),
      (''RISK_MIN_CONFIDENCE_SIZE_FACTOR'', st_risk_min_confidence_size_factor s),
      (''RISK_WIDE_SPREAD_SIZE_FACTOR'', st_risk_wide_spread_size_factor s),
      (''RISK_REDUCE_FRACTION'', st_risk_reduce_fraction s),
      (''PORTFOLIO_ROTATION_MIN_CANDIDATE_CONFIDENCE'', st_portfolio_rotation_min_candidate_confidence s),
      (''PORTFOLIO_ROTATION_MIN_CONFIDENCE_ADVANTAGE'', st_portfolio_rotation_min_confidence_advantage s)]"

definition invalid_risk :: "string list \<Rightarrow> unit res" where
  "invalid_risk problems =
     (if problems = [] then Inr ()
      else Inl (ValueError (''Invalid risk configuration: '' @ join ''; '' problems)))"

definition validate_risk_limits :: "settings \<Rightarrow> unit res" where
  "validate_risk_limits s = invalid_risk
     (concat (map (\<lambda>(name, v). problem (v < 0 \<or> 1 < v) (name @ '' must be between 0 and 1'' @ got (dec_str v)))
        (fraction_limits s))
      @ problem (st_risk_reduce_fraction s \<le> 0) ''RISK_REDUCE_FRACTION must be greater than 0''
      @ problem (\<not> (0 < st_risk_conviction_min_weight s
                     \<and> st_risk_conviction_min_weight s \<le> st_risk_conviction_max_weight s))
          (''RISK_CONVICTION_MIN_WEIGHT must be greater than 0 and not above ''
           @ ''RISK_CONVICTION_MAX_WEIGHT'')
      @ problem (\<not> (st_risk_min_research_confidence s < st_risk_conviction_full_confidence s
                     \<and> st_risk_conviction_full_confidence s \<le> 1))
          (''RISK_CONVICTION_FULL_CONFIDENCE must be above RISK_MIN_RESEARCH_CONFIDENCE ''
           @ ''and at most 1'')
      @ problem (\<not> (0 \<le> st_risk_min_fill_fraction s \<and> st_risk_min_fill_fraction s \<le> 1))
          ''RISK_MIN_FILL_FRACTION must be between 0 and 1''
      @ problem (st_portfolio_rotation_interval_seconds s \<le> 0)
          ''PORTFOLIO_ROTATION_INTERVAL_SECONDS must be greater than 0''
      @ problem (st_risk_max_spread_bps s \<le> 0) ''RISK_MAX_SPREAD_BPS must be greater than 0''
      @ problem (st_risk_max_notional_per_trade s \<le> 0)
          ''RISK_MAX_NOTIONAL_PER_TRADE must be greater than 0''
      @ problem (st_risk_min_trade_notional s < 0) ''RISK_MIN_TRADE_NOTIONAL must not be negative''
      @ problem (st_risk_proposal_ttl_minutes s \<le> 0)
          ''RISK_PROPOSAL_TTL_MINUTES must be greater than 0''
      @ problem (\<not> (1 \<le> st_proposal_deferral_max_hours s \<and> st_proposal_deferral_max_hours s \<le> 336))
          (''PROPOSAL_DEFERRAL_MAX_HOURS must be between 1 and 336''
           @ got (show_int (st_proposal_deferral_max_hours s)))
      @ problem (st_risk_max_active_proposals s \<le> 0)
          ''RISK_MAX_ACTIVE_PROPOSALS must be greater than 0''
      @ problem (\<not> (0 \<le> st_risk_default_quantity_precision s \<and> st_risk_default_quantity_precision s \<le> 8))
          (''RISK_DEFAULT_QUANTITY_PRECISION must be between 0 and 8''
           @ got (show_int (st_risk_default_quantity_precision s)))
      @ problem (st_risk_calibration_min_samples s < 3)
          (''RISK_CALIBRATION_MIN_SAMPLES must be at least 3''
           @ got (show_int (st_risk_calibration_min_samples s)))
      @ problem (\<not> (0 < st_risk_min_calibration_size_factor s \<and> st_risk_min_calibration_size_factor s \<le> 1))
          (''RISK_MIN_CALIBRATION_SIZE_FACTOR must be in (0, 1]''
           @ got (dec_str (st_risk_min_calibration_size_factor s)))
      @ problem (st_risk_max_account_state_age_seconds s \<le> 0)
          ''RISK_MAX_ACCOUNT_STATE_AGE_SECONDS must be greater than 0'')"

definition validate_exit_policy :: "settings \<Rightarrow> unit res" where
  "validate_exit_policy s = bindE (invalid_risk
     (problem (\<not> (0 < st_risk_exit_hard_stop_pct s \<and> st_risk_exit_hard_stop_pct s < 1))
        (''RISK_EXIT_HARD_STOP_PCT must be between 0 and 1, exclusive''
         @ got (dec_str (st_risk_exit_hard_stop_pct s)))
      @ problem (\<not> (0 < st_risk_exit_trailing_pct s \<and> st_risk_exit_trailing_pct s < 1))
          (''RISK_EXIT_TRAILING_PCT must be between 0 and 1, exclusive''
           @ got (dec_str (st_risk_exit_trailing_pct s)))
      @ problem (\<not> (0 \<le> st_risk_exit_trailing_arm_pct s \<and> st_risk_exit_trailing_arm_pct s < 1))
          (''RISK_EXIT_TRAILING_ARM_PCT must be at least 0 and below 1''
           @ got (dec_str (st_risk_exit_trailing_arm_pct s)))
      @ problem (\<not> (1 \<le> st_risk_exit_min_peak_observations s \<and> st_risk_exit_min_peak_observations s \<le> 100))
          (''RISK_EXIT_MIN_PEAK_OBSERVATIONS must be between 1 and 100''
           @ got (show_int (st_risk_exit_min_peak_observations s)))
      @ problem (\<not> (dec_of_int 30 \<le> st_exit_sweep_interval_seconds s
                     \<and> st_exit_sweep_interval_seconds s \<le> dec_of_int 3600))
          (''EXIT_SWEEP_INTERVAL_SECONDS must be between 30 and 3600''
           @ got (dec_str (st_exit_sweep_interval_seconds s)))))
     (\<lambda>_. if st_risk_exit_trailing_arm_pct s \<le> st_risk_exit_trailing_pct s
          then Inl (ValueError
            (''RISK_EXIT_TRAILING_PCT must be below RISK_EXIT_TRAILING_ARM_PCT: a floor ''
             @ dec_str (st_risk_exit_trailing_pct s) @ '' below a peak armed at ''
             @ dec_str (st_risk_exit_trailing_arm_pct s) @ '' would already be under the entry price''))
          else Inr ())"

definition validate_volatility_policy :: "settings \<Rightarrow> unit res" where
  "validate_volatility_policy s = bindE (invalid_risk
     (problem (\<not> (0 < st_risk_exit_atr_multiplier s \<and> st_risk_exit_atr_multiplier s \<le> dec_of_int 10))
        (''RISK_EXIT_ATR_MULTIPLIER must be above 0 and at most 10''
         @ got (dec_str (st_risk_exit_atr_multiplier s)))
      @ problem (\<not> (2 \<le> st_risk_exit_atr_period s \<and> st_risk_exit_atr_period s \<le> 60))
          (''RISK_EXIT_ATR_PERIOD must be between 2 and 60'' @ got (show_int (st_risk_exit_atr_period s)))
      @ problem (\<not> (1 \<le> st_risk_exit_atr_max_age_days s \<and> st_risk_exit_atr_max_age_days s \<le> 14))
          (''RISK_EXIT_ATR_MAX_AGE_DAYS must be between 1 and 14''
           @ got (show_int (st_risk_exit_atr_max_age_days s)))
      @ problem (\<not> (dec_of_int 3600 \<le> st_volatility_refresh_interval_seconds s
                     \<and> st_volatility_refresh_interval_seconds s \<le> dec_of_int 86400))
          (''VOLATILITY_REFRESH_INTERVAL_SECONDS must be between 3600 and 86400''
           @ got (dec_str (st_volatility_refresh_interval_seconds s)))
      @ problem (\<not> (30 \<le> st_volatility_bars_days s \<and> st_volatility_bars_days s \<le> 365))
          (''VOLATILITY_BARS_DAYS must be between 30 and 365'' @ got (show_int (st_volatility_bars_days s)))
      @ problem (\<not> (dec_of_int 3600 \<le> st_memory_grade_interval_seconds s
                     \<and> st_memory_grade_interval_seconds s \<le> dec_of_int 86400))
          (''MEMORY_GRADE_INTERVAL_SECONDS must be between 3600 and 86400''
           @ got (dec_str (st_memory_grade_interval_seconds s)))
      @ problem (\<not> (1 \<le> st_memory_standing_thesis_max_age_days s
                     \<and> st_memory_standing_thesis_max_age_days s \<le> 90))
          (''MEMORY_STANDING_THESIS_MAX_AGE_DAYS must be between 1 and 90''
           @ got (show_int (st_memory_standing_thesis_max_age_days s)))
      @ problem (strip (st_memory_benchmark_symbol s) = [])
          ''MEMORY_BENCHMARK_SYMBOL must not be empty''))
     (\<lambda>_. if st_volatility_bars_days s < 2 * st_risk_exit_atr_period s + 7
          then Inl (ValueError
            (''VOLATILITY_BARS_DAYS must be at least twice RISK_EXIT_ATR_PERIOD plus ''
             @ ''seven, because the ATR window counts trading days and Yahoo'' @ [CHR 0x27] @ ''s period ''
             @ ''counts calendar days (got '' @ show_int (st_volatility_bars_days s) @ '' days for a ''
             @ show_int (st_risk_exit_atr_period s) @ ''-day period)''))
          else Inr ())"

section \<open>Facts\<close>

lemma invalid_risk_Inr [simp]: "invalid_risk ps = Inr u \<longleftrightarrow> ps = []"
  by (simp add: invalid_risk_def)

lemma problem_Nil [simp]: "problem bad m = [] \<longleftrightarrow> \<not> bad"
  by (simp add: problem_def)

lemma make_risk_config_Inr:
  "make_risk_config c = Inr c' \<longleftrightarrow> c' = c \<and> (rc_spread_policy c = SPREAD_BLOCK \<or> rc_spread_policy c = SPREAD_REDUCE)"
  by (auto simp: make_risk_config_def SPREAD_ALL_def)

lemma market_session_of_value [simp]: "market_session_of (market_session_value m) = Inr m"
  by (cases m) (simp_all add: market_session_of_def)

text \<open>The limits the engine's arguments rest on.\<close>

definition unit_fraction :: "decimal \<Rightarrow> bool" where
  "unit_fraction d = (0 \<le> dval d \<and> dval d \<le> 1)"

definition risk_limits_ok :: "risk_config \<Rightarrow> bool" where
  "risk_limits_ok c =
     (unit_fraction (rc_max_trade_pct_of_portfolio c) \<and> unit_fraction (rc_max_position_pct_of_portfolio c)
      \<and> unit_fraction (rc_max_aggregate_exposure_pct c) \<and> unit_fraction (rc_min_cash_reserve_pct c)
      \<and> unit_fraction (rc_max_active_proposal_exposure_pct c)
      \<and> unit_fraction (rc_min_research_confidence c) \<and> unit_fraction (rc_min_confidence_size_factor c)
      \<and> unit_fraction (rc_wide_spread_size_factor c) \<and> unit_fraction (rc_min_fill_fraction c)
      \<and> 0 < dval (rc_reduce_fraction c) \<and> dval (rc_reduce_fraction c) \<le> 1
      \<and> 0 < dval (rc_conviction_min_weight c)
      \<and> dval (rc_conviction_min_weight c) \<le> dval (rc_conviction_max_weight c)
      \<and> dval (rc_min_research_confidence c) < dval (rc_conviction_full_confidence c)
      \<and> dval (rc_conviction_full_confidence c) \<le> 1
      \<and> 0 < dval (rc_max_spread_bps c) \<and> 0 < dval (rc_max_notional_per_trade c)
      \<and> 0 \<le> dval (rc_min_trade_notional c) \<and> 0 < rc_max_active_proposals c
      \<and> 0 \<le> rc_default_quantity_precision c \<and> rc_default_quantity_precision c \<le> 8
      \<and> 3 \<le> rc_calibration_min_samples c
      \<and> 0 < dval (rc_min_calibration_size_factor c) \<and> dval (rc_min_calibration_size_factor c) \<le> 1)"

definition exit_policy_ok :: "risk_config \<Rightarrow> bool" where
  "exit_policy_ok c =
     (0 < dval (rc_exit_hard_stop_pct c) \<and> dval (rc_exit_hard_stop_pct c) < 1
      \<and> 0 < dval (rc_exit_trailing_pct c) \<and> dval (rc_exit_trailing_pct c) < dval (rc_exit_trailing_arm_pct c)
      \<and> dval (rc_exit_trailing_arm_pct c) < 1
      \<and> 1 \<le> rc_exit_min_peak_observations c
      \<and> 0 < dval (rc_exit_atr_multiplier c) \<and> dval (rc_exit_atr_multiplier c) \<le> 10
      \<and> 2 \<le> rc_exit_atr_period c \<and> 1 \<le> rc_exit_atr_max_age_days c)"

text \<open>
  C22: settings that pass the three validators give a configuration every engine argument can rest
  on: all fractions in the unit interval, a positive reduce fraction, ordered conviction weights,
  a trailing distance below its arm threshold, and never an empty list of instrument types or
  sessions, never short selling.
\<close>

theorem validated_settings_config:
  assumes "validate_risk_limits s = Inr u" "validate_exit_policy s = Inr v"
    "validate_volatility_policy s = Inr w" "risk_config_from_settings s = Inr c"
  shows "risk_limits_ok c \<and> exit_policy_ok c \<and> rc_allowed_instrument_types c \<noteq> []
    \<and> rc_allowed_sessions c \<noteq> [] \<and> \<not> rc_allow_short_selling c
    \<and> rc_exit_roi_decay c = DEFAULT_ROI_DECAY"
proof -
  obtain sessions where "make_risk_config (config_of_settings s sessions) = Inr c"
    using assms(4) by (auto simp: risk_config_from_settings_def bindE_eq_Inr)
  then have c: "c = config_of_settings s sessions" by (simp add: make_risk_config_Inr)
  have "risk_limits_ok c"
    using assms(1) unfolding validate_risk_limits_def fraction_limits_def risk_limits_ok_def unit_fraction_def
    by (simp add: c config_of_settings_def dec_simps linorder_not_less)
  moreover have "exit_policy_ok c"
    using assms(2,3) unfolding validate_exit_policy_def validate_volatility_policy_def exit_policy_ok_def bindE_eq_Inr
    by (simp add: c config_of_settings_def dec_simps linorder_not_less linorder_not_le split: if_splits)
  ultimately show ?thesis
    by (simp add: c config_of_settings_def DEFAULT_ALLOWED_SESSIONS_def DEFAULT_ALLOWED_INSTRUMENT_TYPES_def)
qed

definition default_settings :: settings where
  "default_settings =
     \<lparr>st_market_data_max_quote_age_seconds = dec_of_int 15,
      st_risk_allowed_instrument_types = DEFAULT_ALLOWED_INSTRUMENT_TYPES,
      st_risk_allowed_sessions = [''REGULAR''],
      st_risk_require_known_session = True,
      st_risk_max_spread_bps = dec_of_int 50,
      st_risk_spread_policy = SPREAD_BLOCK,
      st_risk_wide_spread_size_factor = Dec 5 (- 1),
      st_risk_max_account_state_age_seconds = dec_of_int 300,
      st_risk_require_same_currency = True,
      st_risk_max_notional_per_trade = dec_of_int 500,
      st_risk_max_trade_pct = Dec 2 (- 2),
      st_risk_max_position_pct = Dec 3 (- 2),
      st_risk_max_aggregate_exposure_pct = Dec 60 (- 2),
      st_risk_min_cash_reserve_pct = Dec 10 (- 2),
      st_risk_min_trade_notional = dec_of_int 20,
      st_risk_sizing_mode = ''cap'',
      st_risk_target_positions = 8,
      st_risk_conviction_full_confidence = Dec 90 (- 2),
      st_risk_conviction_min_weight = Dec 75 (- 2),
      st_risk_conviction_max_weight = Dec 20 (- 1),
      st_risk_min_fill_fraction = Dec 5 (- 1),
      st_risk_allow_fractional_quantity = False,
      st_risk_default_quantity_precision = 2,
      st_risk_max_active_proposals = 5,
      st_risk_max_active_proposal_exposure_pct = Dec 10 (- 2),
      st_risk_proposal_ttl_minutes = 30,
      st_risk_max_reference_price_drift_pct = Dec 1 (- 2),
      st_risk_max_exit_price_drift_pct = Dec 5 (- 2),
      st_risk_min_research_confidence = Dec 70 (- 2),
      st_risk_confidence_modulates_size = True,
      st_risk_min_confidence_size_factor = Dec 5 (- 1),
      st_risk_calibration_modulates_size = True,
      st_risk_calibration_min_samples = 10,
      st_risk_min_calibration_size_factor = Dec 5 (- 1),
      st_risk_reduce_fraction = Dec 5 (- 1),
      st_risk_exit_hard_stop_pct = Dec 8 (- 2),
      st_risk_exit_trailing_pct = Dec 5 (- 2),
      st_risk_exit_trailing_arm_pct = Dec 10 (- 2),
      st_risk_exit_min_peak_observations = 3,
      st_risk_exit_atr_multiplier = dec_of_int 3,
      st_risk_exit_atr_period = 14,
      st_risk_exit_atr_max_age_days = 3,
      st_portfolio_rotation_min_candidate_confidence = Dec 85 (- 2),
      st_portfolio_rotation_min_confidence_advantage = Dec 10 (- 2),
      st_portfolio_rotation_interval_seconds = dec_of_int 300,
      st_proposal_deferral_max_hours = 72,
      st_exit_sweep_interval_seconds = dec_of_int 300,
      st_volatility_refresh_interval_seconds = dec_of_int 21600,
      st_volatility_bars_days = 90,
      st_memory_grade_interval_seconds = dec_of_int 21600,
      st_memory_standing_thesis_max_age_days = 14,
      st_memory_benchmark_symbol = ''SPY''\<rparr>"

lemma validated_settings_config_witness: "risk_limits_ok default_risk_config \<and> exit_policy_ok default_risk_config"
proof -
  have "validate_risk_limits default_settings = Inr ()" "validate_exit_policy default_settings = Inr ()"
    "validate_volatility_policy default_settings = Inr ()"
    "risk_config_from_settings default_settings = Inr default_risk_config"
    by code_simp+
  then show ?thesis using validated_settings_config by blast
qed

end
