(* ===== verification/Fx_Base.thy ===== *)
theory Fx_Base
  imports Enums
begin

text \<open>
  \<open>backend/stockbrain/fx/base.py\<close>: a measured exchange rate, the conversions it allows, and
  \<open>fx_blockers\<close>, the single predicate that says whether a rate may size a trade. The network
  providers behind the \<open>FxRateProvider\<close> protocol are not modelled: a rate arrives as a value.
\<close>

section \<open>Vocabulary\<close>

datatype fx_rate_grade =
    EXECUTION
  | REFERENCE

fun fx_rate_grade_value :: "fx_rate_grade \<Rightarrow> string" where
  "fx_rate_grade_value fx_rate_grade.EXECUTION = ''EXECUTION''"
| "fx_rate_grade_value fx_rate_grade.REFERENCE = ''REFERENCE''"

datatype fx_direction =
    DIRECT
  | INVERTED
  | IDENTITY

fun fx_direction_value :: "fx_direction \<Rightarrow> string" where
  "fx_direction_value fx_direction.DIRECT = ''DIRECT''"
| "fx_direction_value fx_direction.INVERTED = ''INVERTED''"
| "fx_direction_value fx_direction.IDENTITY = ''IDENTITY''"

definition normalize_currency :: "string option \<Rightarrow> string" where
  "normalize_currency code = upper (strip (or_else code []))"

definition currency_pair :: "string \<Rightarrow> string \<Rightarrow> string" where
  "currency_pair base quote =
     normalize_currency (Some base) @ normalize_currency (Some quote)"

section \<open>Conversions and rates\<close>

record fx_conversion =
  cv_amount :: decimal
  cv_from_currency :: string
  cv_to_currency :: string
  cv_converted :: decimal
  cv_rate :: decimal
  cv_direction :: fx_direction
  cv_provider :: string
  cv_base_currency :: string
  cv_quote_currency :: string
  cv_grade :: fx_rate_grade
  cv_provider_timestamp :: instant
  cv_received_at :: instant
  cv_age_seconds :: decimal

definition fx_conversion_as_dict :: "fx_conversion \<Rightarrow> json" where
  "fx_conversion_as_dict c = JObj
     [(''amount'', jdec (cv_amount c)),
      (''from_currency'', JStr (cv_from_currency c)),
      (''to_currency'', JStr (cv_to_currency c)),
      (''converted'', jdec (cv_converted c)),
      (''rate'', jdec (cv_rate c)),
      (''direction'', JStr (fx_direction_value (cv_direction c))),
      (''provider'', JStr (cv_provider c)),
      (''base_currency'', JStr (cv_base_currency c)),
      (''quote_currency'', JStr (cv_quote_currency c)),
      (''pair'', JStr (currency_pair (cv_base_currency c) (cv_quote_currency c))),
      (''grade'', JStr (fx_rate_grade_value (cv_grade c))),
      (''provider_timestamp'', jtime (cv_provider_timestamp c)),
      (''received_at'', jtime (cv_received_at c)),
      (''age_seconds'', jdec (cv_age_seconds c))]"

record fx_rate =
  fr_base_currency :: string
  fr_quote_currency :: string
  fr_rate :: decimal
  fr_provider :: string
  fr_grade :: fx_rate_grade
  fr_provider_timestamp :: instant
  fr_received_at :: instant
  fr_rate_type :: string
  fr_bid :: "decimal option"
  fr_ask :: "decimal option"
  fr_timestamp_precision :: string

text \<open>Construction runs \<open>__post_init__\<close>, which refuses a rate that measures nothing.\<close>

definition make_fx_rate :: "fx_rate \<Rightarrow> fx_rate res" where
  "make_fx_rate r =
     (if fr_rate r \<le> 0
      then Inl (ValueError
        (''an FX rate must be positive (got '' @ dec_str (fr_rate r) @ '' for ''
         @ fr_base_currency r @ ''/'' @ fr_quote_currency r @ '')''))
      else if normalize_currency (Some (fr_base_currency r))
                = normalize_currency (Some (fr_quote_currency r))
      then Inl (ValueError
        (''a measured FX rate must have two different currencies; use ''
         @ ''identity_rate() for a same-currency conversion''))
      else Inr r)"

definition fr_pair :: "fx_rate \<Rightarrow> string" where
  "fr_pair r = currency_pair (fr_base_currency r) (fr_quote_currency r)"

definition fr_age_seconds :: "fx_rate \<Rightarrow> instant \<Rightarrow> decimal" where
  "fr_age_seconds r now = elapsed_seconds now (fr_provider_timestamp r)"

definition fr_supports :: "fx_rate \<Rightarrow> string \<Rightarrow> string \<Rightarrow> bool" where
  "fr_supports r from_currency to_currency =
     (let source = normalize_currency (Some from_currency);
          target = normalize_currency (Some to_currency);
          base = normalize_currency (Some (fr_base_currency r));
          quote = normalize_currency (Some (fr_quote_currency r))
      in (source, target) \<in> {(base, quote), (quote, base)})"

definition fr_convert ::
  "fx_rate \<Rightarrow> decimal \<Rightarrow> string \<Rightarrow> string \<Rightarrow> instant \<Rightarrow> fx_conversion res" where
  "fr_convert r amount from_currency to_currency now =
     (let source = normalize_currency (Some from_currency);
          target = normalize_currency (Some to_currency);
          base = normalize_currency (Some (fr_base_currency r));
          quote = normalize_currency (Some (fr_quote_currency r))
      in if source = target
         then Inl (FxPairMismatchError
           (''a same-currency conversion must not consult a measured rate; use ''
            @ ''identity_rate()''))
         else bindE
           (if (source, target) = (base, quote)
            then Inr (amount * fr_rate r, fx_direction.DIRECT)
            else if (source, target) = (quote, base)
            then bindE (ddiv amount (fr_rate r)) (\<lambda>q. Inr (q, fx_direction.INVERTED))
            else Inl (FxPairMismatchError
              (''the '' @ fr_pair r @ '' rate from '' @ fr_provider r @ '' cannot convert ''
               @ source @ '' to '' @ target @ '': StockBrain never chains rates through a ''
               @ ''third currency'')))
           (\<lambda>(converted, direction). Inr
              \<lparr>cv_amount = amount, cv_from_currency = source, cv_to_currency = target,
               cv_converted = converted, cv_rate = fr_rate r, cv_direction = direction,
               cv_provider = fr_provider r, cv_base_currency = base, cv_quote_currency = quote,
               cv_grade = fr_grade r, cv_provider_timestamp = fr_provider_timestamp r,
               cv_received_at = fr_received_at r, cv_age_seconds = fr_age_seconds r now\<rparr>))"

definition fx_rate_as_dict :: "fx_rate \<Rightarrow> json" where
  "fx_rate_as_dict r = JObj
     [(''base_currency'', JStr (normalize_currency (Some (fr_base_currency r)))),
      (''quote_currency'', JStr (normalize_currency (Some (fr_quote_currency r)))),
      (''pair'', JStr (fr_pair r)),
      (''rate'', jdec (fr_rate r)),
      (''rate_type'', JStr (fr_rate_type r)),
      (''bid'', jopt jdec (fr_bid r)),
      (''ask'', jopt jdec (fr_ask r)),
      (''provider'', JStr (fr_provider r)),
      (''grade'', JStr (fx_rate_grade_value (fr_grade r))),
      (''provider_timestamp'', jtime (fr_provider_timestamp r)),
      (''provider_timestamp_precision'', JStr (fr_timestamp_precision r)),
      (''received_at'', jtime (fr_received_at r))]"

definition identity_rate :: "string \<Rightarrow> instant \<Rightarrow> fx_conversion" where
  "identity_rate currency now =
     (let code = normalize_currency (Some currency)
      in \<lparr>cv_amount = dec_of_int 0, cv_from_currency = code, cv_to_currency = code,
          cv_converted = dec_of_int 0, cv_rate = dec_of_int 1,
          cv_direction = fx_direction.IDENTITY, cv_provider = ''identity'',
          cv_base_currency = code, cv_quote_currency = code,
          cv_grade = fx_rate_grade.EXECUTION, cv_provider_timestamp = now,
          cv_received_at = now, cv_age_seconds = dec_of_int 0\<rparr>)"

section \<open>Whether a rate may size a trade\<close>

text \<open>
  \<open>missing_reason or (...)\<close> replaces an absent or empty reason by the default text.
\<close>

definition fx_blockers ::
  "fx_rate option \<Rightarrow> string \<Rightarrow> string \<Rightarrow> instant \<Rightarrow> decimal \<Rightarrow> decimal \<Rightarrow> bool
     \<Rightarrow> string option \<Rightarrow> string list" where
  "fx_blockers rate from_currency to_currency now max_age_seconds reference_max_age_seconds
     allow_reference_grade missing_reason =
     (let source = normalize_currency (Some from_currency);
          target = normalize_currency (Some to_currency)
      in if source = [] \<or> target = []
         then [''the instrument or account currency is unknown, so no conversion is defined'']
         else if source = target then []
         else case rate of
           None \<Rightarrow>
             [if or_else missing_reason [] \<noteq> [] then or_else missing_reason []
              else ''no FX rate is available for '' @ source @ ''->'' @ target
                @ ''; cross-currency sizing is blocked rather than assuming a rate'']
         | Some r \<Rightarrow>
             if \<not> fr_supports r source target
             then [''the available rate measures '' @ fr_pair r @ '', which cannot convert ''
                   @ source @ '' to '' @ target @ '' without chaining through a third currency'']
             else
               (if fr_grade r = fx_rate_grade.REFERENCE \<and> \<not> allow_reference_grade
                then [''the '' @ fr_provider r @ '' rate is a ''
                      @ lower (fx_rate_grade_value (fr_grade r))
                      @ ''-grade fixing, not a dealable quote; set ''
                      @ ''FX_ALLOW_REFERENCE_GRADE=true to size against it knowingly'']
                else [])
               @ (let limit = (if fr_grade r = fx_rate_grade.REFERENCE
                               then reference_max_age_seconds else max_age_seconds);
                      age = fr_age_seconds r now
                  in if limit < age
                     then [''the '' @ fr_pair r @ '' rate is '' @ dec_str age
                           @ ''s old, older than the '' @ dec_str limit @ ''s limit for a ''
                           @ lower (fx_rate_grade_value (fr_grade r)) @ ''-grade source'']
                     else []))"

record fx_capability =
  cap_provider :: string
  cap_grade :: "fx_rate_grade option"
  cap_blockers :: "string list"
  cap_detail :: "string option"

definition cap_available :: "fx_capability \<Rightarrow> bool" where
  "cap_available c = (cap_blockers c = [])"

definition fx_capability_as_dict :: "fx_capability \<Rightarrow> json" where
  "fx_capability_as_dict c = JObj
     [(''provider'', JStr (cap_provider c)),
      (''grade'', jopt (\<lambda>g. JStr (fx_rate_grade_value g)) (cap_grade c)),
      (''available'', JBool (cap_available c)),
      (''blockers'', JList (map JStr (cap_blockers c))),
      (''detail'', jopt JStr (cap_detail c))]"

section \<open>Facts\<close>

lemma normalize_idem [simp]:
  "normalize_currency (Some (normalize_currency c)) = normalize_currency c"
  by (simp add: normalize_currency_def upper_strip)

lemma make_fx_rate_Inr:
  "make_fx_rate r = Inr r' \<longleftrightarrow> r' = r \<and> 0 < dval (fr_rate r)
    \<and> normalize_currency (Some (fr_base_currency r)) \<noteq> normalize_currency (Some (fr_quote_currency r))"
  by (auto simp: make_fx_rate_def dec_le_iff)

lemma fr_convert_ok:
  "make_fx_rate r = Inr r' \<Longrightarrow> okE (fr_convert r amount src dst now) \<longleftrightarrow> fr_supports r src dst"
  by (auto simp: fr_convert_def fr_supports_def make_fx_rate_Inr okE_conv bindE_eq_Inr ddiv_Inr Let_def)

text \<open>
  A conversion happens exactly over the measured pair. For a rate the constructor accepts,
  \<open>convert\<close> succeeds exactly when the two currencies are the pair, in either order; it then
  multiplies in the measured direction and divides in the other, records the rate's own
  provenance, and never chains through a third currency.
\<close>

lemma fx_convert_measured_pair:
  assumes "make_fx_rate r = Inr r'"
  shows "(okE (fr_convert r amount src dst now) \<longleftrightarrow> fr_supports r src dst)
    \<and> (\<forall>c. fr_convert r amount src dst now = Inr c \<longrightarrow>
      cv_converted c = (if normalize_currency (Some src) = normalize_currency (Some (fr_base_currency r))
                        then amount * fr_rate r else dquot amount (fr_rate r))
      \<and> cv_direction c \<noteq> fx_direction.IDENTITY \<and> cv_rate c = fr_rate r
      \<and> cv_provider c = fr_provider r \<and> cv_grade c = fr_grade r
      \<and> {cv_from_currency c, cv_to_currency c} = {cv_base_currency c, cv_quote_currency c})"
  using assms
  by (auto simp: fr_convert_def fr_supports_def make_fx_rate_Inr okE_conv bindE_eq_Inr ddiv_Inr Let_def
      split: if_splits)

definition gbpusd :: fx_rate where
  "gbpusd = \<lparr>fr_base_currency = ''GBP'', fr_quote_currency = ''USD'', fr_rate = Dec 135 (-2),
     fr_provider = ''alpaca'', fr_grade = fx_rate_grade.EXECUTION,
     fr_provider_timestamp = 0, fr_received_at = 1000000, fr_rate_type = ''mid'',
     fr_bid = None, fr_ask = None, fr_timestamp_precision = ''instant''\<rparr>"

lemma make_gbpusd: "make_fx_rate gbpusd = Inr gbpusd"
  by code_simp

lemma fx_convert_measured_pair_witness:
  "okE (fr_convert gbpusd (Dec 100 0) '' usd'' ''gbp'' 5)
    \<and> \<not> okE (fr_convert gbpusd (Dec 100 0) ''EUR'' ''USD'' 5)"
proof -
  note ok = fx_convert_measured_pair[OF make_gbpusd, THEN conjunct1]
  have "fr_supports gbpusd '' usd'' ''gbp''" "\<not> fr_supports gbpusd ''EUR'' ''USD''"
    by code_simp+
  then show ?thesis unfolding ok by (rule conjI)
qed

definition rate_usable ::
  "fx_rate \<Rightarrow> string \<Rightarrow> string \<Rightarrow> instant \<Rightarrow> decimal \<Rightarrow> decimal \<Rightarrow> bool \<Rightarrow> bool" where
  "rate_usable r source target now max_age reference_max_age allow_reference =
     (fr_supports r source target
      \<and> (fr_grade r = fx_rate_grade.REFERENCE \<longrightarrow> allow_reference)
      \<and> dval (fr_age_seconds r now)
          \<le> dval (if fr_grade r = fx_rate_grade.REFERENCE then reference_max_age else max_age))"

text \<open>
  \<open>fx_blockers\<close> is complete. The list is empty exactly when both currencies are known and
  either they are the same, or a rate was supplied that measures this pair, is execution-grade
  or explicitly permitted, and is no older than the limit of its grade.
\<close>

lemma fx_blockers_empty_iff:
  "fx_blockers rate src dst now max_age reference_max_age allow_reference why = [] \<longleftrightarrow>
     normalize_currency (Some src) \<noteq> [] \<and> normalize_currency (Some dst) \<noteq> []
     \<and> (normalize_currency (Some src) = normalize_currency (Some dst)
        \<or> (\<exists>r. rate = Some r \<and> rate_usable r (normalize_currency (Some src))
              (normalize_currency (Some dst)) now max_age reference_max_age allow_reference))"
proof (cases rate)
  case None
  then show ?thesis by (simp add: fx_blockers_def Let_def)
next
  case (Some r)
  show ?thesis
    by (cases "fr_supports r (normalize_currency (Some src)) (normalize_currency (Some dst))";
        cases "fr_grade r = fx_rate_grade.REFERENCE")
      (simp_all add: Some fx_blockers_def rate_usable_def dec_less_iff Let_def linorder_not_less)
qed

end
