(* ===== verification/Spread.thy ===== *)
theory Spread
  imports Enums
begin

text \<open>
  \<open>backend/stockbrain/risk/spread.py\<close>: the classification of a bid/ask pair against a ceiling in
  basis points of the mid. The two displayed ratios are quantised, which would raise for a ratio of more than 28
  digits; the threshold test itself never divides by the mid. The sides and the ceiling are finite decimals: in the
  source a \<open>NaN\<close> side raises at its first comparison, and an infinite ask over a finite bid at the division.
\<close>

record spread_assessment =
  sa_status :: spread_status
  sa_bid :: "decimal option"
  sa_ask :: "decimal option"
  sa_spread :: "decimal option"
  sa_mid :: "decimal option"
  sa_spread_pct :: "decimal option"
  sa_spread_bps :: "decimal option"
  sa_ceiling_bps :: "decimal option"
  sa_detail :: string

definition BPS :: decimal where
  "BPS = dec_of_int 10000"

definition sa_is_ok :: "spread_assessment \<Rightarrow> bool" where
  "sa_is_ok a = (sa_status a = spread_status.OK)"

definition sa_is_merely_wide :: "spread_assessment \<Rightarrow> bool" where
  "sa_is_merely_wide a = (sa_status a = spread_status.EXCESSIVE)"

definition spread_as_dict :: "spread_assessment \<Rightarrow> json" where
  "spread_as_dict a = JObj
     [(''status'', JStr (spread_status_value (sa_status a))),
      (''bid'', jopt jdec (sa_bid a)),
      (''ask'', jopt jdec (sa_ask a)),
      (''spread'', jopt jdec (sa_spread a)),
      (''mid'', jopt jdec (sa_mid a)),
      (''spread_pct'', jopt jdec (sa_spread_pct a)),
      (''spread_bps'', jopt jdec (sa_spread_bps a)),
      (''ceiling_bps'', jopt jdec (sa_ceiling_bps a)),
      (''detail'', JStr (sa_detail a))]"

text \<open>A book without a usable mid: only its sides, the ceiling and the reason are recorded.\<close>

definition unusable ::
  "spread_status \<Rightarrow> decimal option \<Rightarrow> decimal option \<Rightarrow> decimal \<Rightarrow> string \<Rightarrow> spread_assessment" where
  "unusable status bid ask ceil detail =
     \<lparr>sa_status = status, sa_bid = bid, sa_ask = ask, sa_spread = None, sa_mid = None,
      sa_spread_pct = None, sa_spread_bps = None, sa_ceiling_bps = Some ceil,
      sa_detail = detail\<rparr>"

text \<open>A book with both sides live.\<close>

definition measured ::
  "spread_status \<Rightarrow> decimal \<Rightarrow> decimal \<Rightarrow> decimal \<Rightarrow> decimal \<Rightarrow> decimal option \<Rightarrow> decimal option
     \<Rightarrow> decimal \<Rightarrow> string \<Rightarrow> spread_assessment" where
  "measured status bid ask spread mid pct bps ceil detail =
     \<lparr>sa_status = status, sa_bid = Some bid, sa_ask = Some ask, sa_spread = Some spread,
      sa_mid = Some mid, sa_spread_pct = pct, sa_spread_bps = bps,
      sa_ceiling_bps = Some ceil, sa_detail = detail\<rparr>"

definition assess_spread ::
  "decimal option \<Rightarrow> decimal option \<Rightarrow> decimal \<Rightarrow> spread_assessment res" where
  "assess_spread bid_opt ask_opt ceil =
     (case (bid_opt, ask_opt) of
        (Some bid, Some ask) \<Rightarrow>
          let bid_live = 0 < bid; ask_live = 0 < ask
          in if \<not> bid_live \<and> \<not> ask_live
             then Inr (unusable spread_status.NON_POSITIVE bid_opt ask_opt ceil
               ''neither side of the quote carries a positive price'')
             else if \<not> (bid_live \<and> ask_live)
             then Inr (unusable spread_status.ONE_SIDED bid_opt ask_opt ceil
               ''only one side of the quote carries a positive price'')
             else
               let spread = ask - bid
               in bindE (ddiv (bid + ask) (dec_of_int 2)) (\<lambda>mid.
                 if spread < 0
                 then Inr (measured spread_status.CROSSED bid ask spread mid None None ceil
                   (''crossed market: ask '' @ dec_str ask @ '' is below bid '' @ dec_str bid))
                 else if dec_eq spread 0
                 then Inr (measured spread_status.LOCKED bid ask spread mid
                   (Some (dec_of_int 0)) (Some (dec_of_int 0)) ceil
                   (''locked market: bid and ask are both '' @ dec_str bid))
                 else
                   bindE (ddiv spread mid) (\<lambda>ratio.
                   bindE (quantize_even ratio (- 8)) (\<lambda>spread_pct.
                   bindE (quantize_even (ratio * BPS) (- 4)) (\<lambda>spread_bps.
                   if ceil * mid < spread * BPS
                   then Inr (measured spread_status.EXCESSIVE bid ask spread mid
                     (Some spread_pct) (Some spread_bps) ceil
                     (''spread '' @ dec_str spread_bps @ '' bps exceeds the '' @ dec_str ceil
                      @ '' bps ceiling (bid '' @ dec_str bid @ '' / ask '' @ dec_str ask @ '')''))
                   else Inr (measured spread_status.OK bid ask spread mid
                     (Some spread_pct) (Some spread_bps) ceil
                     (''spread '' @ dec_str spread_bps @ '' bps within the '' @ dec_str ceil
                      @ '' bps ceiling''))))))
      | _ \<Rightarrow> Inr (unusable spread_status.MISSING bid_opt ask_opt ceil
               ''quote is missing a bid or an ask''))"

section \<open>Facts\<close>

lemma dval_BPS [simp]: "dval BPS = 10000"
  by (simp add: BPS_def)

lemmas assessment_defs = unusable_def measured_def

text \<open>What an \<open>OK\<close> or \<open>EXCESSIVE\<close> verdict says of the book.\<close>

lemma assess_spread_wide_cases:
  assumes "assess_spread (Some bid) (Some ask) ceil = Inr a"
    and "sa_status a = spread_status.OK \<or> sa_status a = spread_status.EXCESSIVE"
  obtains mid where "ddiv (bid + ask) (dec_of_int 2) = Inr mid" "0 < dval bid" "0 < dval ask"
    "0 < dval (ask - bid)" "sa_mid a = Some mid" "sa_spread a = Some (ask - bid)"
    "sa_status a = spread_status.EXCESSIVE \<longleftrightarrow> dval (ceil * mid) < dval ((ask - bid) * BPS)"
  using assms
  by (auto simp: assess_spread_def Let_def assessment_defs bindE_eq_Inr dec_less_iff dec_eq_iff not_less
      split: if_splits)

lemma live_ratio_bound:
  assumes live: "0 < dval bid" "0 < dval ask" and wide: "0 \<le> dval (ask - bid)"
    and mid: "ddiv (bid + ask) (dec_of_int 2) = Inr mid"
  shows "0 < dval mid" "\<bar>dval (dquot (ask - bid) mid)\<bar> \<le> 3"
proof -
  let ?sum = "dval (bid + ask)" and ?spread = "dval (ask - bid)"
  have two: "coeff (dec_of_int 2) \<noteq> 0" by (simp add: dec_of_int_def)
  have mid': "mid = dquot (bid + ask) (dec_of_int 2)" using mid by (simp add: ddiv_Inr)
  have sum: "(10 ^ 27 - 1) * (dval bid + dval ask) \<le> 10 ^ 27 * ?sum"
    using live by (intro add.op_lower) simp_all
  then have sum_pos: "0 < ?sum" using live by (intro add.op_pos) simp_all
  have half: "(10 ^ 27 - 1) * (?sum / 2) \<le> 10 ^ 27 * dval mid"
    using quot.op_lower[OF two, of "bid + ask"] sum_pos by (simp add: mid')
  show mid_pos: "0 < dval mid"
    using quot.op_pos[OF two, of "bid + ask"] sum_pos by (simp add: mid')
  have "?spread \<le> 3 * dval mid"
  proof (cases "0 \<le> dval ask - dval bid")
    case True
    then have "10 ^ 27 * ?spread \<le> (10 ^ 27 + 1) * (dval ask - dval bid)"
      by (intro sub.op_upper) simp_all
    then show ?thesis using sum half live by simp
  next
    case False
    then have "?spread \<le> 0" by (intro sub.op_nonpos) simp_all
    then show ?thesis using mid_pos by simp
  qed
  then have "?spread / dval mid \<le> dval (dec_of_int 3)" using mid_pos by (simp add: pos_divide_le_eq)
  moreover have nz: "coeff mid \<noteq> 0" using mid_pos by (auto simp: coeff_zero_iff)
  ultimately have "dval (dquot (ask - bid) mid) \<le> 3"
    using quot.op_le[OF nz, of "dec_of_int 3" "ask - bid"] by (simp add: dec_ok_def dec_of_int_def dval_Dec)
  moreover have "0 \<le> dval (dquot (ask - bid) mid)"
    using mid_pos wide by (intro quot.op_nonneg[OF nz]) simp
  ultimately show "\<bar>dval (dquot (ask - bid) mid)\<bar> \<le> 3" by simp
qed

text \<open>On finite decimals a verdict always comes back: the displayed ratios of a live book fit the quantisation.\<close>

lemma assess_spread_total: "\<exists>a. assess_spread bid ask ceil = Inr a"
proof (cases "\<exists>b k. bid = Some b \<and> ask = Some k \<and> 0 < dval b \<and> 0 < dval k")
  case True
  then obtain b k where live: "bid = Some b" "ask = Some k" "0 < dval b" "0 < dval k" by blast
  obtain mid where mid: "ddiv (b + k) (dec_of_int 2) = Inr mid" by (simp add: ddiv_def dec_of_int_def)
  show ?thesis
  proof (cases "0 < dval (k - b)")
    case wide: True
    note bound = live_ratio_bound[OF live(3,4) less_imp_le[OF wide] mid]
    let ?ratio = "dquot (k - b) mid"
    have ratio: "ddiv (k - b) mid = Inr ?ratio" using bound(1) by (simp add: ddiv_Inr)
    have "\<exists>q. quantize_even ?ratio (- 8) = Inr q"
      using bound(2) by (intro quantize_even_total[where k = 1]) simp_all
    moreover have "\<exists>q. quantize_even (?ratio * BPS) (- 4) = Inr q"
    proof (rule quantize_even_total[where k = 6])
      have "10 ^ 27 * \<bar>dval (?ratio * BPS) - dval ?ratio * dval BPS\<bar> \<le> \<bar>dval ?ratio * dval BPS\<bar>"
        by (rule times_err)
      moreover have "\<bar>dval ?ratio * dval BPS\<bar> \<le> 30000" using bound(2) by (simp add: abs_mult)
      ultimately show "\<bar>dval (?ratio * BPS)\<bar> < 10 powi 6" by (simp add: abs_if split: if_splits)
    qed simp_all
    ultimately show ?thesis
      using live mid ratio wide by (auto simp: assess_spread_def Let_def dec_less_iff dec_eq_iff)
  next
    case False
    then show ?thesis
      using live mid by (auto simp: assess_spread_def Let_def dec_less_iff dec_eq_iff)
  qed
next
  case False
  then show ?thesis
    by (auto simp: assess_spread_def Let_def dec_less_iff split: option.splits)
qed

definition verdict :: "rat \<Rightarrow> rat \<Rightarrow> rat \<Rightarrow> spread_status" where
  "verdict bid ask ceil =
     (if bid \<le> 0 \<and> ask \<le> 0 then spread_status.NON_POSITIVE
      else if bid \<le> 0 \<or> ask \<le> 0 then spread_status.ONE_SIDED
      else if ask < bid then spread_status.CROSSED
      else if ask = bid then spread_status.LOCKED
      else if ceil * ((bid + ask) / 2) < (ask - bid) * 10000 then spread_status.EXCESSIVE
      else spread_status.OK)"

lemma assess_spread_verdict:
  assumes "grid 6 13 (dval bid)" "grid 6 13 (dval ask)" "grid 4 10 (dval ceil)"
    and "assess_spread (Some bid) (Some ask) ceil = Inr a"
  shows "sa_status a = verdict (dval bid) (dval ask) (dval ceil)"
proof -
  have spread: "dval (ask - bid) = dval ask - dval bid"
    by (rule grid_minus[OF assms(2,1)]) simp
  have sum: "dval (bid + ask) = dval bid + dval ask"
    by (rule grid_plus[OF assms(1,2)]) simp
  then have sum_grid: "grid 6 14 (dval (bid + ask))"
    using grid_add[OF assms(1,2)] by simp
  let ?mid = "dquot (bid + ask) (dec_of_int 2)"
  have mid: "dval ?mid = (dval bid + dval ask) / 2"
    using grid_quot_half[OF sum_grid] by (simp add: sum)
  have "grid 7 15 (dval ?mid)" unfolding mid using grid_half[OF sum_grid] by (simp add: sum)
  then have limit: "dval (ceil * ?mid) = dval ceil * ((dval bid + dval ask) / 2)"
    using grid_times[OF assms(3)] by (simp add: mid)
  have "grid 6 14 (dval (ask - bid))" using grid_diff[OF assms(2,1)] by (simp add: spread)
  moreover have "grid 0 5 (dval BPS)" by (rule gridI[of _ 10000]) simp_all
  ultimately have wide: "dval ((ask - bid) * BPS) = (dval ask - dval bid) * 10000"
    using grid_times by (simp add: spread)
  have "ddiv (bid + ask) (dec_of_int 2) = Inr ?mid" by (simp add: ddiv_Inr)
  then show ?thesis
    using assms(4)
    by (auto simp: assess_spread_def verdict_def Let_def dec_less_iff dec_eq_iff bindE_eq_Inr
        assessment_defs spread limit wide not_less split: if_splits)
qed

text \<open>
  C21: the verdict is the documented table, with an inclusive and exact boundary. For finite prices of up to 6 decimals
  below ten million and a ceiling of up to 4 decimals below a million, a verdict comes back: \<open>MISSING\<close> when a side is absent, and
  else the status the exact numbers decide; no rounding of the mid, the spread or the products moves a book across
  the ceiling.
\<close>

theorem assess_spread_exact:
  assumes "\<forall>price \<in> set_option bid \<union> set_option ask. grid 6 13 (dval price)" "grid 4 10 (dval ceil)"
  shows "\<exists>a. assess_spread bid ask ceil = Inr a
    \<and> sa_status a = (case (bid, ask) of
        (Some b, Some k) \<Rightarrow> verdict (dval b) (dval k) (dval ceil) | _ \<Rightarrow> spread_status.MISSING)"
proof (cases "bid = None \<or> ask = None")
  case True
  then show ?thesis by (cases bid; cases ask) (simp_all add: assess_spread_def unusable_def)
next
  case False
  then obtain b k where s: "bid = Some b" "ask = Some k" by auto
  obtain a where a: "assess_spread (Some b) (Some k) ceil = Inr a" using assess_spread_total by blast
  then show ?thesis using assess_spread_verdict[OF _ _ assms(2) a] assms(1) by (simp add: s)
qed

lemma assess_spread_exact_witness:
  "map_sum id sa_status (assess_spread (Some (Dec 9975 (-2))) (Some (Dec 10025 (-2))) (Dec 50 0))
     = Inr (verdict (dval (Dec 9975 (-2))) (dval (Dec 10025 (-2))) (dval (Dec 50 0)))"
proof -
  have "grid 6 13 (dval (Dec 9975 (-2)))" by (rule gridI[of _ 99750000]) (simp_all add: dval_Dec)
  moreover have "grid 6 13 (dval (Dec 10025 (-2)))" by (rule gridI[of _ 100250000]) (simp_all add: dval_Dec)
  moreover have "grid 4 10 (dval (Dec 50 0))" by (rule gridI[of _ 500000]) (simp_all add: dval_Dec)
  ultimately show ?thesis
    using assess_spread_exact[of "Some (Dec 9975 (-2))" "Some (Dec 10025 (-2))" "Dec 50 0"] by auto
qed

end
