(* ===== verification/Risk_Models.thy ===== *)
theory Risk_Models
  imports Risk_Config Fx_Base Spread
begin

text \<open>
  \<open>backend/stockbrain/risk/models.py\<close>: the typed inputs and outputs of the risk engine, their
  JSON-ready views, and the conversions an \<open>FxSnapshot\<close> performs. Identifiers the program treats
  as opaque (\<open>Any\<close>) are their text. A dictionary of positions is an association list with
  distinct keys.
\<close>

section \<open>Broker state\<close>

record position_state =
  pos_broker_ticker :: string
  pos_quantity :: decimal
  pos_quantity_available :: decimal
  pos_currency :: "string option"
  pos_average_price :: "decimal option"
  pos_current_price :: "decimal option"
  pos_market_value :: "decimal option"

definition pos_as_dict :: "position_state \<Rightarrow> json" where
  "pos_as_dict p = JObj
     [(''broker_ticker'', JStr (pos_broker_ticker p)),
      (''quantity'', jdec (pos_quantity p)),
      (''quantity_available'', jdec (pos_quantity_available p)),
      (''currency'', jopt JStr (pos_currency p)),
      (''average_price'', jopt jdec (pos_average_price p)),
      (''current_price'', jopt jdec (pos_current_price p)),
      (''market_value'', jopt jdec (pos_market_value p))]"

record account_state =
  acct_broker :: broker
  acct_account_id :: string
  acct_currency :: string
  acct_cash_available :: decimal
  acct_total_value :: decimal
  acct_captured_at :: instant
  acct_cash_reserved :: decimal
  acct_cash_in_pies :: decimal
  acct_invested_value :: decimal
  acct_positions :: "(string \<times> position_state) list"

definition acct_age_seconds :: "account_state \<Rightarrow> instant \<Rightarrow> decimal" where
  "acct_age_seconds a now = elapsed_seconds now (acct_captured_at a)"

definition acct_position :: "account_state \<Rightarrow> string \<Rightarrow> position_state option" where
  "acct_position a broker_ticker = map_of (acct_positions a) broker_ticker"

definition acct_as_dict :: "account_state \<Rightarrow> json" where
  "acct_as_dict a = JObj
     [(''broker'', JStr (broker_value (acct_broker a))),
      (''account_id'', JStr (acct_account_id a)),
      (''currency'', JStr (acct_currency a)),
      (''cash_available'', jdec (acct_cash_available a)),
      (''cash_reserved'', jdec (acct_cash_reserved a)),
      (''cash_in_pies'', jdec (acct_cash_in_pies a)),
      (''invested_value'', jdec (acct_invested_value a)),
      (''total_value'', jdec (acct_total_value a)),
      (''captured_at'', jtime (acct_captured_at a)),
      (''position_count'', JInt (int (length (acct_positions a))))]"

section \<open>The listing and its price\<close>

record instrument_identity =
  inst_broker_instrument_id :: string
  inst_broker :: broker
  inst_broker_ticker :: string
  inst_market_symbol :: "string option"
  inst_resolution_status :: resolution_status
  inst_is_active :: bool
  inst_instrument_type :: "string option"
  inst_currency :: "string option"
  inst_exchange :: "string option"
  inst_isin :: "string option"
  inst_company_id :: "string option"
  inst_max_open_quantity :: "decimal option"
  inst_extended_hours :: bool
  inst_quantity_precision :: "int option"

definition inst_as_dict :: "instrument_identity \<Rightarrow> json" where
  "inst_as_dict i = JObj
     [(''broker_instrument_id'', JStr (inst_broker_instrument_id i)),
      (''broker'', JStr (broker_value (inst_broker i))),
      (''broker_ticker'', JStr (inst_broker_ticker i)),
      (''market_symbol'', jopt JStr (inst_market_symbol i)),
      (''resolution_status'', JStr (resolution_status_value (inst_resolution_status i))),
      (''is_active'', JBool (inst_is_active i)),
      (''instrument_type'', jopt JStr (inst_instrument_type i)),
      (''currency'', jopt JStr (inst_currency i)),
      (''exchange'', jopt JStr (inst_exchange i)),
      (''isin'', jopt JStr (inst_isin i)),
      (''company_id'', jopt JStr (inst_company_id i)),
      (''max_open_quantity'', jopt jdec (inst_max_open_quantity i)),
      (''extended_hours'', JBool (inst_extended_hours i)),
      (''quantity_precision'', jopt JInt (inst_quantity_precision i))]"

record quote_snapshot =
  q_symbol :: string
  q_provider :: string
  q_feed :: string
  q_price_source :: price_source
  q_bid :: "decimal option"
  q_ask :: "decimal option"
  q_mid :: "decimal option"
  q_provider_timestamp :: instant
  q_received_at :: instant
  q_age_ms :: int
  q_currency :: string
  q_spread :: spread_assessment
  q_session :: market_session
  q_session_source :: string
  q_session_holiday_aware :: bool
  q_provider_blockers :: "string list"

definition q_as_dict :: "quote_snapshot \<Rightarrow> json" where
  "q_as_dict q = JObj
     [(''symbol'', JStr (q_symbol q)),
      (''provider'', JStr (q_provider q)),
      (''feed'', JStr (q_feed q)),
      (''price_source'', JStr (price_source_value (q_price_source q))),
      (''bid'', jopt jdec (q_bid q)),
      (''ask'', jopt jdec (q_ask q)),
      (''mid'', jopt jdec (q_mid q)),
      (''provider_timestamp'', jtime (q_provider_timestamp q)),
      (''received_at'', jtime (q_received_at q)),
      (''quote_age_ms'', JInt (q_age_ms q)),
      (''currency'', JStr (q_currency q)),
      (''spread'', spread_as_dict (q_spread q)),
      (''session'', JStr (market_session_value (q_session q))),
      (''session_source'', JStr (q_session_source q)),
      (''session_holiday_aware'', JBool (q_session_holiday_aware q)),
      (''provider_blockers'', JList (map JStr (q_provider_blockers q)))]"

section \<open>Exchange-rate snapshots\<close>

record fx_snapshot =
  fs_account_currency :: string
  fs_instrument_currency :: string
  fs_same_currency :: bool
  fs_blockers :: "string list"
  fs_rate :: "decimal option"
  fs_base_currency :: "string option"
  fs_quote_currency :: "string option"
  fs_provider :: "string option"
  fs_grade :: "fx_rate_grade option"
  fs_rate_type :: "string option"
  fs_provider_timestamp :: "instant option"
  fs_received_at :: "instant option"
  fs_age_seconds :: "decimal option"
  fs_provider_timestamp_precision :: "string option"

definition fs_usable :: "fx_snapshot \<Rightarrow> bool" where
  "fs_usable s = (fs_blockers s = [])"

definition fs_pair :: "fx_snapshot \<Rightarrow> string option" where
  "fs_pair s =
     (case (fs_base_currency s, fs_quote_currency s) of
        (Some base, Some quote) \<Rightarrow> Some (currency_pair base quote)
      | _ \<Rightarrow> None)"

definition fs_conversion_required :: "fx_snapshot \<Rightarrow> bool" where
  "fs_conversion_required s = (\<not> fs_same_currency s)"

definition fs_direction_for :: "fx_snapshot \<Rightarrow> string \<Rightarrow> string \<Rightarrow> fx_direction res" where
  "fs_direction_for s from_currency to_currency =
     (let source = normalize_currency (Some from_currency);
          target = normalize_currency (Some to_currency)
      in if source = target then Inr fx_direction.IDENTITY
         else if \<not> fs_usable s \<or> is_none (fs_rate s)
         then Inl (ValueError (''this FX snapshot may not convert anything: '' @ join ''; '' (fs_blockers s)))
         else
           let base = normalize_currency (fs_base_currency s);
               quote = normalize_currency (fs_quote_currency s)
           in if (source, target) = (base, quote) then Inr fx_direction.DIRECT
              else if (source, target) = (quote, base) then Inr fx_direction.INVERTED
              else Inl (ValueError
                (''the '' @ show_opt (fs_pair s) @ '' rate cannot convert '' @ source @ '' to ''
                 @ target @ ''; StockBrain never chains rates through a third currency'')))"

definition fs_convert :: "fx_snapshot \<Rightarrow> decimal \<Rightarrow> string \<Rightarrow> string \<Rightarrow> decimal res" where
  "fs_convert s amount from_currency to_currency =
     bindE (fs_direction_for s from_currency to_currency) (\<lambda>direction.
       if direction = fx_direction.IDENTITY then Inr amount
       else case fs_rate s of
              None \<Rightarrow> Inl AssertionError
            | Some rate \<Rightarrow>
                if direction = fx_direction.DIRECT then Inr (amount * rate) else ddiv amount rate)"

definition fs_to_instrument_currency :: "fx_snapshot \<Rightarrow> decimal \<Rightarrow> decimal res" where
  "fs_to_instrument_currency s amount =
     fs_convert s amount (fs_account_currency s) (fs_instrument_currency s)"

definition fs_to_account_currency :: "fx_snapshot \<Rightarrow> decimal \<Rightarrow> decimal res" where
  "fs_to_account_currency s amount =
     fs_convert s amount (fs_instrument_currency s) (fs_account_currency s)"

definition fs_direction :: "fx_snapshot \<Rightarrow> fx_direction res" where
  "fs_direction s =
     (if fs_same_currency s then Inr fx_direction.IDENTITY
      else fs_direction_for s (fs_account_currency s) (fs_instrument_currency s))"

definition fs_as_dict :: "fx_snapshot \<Rightarrow> json res" where
  "fs_as_dict s =
     bindE (if fs_same_currency s \<or> fs_usable s
            then bindE (fs_direction s) (\<lambda>d. Inr (JStr (fx_direction_value d)))
            else Inr JNull) (\<lambda>direction. Inr (JObj
     [(''account_currency'', JStr (fs_account_currency s)),
      (''instrument_currency'', JStr (fs_instrument_currency s)),
      (''same_currency'', JBool (fs_same_currency s)),
      (''usable'', JBool (fs_usable s)),
      (''blockers'', JList (map JStr (fs_blockers s))),
      (''rate'', jopt jdec (fs_rate s)),
      (''base_currency'', jopt JStr (fs_base_currency s)),
      (''quote_currency'', jopt JStr (fs_quote_currency s)),
      (''pair'', jopt JStr (fs_pair s)),
      (''provider'', jopt JStr (fs_provider s)),
      (''grade'', jopt (\<lambda>g. JStr (fx_rate_grade_value g)) (fs_grade s)),
      (''rate_type'', jopt JStr (fs_rate_type s)),
      (''direction'', direction),
      (''provider_timestamp'', jopt jtime (fs_provider_timestamp s)),
      (''provider_timestamp_precision'', jopt JStr (fs_provider_timestamp_precision s)),
      (''received_at'', jopt jtime (fs_received_at s)),
      (''age_seconds'', jopt jdec (fs_age_seconds s))]))"

definition same_currency_snapshot :: "string \<Rightarrow> fx_snapshot" where
  "same_currency_snapshot currency =
     (let code = normalize_currency (Some currency)
      in \<lparr>fs_account_currency = code, fs_instrument_currency = code, fs_same_currency = True,
          fs_blockers = [], fs_rate = None, fs_base_currency = None, fs_quote_currency = None,
          fs_provider = Some ''identity'', fs_grade = None, fs_rate_type = None,
          fs_provider_timestamp = None, fs_received_at = None, fs_age_seconds = None,
          fs_provider_timestamp_precision = None\<rparr>)"

section \<open>What the engine reads\<close>

record reserved_exposure =
  res_count :: int
  res_notional :: decimal
  res_same_instrument_count :: int
  res_same_instrument_notional :: decimal
  res_same_instrument_sides :: "string list"
  res_blockers :: "string list"

definition res_as_dict :: "reserved_exposure \<Rightarrow> json" where
  "res_as_dict r = JObj
     [(''blockers'', JList (map JStr (res_blockers r))),
      (''active_proposals'', JInt (res_count r)),
      (''reserved_notional'', jdec (res_notional r)),
      (''same_instrument_count'', JInt (res_same_instrument_count r)),
      (''same_instrument_notional'', jdec (res_same_instrument_notional r)),
      (''same_instrument_sides'', JList (map JStr (res_same_instrument_sides r)))]"

record calibration_bucket =
  cb_key :: string
  cb_samples :: int
  cb_correct :: int
  cb_hit_rate :: decimal
  cb_mean_alpha :: decimal
  cb_latest_graded_at :: instant

record risk_inputs =
  ri_config :: risk_config
  ri_action :: thesis_action
  ri_confidence :: decimal
  ri_identity :: instrument_identity
  ri_account :: "account_state option"
  ri_quote :: "quote_snapshot option"
  ri_reserved :: reserved_exposure
  ri_now :: instant
  ri_fx :: "fx_snapshot option"
  ri_account_state_missing_reason :: "string option"
  ri_quote_missing_reason :: "string option"
  ri_authorized_fx_rate :: "decimal option"
  ri_calibration :: "calibration_bucket option"
  ri_other_holding_weights :: "decimal list option"
  ri_reduce_fraction :: "decimal option"

section \<open>What the engine concludes\<close>

record rule_result =
  rr_rule_id :: string
  rr_rule_version :: int
  rr_outcome :: rule_outcome
  rr_reason :: string
  rr_observed :: "string option"
  rr_threshold :: "string option"
  rr_max_notional :: "decimal option"
  rr_size_factor :: "decimal option"

definition rr_as_dict :: "rule_result \<Rightarrow> json" where
  "rr_as_dict r = JObj
     [(''rule_id'', JStr (rr_rule_id r)),
      (''rule_version'', JInt (rr_rule_version r)),
      (''outcome'', JStr (rule_outcome_value (rr_outcome r))),
      (''reason'', JStr (rr_reason r)),
      (''observed'', jopt JStr (rr_observed r)),
      (''threshold'', jopt JStr (rr_threshold r)),
      (''max_notional'', jopt jdec (rr_max_notional r)),
      (''size_factor'', jopt jdec (rr_size_factor r))]"

record sizing_result =
  sz_side :: "order_side option"
  sz_quantity :: decimal
  sz_target_notional :: decimal
  sz_max_quantity :: decimal
  sz_max_notional :: decimal
  sz_reference_price :: "decimal option"
  sz_currency :: "string option"
  sz_account_currency :: "string option"
  sz_notional_account_currency :: decimal
  sz_max_notional_instrument_currency :: decimal
  sz_reasons :: "string list"
  sz_executable :: bool

definition sz_as_dict :: "sizing_result \<Rightarrow> json" where
  "sz_as_dict s = JObj
     [(''side'', jopt (\<lambda>d. JStr (order_side_value d)) (sz_side s)),
      (''quantity'', jdec (sz_quantity s)),
      (''target_notional'', jdec (sz_target_notional s)),
      (''max_quantity'', jdec (sz_max_quantity s)),
      (''max_notional'', jdec (sz_max_notional s)),
      (''reference_price'', jopt jdec (sz_reference_price s)),
      (''currency'', jopt JStr (sz_currency s)),
      (''account_currency'', jopt JStr (sz_account_currency s)),
      (''notional_account_currency'', jdec (sz_notional_account_currency s)),
      (''max_notional_instrument_currency'', jdec (sz_max_notional_instrument_currency s)),
      (''reasons'', JList (map JStr (sz_reasons s))),
      (''executable'', JBool (sz_executable s))]"

record risk_decision =
  rd_outcome :: risk_outcome
  rd_policy_version :: string
  rd_rules :: "rule_result list"
  rd_sizing :: sizing_result
  rd_inputs_summary :: json
  rd_evaluated_at :: instant

definition rd_allowed :: "risk_decision \<Rightarrow> bool" where
  "rd_allowed d = (rd_outcome d \<noteq> risk_outcome.BLOCK \<and> sz_executable (rd_sizing d))"

definition reasons_of :: "rule_outcome \<Rightarrow> rule_result list \<Rightarrow> string list" where
  "reasons_of r rules = map rr_reason (filter (\<lambda>rule. rr_outcome rule = r) rules)"

definition rd_blocks :: "risk_decision \<Rightarrow> string list" where
  "rd_blocks d = reasons_of rule_outcome.BLOCK (rd_rules d)"

definition rd_block_rule_ids :: "risk_decision \<Rightarrow> string list" where
  "rd_block_rule_ids d =
     map rr_rule_id (filter (\<lambda>rule. rr_outcome rule = rule_outcome.BLOCK) (rd_rules d))"

definition rd_warnings :: "risk_decision \<Rightarrow> string list" where
  "rd_warnings d = reasons_of rule_outcome.WARN (rd_rules d)"

definition rd_reductions :: "risk_decision \<Rightarrow> string list" where
  "rd_reductions d = reasons_of rule_outcome.REDUCE (rd_rules d)"

definition rd_as_dict :: "risk_decision \<Rightarrow> json" where
  "rd_as_dict d = JObj
     [(''outcome'', JStr (risk_outcome_value (rd_outcome d))),
      (''allowed'', JBool (rd_allowed d)),
      (''policy_version'', JStr (rd_policy_version d)),
      (''evaluated_at'', jtime (rd_evaluated_at d)),
      (''rules'', JList (map rr_as_dict (rd_rules d))),
      (''blocks'', JList (map JStr (rd_blocks d))),
      (''warnings'', JList (map JStr (rd_warnings d))),
      (''reductions'', JList (map JStr (rd_reductions d))),
      (''sizing'', sz_as_dict (rd_sizing d)),
      (''inputs'', rd_inputs_summary d)]"

definition rd_snapshot_hash :: "risk_decision \<Rightarrow> string" where
  "rd_snapshot_hash d = json_digest (rd_as_dict d)"

end
