(* ===== verification/Risk_Rules.thy ===== *)
theory Risk_Rules
  imports Risk_Models
begin

text \<open>
  The gates of \<open>backend/stockbrain/risk/rules.py\<close>: nineteen yes/no rules in a fixed order, each
  a function of the inputs alone. A gate that cannot run because an earlier fact is missing is
  reported as \<open>WARN\<close>, never as \<open>PASS\<close>; the lemmas at the end of the theory characterise exactly
  when each gate blocks and that the fact a skipped gate misses is blocked by another one.
\<close>

definition ZERO :: decimal where
  "ZERO = dec_of_int 0"

definition EXPOSURE_INCREASING_ACTIONS :: "thesis_action set" where
  "EXPOSURE_INCREASING_ACTIONS = {thesis_action.BUY}"

definition RISK_REDUCING_ACTIONS :: "thesis_action set" where
  "RISK_REDUCING_ACTIONS = {thesis_action.SELL, thesis_action.REDUCE}"

text \<open>How an action becomes a side (\<open>risk/sizing.py\<close>).\<close>

fun ACTION_SIDES :: "thesis_action \<Rightarrow> order_side option" where
  "ACTION_SIDES thesis_action.BUY = Some order_side.BUY"
| "ACTION_SIDES thesis_action.SELL = Some order_side.SELL"
| "ACTION_SIDES thesis_action.REDUCE = Some order_side.SELL"
| "ACTION_SIDES thesis_action.HOLD = None"
| "ACTION_SIDES thesis_action.NO_ACTION = None"

text \<open>A rule that imposes neither a cap nor a factor.\<close>

definition verdict_of ::
  "string \<Rightarrow> int \<Rightarrow> rule_outcome \<Rightarrow> string \<Rightarrow> string option \<Rightarrow> string option \<Rightarrow> rule_result" where
  "verdict_of rule_id version outcome reason observed threshold =
     \<lparr>rr_rule_id = rule_id, rr_rule_version = version, rr_outcome = outcome, rr_reason = reason,
      rr_observed = observed, rr_threshold = threshold, rr_max_notional = None,
      rr_size_factor = None\<rparr>"

definition skipped :: "string \<Rightarrow> int \<Rightarrow> string \<Rightarrow> string option \<Rightarrow> rule_result" where
  "skipped rule_id version reason threshold =
     verdict_of rule_id version rule_outcome.WARN (''not evaluated: '' @ reason) None threshold"

definition pass_if :: "bool \<Rightarrow> rule_outcome" where
  "pass_if ok = (if ok then rule_outcome.PASS else rule_outcome.BLOCK)"

text \<open>\<open>s or default\<close> on strings: an empty string is falsy.\<close>

definition or_text :: "string \<Rightarrow> string \<Rightarrow> string" where
  "or_text s d = (if s = [] then d else s)"

section \<open>Action and identity\<close>

definition reservation_accounting :: "risk_inputs \<Rightarrow> rule_result" where
  "reservation_accounting i =
     (let needed = ri_action i \<in> EXPOSURE_INCREASING_ACTIONS;
          blocked = needed \<and> res_blockers (ri_reserved i) \<noteq> []
      in verdict_of ''reservation_accounting'' 1 (pass_if (\<not> blocked))
           (if blocked then join ''; '' (res_blockers (ri_reserved i))
            else if needed then ''reservations are priced in account currency''
            else ''reductions do not consume reserved cash'')
           None (Some ''all increasing exposure priced in account currency''))"

definition action_is_executable :: "thesis_action \<Rightarrow> rule_result" where
  "action_is_executable action =
     (let executable = action \<notin> {thesis_action.HOLD, thesis_action.NO_ACTION}
      in verdict_of ''action_is_executable'' 1 (pass_if executable)
           (if executable then thesis_action_value action @ '' is an executable action''
            else thesis_action_value action @ '' produces no executable order'')
           (Some (thesis_action_value action)) (Some ''BUY, SELL or REDUCE''))"

definition identity_problems :: "instrument_identity \<Rightarrow> string list" where
  "identity_problems d =
     (if inst_resolution_status d \<noteq> resolution_status.RESOLVED
      then [''resolution is '' @ resolution_status_value (inst_resolution_status d) @ '', not RESOLVED'']
      else [])
     @ (if \<not> inst_is_active d then [''the broker listing is no longer active''] else [])
     @ (if inst_broker_ticker d = [] then [''no broker ticker''] else [])
     @ (if or_else (inst_market_symbol d) [] = []
        then [''no market-data symbol, so the listing cannot be priced''] else [])
     @ (if is_none (inst_company_id d)
        then [''no verified company is attached to the listing''] else [])"

definition instrument_identity_rule :: "risk_inputs \<Rightarrow> rule_result" where
  "instrument_identity_rule i =
     (let identity = ri_identity i; problems = identity_problems identity
      in verdict_of ''instrument_identity'' 1 (pass_if (problems = []))
           (if problems \<noteq> []
            then ''instrument identity is no longer valid: '' @ join ''; '' problems
            else inst_broker_ticker identity @ '' is a RESOLVED, active broker listing'')
           (Some (resolution_status_value (inst_resolution_status identity)))
           (Some (resolution_status_value resolution_status.RESOLVED)))"

definition instrument_type_supported :: "risk_inputs \<Rightarrow> rule_result" where
  "instrument_type_supported i =
     (let allowed = rc_allowed_instrument_types (ri_config i);
          observed = upper (or_else (inst_instrument_type (ri_identity i)) []);
          ok = observed \<in> upper ` set allowed
      in verdict_of ''instrument_type_supported'' 1 (pass_if ok)
           (if ok then ''instrument type '' @ or_text observed ''UNKNOWN'' @ '' is supported''
            else ''instrument type '' @ or_text observed ''UNKNOWN'' @ '' is not one of ''
                 @ join '', '' allowed)
           (if observed = [] then None else Some observed) (Some (join '', '' allowed)))"

section \<open>Account and price\<close>

definition account_state_available :: "risk_inputs \<Rightarrow> rule_result" where
  "account_state_available i =
     (let available = \<not> is_none (ri_account i)
      in verdict_of ''account_state_available'' 1 (pass_if available)
           (if available then ''broker account state is available''
            else ''broker account state is unavailable: ''
                 @ or_text (or_else (ri_account_state_missing_reason i) []) ''no snapshot'')
           (Some (if available then ''available'' else ''missing'')) (Some ''available''))"

definition account_state_freshness :: "risk_inputs \<Rightarrow> rule_result" where
  "account_state_freshness i =
     (let limit = rc_max_account_state_age_seconds (ri_config i);
          limit_text = dec_str limit @ ''s''
      in case ri_account i of
           None \<Rightarrow> verdict_of ''account_state_freshness'' 1 rule_outcome.BLOCK
             ''account state age cannot be established without a snapshot'' None (Some limit_text)
         | Some account \<Rightarrow>
             let age = acct_age_seconds account (ri_now i); ok = age \<le> limit
             in verdict_of ''account_state_freshness'' 1 (pass_if ok)
                  (if ok then ''account state is '' @ fixed_n 0 age @ ''s old, within the ''
                              @ limit_text @ '' limit''
                   else ''account state is '' @ fixed_n 0 age @ ''s old, older than the ''
                        @ limit_text @ '' limit'')
                  (Some (fixed_n 0 age @ ''s'')) (Some limit_text))"

definition quote_available :: "risk_inputs \<Rightarrow> rule_result" where
  "quote_available i =
     (let available = \<not> is_none (ri_quote i)
      in verdict_of ''quote_available'' 1 (pass_if available)
           (if available then ''a fresh quote was fetched for this listing''
            else ''no quote available: ''
                 @ or_text (or_else (ri_quote_missing_reason i) []) ''provider returned nothing'')
           (Some (if available then ''available'' else ''missing'')) (Some ''available''))"

definition price_source_execution_grade :: "risk_inputs \<Rightarrow> rule_result" where
  "price_source_execution_grade i =
     (case ri_quote i of
        None \<Rightarrow> skipped ''price_source_execution_grade'' 1 ''no quote to judge'' None
      | Some quote \<Rightarrow>
          let blockers = q_provider_blockers quote; ok = blockers = []
          in verdict_of ''price_source_execution_grade'' 1 (pass_if ok)
               (if ok then price_source_value (q_price_source quote) @ '' on feed '' @ q_feed quote
                           @ '' is execution-grade''
                else join ''; '' blockers)
               (Some (price_source_value (q_price_source quote)))
               (Some ''ALPACA_IEX or ALPACA_SIP''))"

definition quote_age_seconds :: "quote_snapshot \<Rightarrow> decimal" where
  "quote_age_seconds quote = dquot (dec_of_int (q_age_ms quote)) (dec_of_int 1000)"

definition quote_freshness :: "risk_inputs \<Rightarrow> rule_result" where
  "quote_freshness i =
     (let limit = rc_max_quote_age_seconds (ri_config i); limit_text = dec_str limit @ ''s''
      in case ri_quote i of
           None \<Rightarrow> skipped ''quote_freshness'' 1 ''no quote to judge'' (Some limit_text)
         | Some quote \<Rightarrow>
             let ok = quote_age_seconds quote \<le> limit; age_text = show_int (q_age_ms quote) @ ''ms''
             in verdict_of ''quote_freshness'' 1 (pass_if ok)
                  (if ok then ''quote is '' @ age_text @ '' old, within the '' @ limit_text @ '' limit''
                   else ''quote is '' @ age_text @ '' old, older than the '' @ limit_text @ '' limit'')
                  (Some age_text) (Some limit_text))"

definition quote_two_sided :: "risk_inputs \<Rightarrow> rule_result" where
  "quote_two_sided i =
     (case ri_quote i of
        None \<Rightarrow> skipped ''quote_two_sided'' 1 ''no quote to judge'' None
      | Some quote \<Rightarrow>
          let status = sa_status (q_spread quote);
              ok = status \<notin> {spread_status.MISSING, spread_status.NON_POSITIVE, spread_status.ONE_SIDED}
          in verdict_of ''quote_two_sided'' 1 (pass_if ok)
               (if ok then ''quote has a live bid and a live ask'' else sa_detail (q_spread quote))
               (Some (spread_status_value status)) (Some ''two-sided''))"

definition spread_ceiling :: "risk_inputs \<Rightarrow> rule_result" where
  "spread_ceiling i =
     (let config = ri_config i; limit_text = dec_str (rc_max_spread_bps config) @ '' bps''
      in case ri_quote i of
           None \<Rightarrow> skipped ''spread_ceiling'' 1 ''no quote to judge'' (Some limit_text)
         | Some quote \<Rightarrow>
             let assessment = q_spread quote
             in if sa_is_ok assessment
                then verdict_of ''spread_ceiling'' 1 rule_outcome.PASS (sa_detail assessment)
                       (opt_str (sa_spread_bps assessment)) (Some limit_text)
                else
                  let reduce_allowed = sa_is_merely_wide assessment
                        \<and> rc_spread_policy config = SPREAD_REDUCE
                        \<and> ZERO < rc_wide_spread_size_factor config
                  in (verdict_of ''spread_ceiling'' 1
                        (if reduce_allowed then rule_outcome.REDUCE else rule_outcome.BLOCK)
                        (if reduce_allowed
                         then sa_detail assessment @ ''; policy reduces size by ''
                              @ dec_str (rc_wide_spread_size_factor config) @ '' rather than blocking''
                         else sa_detail assessment)
                        (opt_str (sa_spread_bps assessment)) (Some limit_text))
                     \<lparr>rr_size_factor :=
                        if reduce_allowed then Some (rc_wide_spread_size_factor config) else None\<rparr>)"

definition market_session_rule :: "risk_inputs \<Rightarrow> rule_result" where
  "market_session_rule i =
     (let allowed = rc_allowed_sessions (ri_config i);
          allowed_names = join '', '' (map market_session_value allowed)
      in case ri_quote i of
           None \<Rightarrow> skipped ''market_session'' 1 ''no quote to judge'' (Some allowed_names)
         | Some quote \<Rightarrow>
             let session = q_session quote
             in if session = market_session.UNKNOWN \<and> rc_require_known_session (ri_config i)
                then verdict_of ''market_session'' 1 rule_outcome.BLOCK
                       (''the trading session is unknown for this listing (source: ''
                        @ q_session_source quote @ ''); an unknown session is not a tradable one'')
                       (Some (market_session_value session)) (Some allowed_names)
                else
                  let ok = session \<in> set allowed
                  in verdict_of ''market_session'' 1 (pass_if ok)
                       (if ok then ''session '' @ market_session_value session
                                   @ '' is permitted (source: '' @ q_session_source quote
                                   @ (if q_session_holiday_aware quote then '', holiday-aware'' else [])
                                   @ '')''
                        else ''session '' @ market_session_value session @ '' is not one of ''
                             @ allowed_names)
                       (Some (market_session_value session)) (Some allowed_names))"

section \<open>Currencies\<close>

definition identity_currency :: "risk_inputs \<Rightarrow> string" where
  "identity_currency i = upper (or_else (inst_currency (ri_identity i)) [])"

definition quote_currency :: "risk_inputs \<Rightarrow> string" where
  "quote_currency i = (case ri_quote i of None \<Rightarrow> [] | Some q \<Rightarrow> upper (q_currency q))"

definition account_currency :: "risk_inputs \<Rightarrow> string" where
  "account_currency i = (case ri_account i of None \<Rightarrow> [] | Some a \<Rightarrow> upper (acct_currency a))"

definition currency_alignment :: "risk_inputs \<Rightarrow> rule_result" where
  "currency_alignment i =
     (let inst = identity_currency i; quo = quote_currency i; acc = account_currency i
      in if acc = [] \<or> inst = []
         then verdict_of ''currency_alignment'' 2 rule_outcome.BLOCK
                ''instrument or account currency is unknown, so sizing cannot be reconciled''
                (Some (''instrument '' @ or_text inst ''?'' @ '' / account '' @ or_text acc ''?''))
                (Some ''same currency'')
         else
           let mismatches =
                 [if inst \<noteq> acc then ''instrument '' @ inst @ '' != account '' @ acc else [],
                  if quo \<noteq> [] \<and> quo \<noteq> inst then ''quote '' @ quo @ '' != instrument '' @ inst else []];
               problems = filter (\<lambda>m. m \<noteq> []) mismatches;
               observed = ''instrument '' @ inst @ '' / quote '' @ or_text quo ''?'' @ '' / account '' @ acc
           in if quo \<noteq> [] \<and> quo \<noteq> inst
              then verdict_of ''currency_alignment'' 2 rule_outcome.BLOCK
                     (''the quote is denominated in '' @ quo @ '' but the listing is '' @ inst
                      @ ''; no single FX rate reconciles three currencies'')
                     (Some observed) (Some ''quote currency == instrument currency'')
              else if inst = acc
              then verdict_of ''currency_alignment'' 2 rule_outcome.PASS
                     (''instrument, quote and account are all denominated in '' @ acc)
                     (Some observed) (Some ''same currency'')
              else if rc_require_same_currency (ri_config i)
              then verdict_of ''currency_alignment'' 2 rule_outcome.BLOCK
                     (''RISK_REQUIRE_SAME_CURRENCY is true, so cross-currency sizing is not ''
                      @ ''permitted by this deployment: '' @ join ''; '' problems)
                     (Some observed) (Some ''same currency'')
              else verdict_of ''currency_alignment'' 2 rule_outcome.PASS
                     (''cross-currency sizing is permitted by configuration; the '' @ acc @ ''->'' @ inst
                      @ '' conversion is gated by fx_available and fx_freshness'')
                     (Some observed) (Some ''verified FX rate required''))"

definition STALE_MARK :: string where
  "STALE_MARK = '' old, older than ''"

definition grade_text :: "fx_snapshot \<Rightarrow> string" where
  "grade_text s =
     (case fs_grade s of None \<Rightarrow> ''unknown'' | Some g \<Rightarrow> lower (fx_rate_grade_value g))"

definition fx_available :: "risk_inputs \<Rightarrow> rule_result" where
  "fx_available i =
     (let acc = account_currency i; inst = identity_currency i;
          verified = ''a verified '' @ acc @ ''->'' @ inst @ '' rate''
      in if acc = [] \<or> inst = []
         then skipped ''fx_available'' 1 ''the account or instrument currency is unknown'' None
         else if acc = inst
         then verdict_of ''fx_available'' 1 rule_outcome.PASS
                (''no conversion is needed: both sides are '' @ acc)
                (Some (acc @ '' == '' @ inst)) (Some ''no conversion required'')
         else case ri_fx i of
           None \<Rightarrow> verdict_of ''fx_available'' 1 rule_outcome.BLOCK
             (''no FX facts were supplied for '' @ acc @ ''->'' @ inst @ ''; a rate is never assumed'')
             (Some ''none'') (Some verified)
         | Some snapshot \<Rightarrow>
             let structural = filter (\<lambda>reason. \<not> contains STALE_MARK reason) (fs_blockers snapshot)
             in if structural \<noteq> []
                then verdict_of ''fx_available'' 1 rule_outcome.BLOCK (join ''; '' structural)
                       (Some (or_text (or_else (fs_pair snapshot) []) ''none'')) (Some verified)
                else verdict_of ''fx_available'' 1 rule_outcome.PASS
                       (show_opt (fs_pair snapshot) @ '' at '' @ show_opt_dec (fs_rate snapshot)
                        @ '' from '' @ show_opt (fs_provider snapshot) @ '' ('' @ grade_text snapshot
                        @ ''-grade '' @ or_text (or_else (fs_rate_type snapshot) []) ''rate'' @ '')'')
                       (Some (show_opt (fs_pair snapshot) @ ''='' @ show_opt_dec (fs_rate snapshot)))
                       (Some verified))"

definition fx_freshness :: "risk_inputs \<Rightarrow> rule_result" where
  "fx_freshness i =
     (let acc = account_currency i; inst = identity_currency i
      in if acc = [] \<or> inst = []
         then skipped ''fx_freshness'' 1 ''the account or instrument currency is unknown'' None
         else if acc = inst
         then verdict_of ''fx_freshness'' 1 rule_outcome.PASS ''no rate is used, so none can be stale''
                (Some ''0'') (Some ''no conversion required'')
         else case ri_fx i of
           None \<Rightarrow> skipped ''fx_freshness'' 1 ''no FX facts were supplied'' None
         | Some snapshot \<Rightarrow>
             let stale = filter (contains STALE_MARK) (fs_blockers snapshot)
             in if stale \<noteq> []
                then verdict_of ''fx_freshness'' 1 rule_outcome.BLOCK (join ''; '' stale)
                       (Some (or_else (opt_str (fs_age_seconds snapshot)) ''unknown''))
                       (Some ''within the configured FX age limit'')
                else case fs_age_seconds snapshot of
                  None \<Rightarrow> skipped ''fx_freshness'' 1 ''the rate carried no measurable age'' None
                | Some age \<Rightarrow> verdict_of ''fx_freshness'' 1 rule_outcome.PASS
                    (''the '' @ show_opt (fs_pair snapshot) @ '' rate is '' @ dec_str age
                     @ ''s old, within the limit for a '' @ grade_text snapshot @ ''-grade source'')
                    (Some (dec_str age)) (Some ''within the configured FX age limit''))"

section \<open>Positions, proposals and confidence\<close>

definition current_position :: "risk_inputs \<Rightarrow> rule_result" where
  "current_position i =
     (case ri_account i of
        None \<Rightarrow> skipped ''current_position'' 1 ''no account state to judge'' None
      | Some account \<Rightarrow>
          let position = acct_position account (inst_broker_ticker (ri_identity i));
              held = (case position of None \<Rightarrow> ZERO | Some p \<Rightarrow> pos_quantity p);
              available = (case position of None \<Rightarrow> ZERO | Some p \<Rightarrow> pos_quantity_available p);
              available_text = dec_str available @ '' available''
          in if ri_action i \<in> RISK_REDUCING_ACTIONS
             then if available \<le> ZERO
               then verdict_of ''current_position'' 1 rule_outcome.BLOCK
                      (thesis_action_value (ri_action i) @ '' requires an existing long position; ''
                       @ dec_str held @ '' held, '' @ dec_str available
                       @ '' available for trading and short selling is disabled'')
                      (Some available_text) (Some ''> 0'')
               else verdict_of ''current_position'' 1 rule_outcome.PASS
                      (dec_str available @ '' of '' @ dec_str held @ '' shares are available to reduce'')
                      (Some available_text) (Some ''> 0'')
             else if ZERO < held \<and> (case position of None \<Rightarrow> False | Some p \<Rightarrow> is_none (pos_market_value p))
             then verdict_of ''current_position'' 1 rule_outcome.BLOCK
                    ''the existing position has no validated account-currency valuation''
                    (Some ''unknown'') (Some ''position valued in account currency'')
             else verdict_of ''current_position'' 1 rule_outcome.PASS
                    (if ZERO < held then ''currently holding '' @ dec_str held @ '' shares''
                     else ''no existing position'')
                    (Some (dec_str held)) (Some ''n/a''))"

definition opposing_sides :: "risk_inputs \<Rightarrow> string list" where
  "opposing_sides i =
     (case ACTION_SIDES (ri_action i) of
        None \<Rightarrow> []
      | Some side \<Rightarrow>
          filter (\<lambda>item. item \<noteq> order_side_value side) (res_same_instrument_sides (ri_reserved i)))"

definition duplicate_or_conflicting_proposal :: "risk_inputs \<Rightarrow> rule_result" where
  "duplicate_or_conflicting_proposal i =
     (let reserved = ri_reserved i; opposing = opposing_sides i;
          problems =
            (if res_same_instrument_count reserved \<noteq> 0
             then [show_int (res_same_instrument_count reserved)
                   @ '' live proposal(s) already exist for '' @ inst_broker_ticker (ri_identity i)]
             else [])
            @ (if opposing \<noteq> []
               then [''a live proposal for the same listing takes the opposite side (''
                     @ join '', '' opposing @ '')'']
               else [])
      in verdict_of ''duplicate_or_conflicting_proposal'' 1 (pass_if (problems = []))
           (if problems \<noteq> [] then join ''; '' problems
            else ''no live proposal exists for this listing'')
           (Some (show_int (res_same_instrument_count reserved))) (Some ''0''))"

definition max_active_proposals :: "risk_inputs \<Rightarrow> rule_result" where
  "max_active_proposals i =
     (let limit = rc_max_active_proposals (ri_config i); count = res_count (ri_reserved i)
      in if ri_action i \<in> RISK_REDUCING_ACTIONS
         then skipped ''max_active_proposals'' 2
                ''the active-proposal cap gates entries; a reduction is never blocked by it''
                (Some (show_int limit))
         else verdict_of ''max_active_proposals'' 2 (pass_if (count < limit))
                (if count < limit
                 then show_int count @ '' of '' @ show_int limit @ '' active proposal slots in use''
                 else show_int count @ '' active proposals already reach the limit of '' @ show_int limit)
                (Some (show_int count)) (Some (show_int limit)))"

definition research_confidence_floor :: "risk_inputs \<Rightarrow> rule_result" where
  "research_confidence_floor i =
     (let floor = rc_min_research_confidence (ri_config i); confidence = dec_str (ri_confidence i)
      in if ri_action i \<in> RISK_REDUCING_ACTIONS
         then skipped ''research_confidence_floor'' 2
                ''the confidence floor gates entries; a reduction is never blocked by it''
                (Some (dec_str floor))
         else
           let ok = floor \<le> ri_confidence i
           in verdict_of ''research_confidence_floor'' 2 (pass_if ok)
                (if ok then ''research confidence '' @ confidence @ '' meets the '' @ dec_str floor @ '' floor''
                 else ''research confidence '' @ confidence @ '' is below the '' @ dec_str floor @ '' floor'')
                (Some confidence) (Some (dec_str floor)))"

definition gate_results :: "risk_inputs \<Rightarrow> rule_result list" where
  "gate_results i =
     [action_is_executable (ri_action i),
      instrument_identity_rule i,
      instrument_type_supported i,
      account_state_available i,
      account_state_freshness i,
      quote_available i,
      price_source_execution_grade i,
      quote_freshness i,
      quote_two_sided i,
      spread_ceiling i,
      market_session_rule i,
      currency_alignment i,
      fx_available i,
      fx_freshness i,
      current_position i,
      duplicate_or_conflicting_proposal i,
      max_active_proposals i,
      reservation_accounting i,
      research_confidence_floor i]"

section \<open>When each gate blocks\<close>

abbreviation blocks :: "rule_result \<Rightarrow> bool" where
  "blocks r \<equiv> rr_outcome r = rule_outcome.BLOCK"

lemma verdict_of_simps [simp]:
  "rr_rule_id (verdict_of n v out why seen thr) = n"
  "rr_outcome (verdict_of n v out why seen thr) = out"
  "rr_reason (verdict_of n v out why seen thr) = why"
  "rr_max_notional (verdict_of n v out why seen thr) = None"
  "rr_size_factor (verdict_of n v out why seen thr) = None"
  by (simp_all add: verdict_of_def)

lemma skipped_simps [simp]:
  "rr_rule_id (skipped n v why thr) = n"
  "rr_outcome (skipped n v why thr) = rule_outcome.WARN"
  "rr_size_factor (skipped n v why thr) = None"
  by (simp_all add: skipped_def)

lemma pass_if_simps [simp]:
  "pass_if ok = rule_outcome.BLOCK \<longleftrightarrow> \<not> ok" "pass_if ok = rule_outcome.PASS \<longleftrightarrow> ok"
  "pass_if ok \<noteq> rule_outcome.REDUCE" "pass_if ok \<noteq> rule_outcome.WARN"
  by (simp_all add: pass_if_def)

lemma dval_ZERO [simp]: "dval ZERO = 0"
  by (simp add: ZERO_def)

lemma reducing_iff: "a \<in> RISK_REDUCING_ACTIONS \<longleftrightarrow> a = thesis_action.SELL \<or> a = thesis_action.REDUCE"
  by (auto simp: RISK_REDUCING_ACTIONS_def)

lemma increasing_iff: "a \<in> EXPOSURE_INCREASING_ACTIONS \<longleftrightarrow> a = thesis_action.BUY"
  by (simp add: EXPOSURE_INCREASING_ACTIONS_def)

lemma blocks_reservation [gate_simps]:
  "blocks (reservation_accounting i) \<longleftrightarrow> ri_action i = thesis_action.BUY \<and> res_blockers (ri_reserved i) \<noteq> []"
  by (simp add: reservation_accounting_def Let_def increasing_iff)

lemma blocks_action [gate_simps]:
  "blocks (action_is_executable a) \<longleftrightarrow> ACTION_SIDES a = None"
  by (cases a) (simp_all add: action_is_executable_def Let_def)

lemma blocks_identity [gate_simps]:
  "blocks (instrument_identity_rule i) \<longleftrightarrow> identity_problems (ri_identity i) \<noteq> []"
  by (simp add: instrument_identity_rule_def Let_def)

lemma blocks_type [gate_simps]:
  "blocks (instrument_type_supported i) \<longleftrightarrow>
     upper (or_else (inst_instrument_type (ri_identity i)) []) \<notin> upper ` set (rc_allowed_instrument_types (ri_config i))"
  by (simp add: instrument_type_supported_def Let_def)

lemma blocks_account [gate_simps]: "blocks (account_state_available i) \<longleftrightarrow> ri_account i = None"
  by (cases "ri_account i") (simp_all add: account_state_available_def Let_def)

lemma blocks_account_freshness [gate_simps]:
  "blocks (account_state_freshness i) \<longleftrightarrow>
     (case ri_account i of None \<Rightarrow> True
      | Some a \<Rightarrow> dval (rc_max_account_state_age_seconds (ri_config i)) < dval (acct_age_seconds a (ri_now i)))"
  by (auto simp: account_state_freshness_def Let_def dec_simps split: option.splits)

lemma blocks_quote [gate_simps]: "blocks (quote_available i) \<longleftrightarrow> ri_quote i = None"
  by (cases "ri_quote i") (simp_all add: quote_available_def Let_def)

lemma blocks_price_source [gate_simps]:
  "blocks (price_source_execution_grade i) \<longleftrightarrow> (\<exists>q. ri_quote i = Some q \<and> q_provider_blockers q \<noteq> [])"
  by (auto simp: price_source_execution_grade_def Let_def split: option.splits)

lemma blocks_quote_freshness [gate_simps]:
  "blocks (quote_freshness i) \<longleftrightarrow>
     (\<exists>q. ri_quote i = Some q \<and> dval (rc_max_quote_age_seconds (ri_config i)) < dval (quote_age_seconds q))"
  by (auto simp: quote_freshness_def Let_def dec_simps split: option.splits)

lemma blocks_two_sided [gate_simps]:
  "blocks (quote_two_sided i) \<longleftrightarrow>
     (\<exists>q. ri_quote i = Some q \<and> sa_status (q_spread q)
        \<in> {spread_status.MISSING, spread_status.NON_POSITIVE, spread_status.ONE_SIDED})"
  by (auto simp: quote_two_sided_def Let_def split: option.splits)

text \<open>Only the spread rule carries a size factor.\<close>

lemma gate_factors [simp]:
  "rr_size_factor (action_is_executable a) = None"
  "rr_size_factor (reservation_accounting i) = None"
  "rr_size_factor (instrument_identity_rule i) = None"
  "rr_size_factor (instrument_type_supported i) = None"
  "rr_size_factor (account_state_available i) = None"
  "rr_size_factor (account_state_freshness i) = None"
  "rr_size_factor (quote_available i) = None"
  "rr_size_factor (price_source_execution_grade i) = None"
  "rr_size_factor (quote_freshness i) = None"
  "rr_size_factor (quote_two_sided i) = None"
  "rr_size_factor (market_session_rule i) = None"
  "rr_size_factor (currency_alignment i) = None"
  "rr_size_factor (fx_available i) = None"
  "rr_size_factor (fx_freshness i) = None"
  "rr_size_factor (current_position i) = None"
  "rr_size_factor (duplicate_or_conflicting_proposal i) = None"
  "rr_size_factor (max_active_proposals i) = None"
  "rr_size_factor (research_confidence_floor i) = None"
  by (simp add: action_is_executable_def Let_def,
      simp add: reservation_accounting_def Let_def,
      simp add: instrument_identity_rule_def Let_def split: option.split,
      simp add: instrument_type_supported_def Let_def split: option.split,
      simp add: account_state_available_def Let_def split: option.split,
      simp add: account_state_freshness_def Let_def split: option.split,
      simp add: quote_available_def Let_def split: option.split,
      simp add: price_source_execution_grade_def Let_def split: option.split,
      simp add: quote_freshness_def Let_def split: option.split,
      simp add: quote_two_sided_def Let_def split: option.split,
      simp add: market_session_rule_def Let_def split: option.split,
      simp add: currency_alignment_def Let_def split: option.split,
      simp add: fx_available_def Let_def split: option.split,
      simp add: fx_freshness_def Let_def split: option.split,
      simp add: current_position_def Let_def split: option.split,
      simp add: duplicate_or_conflicting_proposal_def Let_def split: option.split,
      simp add: max_active_proposals_def Let_def split: option.split,
      simp add: research_confidence_floor_def Let_def split: option.split)

text \<open>What the spread policy lets pass.\<close>

definition spread_tradable :: "risk_config \<Rightarrow> spread_assessment \<Rightarrow> bool" where
  "spread_tradable c a =
     (sa_status a = spread_status.OK
      \<or> (sa_status a = spread_status.EXCESSIVE \<and> rc_spread_policy c = SPREAD_REDUCE
         \<and> 0 < dval (rc_wide_spread_size_factor c)))"

lemma blocks_spread [gate_simps]:
  "blocks (spread_ceiling i) \<longleftrightarrow> (\<exists>q. ri_quote i = Some q \<and> \<not> spread_tradable (ri_config i) (q_spread q))"
  by (auto simp: spread_ceiling_def Let_def spread_tradable_def sa_is_ok_def sa_is_merely_wide_def dec_simps
      split: option.splits)

lemma blocks_session [gate_simps]:
  "blocks (market_session_rule i) \<longleftrightarrow>
     (\<exists>q. ri_quote i = Some q
        \<and> (q_session q \<notin> set (rc_allowed_sessions (ri_config i))
           \<or> (q_session q = market_session.UNKNOWN \<and> rc_require_known_session (ri_config i))))"
  by (auto simp: market_session_rule_def Let_def split: option.splits)

lemma blocks_currency [gate_simps]:
  "blocks (currency_alignment i) \<longleftrightarrow>
     account_currency i = [] \<or> identity_currency i = []
     \<or> (quote_currency i \<noteq> [] \<and> quote_currency i \<noteq> identity_currency i)
     \<or> (identity_currency i \<noteq> account_currency i \<and> rc_require_same_currency (ri_config i))"
  by (simp add: currency_alignment_def Let_def)

text \<open>The currencies are known and differ, so a rate is needed.\<close>

definition crosses :: "risk_inputs \<Rightarrow> bool" where
  "crosses i =
     (account_currency i \<noteq> [] \<and> identity_currency i \<noteq> [] \<and> account_currency i \<noteq> identity_currency i)"

lemma blocks_fx_available [gate_simps]:
  "blocks (fx_available i) \<longleftrightarrow> crosses i
     \<and> (case ri_fx i of None \<Rightarrow> True
        | Some s \<Rightarrow> \<exists>reason \<in> set (fs_blockers s). \<not> contains STALE_MARK reason)"
  by (auto simp: fx_available_def Let_def crosses_def filter_empty_conv split: option.splits)

lemma blocks_fx_freshness [gate_simps]:
  "blocks (fx_freshness i) \<longleftrightarrow> crosses i
     \<and> (\<exists>s. ri_fx i = Some s \<and> (\<exists>reason \<in> set (fs_blockers s). contains STALE_MARK reason))"
  by (auto simp: fx_freshness_def Let_def crosses_def filter_empty_conv split: option.splits)

text \<open>The position the account holds in the listing.\<close>

definition holding :: "risk_inputs \<Rightarrow> position_state option" where
  "holding i = Option.bind (ri_account i) (\<lambda>a. acct_position a (inst_broker_ticker (ri_identity i)))"

lemma blocks_position [gate_simps]:
  "blocks (current_position i) \<longleftrightarrow> ri_account i \<noteq> None
     \<and> (if ri_action i \<in> RISK_REDUCING_ACTIONS
        then \<not> (\<exists>p. holding i = Some p \<and> 0 < dval (pos_quantity_available p))
        else (\<exists>p. holding i = Some p \<and> 0 < dval (pos_quantity p) \<and> pos_market_value p = None))"
  by (auto simp: current_position_def Let_def holding_def dec_simps is_none_def split: option.splits)

lemma blocks_duplicate [gate_simps]:
  "blocks (duplicate_or_conflicting_proposal i) \<longleftrightarrow>
     res_same_instrument_count (ri_reserved i) \<noteq> 0 \<or> opposing_sides i \<noteq> []"
  by (simp add: duplicate_or_conflicting_proposal_def Let_def)

lemma blocks_max_active [gate_simps]:
  "blocks (max_active_proposals i) \<longleftrightarrow> ri_action i \<notin> RISK_REDUCING_ACTIONS
     \<and> rc_max_active_proposals (ri_config i) \<le> res_count (ri_reserved i)"
  by (auto simp: max_active_proposals_def Let_def)

lemma blocks_confidence [gate_simps]:
  "blocks (research_confidence_floor i) \<longleftrightarrow> ri_action i \<notin> RISK_REDUCING_ACTIONS
     \<and> dval (ri_confidence i) < dval (rc_min_research_confidence (ri_config i))"
  by (auto simp: research_confidence_floor_def Let_def dec_simps)

section \<open>What passing every gate means\<close>

definition gates_clear :: "risk_inputs \<Rightarrow> bool" where
  "gates_clear i = (\<forall>r \<in> set (gate_results i). rr_outcome r \<noteq> rule_outcome.BLOCK)"

text \<open>
  The entry conditions, stated over the facts instead of over rules: a listing that is the one
  the resolver verified, an account read recently enough, a priceable quote, reconcilable
  currencies, and the portfolio conditions of the side.
\<close>

definition identity_ok :: "risk_inputs \<Rightarrow> bool" where
  "identity_ok i =
     (let d = ri_identity i
      in inst_resolution_status d = resolution_status.RESOLVED \<and> inst_is_active d
         \<and> inst_broker_ticker d \<noteq> [] \<and> or_else (inst_market_symbol d) [] \<noteq> []
         \<and> inst_company_id d \<noteq> None
         \<and> upper (or_else (inst_instrument_type d) []) \<in> upper ` set (rc_allowed_instrument_types (ri_config i)))"

definition account_ok :: "risk_inputs \<Rightarrow> bool" where
  "account_ok i =
     (\<exists>a. ri_account i = Some a
        \<and> dval (acct_age_seconds a (ri_now i)) \<le> dval (rc_max_account_state_age_seconds (ri_config i)))"

definition quote_ok :: "risk_config \<Rightarrow> quote_snapshot \<Rightarrow> bool" where
  "quote_ok c q =
     (q_provider_blockers q = [] \<and> dval (quote_age_seconds q) \<le> dval (rc_max_quote_age_seconds c)
      \<and> spread_tradable c (q_spread q) \<and> q_session q \<in> set (rc_allowed_sessions c)
      \<and> (rc_require_known_session c \<longrightarrow> q_session q \<noteq> market_session.UNKNOWN))"

definition currency_ok :: "risk_inputs \<Rightarrow> bool" where
  "currency_ok i =
     (account_currency i \<noteq> [] \<and> identity_currency i \<noteq> []
      \<and> (quote_currency i = [] \<or> quote_currency i = identity_currency i)
      \<and> (account_currency i = identity_currency i
         \<or> (\<not> rc_require_same_currency (ri_config i) \<and> (\<exists>s. ri_fx i = Some s \<and> fs_usable s))))"

definition portfolio_ok :: "risk_inputs \<Rightarrow> bool" where
  "portfolio_ok i =
     (res_same_instrument_count (ri_reserved i) = 0 \<and> opposing_sides i = []
      \<and> (if ri_action i = thesis_action.BUY
         then dval (rc_min_research_confidence (ri_config i)) \<le> dval (ri_confidence i)
              \<and> res_count (ri_reserved i) < rc_max_active_proposals (ri_config i)
              \<and> res_blockers (ri_reserved i) = []
              \<and> (\<forall>p. holding i = Some p \<and> 0 < dval (pos_quantity p) \<longrightarrow> pos_market_value p \<noteq> None)
         else ri_action i \<in> RISK_REDUCING_ACTIONS
              \<and> (\<exists>p. holding i = Some p \<and> 0 < dval (pos_quantity_available p))))"

lemma identity_problems_Nil:
  "identity_problems d = [] \<longleftrightarrow> inst_resolution_status d = resolution_status.RESOLVED \<and> inst_is_active d
     \<and> inst_broker_ticker d \<noteq> [] \<and> or_else (inst_market_symbol d) [] \<noteq> [] \<and> inst_company_id d \<noteq> None"
  by (auto simp: identity_problems_def is_none_def split: option.splits)

lemma usable_split:
  "fs_usable s \<longleftrightarrow> (\<forall>r \<in> set (fs_blockers s). contains STALE_MARK r) \<and> (\<forall>r \<in> set (fs_blockers s). \<not> contains STALE_MARK r)"
  by (cases "fs_blockers s") (auto simp: fs_usable_def)

lemma gates_clear_conditions:
  "gates_clear i \<longleftrightarrow> ACTION_SIDES (ri_action i) \<noteq> None \<and> identity_ok i \<and> account_ok i
     \<and> (\<exists>q. ri_quote i = Some q \<and> quote_ok (ri_config i) q) \<and> currency_ok i \<and> portfolio_ok i" (is "_ \<longleftrightarrow> ?R")
proof -
  have acct: "account_ok i \<longleftrightarrow> \<not> blocks (account_state_available i) \<and> \<not> blocks (account_state_freshness i)"
    by (auto simp: gate_simps account_ok_def not_less split: option.splits)
  have iden: "identity_ok i \<longleftrightarrow> \<not> blocks (instrument_identity_rule i) \<and> \<not> blocks (instrument_type_supported i)"
    by (simp add: gate_simps identity_ok_def identity_problems_Nil Let_def) blast
  have quote: "(\<exists>q. ri_quote i = Some q \<and> quote_ok (ri_config i) q) \<longleftrightarrow>
      \<not> blocks (quote_available i) \<and> \<not> blocks (price_source_execution_grade i) \<and> \<not> blocks (quote_freshness i)
      \<and> \<not> blocks (quote_two_sided i) \<and> \<not> blocks (spread_ceiling i) \<and> \<not> blocks (market_session_rule i)"
    by (auto simp: gate_simps quote_ok_def spread_tradable_def not_less)
  have curr: "currency_ok i \<longleftrightarrow>
      \<not> blocks (currency_alignment i) \<and> \<not> blocks (fx_available i) \<and> \<not> blocks (fx_freshness i)"
    by (cases "ri_fx i"; cases "account_currency i = identity_currency i"; cases "quote_currency i = []")
      (simp_all add: gate_simps currency_ok_def crosses_def usable_split, auto)
  have port: "ri_account i \<noteq> None \<Longrightarrow> ACTION_SIDES (ri_action i) \<noteq> None \<Longrightarrow> portfolio_ok i \<longleftrightarrow>
      \<not> blocks (current_position i) \<and> \<not> blocks (duplicate_or_conflicting_proposal i)
      \<and> \<not> blocks (max_active_proposals i) \<and> \<not> blocks (reservation_accounting i)
      \<and> \<not> blocks (research_confidence_floor i)"
    by (cases "ri_action i") (auto simp: gate_simps portfolio_ok_def reducing_iff not_less not_le)
  have "gates_clear i \<longleftrightarrow> ACTION_SIDES (ri_action i) \<noteq> None \<and> identity_ok i \<and> account_ok i
      \<and> (\<exists>q. ri_quote i = Some q \<and> quote_ok (ri_config i) q) \<and> currency_ok i
      \<and> (\<not> blocks (current_position i) \<and> \<not> blocks (duplicate_or_conflicting_proposal i)
         \<and> \<not> blocks (max_active_proposals i) \<and> \<not> blocks (reservation_accounting i)
         \<and> \<not> blocks (research_confidence_floor i))"
    unfolding gates_clear_def gate_results_def acct iden quote curr
    by (simp add: blocks_action)
  then show ?thesis using port by (auto simp: account_ok_def)
qed

text \<open>
  C17: the gates let a trade through exactly when its entry conditions hold. No gate blocks if and
  only if the listing is verified, the account state and the quote are present and fresh, the
  book and session are tradable, every needed conversion has a usable rate, and the conditions
  of the side hold; a reduction is never held to the confidence floor, the proposal limit
  or the reservation accounting.
\<close>

theorem gates_clear_iff:
  "gates_clear i \<longleftrightarrow> ACTION_SIDES (ri_action i) \<noteq> None \<and> identity_ok i \<and> account_ok i
     \<and> (\<exists>q. ri_quote i = Some q \<and> quote_ok (ri_config i) q) \<and> currency_ok i \<and> portfolio_ok i"
  by (rule gates_clear_conditions)

end
