(* ===== verification/Risk_Caps.thy ===== *)
theory Risk_Caps
  imports Risk_Rules
begin

text \<open>
  The caps and size factors of \<open>backend/stockbrain/risk/rules.py\<close>: every ceiling on the notional
  of a buy, conviction sizing with its water-filling loop, the factors that may shrink a size,
  and the drift and expiry rules used when a proposal is evaluated again. A cap that has to be
  converted uses the snapshot's conversion, which can raise.
\<close>

section \<open>Conviction sizing\<close>

definition pct :: "decimal \<Rightarrow> decimal \<Rightarrow> decimal" where
  "pct total_value fraction = total_value * fraction"

definition conviction_weight :: "risk_config \<Rightarrow> decimal \<Rightarrow> decimal" where
  "conviction_weight c confidence =
     (let floor = rc_min_research_confidence c;
          span = rc_conviction_full_confidence c - floor;
          progress = (if span \<le> ZERO then dec_of_int 1 else dquot (confidence - floor) span);
          progress = dmin (dec_of_int 1) (dmax ZERO progress);
          low = rc_conviction_min_weight c; high = rc_conviction_max_weight c
      in low + (high - low) * progress)"

lemma bindE_cong [fundef_cong]:
  "m = m' \<Longrightarrow> (\<And>x. m' = Inr x \<Longrightarrow> f x = g x) \<Longrightarrow> bindE m f = bindE m' g"
  by (cases m') simp_all

text \<open>The shares of the remaining amount among the open names, in proportion to their weights.\<close>

definition shares :: "decimal \<Rightarrow> (string \<times> decimal) list \<Rightarrow> (string \<times> decimal) list res" where
  "shares remaining names =
     (let weight_sum = foldl (\<lambda>s nw. s + snd nw) ZERO names
      in mapE (\<lambda>nw. bindE (ddiv (remaining * snd nw) weight_sum) (\<lambda>v. Inr (fst nw, v))) names)"

lemma shares_names: "shares remaining names = Inr share \<Longrightarrow> map fst share = map fst names"
proof -
  assume "shares remaining names = Inr share"
  then have "list_all2 (\<lambda>nw nv. fst nv = fst nw) names share"
    unfolding shares_def Let_def by (rule list_all2_mono[OF mapE_Inr_list_all2]) (auto simp: bindE_eq_Inr)
  then show ?thesis by induction simp_all
qed

lemma capped_removed:
  assumes "shares remaining names = Inr share" "filter P share \<noteq> []"
  shows "length (filter (\<lambda>nw. fst nw \<notin> fst ` set (filter P share)) names) < length names"
proof -
  obtain nv where "nv \<in> set share" "P nv" using assms(2) by (auto simp: filter_empty_conv)
  moreover from this obtain nw where "nw \<in> set names" "fst nw = fst nv"
    using shares_names[OF assms(1)] by (metis (no_types, lifting) image_iff list.set_map)
  ultimately show ?thesis by (intro length_filter_less[of nw]) auto
qed

text \<open>
  The loop of \<open>conviction_targets\<close>: holdings whose share reaches the cap are fixed at the cap and
  leave the rest to be split again. Every round closes at least one name.
\<close>

function water_fill ::
  "decimal \<Rightarrow> (string \<times> decimal) list \<Rightarrow> decimal \<Rightarrow> (string \<times> decimal) list
     \<Rightarrow> (string \<times> decimal) list res" where
  "water_fill cap names remaining targets =
     (if names = [] \<or> \<not> ZERO < remaining then Inr targets
      else bindE (shares remaining names) (\<lambda>share.
        let capped = filter (\<lambda>nv. cap \<le> snd nv) share
        in if capped = [] then Inr (targets @ share)
           else water_fill cap (filter (\<lambda>nw. fst nw \<notin> fst ` set capped) names)
                  (foldl (\<lambda>r _. r - cap) remaining capped)
                  (targets @ map (\<lambda>nv. (fst nv, cap)) capped)))"
  by pat_completeness auto
termination
  by (relation "measure (\<lambda>(cap, names, remaining, targets). length names)") (auto dest: capped_removed)

declare water_fill.simps [simp del]

definition conviction_targets ::
  "decimal \<Rightarrow> (string \<times> decimal) list \<Rightarrow> risk_config \<Rightarrow> (string \<times> decimal) list res" where
  "conviction_targets total_value weights c =
     bindE (water_fill (pct total_value (rc_max_position_pct_of_portfolio c))
              (filter (\<lambda>nw. ZERO < snd nw) weights) total_value [])
       (\<lambda>targets. Inr (map (\<lambda>nw. (fst nw, or_else (map_of targets (fst nw)) ZERO)) weights))"

section \<open>Caps\<close>

record notional_cap =
  nc_rule_id :: string
  nc_rule_version :: int
  nc_limit :: decimal
  nc_observed :: string
  nc_threshold :: string
  nc_reason :: string
  nc_defines_intent :: bool

definition cap_of ::
  "string \<Rightarrow> int \<Rightarrow> decimal \<Rightarrow> string \<Rightarrow> string \<Rightarrow> string \<Rightarrow> bool \<Rightarrow> notional_cap" where
  "cap_of rule_id version limit observed threshold reason intent =
     \<lparr>nc_rule_id = rule_id, nc_rule_version = version, nc_limit = limit, nc_observed = observed,
      nc_threshold = threshold, nc_reason = reason, nc_defines_intent = intent\<rparr>"

text \<open>\<open>d or ZERO\<close>: a zero is falsy.\<close>

definition or_zero :: "decimal option \<Rightarrow> decimal" where
  "or_zero d = (case d of None \<Rightarrow> ZERO | Some v \<Rightarrow> if coeff v = 0 then ZERO else v)"

definition OTHER :: string where
  "OTHER = CHR 0x00 # ''other:''"

definition book_weights :: "risk_inputs \<Rightarrow> decimal \<Rightarrow> (string \<times> decimal) list" where
  "book_weights i weight =
     (inst_broker_ticker (ri_identity i), weight)
       # map (\<lambda>(index, other). (OTHER @ show_int (int index), other))
           (enumerate 0 (or_else (ri_other_holding_weights i) []))"

text \<open>The target holding under conviction sizing, and how its share is described.\<close>

definition conviction_target :: "risk_inputs \<Rightarrow> account_state \<Rightarrow> decimal \<Rightarrow> (decimal \<times> string) res" where
  "conviction_target i account weight =
     (let config = ri_config i; total_value = acct_total_value account
      in if rc_target_positions config = 0
         then let weights = book_weights i weight
              in bindE (conviction_targets total_value weights config) (\<lambda>targets.
                   Inr (or_else (map_of targets (inst_broker_ticker (ri_identity i))) ZERO,
                        show_int (int (length weights)) @ ''-holding book'' @ [CHR 0x27] @ ''s weighted''))
         else bindE (ddiv total_value (dec_of_int (rc_target_positions config))) (\<lambda>part.
                Inr (dmin (part * weight) (pct total_value (rc_max_position_pct_of_portfolio config)),
                     ''1/'' @ show_int (rc_target_positions config))))"

definition intent_caps :: "risk_inputs \<Rightarrow> account_state \<Rightarrow> decimal \<Rightarrow> notional_cap list res" where
  "intent_caps i account held_value =
     (let config = ri_config i; total_value = acct_total_value account
      in if rc_sizing_mode config = ''conviction''
         then let weight = conviction_weight config (ri_confidence i)
              in bindE (conviction_target i account weight) (\<lambda>(target, share).
                   Inr [cap_of ''conviction_target'' 1 (dmax ZERO (target - held_value))
                     (dec_str held_value) (dec_str target)
                     (''confidence '' @ dec_str (ri_confidence i) @ '' weights the '' @ dec_str total_value
                      @ '' '' @ acct_currency account @ '' account'' @ [CHR 0x27] @ ''s '' @ share @ '' share by ''
                      @ dec_str weight @ '': a target holding of '' @ dec_str target @ '', ''
                      @ dec_str held_value @ '' already held'')
                     True])
         else Inr [cap_of ''max_trade_pct_of_portfolio'' 1
                (pct total_value (rc_max_trade_pct_of_portfolio config)) (dec_str total_value)
                (dec_str (rc_max_trade_pct_of_portfolio config))
                (dec_str (rc_max_trade_pct_of_portfolio config) @ '' of the '' @ dec_str total_value @ '' ''
                 @ acct_currency account @ '' portfolio may be committed to one trade'')
                True])"

definition portfolio_caps :: "risk_inputs \<Rightarrow> account_state \<Rightarrow> decimal \<Rightarrow> notional_cap list" where
  "portfolio_caps i account held_value =
     (let config = ri_config i; total_value = acct_total_value account; reserved = ri_reserved i;
          reserve = pct total_value (rc_min_cash_reserve_pct config)
      in [cap_of ''max_position_concentration'' 1
            (dmax ZERO (pct total_value (rc_max_position_pct_of_portfolio config) - held_value))
            (dec_str held_value) (dec_str (pct total_value (rc_max_position_pct_of_portfolio config)))
            (inst_broker_ticker (ri_identity i) @ '' may reach ''
             @ dec_str (rc_max_position_pct_of_portfolio config) @ '' of the portfolio; ''
             @ dec_str held_value @ '' is already held'') False,
          cap_of ''max_aggregate_exposure'' 1
            (dmax ZERO (pct total_value (rc_max_aggregate_exposure_pct config) - acct_invested_value account))
            (dec_str (acct_invested_value account))
            (dec_str (pct total_value (rc_max_aggregate_exposure_pct config)))
            (''aggregate invested value may reach '' @ dec_str (rc_max_aggregate_exposure_pct config)
             @ '' of the portfolio; '' @ dec_str (acct_invested_value account)
             @ '' is already invested'') False,
          cap_of ''active_proposal_exposure'' 1
            (dmax ZERO (pct total_value (rc_max_active_proposal_exposure_pct config) - res_notional reserved))
            (dec_str (res_notional reserved))
            (dec_str (pct total_value (rc_max_active_proposal_exposure_pct config)))
            (show_int (res_count reserved) @ '' live proposal(s) already reserve ''
             @ dec_str (res_notional reserved) @ '' of the ''
             @ dec_str (rc_max_active_proposal_exposure_pct config) @ '' proposal exposure budget'') False,
          cap_of ''min_cash_reserve'' 1
            (dmax ZERO (acct_cash_available account - reserve - res_notional reserved))
            (dec_str (acct_cash_available account)) (dec_str reserve)
            (dec_str (acct_cash_available account) @ '' cash available, keeping a '' @ dec_str reserve
             @ '' reserve ('' @ dec_str (rc_min_cash_reserve_pct config)
             @ '' of portfolio) and honouring '' @ dec_str (res_notional reserved)
             @ '' already reserved by live proposals'') False])"

definition broker_caps :: "risk_inputs \<Rightarrow> position_state option \<Rightarrow> notional_cap list res" where
  "broker_caps i position =
     (case (inst_max_open_quantity (ri_identity i), Option.bind (ri_quote i) q_mid) of
        (Some max_open, Some price) \<Rightarrow>
          if \<not> ZERO < price then Inr []
          else
            let held_quantity = (case position of None \<Rightarrow> ZERO | Some p \<Rightarrow> pos_quantity p);
                remaining = dmax ZERO (max_open - held_quantity);
                limit_instrument = remaining * price
            in bindE
                 (case ri_fx i of
                    None \<Rightarrow> Inr (Some limit_instrument)
                  | Some fx \<Rightarrow>
                      if \<not> fs_conversion_required fx then Inr (Some limit_instrument)
                      else if fs_usable fx
                      then bindE (fs_to_account_currency fx limit_instrument) (\<lambda>l. Inr (Some l))
                      else Inr None)
                 (\<lambda>limit_account. Inr (case limit_account of
                    None \<Rightarrow> []
                  | Some limit \<Rightarrow>
                      [cap_of ''broker_max_open_quantity'' 2 limit (dec_str held_quantity)
                         (dec_str max_open)
                         (''the broker caps open quantity at '' @ dec_str max_open @ '' for ''
                          @ inst_broker_ticker (ri_identity i) @ ''; '' @ dec_str held_quantity
                          @ '' is already held'') False]))
      | _ \<Rightarrow> Inr [])"

definition notional_caps :: "risk_inputs \<Rightarrow> notional_cap list res" where
  "notional_caps i =
     (if ri_action i \<notin> EXPOSURE_INCREASING_ACTIONS then Inr []
      else case ri_account i of
        None \<Rightarrow> Inr []
      | Some account \<Rightarrow>
          let position = acct_position account (inst_broker_ticker (ri_identity i));
              held_value = (case position of None \<Rightarrow> ZERO | Some p \<Rightarrow> or_zero (pos_market_value p));
              per_trade = rc_max_notional_per_trade (ri_config i);
              absolute = cap_of ''max_notional_per_trade'' 1 per_trade (dec_str per_trade) (dec_str per_trade)
                (''absolute per-trade ceiling of '' @ dec_str per_trade) True
          in bindE (intent_caps i account held_value) (\<lambda>intent.
             bindE (broker_caps i position) (\<lambda>brokers.
             Inr ([absolute] @ intent @ portfolio_caps i account held_value @ brokers))))"

definition cap_outcome :: "notional_cap \<Rightarrow> decimal \<Rightarrow> rule_outcome" where
  "cap_outcome cap intended =
     (if nc_limit cap \<le> ZERO then rule_outcome.BLOCK
      else if \<not> nc_defines_intent cap \<and> nc_limit cap < intended then rule_outcome.REDUCE
      else rule_outcome.PASS)"

definition cap_rule_results :: "notional_cap list \<Rightarrow> decimal \<Rightarrow> rule_result list" where
  "cap_rule_results caps intended =
     map (\<lambda>cap. let outcome = cap_outcome cap intended
        in \<lparr>rr_rule_id = nc_rule_id cap, rr_rule_version = nc_rule_version cap, rr_outcome = outcome,
            rr_reason =
              (if outcome = rule_outcome.BLOCK then nc_reason cap @ ''; no headroom remains''
               else if outcome = rule_outcome.REDUCE
               then nc_reason cap @ ''; caps this trade at '' @ dec_str (nc_limit cap)
               else nc_reason cap),
            rr_observed = Some (nc_observed cap), rr_threshold = Some (nc_threshold cap),
            rr_max_notional = Some (nc_limit cap), rr_size_factor = None\<rparr>) caps"

text \<open>\<open>min(..., default=ZERO)\<close>\<close>

definition min_or_zero :: "decimal list \<Rightarrow> decimal" where
  "min_or_zero xs = (case xs of [] \<Rightarrow> ZERO | x # ys \<Rightarrow> dmin_list x ys)"

definition target_fill_rule :: "notional_cap list \<Rightarrow> risk_config \<Rightarrow> rule_result option" where
  "target_fill_rule caps c =
     (if rc_sizing_mode c \<noteq> ''conviction'' then None
      else case find (\<lambda>cap. nc_rule_id cap = ''conviction_target'') caps of
        None \<Rightarrow> None
      | Some cap \<Rightarrow>
          let target = nc_limit cap
          in if target \<le> ZERO then None
             else
               let available = min_or_zero (map nc_limit caps); needed = target * rc_min_fill_fraction c
               in Some (verdict_of ''target_fill'' 1 (pass_if (needed \<le> available))
                    (if needed \<le> available
                     then dec_str available @ '' of the '' @ dec_str target @ '' target can be funded''
                     else ''only '' @ dec_str available @ '' of the '' @ dec_str target
                          @ '' target can be funded, below the '' @ dec_str (rc_min_fill_fraction c)
                          @ '' minimum fill; a scrap position is not placed'')
                    (Some (dec_str available)) (Some (dec_str needed))))"

section \<open>Size factors\<close>

definition factor_rule :: "string \<Rightarrow> string \<Rightarrow> string \<Rightarrow> decimal \<Rightarrow> decimal \<Rightarrow> rule_result" where
  "factor_rule rule_id reason observed lowest factor =
     (verdict_of rule_id 1 (if factor < dec_of_int 1 then rule_outcome.REDUCE else rule_outcome.PASS)
        reason (Some observed) (Some (''['' @ dec_str lowest @ '', 1]'')))
     \<lparr>rr_size_factor := Some factor\<rparr>"

definition confidence_factor :: "risk_config \<Rightarrow> decimal \<Rightarrow> decimal" where
  "confidence_factor c confidence =
     (let floor = rc_min_research_confidence c; factor_floor = rc_min_confidence_size_factor c;
          span = dec_of_int 1 - floor;
          factor = (if span \<le> ZERO then dec_of_int 1
                    else factor_floor + (dec_of_int 1 - factor_floor) * dquot (confidence - floor) span)
      in dmin (dec_of_int 1) (dmax factor_floor factor))"

definition confidence_size_factor :: "risk_inputs \<Rightarrow> rule_result option" where
  "confidence_size_factor i =
     (let c = ri_config i
      in if \<not> rc_confidence_modulates_size c \<or> rc_sizing_mode c = ''conviction'' then None
         else let factor = confidence_factor c (ri_confidence i)
              in Some (factor_rule ''confidence_size_modulation''
                   (''research confidence '' @ dec_str (ri_confidence i) @ '' scales the size to ''
                    @ dec_str factor
                    @ '' of the deterministic maximum (it can only reduce, never authorise)'')
                   (dec_str (ri_confidence i)) (rc_min_confidence_size_factor c) factor))"

definition calibration_factor :: "risk_config \<Rightarrow> decimal \<Rightarrow> decimal" where
  "calibration_factor c hit_rate =
     dmin (dec_of_int 1) (dmax (rc_min_calibration_size_factor c) (Dec 5 (- 1) + hit_rate))"

definition calibration_size_factor :: "risk_inputs \<Rightarrow> rule_result option" where
  "calibration_size_factor i =
     (let c = ri_config i
      in case ri_calibration i of
           None \<Rightarrow> None
         | Some bucket \<Rightarrow>
             if \<not> rc_calibration_modulates_size c then None
             else if cb_samples bucket < rc_calibration_min_samples c
             then Some (skipped ''calibration_size_modulation'' 1
                    (cb_key bucket @ '' has '' @ show_int (cb_samples bucket) @ '' of ''
                     @ show_int (rc_calibration_min_samples c) @ '' graded outcomes needed'')
                    (Some (show_int (rc_calibration_min_samples c))))
             else
               let factor = calibration_factor c (cb_hit_rate bucket)
               in Some (factor_rule ''calibration_size_modulation''
                    (cb_key bucket @ '': '' @ show_int (cb_correct bucket) @ ''/''
                     @ show_int (cb_samples bucket) @ '' correct, mean alpha ''
                     @ signed_percent_n 2 (cb_mean_alpha bucket) @ '', scales the size to ''
                     @ dec_str factor
                     @ '' of the deterministic maximum (it can only reduce, never authorise)'')
                    (dec_str (cb_hit_rate bucket)) (rc_min_calibration_size_factor c) factor))"

section \<open>Drift and expiry\<close>

definition reference_price_drift :: "decimal \<Rightarrow> decimal option \<Rightarrow> decimal \<Rightarrow> rule_result res" where
  "reference_price_drift reference_price current_price max_drift_pct =
     (case current_price of
        Some current \<Rightarrow>
          if reference_price \<le> ZERO
          then Inr (verdict_of ''reference_price_drift'' 1 rule_outcome.BLOCK
            ''the reference price cannot be compared against a current price'' None
            (Some (dec_str max_drift_pct)))
          else
            bindE (ddiv \<bar>current - reference_price\<bar> reference_price) (\<lambda>drift.
            bindE (quantize_even drift (- 6)) (\<lambda>shown.
            let ok = drift \<le> max_drift_pct;
                moved = ''the market has moved '' @ fixed_n 4 drift @ '' from the ''
                  @ dec_str reference_price @ '' reference price, ''
            in Inr (verdict_of ''reference_price_drift'' 1 (pass_if ok)
                 (if ok then moved @ ''within the '' @ dec_str max_drift_pct @ '' limit''
                  else moved @ ''beyond the '' @ dec_str max_drift_pct
                       @ '' limit; the proposal no longer describes this trade'')
                 (Some (dec_str shown)) (Some (dec_str max_drift_pct)))))
      | None \<Rightarrow> Inr (verdict_of ''reference_price_drift'' 1 rule_outcome.BLOCK
            ''the reference price cannot be compared against a current price'' None
            (Some (dec_str max_drift_pct))))"

definition fx_rate_drift ::
  "decimal option \<Rightarrow> fx_snapshot option \<Rightarrow> decimal \<Rightarrow> rule_result res" where
  "fx_rate_drift authorized_rate current max_drift_pct =
     (let rule = (\<lambda>outcome reason observed.
            verdict_of ''fx_rate_drift'' 1 outcome reason observed (Some (dec_str max_drift_pct)));
          no_conversion = rule rule_outcome.PASS
            ''no conversion is involved, so no rate can drift'' (Some ''0'')
      in case current of
           None \<Rightarrow> Inr no_conversion
         | Some snapshot \<Rightarrow>
             if fs_same_currency snapshot then Inr no_conversion
             else case authorized_rate of
               None \<Rightarrow> Inr (rule rule_outcome.WARN ''no authorized FX rate to compare against'' None)
             | Some authorized \<Rightarrow>
                 if authorized \<le> ZERO
                 then Inr (rule rule_outcome.WARN ''no authorized FX rate to compare against'' None)
                 else case (fs_usable snapshot, fs_rate snapshot) of
                   (True, Some rate) \<Rightarrow>
                     bindE (ddiv \<bar>rate - authorized\<bar> authorized) (\<lambda>drift.
                     bindE (quantize_even drift (- 6)) (\<lambda>shown.
                     let ok = drift \<le> max_drift_pct;
                         moved = show_opt (fs_pair snapshot) @ '' has moved '' @ fixed_n 6 drift
                           @ '' from the authorized '' @ dec_str authorized @ '', ''
                     in Inr (rule (pass_if ok)
                          (if ok then moved @ ''within the '' @ dec_str max_drift_pct @ '' limit''
                           else moved @ ''beyond the '' @ dec_str max_drift_pct
                                @ '' limit; the account-currency size the operator approved no longer holds'')
                          (Some (dec_str shown)))))
                 | _ \<Rightarrow> Inr (rule rule_outcome.BLOCK
                     (''the authorized FX rate cannot be compared against a current one: ''
                      @ or_text (join ''; '' (fs_blockers snapshot)) ''no current rate'') None))"

definition proposal_ttl :: "instant \<Rightarrow> instant \<Rightarrow> rule_result" where
  "proposal_ttl expires_at now =
     (let expired = expires_at \<le> now
      in verdict_of ''proposal_ttl'' 1 (pass_if (\<not> expired))
           (if expired then ''the proposal expired at '' @ isoformat expires_at
            else ''the proposal is valid until '' @ isoformat expires_at)
           (Some (isoformat now)) (Some (isoformat expires_at)))"

end
