(* ===== verification/Examples.thy ===== *)
theory Examples
  imports Risk_Caps
begin

text \<open>
  One concrete evaluation, used to show that hypotheses of the properties can hold together: a
  US listing on a dollar account, quoted at 99.95 / 100.05 in the regular session, with four
  shares held, under the default configuration.
\<close>

definition acme_identity :: instrument_identity where
  "acme_identity =
     \<lparr>inst_broker_instrument_id = ''1'', inst_broker = broker.TRADING212,
      inst_broker_ticker = ''ACME_US_EQ'', inst_market_symbol = Some ''ACME'',
      inst_resolution_status = resolution_status.RESOLVED, inst_is_active = True,
      inst_instrument_type = Some ''STOCK'', inst_currency = Some ''USD'', inst_exchange = Some ''XNAS'',
      inst_isin = None, inst_company_id = Some ''7'', inst_max_open_quantity = Some (Dec 1000 0),
      inst_extended_hours = False, inst_quantity_precision = None\<rparr>"

definition acme_quote :: quote_snapshot where
  "acme_quote =
     \<lparr>q_symbol = ''ACME'', q_provider = ''alpaca'', q_feed = ''iex'', q_price_source = price_source.ALPACA_IEX,
      q_bid = Some (Dec 9995 (- 2)), q_ask = Some (Dec 10005 (- 2)), q_mid = Some (Dec 10000 (- 2)),
      q_provider_timestamp = 0, q_received_at = 1000000, q_age_ms = 1000, q_currency = ''USD'',
      q_spread = measured spread_status.OK (Dec 9995 (- 2)) (Dec 10005 (- 2)) (Dec 10 (- 2)) (Dec 10000 (- 2))
        (Some (Dec 100000 (- 8))) (Some (Dec 100000 (- 4))) (Dec 50 0) ''within'',
      q_session = market_session.REGULAR, q_session_source = ''calendar'', q_session_holiday_aware = True,
      q_provider_blockers = []\<rparr>"

definition acme_position :: position_state where
  "acme_position =
     \<lparr>pos_broker_ticker = ''ACME_US_EQ'', pos_quantity = Dec 4 0, pos_quantity_available = Dec 4 0,
      pos_currency = Some ''USD'', pos_average_price = Some (Dec 95 0), pos_current_price = Some (Dec 100 0),
      pos_market_value = Some (Dec 400 0)\<rparr>"

definition acme_account :: account_state where
  "acme_account =
     \<lparr>acct_broker = broker.TRADING212, acct_account_id = ''A1'', acct_currency = ''USD'',
      acct_cash_available = Dec 30000 0, acct_total_value = Dec 50000 0, acct_captured_at = 0,
      acct_cash_reserved = Dec 0 0, acct_cash_in_pies = Dec 0 0, acct_invested_value = Dec 20000 0,
      acct_positions = [(''ACME_US_EQ'', acme_position)]\<rparr>"

definition no_reservations :: reserved_exposure where
  "no_reservations =
     \<lparr>res_count = 0, res_notional = Dec 0 0, res_same_instrument_count = 0,
      res_same_instrument_notional = Dec 0 0, res_same_instrument_sides = [], res_blockers = []\<rparr>"

definition acme_inputs :: "thesis_action \<Rightarrow> risk_inputs" where
  "acme_inputs action =
     \<lparr>ri_config = default_risk_config, ri_action = action, ri_confidence = Dec 85 (- 2),
      ri_identity = acme_identity, ri_account = Some acme_account, ri_quote = Some acme_quote,
      ri_reserved = no_reservations, ri_now = 2000000,
      ri_fx = Some (same_currency_snapshot ''USD''), ri_account_state_missing_reason = None,
      ri_quote_missing_reason = None, ri_authorized_fx_rate = None, ri_calibration = None,
      ri_other_holding_weights = None, ri_reduce_fraction = None\<rparr>"

end
