(* ===== verification/Sizing.thy ===== *)
theory Sizing
  imports Examples
begin

text \<open>
  \<open>backend/stockbrain/risk/sizing.py\<close>: the order parameters of one trade, or why there are none.
  The list of reasons is shared between \<open>size_trade\<close> and its two helpers, so an exception inside a
  helper carries the reasons collected so far; \<open>size_trade\<close> turns a \<open>ValueError\<close> into a
  non-executable size and lets the decimal signals through.
\<close>

section \<open>Rounding a quantity\<close>

definition round_quantity :: "decimal \<Rightarrow> risk_config \<Rightarrow> instrument_identity \<Rightarrow> decimal res" where
  "round_quantity raw c identity =
     (if raw \<le> ZERO then Inr ZERO
      else if \<not> rc_allow_fractional_quantity c then quantize_down raw 0
      else let precision = or_else (inst_quantity_precision identity) (rc_default_quantity_precision c)
           in quantize_down raw (expo (dscaleb 1 (- precision))))"

section \<open>Results\<close>

text \<open>An exception with the reasons appended before it.\<close>

type_synonym 'a sized = "(py_error \<times> string list) + 'a"

definition tryE :: "string list \<Rightarrow> 'a res \<Rightarrow> ('a \<Rightarrow> 'b sized) \<Rightarrow> 'b sized" where
  "tryE reasons m f = (case m of Inl e \<Rightarrow> Inl (e, reasons) | Inr x \<Rightarrow> f x)"

definition nothing ::
  "order_side option \<Rightarrow> string option \<Rightarrow> string option \<Rightarrow> string list \<Rightarrow> decimal \<Rightarrow> decimal option
     \<Rightarrow> sizing_result" where
  "nothing side currency account_cur reasons max_notional reference_price =
     \<lparr>sz_side = side, sz_quantity = ZERO, sz_target_notional = ZERO, sz_max_quantity = ZERO,
      sz_max_notional = max_notional, sz_reference_price = reference_price, sz_currency = currency,
      sz_account_currency = account_cur, sz_notional_account_currency = ZERO,
      sz_max_notional_instrument_currency = ZERO, sz_reasons = reasons, sz_executable = False\<rparr>"

section \<open>Buys\<close>

definition size_buy ::
  "risk_config \<Rightarrow> instrument_identity \<Rightarrow> decimal \<Rightarrow> string option \<Rightarrow> string option \<Rightarrow> fx_snapshot
     \<Rightarrow> decimal \<Rightarrow> decimal \<Rightarrow> string list \<Rightarrow> sizing_result sized" where
  "size_buy c identity reference_price currency account_cur fx max_notional size_factor reasons =
     (let cur = or_else currency []; acc = or_else account_cur [];
          base = \<lparr>sz_side = Some order_side.BUY, sz_quantity = ZERO, sz_target_notional = ZERO,
            sz_max_quantity = ZERO, sz_max_notional = max_notional,
            sz_reference_price = Some reference_price, sz_currency = currency,
            sz_account_currency = account_cur, sz_notional_account_currency = ZERO,
            sz_max_notional_instrument_currency = ZERO, sz_reasons = reasons, sz_executable = False\<rparr>
      in if max_notional \<le> ZERO
         then Inr (base\<lparr>sz_max_notional := ZERO, sz_reasons := reasons
                @ [''no notional headroom remains for an exposure-increasing trade'']\<rparr>)
         else
           tryE reasons (fs_to_instrument_currency fx max_notional) (\<lambda>max_instr.
           tryE reasons (ddiv max_instr reference_price) (\<lambda>raw_max.
           tryE reasons (round_quantity raw_max c identity) (\<lambda>max_quantity.
           let target_instr = max_instr * size_factor;
               reasons1 = reasons @ (if size_factor < dec_of_int 1
                 then [rstrip (''size factor '' @ dec_str size_factor @ '' reduces '' @ dec_str max_instr
                         @ '' to '' @ dec_str target_instr @ '' '' @ cur)]
                 else [])
           in tryE reasons1 (ddiv target_instr reference_price) (\<lambda>raw.
              tryE reasons1 (round_quantity raw c identity) (\<lambda>rounded.
              let quantity = (if max_quantity < rounded then max_quantity else rounded);
                  actual = quantity * reference_price
              in tryE reasons1 (fs_to_account_currency fx actual) (\<lambda>actual_account.
                 if quantity \<le> ZERO
                 then
                   let reasons2 = reasons1 @ [''a target of '' @ dec_str target_instr @ '' '' @ cur
                         @ '' buys less than one ''
                         @ (if rc_allow_fractional_quantity c then ''unit'' else ''whole share'')
                         @ '' at '' @ dec_str reference_price]
                   in tryE reasons2 (fs_to_account_currency fx target_instr) (\<lambda>target_account.
                        Inr (base\<lparr>sz_target_notional := target_instr, sz_max_quantity := max_quantity,
                               sz_notional_account_currency := target_account,
                               sz_max_notional_instrument_currency := max_instr,
                               sz_reasons := reasons2\<rparr>))
                 else if actual_account < rc_min_trade_notional c
                 then Inr (base\<lparr>sz_target_notional := actual, sz_max_quantity := max_quantity,
                        sz_notional_account_currency := actual_account,
                        sz_max_notional_instrument_currency := max_instr,
                        sz_reasons := reasons1
                          @ [squeeze_spaces (dec_str quantity @ '' share(s) at '' @ dec_str reference_price
                               @ '' is '' @ dec_str actual_account @ '' '' @ acc @ '', below the ''
                               @ dec_str (rc_min_trade_notional c) @ '' minimum trade notional'')]\<rparr>)
                 else Inr (base\<lparr>sz_quantity := quantity, sz_target_notional := actual,
                        sz_max_quantity := max_quantity,
                        sz_notional_account_currency := actual_account,
                        sz_max_notional_instrument_currency := max_instr,
                        sz_reasons := reasons1
                          @ [dec_str quantity @ '' share(s) at '' @ dec_str reference_price @ '' commits ''
                             @ dec_str actual @ '' of the '' @ dec_str max_instr @ '' permitted'']
                          @ (if fs_conversion_required fx
                             then [squeeze_spaces (''that is '' @ dec_str actual_account @ '' '' @ acc
                                     @ '' against the '' @ dec_str max_notional @ '' '' @ acc @ '' cap'')]
                             else [])
                          @ (case inst_max_open_quantity identity of
                               None \<Rightarrow> []
                             | Some m \<Rightarrow> [''the broker caps open quantity at '' @ dec_str m]),
                        sz_executable := True\<rparr>))))))))"

section \<open>Sells\<close>

text \<open>The fraction of the available position a \<open>REDUCE\<close> trims.\<close>

definition trim_fraction :: "risk_config \<Rightarrow> decimal option \<Rightarrow> decimal" where
  "trim_fraction c reduce_fraction =
     dmin (dec_of_int 1)
       (case reduce_fraction of
          None \<Rightarrow> rc_reduce_fraction c
        | Some f \<Rightarrow> if coeff f = 0 then rc_reduce_fraction c else f)"

definition size_sell ::
  "thesis_action \<Rightarrow> risk_config \<Rightarrow> instrument_identity \<Rightarrow> account_state option \<Rightarrow> decimal
     \<Rightarrow> string option \<Rightarrow> string option \<Rightarrow> fx_snapshot \<Rightarrow> string list \<Rightarrow> decimal option
     \<Rightarrow> sizing_result sized" where
  "size_sell action c identity account reference_price currency account_cur fx reasons reduce_fraction =
     (let position = Option.bind account (\<lambda>a. acct_position a (inst_broker_ticker identity));
          available = (case position of None \<Rightarrow> ZERO | Some p \<Rightarrow> pos_quantity_available p);
          avail_text = dec_str available
      in if available \<le> ZERO
         then Inr (nothing (Some order_side.SELL) currency account_cur
                (reasons @ [thesis_action_value action
                   @ '' needs an existing long position; none is available for trading''])
                ZERO (Some reference_price))
         else
           let whole = action = thesis_action.SELL; fraction = trim_fraction c reduce_fraction
           in tryE reasons
                (round_quantity (if whole then available else available * fraction) c identity)
                (\<lambda>quantity.
              let reasons1 = reasons
                    @ (if whole
                       then [''SELL closes the whole available position of '' @ avail_text @ '' share(s)'']
                       else [''REDUCE trims '' @ dec_str fraction @ '' of the '' @ avail_text
                             @ '' available share(s) -- a deterministic partial exit, not a liquidation'']
                         @ (if quantity \<le> ZERO \<and> dec_of_int 1 \<le> available
                               \<and> \<not> rc_allow_fractional_quantity c
                            then [avail_text @ '' share(s) cannot be partially reduced in whole shares; ''
                                  @ ''a full exit requires a SELL thesis'']
                            else []))
              in tryE reasons1 (round_quantity available c identity) (\<lambda>max_quantity.
                 let max_instr = max_quantity * reference_price
                 in tryE reasons1 (fs_to_account_currency fx max_instr) (\<lambda>max_account.
                    let result = \<lparr>sz_side = Some order_side.SELL, sz_quantity = ZERO,
                          sz_target_notional = ZERO, sz_max_quantity = max_quantity,
                          sz_max_notional = max_account, sz_reference_price = Some reference_price,
                          sz_currency = currency, sz_account_currency = account_cur,
                          sz_notional_account_currency = ZERO,
                          sz_max_notional_instrument_currency = max_instr,
                          sz_reasons = reasons1, sz_executable = False\<rparr>
                    in if quantity \<le> ZERO then Inr result
                       else
                         let notional = quantity * reference_price
                         in tryE reasons1 (fs_to_account_currency fx notional) (\<lambda>account_notional.
                              Inr (result\<lparr>sz_quantity := quantity, sz_target_notional := notional,
                                     sz_notional_account_currency := account_notional,
                                     sz_executable := True\<rparr>))))))"

section \<open>One trade\<close>

text \<open>\<open>except ValueError\<close> of \<open>size_trade\<close>.\<close>

definition caught :: "'a sized \<Rightarrow> (string list \<Rightarrow> 'a) \<Rightarrow> 'a res" where
  "caught m handler =
     (case m of
        Inr result \<Rightarrow> Inr result
      | Inl (e, told) \<Rightarrow>
          case is_value_error e of
            None \<Rightarrow> Inl e
          | Some message \<Rightarrow>
              Inr (handler (told @ [''the conversion could not be performed: '' @ message])))"

text \<open>\<open>fx or FxSnapshot.same_currency_snapshot(currency or account_currency or "")\<close>\<close>

definition trade_snapshot :: "string option \<Rightarrow> string option \<Rightarrow> fx_snapshot option \<Rightarrow> fx_snapshot" where
  "trade_snapshot currency account_cur fx =
     (case fx of
        Some s \<Rightarrow> s
      | None \<Rightarrow> same_currency_snapshot (or_text (or_else currency []) (or_else account_cur [])))"

definition size_trade ::
  "thesis_action \<Rightarrow> risk_config \<Rightarrow> instrument_identity \<Rightarrow> quote_snapshot option \<Rightarrow> account_state option
     \<Rightarrow> decimal \<Rightarrow> decimal \<Rightarrow> fx_snapshot option \<Rightarrow> decimal option \<Rightarrow> sizing_result res" where
  "size_trade action c identity quote account max_notional size_factor fx reduce_fraction =
     (let currency = inst_currency identity;
          account_cur = map_option acct_currency account;
          snapshot = trade_snapshot currency account_cur fx;
          none = (\<lambda>side cap price reasons. Inr (nothing side currency account_cur reasons cap price))
      in case ACTION_SIDES action of
           None \<Rightarrow> none None ZERO None [thesis_action_value action @ '' produces no executable order'']
         | Some side \<Rightarrow>
             case (Option.bind quote q_bid, Option.bind quote q_ask) of
               (Some bid, Some ask) \<Rightarrow>
                 let buying = side = order_side.BUY; reference_price = (if buying then ask else bid)
                 in if reference_price \<le> ZERO
                    then none (Some side) max_notional None
                           [''the marketable side of the quote carries no positive price'']
                    else
                      let reasons = [''reference price '' @ dec_str reference_price @ '' is the ''
                            @ (if buying then ''ask'' else ''bid'') @ '', the side a market ''
                            @ lower (order_side_value side) @ '' actually trades against'']
                      in if fs_conversion_required snapshot \<and> \<not> fs_usable snapshot
                         then none (Some side) max_notional (Some reference_price)
                                [''the FX snapshot may not convert: '' @ join ''; '' (fs_blockers snapshot)]
                         else bindE
                           (if fs_conversion_required snapshot
                            then bindE (fs_direction snapshot) (\<lambda>d. Inr (reasons
                              @ [''caps are denominated in '' @ fs_account_currency snapshot
                                 @ '' and the price in '' @ fs_instrument_currency snapshot
                                 @ ''; converted at '' @ show_opt (fs_pair snapshot) @ ''=''
                                 @ show_opt_dec (fs_rate snapshot) @ '' from ''
                                 @ show_opt (fs_provider snapshot) @ '' (''
                                 @ lower (fx_direction_value d) @ '')'']))
                            else Inr reasons)
                           (\<lambda>reasons.
                            caught
                              (if buying
                               then size_buy c identity reference_price currency account_cur snapshot
                                      max_notional size_factor reasons
                               else size_sell action c identity account reference_price currency
                                      account_cur snapshot reasons reduce_fraction)
                              (\<lambda>told. nothing (Some side) currency account_cur told max_notional
                                 (Some reference_price)))
             | _ \<Rightarrow> none (Some side) max_notional None
                      [''no two-sided quote, so there is no reference price''])"

section \<open>Facts about rounding\<close>

lemma quantize_down_total_bounds:
  assumes "quantize_down raw e = Inr q" "0 < dval raw"
  shows "0 \<le> dval q \<and> dval q \<le> dval raw"
  using quantize_down_bounds(1,2)[OF assms(1)] assms(2) by simp

lemma round_quantity_bounds:
  assumes "round_quantity raw c identity = Inr q"
  shows "0 \<le> dval q" "dval q \<le> max 0 (dval raw)"
  using assms quantize_down_total_bounds
  by (auto simp: round_quantity_def Let_def dec_simps not_le split: if_splits)

text \<open>The step a quantity is a multiple of, as a number of decimals.\<close>

definition quantity_places :: "risk_config \<Rightarrow> instrument_identity \<Rightarrow> int" where
  "quantity_places c identity =
     (if rc_allow_fractional_quantity c
      then or_else (inst_quantity_precision identity) (rc_default_quantity_precision c) else 0)"

lemma round_quantity_step:
  "round_quantity raw c identity = Inr q \<Longrightarrow> 0 < dval raw \<Longrightarrow>
     quantize_down raw (- quantity_places c identity) = Inr q"
  by (auto simp: round_quantity_def quantity_places_def Let_def dec_simps split: if_splits)

lemma round_quantity_places:
  assumes "round_quantity raw c identity = Inr q"
  obtains n :: int where "dval q = of_int n * 10 powi (- quantity_places c identity)"
proof (cases "0 < dval raw")
  case True
  then have "expo q = - quantity_places c identity"
    using round_quantity_step[OF assms] quantize_expo by (auto simp: quantize_down_def)
  then show thesis using that[of "coeff q"] by (simp add: dval_def)
next
  case False
  then have "dval q = 0" using round_quantity_bounds[OF assms] by simp
  then show thesis using that[of 0] by simp
qed

lemma round_quantity_mono:
  assumes "round_quantity a c identity = Inr qa" "round_quantity b c identity = Inr qb"
    "dval a \<le> dval b"
  shows "dval qa \<le> dval qb"
proof (cases "0 < dval a")
  case True
  then show ?thesis
    using round_quantity_step[OF assms(1)] round_quantity_step[OF assms(2)] assms(3)
    by (intro quantize_down_mono[of a _ qa b qb]) auto
next
  case False
  then have "dval qa = 0" using round_quantity_bounds[OF assms(1)] by simp
  then show ?thesis using round_quantity_bounds(1)[OF assms(2)] by simp
qed

lemma tryE_eq_Inr [res_simps]: "tryE reasons m f = Inr y \<longleftrightarrow> (\<exists>x. m = Inr x \<and> f x = Inr y)"
  by (cases m) (simp_all add: tryE_def)

lemma tryE_Inr [simp]: "tryE reasons (Inr x) f = f x"
  by (simp add: tryE_def)

lemma nothing_simps [simp]:
  "sz_side (nothing side cur acc why cap price) = side"
  "sz_quantity (nothing side cur acc why cap price) = ZERO"
  "\<not> sz_executable (nothing side cur acc why cap price)"
  by (simp_all add: nothing_def)

section \<open>Executable sizes\<close>

text \<open>What an executable buy was computed from.\<close>

lemma size_buy_executable:
  assumes "size_buy c identity price currency acc fx cap factor reasons = Inr r" "sz_executable r"
  obtains max_instr raw_max raw max_quantity rounded actual_account where
    "0 < dval cap" "fs_to_instrument_currency fx cap = Inr max_instr"
    "ddiv max_instr price = Inr raw_max" "round_quantity raw_max c identity = Inr max_quantity"
    "ddiv (max_instr * factor) price = Inr raw" "round_quantity raw c identity = Inr rounded"
    "sz_side r = Some order_side.BUY" "sz_reference_price r = Some price" "sz_max_quantity r = max_quantity"
    "sz_quantity r = (if max_quantity < rounded then max_quantity else rounded)"
    "sz_target_notional r = sz_quantity r * price" "0 < dval (sz_quantity r)"
    "fs_to_account_currency fx (sz_target_notional r) = Inr actual_account"
    "sz_notional_account_currency r = actual_account" "sz_max_notional r = cap"
    "dval (rc_min_trade_notional c) \<le> dval actual_account"
proof -
  have pos: "\<not> cap \<le> ZERO" using assms by (auto simp: size_buy_def Let_def)
  note run = assms(1)[unfolded size_buy_def Let_def if_not_P[OF pos] tryE_eq_Inr]
  then obtain max_instr raw_max max_quantity raw rounded actual_account where steps:
      "fs_to_instrument_currency fx cap = Inr max_instr" "ddiv max_instr price = Inr raw_max"
      "round_quantity raw_max c identity = Inr max_quantity"
      "ddiv (max_instr * factor) price = Inr raw" "round_quantity raw c identity = Inr rounded"
      "fs_to_account_currency fx ((if max_quantity < rounded then max_quantity else rounded) * price) = Inr actual_account"
    by (elim exE conjE) (rule that)
  define quantity where "quantity = (if max_quantity < rounded then max_quantity else rounded)"
  have q: "\<not> quantity \<le> ZERO" and m: "\<not> actual_account < rc_min_trade_notional c"
    and r: "sz_side r = Some order_side.BUY" "sz_reference_price r = Some price" "sz_max_quantity r = max_quantity"
    "sz_quantity r = quantity" "sz_target_notional r = quantity * price"
    "sz_notional_account_currency r = actual_account" "sz_max_notional r = cap"
    using run assms(2) steps
    by (auto simp: quantity_def[symmetric] tryE_eq_Inr split: if_splits)
  show thesis
    by (rule that[OF _ steps(1-5) r(1-3)]) (use pos q m r steps(6) in \<open>simp_all add: dec_simps quantity_def not_le not_less\<close>)
qed

lemma size_sell_executable:
  assumes "size_sell action c identity account price currency acc fx reasons fraction = Inr r"
    "sz_executable r"
  obtains a p where "account = Some a" "acct_position a (inst_broker_ticker identity) = Some p"
    "0 < dval (pos_quantity_available p)"
    "round_quantity (if action = thesis_action.SELL then pos_quantity_available p
       else pos_quantity_available p * trim_fraction c fraction) c identity = Inr (sz_quantity r)"
    "round_quantity (pos_quantity_available p) c identity = Inr (sz_max_quantity r)"
    "sz_side r = Some order_side.SELL" "sz_reference_price r = Some price"
    "sz_target_notional r = sz_quantity r * price" "0 < dval (sz_quantity r)"
  using assms unfolding size_sell_def Let_def
  by (auto simp: tryE_eq_Inr dec_simps not_le not_less bind_eq_Some_conv split: if_splits option.splits)

lemma caught_cases:
  assumes "caught m handler = Inr r"
  obtains "m = Inr r" | told where "r = handler told"
  using assms by (cases m) (auto simp: caught_def split: option.splits)

lemma caught_executable:
  "caught m handler = Inr r \<Longrightarrow> sz_executable r \<Longrightarrow> (\<And>told. \<not> sz_executable (handler told)) \<Longrightarrow> m = Inr r"
  by (erule caught_cases) auto

lemma size_trade_executable:
  assumes "size_trade action c identity quote account cap factor fx fraction = Inr r" "sz_executable r"
  obtains (buy) q bid ask reasons where "action = thesis_action.BUY" "quote = Some q" "q_bid q = Some bid"
      "q_ask q = Some ask" "0 < dval ask"
      "size_buy c identity ask (inst_currency identity) (map_option acct_currency account)
         (trade_snapshot (inst_currency identity) (map_option acct_currency account) fx) cap factor reasons = Inr r"
    | (sell) q bid ask reasons where "action \<in> RISK_REDUCING_ACTIONS" "quote = Some q" "q_bid q = Some bid"
      "q_ask q = Some ask" "0 < dval bid"
      "size_sell action c identity account bid (inst_currency identity) (map_option acct_currency account)
         (trade_snapshot (inst_currency identity) (map_option acct_currency account) fx) reasons fraction = Inr r"
proof (cases "ACTION_SIDES action")
  case None
  then show thesis using assms by (auto simp: size_trade_def Let_def)
next
  case (Some side)
  obtain q bid ask where q: "quote = Some q" "q_bid q = Some bid" "q_ask q = Some ask"
    using assms Some
    by (cases quote; cases "Option.bind quote q_bid"; cases "Option.bind quote q_ask")
      (auto simp: size_trade_def Let_def)
  define price where "price = (if side = order_side.BUY then ask else bid)"
  have pos: "\<not> price \<le> ZERO"
    using assms Some q by (auto simp: size_trade_def Let_def price_def)
  show thesis
  proof (cases side)
    case BUY
    then have "action = thesis_action.BUY" using Some by (cases action) simp_all
    moreover have "\<exists>reasons. size_buy c identity ask (inst_currency identity) (map_option acct_currency account)
         (trade_snapshot (inst_currency identity) (map_option acct_currency account) fx) cap factor reasons = Inr r"
      using assms Some q pos BUY
      by (auto simp: size_trade_def Let_def price_def bindE_eq_Inr dest!: caught_executable split: if_splits)
    ultimately show thesis using buy q pos BUY by (auto simp: price_def dec_simps not_le)
  next
    case SELL
    then have "action \<in> RISK_REDUCING_ACTIONS" using Some by (cases action) (simp_all add: reducing_iff)
    moreover have "\<exists>reasons. size_sell action c identity account bid (inst_currency identity) (map_option acct_currency account)
         (trade_snapshot (inst_currency identity) (map_option acct_currency account) fx) reasons fraction = Inr r"
      using assms Some q pos SELL
      by (auto simp: size_trade_def Let_def price_def bindE_eq_Inr dest!: caught_executable split: if_splits)
    ultimately show thesis using sell q pos SELL by (auto simp: price_def dec_simps not_le)
  qed
qed

section \<open>Sells stay inside the holding\<close>

lemma trim_fraction_le [simp]: "dval (trim_fraction c f) \<le> 1"
  by (simp add: trim_fraction_def dec_simps)

text \<open>
  C18: a sell is never larger than the available holding. An executable size for \<open>SELL\<close> or
  \<open>REDUCE\<close> has side \<open>SELL\<close> and a positive quantity of at most the available shares and at most
  the recorded maximum; a \<open>SELL\<close> leaves less than one quantity step of the position behind.
\<close>

theorem sell_within_available:
  assumes "size_trade action c identity quote account cap factor fx fraction = Inr r"
    and "sz_executable r" "action \<noteq> thesis_action.BUY"
    and "account = Some a" "acct_position a (inst_broker_ticker identity) = Some p"
    and "dec_ok (pos_quantity_available p)"
  shows "sz_side r = Some order_side.SELL \<and> 0 < dval (sz_quantity r)
    \<and> dval (sz_quantity r) \<le> dval (pos_quantity_available p)
    \<and> dval (sz_quantity r) \<le> dval (sz_max_quantity r)
    \<and> (action = thesis_action.SELL \<longrightarrow>
         dval (pos_quantity_available p) - dval (sz_quantity r) < 10 powi (- quantity_places c identity))"
  using assms(1,2)
proof (cases rule: size_trade_executable)
  case (sell q bid ask reasons)
  let ?avail = "pos_quantity_available p"
  let ?raw = "if action = thesis_action.SELL then ?avail else ?avail * trim_fraction c fraction"
  from sell(6) assms(2) have pos: "0 < dval ?avail" "0 < dval (sz_quantity r)" "sz_side r = Some order_side.SELL"
    and q: "round_quantity ?raw c identity = Inr (sz_quantity r)"
    and m: "round_quantity ?avail c identity = Inr (sz_max_quantity r)"
    by (cases rule: size_sell_executable; use assms(4,5) in force)+
  have "dval (?avail * trim_fraction c fraction) \<le> dval ?avail"
    using pos(1) assms(6) by (intro mul.op_le) (simp_all add: mult_left_le)
  then have raw: "dval ?raw \<le> dval ?avail" by simp
  then have "dval (sz_quantity r) \<le> dval ?avail" using round_quantity_bounds(2)[OF q] pos(1) by linarith
  moreover have "dval (sz_quantity r) \<le> dval (sz_max_quantity r)" by (rule round_quantity_mono[OF q m raw])
  moreover have "action = thesis_action.SELL \<longrightarrow> dval ?avail - dval (sz_quantity r) < 10 powi (- quantity_places c identity)"
    using quantize_down_bounds(3)[OF round_quantity_step[OF q]] pos(1) by auto
  ultimately show ?thesis using pos by blast
next
  case buy then show ?thesis using assms(3) by simp
qed

lemma sell_within_available_witness:
  "\<exists>r. size_trade thesis_action.REDUCE default_risk_config acme_identity (Some acme_quote) (Some acme_account)
        0 1 None None = Inr r \<and> dval (sz_quantity r) \<le> 4"
proof -
  have "\<exists>r. size_trade thesis_action.REDUCE default_risk_config acme_identity (Some acme_quote)
      (Some acme_account) 0 1 None None = Inr r \<and> sz_executable r"
  proof -
    have "(case size_trade thesis_action.REDUCE default_risk_config acme_identity (Some acme_quote)
      (Some acme_account) 0 1 None None of Inl _ \<Rightarrow> False | Inr r \<Rightarrow> sz_executable r)" by code_simp
    then show ?thesis by (auto split: sum.splits)
  qed
  then obtain r where r: "size_trade thesis_action.REDUCE default_risk_config acme_identity (Some acme_quote)
      (Some acme_account) 0 1 None None = Inr r" "sz_executable r" by blast
  have "acct_position acme_account (inst_broker_ticker acme_identity) = Some acme_position" by code_simp
  moreover have "dec_ok (pos_quantity_available acme_position)" "dval (pos_quantity_available acme_position) = 4"
    by (simp_all add: acme_position_def dec_ok_def dval_Dec)
  ultimately show ?thesis
    using sell_within_available[OF r _ refl, of acme_position] r(1) by auto
qed

section \<open>Buys stay inside the cap\<close>

lemma buy_product_bound:
  assumes "ddiv amount price = Inr raw" "round_quantity raw c identity = Inr n"
    "0 < dval price" "0 < dval n"
  shows "10 ^ 27 * (dval n * dval price) \<le> (10 ^ 27 + 1) * dval amount" "0 < dval amount"
proof -
  have raw: "raw = dquot amount price" and nz: "coeff price \<noteq> 0"
    using assms(1,3) by (auto simp: ddiv_Inr coeff_zero_iff)
  have n: "dval n \<le> dval raw" "0 < dval raw"
    using round_quantity_bounds[OF assms(2)] assms(4) by linarith+
  show pos: "0 < dval amount"
  proof (rule ccontr)
    assume "\<not> 0 < dval amount"
    then have "dval raw \<le> 0" unfolding raw using assms(3) by (intro quot.op_nonpos[OF nz]) (simp add: divide_nonpos_pos)
    then show False using n by simp
  qed
  have "10 ^ 27 * dval raw \<le> (10 ^ 27 + 1) * (dval amount / dval price)"
    unfolding raw using assms(3) pos by (intro quot.op_upper[OF nz]) simp
  then have "10 ^ 27 * dval n \<le> (10 ^ 27 + 1) * (dval amount / dval price)" using n(1) by simp
  then have "10 ^ 27 * dval n * dval price \<le> (10 ^ 27 + 1) * (dval amount / dval price) * dval price"
    using assms(3) by (intro mult_right_mono) simp_all
  then show "10 ^ 27 * (dval n * dval price) \<le> (10 ^ 27 + 1) * dval amount"
    using assms(3) by (simp add: mult.assoc)
qed

lemma buy_cap_bound:
  assumes "size_trade thesis_action.BUY c identity quote account cap factor fx fraction = Inr r"
    and "sz_executable r"
  shows "\<exists>q ask max_instr. quote = Some q \<and> q_ask q = Some ask \<and> sz_reference_price r = Some ask
    \<and> fs_to_instrument_currency
        (trade_snapshot (inst_currency identity) (map_option acct_currency account) fx) cap = Inr max_instr
    \<and> 10 ^ 27 * (dval (sz_quantity r) * dval ask) \<le> (10 ^ 27 + 1) * dval max_instr
    \<and> 10 ^ 27 * (dval (sz_quantity r) * dval ask) \<le> (10 ^ 27 + 1) * dval (max_instr * factor)
    \<and> 0 < dval (sz_quantity r) \<and> dval (sz_quantity r) \<le> dval (sz_max_quantity r)
    \<and> dval (rc_min_trade_notional c) \<le> dval (sz_notional_account_currency r)"
  using assms
proof (cases rule: size_trade_executable)
  case (buy q bid ask reasons)
  from buy(6) assms(2) show ?thesis
  proof (cases rule: size_buy_executable)
    case (1 max_instr raw_max raw max_quantity rounded actual_account)
    let ?n = "sz_quantity r"
    have le: "dval ?n \<le> dval max_quantity" "dval ?n \<le> dval rounded"
      using 1(10) by (auto simp: dec_simps)
    have le_price: "dval ?n * dval ask \<le> dval max_quantity * dval ask" "dval ?n * dval ask \<le> dval rounded * dval ask"
      using le buy(5) by simp_all
    have "10 ^ 27 * (dval max_quantity * dval ask) \<le> (10 ^ 27 + 1) * dval max_instr"
      using buy_product_bound(1)[OF 1(3,4) buy(5)] le(1) 1(12) by linarith
    moreover have "10 ^ 27 * (dval rounded * dval ask) \<le> (10 ^ 27 + 1) * dval (max_instr * factor)"
      using buy_product_bound(1)[OF 1(5,6) buy(5)] le(2) 1(12) by linarith
    ultimately show ?thesis
      using buy(2,4) 1(2,8,9,12,14,16) le(1) le_price
      by (intro exI[of _ q] exI[of _ ask] exI[of _ max_instr]) (simp; linarith)
  qed
qed (simp add: reducing_iff)

text \<open>
  A buy stays inside its cap. Whatever the currencies, an executable buy is priced at the
  ask, costs at most the converted cap and at most the factor's share of it, up to one part
  in \<open>10 ^ 27\<close> (the rounding of the one division), reaches the minimum trade notional, and is
  not above the recorded maximum quantity.
\<close>

lemma buy_within_cap:
  assumes "size_trade thesis_action.BUY c identity quote account cap factor fx fraction = Inr r"
    and "sz_executable r"
  shows "\<exists>q ask max_instr. quote = Some q \<and> q_ask q = Some ask \<and> sz_reference_price r = Some ask
    \<and> fs_to_instrument_currency
        (trade_snapshot (inst_currency identity) (map_option acct_currency account) fx) cap = Inr max_instr
    \<and> 10 ^ 27 * (dval (sz_quantity r) * dval ask) \<le> (10 ^ 27 + 1) * dval max_instr
    \<and> 10 ^ 27 * (dval (sz_quantity r) * dval ask) \<le> (10 ^ 27 + 1) * dval (max_instr * factor)
    \<and> 0 < dval (sz_quantity r) \<and> dval (sz_quantity r) \<le> dval (sz_max_quantity r)
    \<and> dval (rc_min_trade_notional c) \<le> dval (sz_notional_account_currency r)"
  using assms by (rule buy_cap_bound)

lemma buy_within_cap_witness:
  "\<exists>r. size_trade thesis_action.BUY default_risk_config acme_identity (Some acme_quote) (Some acme_account)
        (Dec 500 0) 1 None None = Inr r \<and> dval (sz_quantity r) \<le> dval (sz_max_quantity r)"
proof -
  have "(case size_trade thesis_action.BUY default_risk_config acme_identity (Some acme_quote)
      (Some acme_account) (Dec 500 0) 1 None None of Inl _ \<Rightarrow> False | Inr r \<Rightarrow> sz_executable r)" by code_simp
  then obtain r where r: "size_trade thesis_action.BUY default_risk_config acme_identity (Some acme_quote)
      (Some acme_account) (Dec 500 0) 1 None None = Inr r" "sz_executable r" by (auto split: sum.splits)
  then show ?thesis using buy_within_cap[OF r] by blast
qed

section \<open>When the cap is respected exactly\<close>

lemma convert_identity:
  "normalize_currency (Some src) = normalize_currency (Some dst) \<Longrightarrow> fs_convert s amount src dst = Inr amount"
  by (simp add: fs_convert_def fs_direction_for_def Let_def)

text \<open>No conversion: no snapshot was supplied, or one whose two currencies agree.\<close>

definition no_conversion :: "fx_snapshot option \<Rightarrow> bool" where
  "no_conversion fx =
     (case fx of None \<Rightarrow> True
      | Some s \<Rightarrow> normalize_currency (Some (fs_account_currency s)) = normalize_currency (Some (fs_instrument_currency s)))"

lemma no_conversion_to:
  assumes "no_conversion fx"
  shows "fs_to_instrument_currency (trade_snapshot cur acc fx) amount = Inr amount"
    "fs_to_account_currency (trade_snapshot cur acc fx) amount = Inr amount"
  using assms unfolding fs_to_instrument_currency_def fs_to_account_currency_def
  by (intro convert_identity; cases fx; simp add: no_conversion_def trade_snapshot_def same_currency_snapshot_def Let_def)+

lemma grid_places:
  fixes x :: rat
  assumes "x = of_int n * 10 powi (- p)" "0 \<le> p" "p \<le> 8"
  obtains j :: int where "x = of_int j / 10 ^ 8"
proof -
  obtain k where k: "p = int k" using assms(2) by (metis zero_le_imp_eq_int)
  then have "x = of_int (n * 10 ^ (8 - k)) / (10 ^ (8 - k) * 10 ^ k)"
    by (simp add: assms(1) power_int_minus divide_inverse)
  also have "(10::rat) ^ (8 - k) * 10 ^ k = 10 ^ 8" using k assms(3) by (simp only: power_add[symmetric]) simp
  finally show thesis by (rule that)
qed

lemma exact_below:
  fixes x y :: rat
  assumes "x = of_int a / 10 ^ 16" "y = of_int b / 10 ^ 16" "0 \<le> y" "y < 10 ^ 11"
    and "10 ^ 27 * x \<le> (10 ^ 27 + 1) * y"
  shows "x \<le> y"
proof (rule ccontr)
  assume "\<not> x \<le> y"
  then have "b + 1 \<le> a" using assms(1,2) by (simp add: divide_less_cancel)
  then have "(of_int (b + 1) :: rat) / 10 ^ 16 \<le> of_int a / 10 ^ 16"
    by (intro divide_right_mono) (simp_all only: of_int_le_iff, simp)
  then have "y + 1 / 10 ^ 16 \<le> x" by (simp add: assms(1,2) add_divide_distrib)
  then show False using assms(4,5) by simp
qed

lemma grid16_ok:
  assumes "0 < (of_int k :: rat) / 10 ^ 16" "(of_int k :: rat) / 10 ^ 16 < 10 ^ 11"
  shows "dec_ok (Dec k (- 16))"
proof -
  have "(of_int k :: rat) < 10 ^ 27" using assms(2) by (simp add: pos_divide_less_eq)
  then have "(of_int k :: rat) < of_int (10 ^ 27)" by simp
  then have "k < 10 ^ 27" by (simp only: of_int_less_iff)
  moreover have "0 < k" using assms(1) by (simp add: zero_less_divide_iff)
  ultimately show ?thesis by (simp add: dec_ok_def)
qed

text \<open>
  C19: without a conversion the cap is a hard ceiling. For a cap below a hundred billion with up
  to 8 decimals, an ask with up to 8 decimals and a precision of at most 8 places, the notional
  an executable buy commits is exactly quantity times price and never exceeds the cap.
\<close>

theorem buy_never_exceeds_cap:
  assumes "size_trade thesis_action.BUY c identity (Some q) account cap factor fx fraction = Inr r"
    and "sz_executable r" "no_conversion fx" "q_ask q = Some ask"
    and "grid 8 19 (dval cap)" "grid 8 19 (dval ask)"
    and "0 \<le> quantity_places c identity" "quantity_places c identity \<le> 8"
  shows "dval (sz_target_notional r) = dval (sz_quantity r) * dval ask
    \<and> dval (sz_target_notional r) \<le> dval cap"
  using assms(1,2)
proof (cases rule: size_trade_executable)
  case (buy q' bid ask' reasons)
  then have ask': "ask' = ask" using assms(4) by simp
  from buy(6) assms(2) show ?thesis
  proof (cases rule: size_buy_executable)
    case (1 max_instr raw_max raw max_quantity rounded actual_account)
    let ?n = "sz_quantity r"
    have cap: "max_instr = cap" using 1(2) no_conversion_to[OF assms(3)] by simp
    have n: "dval ?n \<le> dval max_quantity" using 1(10) by (auto simp: dec_simps)
    then have "dval ?n * dval ask \<le> dval max_quantity * dval ask" using buy(5) ask' by simp
    then have bound: "10 ^ 27 * (dval ?n * dval ask) \<le> (10 ^ 27 + 1) * dval cap"
      using buy_product_bound(1)[OF 1(3,4) buy(5)] n 1(12) by (simp add: cap ask')
    have "\<exists>m :: int. dval ?n = of_int m * 10 powi (- quantity_places c identity)"
      using round_quantity_places[OF 1(4)] round_quantity_places[OF 1(6)] 1(10) by metis
    then obtain m where m: "dval ?n = of_int m / 10 ^ 8"
      using grid_places assms(7,8) by metis
    obtain a b where a: "dval ask = of_int a / 10 ^ 8" and b: "dval cap = of_int b / 10 ^ 8" "\<bar>b\<bar> < 10 ^ 19"
      using assms(5,6) by (auto simp: grid_def)
    have prod: "dval ?n * dval ask = of_int (m * a) / 10 ^ 16" by (simp add: m a)
    have "(of_int b :: rat) < 10 ^ 19" using b(2) by (metis abs_less_iff of_int_less_iff of_int_numeral of_int_power)
    then have big: "dval cap < 10 ^ 11" by (simp add: b(1))
    have le: "dval ?n * dval ask \<le> dval cap"
    proof (rule exact_below[OF prod _ _ big bound])
      show "dval cap = of_int (b * 10 ^ 8) / 10 ^ 16" by (simp add: b(1))
      show "0 \<le> dval cap" using 1(1) by simp
    qed
    have "0 < dval ?n * dval ask" using 1(12) buy(5) ask' by simp
    moreover have "dval ?n * dval ask < 10 ^ 11" using le big by (rule le_less_trans)
    ultimately have ok: "dec_ok (Dec (m * a) (- 16))"
      unfolding prod by (rule grid16_ok)
    have "dval ?n * dval ask = dval (Dec (m * a) (- 16))"
      unfolding prod by (simp add: dval_Dec power_int_minus)
    then have "dval (?n * ask) = dval ?n * dval ask"
      using mul.op_exact[OF _ ok, of ?n ask] by metis
    then show ?thesis using 1(11) le by (simp add: ask')
  qed
qed (simp add: reducing_iff)

lemma buy_never_exceeds_cap_witness:
  "\<exists>r. size_trade thesis_action.BUY default_risk_config acme_identity (Some acme_quote) (Some acme_account)
        (Dec 500 0) 1 None None = Inr r \<and> dval (sz_target_notional r) \<le> 500"
proof -
  have "(case size_trade thesis_action.BUY default_risk_config acme_identity (Some acme_quote)
      (Some acme_account) (Dec 500 0) 1 None None of Inl _ \<Rightarrow> False | Inr r \<Rightarrow> sz_executable r)" by code_simp
  then obtain r where r: "size_trade thesis_action.BUY default_risk_config acme_identity (Some acme_quote)
      (Some acme_account) (Dec 500 0) 1 None None = Inr r" "sz_executable r" by (auto split: sum.splits)
  have "grid 8 19 (dval (Dec 500 0))" by (rule gridI[of _ "500 * 10 ^ 8"]) (simp_all add: dval_Dec)
  moreover have "grid 8 19 (dval (Dec 10005 (- 2)))" by (rule gridI[of _ "10005 * 10 ^ 6"]) (simp_all add: dval_Dec)
  moreover have "no_conversion None" "q_ask acme_quote = Some (Dec 10005 (- 2))"
    "quantity_places default_risk_config acme_identity = 0" by code_simp+
  ultimately have "dval (sz_target_notional r) \<le> dval (Dec 500 0)"
    using buy_never_exceeds_cap[OF r] by simp
  then show ?thesis using r(1) by (simp add: dval_Dec)
qed

definition thin_cap :: decimal where "thin_cap = Dec 5999999999999999999999999999 (- 26)"

lemma thin_steps:
  "ddiv thin_cap (Dec 3 0) = Inr (Dec 2000000000000000000000000000 (- 26))"
  "round_quantity (Dec 2000000000000000000000000000 (- 26)) default_risk_config acme_identity = Inr (Dec 20 0)"
  "thin_cap * 1 = thin_cap" "Dec 20 0 * Dec 3 0 = Dec 60 0" "\<not> thin_cap \<le> ZERO" "\<not> Dec 20 0 < Dec 20 0" "\<not> Dec 20 0 \<le> ZERO"
  "\<not> Dec 60 0 < rc_min_trade_notional default_risk_config" "\<not> (1::decimal) < dec_of_int 1" "\<not> Dec 3 0 \<le> ZERO"
  "rc_allow_fractional_quantity default_risk_config = False" "inst_currency acme_identity = Some ''USD''" "q_bid acme_quote = Some (Dec 9995 (- 2))"
  by code_simp+

lemma thin_id: "fs_to_instrument_currency (trade_snapshot (Some ''USD'') acc None) amount = Inr amount"
    "fs_to_account_currency (trade_snapshot (Some ''USD'') acc None) amount = Inr amount"
  by (simp_all add: fs_to_account_currency_def fs_to_instrument_currency_def fs_convert_def fs_direction_for_def Let_def trade_snapshot_def same_currency_snapshot_def)

lemma thin_same: "\<not> fs_conversion_required (trade_snapshot cur acc None)"
  by (simp add: fs_conversion_required_def trade_snapshot_def same_currency_snapshot_def Let_def)

text \<open>
  The side conditions matter. A cap with 28 significant digits can be exceeded: the division
  rounds half to even up to the next whole share before the quantity is rounded down, so an
  executable buy of 20 shares at 3 commits 60 against a cap just below 60.
\<close>

lemma rounding_can_pass_cap:
  "\<exists>r. size_trade thesis_action.BUY default_risk_config acme_identity
        (Some (acme_quote\<lparr>q_ask := Some (Dec 3 0)\<rparr>)) (Some acme_account) thin_cap 1 None None = Inr r
    \<and> sz_executable r \<and> dval (sz_target_notional r) = 60 \<and> dval thin_cap < 60"
  unfolding size_trade_def ACTION_SIDES.simps Let_def size_buy_def
  by (simp add: thin_steps thin_id thin_same caught_def tryE_def dval_Dec thin_cap_def[THEN arg_cong, of dval] split del: if_split)

end
