(* ===== verification/Engine.thy ===== *)
theory Engine
  imports Sizing
begin

text \<open>
  \<open>backend/stockbrain/risk/engine.py\<close>: the pure function from the inputs to the decision. Gates,
  caps, the fill rule and the size factors are collected into one list of rules; a single
  \<open>BLOCK\<close> in that list ends the decision before anything is sized.
\<close>

definition has_outcome :: "rule_outcome \<Rightarrow> rule_result list \<Rightarrow> bool" where
  "has_outcome r rules = list_ex (\<lambda>rule. rr_outcome rule = r) rules"

fun opt_list :: "'a option \<Rightarrow> 'a list" where
  "opt_list None = []"
| "opt_list (Some x) = [x]"

definition combine_factor :: "decimal \<Rightarrow> rule_result \<Rightarrow> decimal" where
  "combine_factor factor rule =
     (case rr_size_factor rule of
        None \<Rightarrow> factor
      | Some f \<Rightarrow> factor * dmin (dec_of_int 1) (dmax ZERO f))"

definition combined_size_factor :: "rule_result list \<Rightarrow> decimal" where
  "combined_size_factor rules = foldl combine_factor (dec_of_int 1) rules"

definition inputs_summary :: "risk_inputs \<Rightarrow> json res" where
  "inputs_summary i =
     bindE (case ri_fx i of None \<Rightarrow> Inr JNull | Some s \<Rightarrow> fs_as_dict s) (\<lambda>fx. Inr (JObj
       [(''action'', JStr (thesis_action_value (ri_action i))),
        (''confidence'', jdec (ri_confidence i)),
        (''identity'', inst_as_dict (ri_identity i)),
        (''account'', jopt acct_as_dict (ri_account i)),
        (''quote'', jopt q_as_dict (ri_quote i)),
        (''fx'', fx),
        (''reserved'', res_as_dict (ri_reserved i)),
        (''config'', rc_as_dict (ri_config i)),
        (''now'', jtime (ri_now i))]))"

definition decide ::
  "risk_inputs \<Rightarrow> rule_result list \<Rightarrow> sizing_result \<Rightarrow> risk_outcome \<Rightarrow> instant \<Rightarrow> risk_decision res" where
  "decide i rules sizing outcome evaluated_at =
     bindE (inputs_summary i) (\<lambda>summary. Inr
       \<lparr>rd_outcome = outcome, rd_policy_version = rc_version (ri_config i), rd_rules = rules,
        rd_sizing = sizing, rd_inputs_summary = summary, rd_evaluated_at = evaluated_at\<rparr>)"

definition engine_rules :: "risk_inputs \<Rightarrow> notional_cap list \<Rightarrow> rule_result list" where
  "engine_rules i caps =
     gate_results i
     @ cap_rule_results caps (min_or_zero (map nc_limit (filter nc_defines_intent caps)))
     @ opt_list (target_fill_rule caps (ri_config i))
     @ opt_list (confidence_size_factor i)
     @ opt_list (calibration_size_factor i)"

definition unsized :: "risk_inputs \<Rightarrow> sizing_result" where
  "unsized i =
     \<lparr>sz_side = None, sz_quantity = ZERO, sz_target_notional = ZERO, sz_max_quantity = ZERO,
      sz_max_notional = ZERO, sz_reference_price = None, sz_currency = inst_currency (ri_identity i),
      sz_account_currency = None, sz_notional_account_currency = ZERO,
      sz_max_notional_instrument_currency = ZERO,
      sz_reasons = [''risk blocked this trade; no size was computed''], sz_executable = False\<rparr>"

text \<open>\<open>evaluated_at\<close> is \<open>now or utcnow()\<close>, resolved by the caller.\<close>

definition evaluate :: "risk_inputs \<Rightarrow> instant \<Rightarrow> risk_decision res" where
  "evaluate i evaluated_at =
     bindE (notional_caps i) (\<lambda>caps.
       let rules = engine_rules i caps
       in if has_outcome rule_outcome.BLOCK rules
          then decide i rules (unsized i) risk_outcome.BLOCK evaluated_at
          else
            bindE (size_trade (ri_action i) (ri_config i) (ri_identity i) (ri_quote i) (ri_account i)
                     (min_or_zero (map nc_limit caps)) (combined_size_factor rules) (ri_fx i)
                     (ri_reduce_fraction i)) (\<lambda>sizing.
              decide i rules sizing
                (if has_outcome rule_outcome.REDUCE rules then risk_outcome.REDUCE_SIZE
                 else risk_outcome.ALLOW)
                evaluated_at))"

section \<open>A block is final\<close>

lemma decide_simps:
  "decide i rules sizing outcome t = Inr d \<Longrightarrow>
     rd_outcome d = outcome \<and> rd_rules d = rules \<and> rd_sizing d = sizing \<and> rd_evaluated_at d = t
     \<and> rd_policy_version d = rc_version (ri_config i)"
  by (auto simp: decide_def bindE_eq_Inr)

lemma has_outcome_iff: "has_outcome r rules \<longleftrightarrow> (\<exists>rule \<in> set rules. rr_outcome rule = r)"
  by (simp add: has_outcome_def list_ex_iff)

lemma evaluate_cases:
  assumes "evaluate i t = Inr d"
  obtains caps where "notional_caps i = Inr caps" "rd_rules d = engine_rules i caps"
      "has_outcome rule_outcome.BLOCK (rd_rules d)" "rd_outcome d = risk_outcome.BLOCK"
      "rd_sizing d = unsized i"
  | caps where "notional_caps i = Inr caps" "rd_rules d = engine_rules i caps"
      "\<not> has_outcome rule_outcome.BLOCK (rd_rules d)"
      "rd_outcome d = (if has_outcome rule_outcome.REDUCE (rd_rules d) then risk_outcome.REDUCE_SIZE
                       else risk_outcome.ALLOW)"
      "size_trade (ri_action i) (ri_config i) (ri_identity i) (ri_quote i) (ri_account i)
         (min_or_zero (map nc_limit caps)) (combined_size_factor (rd_rules d)) (ri_fx i)
         (ri_reduce_fraction i) = Inr (rd_sizing d)"
  using assms unfolding evaluate_def Let_def
  by (auto simp: bindE_eq_Inr dest!: decide_simps split: if_splits)

lemma evaluate_gates: "evaluate i t = Inr d \<Longrightarrow> set (gate_results i) \<subseteq> set (rd_rules d)"
  by (erule evaluate_cases) (auto simp: engine_rules_def)

section \<open>What blocks, and what the factors do\<close>

lemma never_blocks:
  "r \<in> set (opt_list (confidence_size_factor i)) \<or> r \<in> set (opt_list (calibration_size_factor i)) \<Longrightarrow> \<not> blocks r"
  by (auto simp: confidence_size_factor_def calibration_size_factor_def factor_rule_def Let_def
      split: if_splits option.splits)

lemma cap_blocks: "(\<exists>r \<in> set (cap_rule_results caps intended). blocks r) \<longleftrightarrow> (\<exists>cap \<in> set caps. dval (nc_limit cap) \<le> 0)"
  by (auto simp: cap_rule_results_def cap_outcome_def Let_def dec_simps)

definition scrap :: "notional_cap list \<Rightarrow> risk_config \<Rightarrow> bool" where
  "scrap caps c = (\<exists>r. target_fill_rule caps c = Some r \<and> rr_outcome r = rule_outcome.BLOCK)"

lemma engine_blocks:
  "has_outcome rule_outcome.BLOCK (engine_rules i caps) \<longleftrightarrow>
     \<not> gates_clear i \<or> (\<exists>cap \<in> set caps. dval (nc_limit cap) \<le> 0) \<or> scrap caps (ri_config i)"
proof -
  have "has_outcome rule_outcome.BLOCK (engine_rules i caps) \<longleftrightarrow>
      (\<exists>r \<in> set (gate_results i). blocks r)
      \<or> (\<exists>r \<in> set (cap_rule_results caps (min_or_zero (map nc_limit (filter nc_defines_intent caps)))). blocks r)
      \<or> (\<exists>r \<in> set (opt_list (target_fill_rule caps (ri_config i))). blocks r)"
    using never_blocks[of _ i] by (auto simp: has_outcome_iff engine_rules_def)
  moreover have "(\<exists>r \<in> set (opt_list (target_fill_rule caps (ri_config i))). blocks r) \<longleftrightarrow> scrap caps (ri_config i)"
    by (cases "target_fill_rule caps (ri_config i)") (auto simp: scrap_def)
  ultimately show ?thesis by (simp only: cap_blocks) (simp add: gates_clear_def)
qed

text \<open>Each factor is clamped, so a rule can only reduce what the rules before it left.\<close>

lemma combine_factor_bounds:
  assumes "0 \<le> dval f" "dval f \<le> 1" "dec_ok f"
  shows "0 \<le> dval (combine_factor f r)" "dval (combine_factor f r) \<le> dval f" "dec_ok (combine_factor f r)"
proof -
  have "0 \<le> dval (combine_factor f r) \<and> dval (combine_factor f r) \<le> dval f \<and> dec_ok (combine_factor f r)"
  proof (cases "rr_size_factor r")
    case (Some x)
    let ?x = "dmin (dec_of_int 1) (dmax ZERO x)"
    have x: "0 \<le> dval ?x" "dval ?x \<le> 1" by (simp_all add: dec_simps)
    have "dval (f * ?x) \<le> dval f" using assms x by (intro mul.op_le) (simp_all add: mult_left_le)
    moreover have "0 \<le> dval (f * ?x)" using assms(1) x(1) by (intro mul.op_nonneg) simp_all
    moreover have "dec_ok (f * ?x)" by (simp add: times_decimal_def)
    ultimately show ?thesis by (simp add: combine_factor_def Some)
  qed (use assms in \<open>simp add: combine_factor_def\<close>)
  then show "0 \<le> dval (combine_factor f r)" "dval (combine_factor f r) \<le> dval f" "dec_ok (combine_factor f r)"
    by simp_all
qed

lemma fold_factor_bounds:
  "0 \<le> dval f \<Longrightarrow> dval f \<le> 1 \<Longrightarrow> dec_ok f \<Longrightarrow>
     0 \<le> dval (foldl combine_factor f rules) \<and> dval (foldl combine_factor f rules) \<le> dval f"
proof (induction rules arbitrary: f)
  case (Cons r rules)
  note b = combine_factor_bounds[OF Cons.prems, of r]
  have "dval (combine_factor f r) \<le> 1" using b(2) Cons.prems(2) by linarith
  from Cons.IH[OF b(1) this b(3)] show ?case using b(2) by simp
qed simp

lemma fold_factor_None: "\<forall>r \<in> set rules. rr_size_factor r = None \<Longrightarrow> foldl combine_factor f rules = f"
  by (induction rules arbitrary: f) (simp_all add: combine_factor_def)

lemma gate_factor_None:
  "r \<in> set (gate_results i) \<Longrightarrow> r \<noteq> spread_ceiling i \<Longrightarrow> rr_size_factor r = None"
  by (auto simp: gate_results_def)

lemma spread_factor:
  "rr_size_factor (spread_ceiling i) = (if rr_outcome (spread_ceiling i) = rule_outcome.REDUCE
     then Some (rc_wide_spread_size_factor (ri_config i)) else None)"
  by (auto simp: spread_ceiling_def Let_def split: option.splits)

lemma cap_factor_None: "r \<in> set (cap_rule_results caps intended) \<Longrightarrow> rr_size_factor r = None"
  by (auto simp: cap_rule_results_def Let_def)

lemma fill_factor_None: "r \<in> set (opt_list (target_fill_rule caps c)) \<Longrightarrow> rr_size_factor r = None"
  by (auto simp: target_fill_rule_def Let_def split: if_splits option.splits)

section \<open>A concrete decision\<close>

lemma acme_spread: "spread_ceiling (acme_inputs a) = verdict_of ''spread_ceiling'' 1 rule_outcome.PASS ''within''
    (Some (dec_str (Dec 100000 (- 4)))) (Some (dec_str (rc_max_spread_bps default_risk_config) @ '' bps''))"
  by (simp add: spread_ceiling_def acme_inputs_def acme_quote_def measured_def sa_is_ok_def opt_str_def Let_def)

lemma acme_facts:
  "identity_ok (acme_inputs a)" "account_currency (acme_inputs a) = ''USD''" "identity_currency (acme_inputs a) = ''USD''"
  "quote_currency (acme_inputs a) = ''USD''"
  "acct_age_seconds acme_account 2000000 \<le> dec_of_int 300" "quote_age_seconds acme_quote \<le> dec_of_int 15"
  by code_simp+

lemma acme_gates: "gates_clear (acme_inputs thesis_action.BUY)"
proof -
  have "account_ok (acme_inputs thesis_action.BUY)"
    using acme_facts(5) by (simp add: account_ok_def acme_inputs_def default_risk_config_def dec_simps)
  moreover have "quote_ok default_risk_config acme_quote"
    using acme_facts(6)
    by (simp add: quote_ok_def default_risk_config_def spread_tradable_def acme_quote_def measured_def
        DEFAULT_ALLOWED_SESSIONS_def dec_simps)
  moreover have "currency_ok (acme_inputs thesis_action.BUY)" by (simp add: currency_ok_def acme_facts)
  moreover have "portfolio_ok (acme_inputs thesis_action.BUY)"
    by (auto simp: portfolio_ok_def opposing_sides_def acme_inputs_def no_reservations_def default_risk_config_def
        holding_def acct_position_def acme_account_def acme_position_def acme_identity_def dval_Dec)
  ultimately show ?thesis
    using acme_facts(1) by (simp add: gates_clear_conditions acme_inputs_def)
qed

lemma acme_caps:
  obtains caps where "notional_caps (acme_inputs thesis_action.BUY) = Inr caps"
    "map nc_limit caps =
       [Dec 500 0, pct (Dec 50000 0) (Dec 2 (- 2)),
        dmax ZERO (pct (Dec 50000 0) (Dec 3 (- 2)) - Dec 400 0),
        dmax ZERO (pct (Dec 50000 0) (Dec 60 (- 2)) - Dec 20000 0),
        dmax ZERO (pct (Dec 50000 0) (Dec 10 (- 2)) - Dec 0 0),
        dmax ZERO (Dec 30000 0 - pct (Dec 50000 0) (Dec 10 (- 2)) - Dec 0 0),
        dmax ZERO (Dec 1000 0 - Dec 4 0) * Dec 10000 (- 2)]"
proof -
  have "ZERO < Dec 10000 (- 2)" by code_simp
  then show thesis
    using that
    by (simp add: notional_caps_def increasing_iff acme_inputs_def intent_caps_def portfolio_caps_def broker_caps_def
        Let_def cap_of_def default_risk_config_def acct_position_def acme_account_def acme_position_def
        acme_identity_def acme_quote_def no_reservations_def or_zero_def same_currency_snapshot_def
        fs_conversion_required_def dec_of_int_def)
qed

lemma acme_min: "min_or_zero
       [Dec 500 0, pct (Dec 50000 0) (Dec 2 (- 2)),
        dmax ZERO (pct (Dec 50000 0) (Dec 3 (- 2)) - Dec 400 0),
        dmax ZERO (pct (Dec 50000 0) (Dec 60 (- 2)) - Dec 20000 0),
        dmax ZERO (pct (Dec 50000 0) (Dec 10 (- 2)) - Dec 0 0),
        dmax ZERO (Dec 30000 0 - pct (Dec 50000 0) (Dec 10 (- 2)) - Dec 0 0),
        dmax ZERO (Dec 1000 0 - Dec 4 0) * Dec 10000 (- 2)] = Dec 500 0"
  by code_simp

lemma min_or_zero_le: "x \<in> set xs \<Longrightarrow> dval (min_or_zero xs) \<le> dval x"
  using dmin_list_le(1)[of "hd xs" "tl xs"] dmin_list_le(2)[of x "tl xs" "hd xs"]
  by (cases xs) (auto simp: min_or_zero_def dec_simps)

lemma acme_sized: "case size_trade thesis_action.BUY default_risk_config acme_identity (Some acme_quote) (Some acme_account)
    (Dec 500 0) (combine_factor (dec_of_int 1) (factor_rule [] [] [] 0 (confidence_factor default_risk_config (Dec 85 (- 2)))))
    (Some (same_currency_snapshot ''USD'')) None of Inl _ \<Rightarrow> False
    | Inr sz \<Rightarrow> sz_executable sz \<and> sz_side sz = Some order_side.BUY \<and> Dec 1 0 \<le> sz_max_quantity sz
        \<and> sz_reference_price sz = q_ask acme_quote \<and> sz_quantity sz = Dec 3 0
        \<and> sz_notional_account_currency sz = Dec 30015 (- 2)"
  by code_simp

lemma sized_allowed:
  assumes "notional_caps i = Inr caps" "\<not> has_outcome rule_outcome.BLOCK (engine_rules i caps)"
    and "size_trade (ri_action i) (ri_config i) (ri_identity i) (ri_quote i) (ri_account i)
        (min_or_zero (map nc_limit caps)) (combined_size_factor (engine_rules i caps)) (ri_fx i) (ri_reduce_fraction i) = Inr sz"
    and "sz_executable sz" "inputs_summary i = Inr j"
  shows "\<exists>d. evaluate i t = Inr d \<and> rd_allowed d \<and> rd_sizing d = sz"
  using assms by (simp add: evaluate_def decide_def Let_def rd_allowed_def)

lemma acme_sized_priced:
  obtains d where "evaluate (acme_inputs thesis_action.BUY) t = Inr d" "rd_allowed d"
    "sz_side (rd_sizing d) = Some order_side.BUY" "Dec 1 0 \<le> sz_max_quantity (rd_sizing d)"
    "sz_reference_price (rd_sizing d) = q_ask acme_quote" "sz_quantity (rd_sizing d) = Dec 3 0"
    "sz_notional_account_currency (rd_sizing d) = Dec 30015 (- 2)"
proof -
  let ?i = "acme_inputs thesis_action.BUY"
  obtain caps where caps: "notional_caps ?i = Inr caps" "min_or_zero (map nc_limit caps) = Dec 500 0"
    by (rule acme_caps) (simp add: acme_min)
  then have "0 < dval (nc_limit cap)" if "cap \<in> set caps" for cap
    using min_or_zero_le[of "nc_limit cap" "map nc_limit caps"] that by (simp add: dval_Dec)
  moreover have "\<not> scrap caps (ri_config ?i)"
    by (simp add: scrap_def target_fill_rule_def acme_inputs_def default_risk_config_def)
  ultimately have clear: "\<not> has_outcome rule_outcome.BLOCK (engine_rules ?i caps)"
    using acme_gates by (force simp: engine_blocks)
  obtain why seen where rule: "confidence_size_factor ?i =
      Some (factor_rule ''confidence_size_modulation'' why seen (Dec 5 (- 1)) (confidence_factor default_risk_config (Dec 85 (- 2))))"
    by (simp add: confidence_size_factor_def acme_inputs_def default_risk_config_def Let_def)
  have "calibration_size_factor ?i = None" by (simp add: calibration_size_factor_def acme_inputs_def Let_def)
  moreover have "\<forall>r \<in> set (gate_results ?i). rr_size_factor r = None"
    using gate_factor_None acme_spread by (metis verdict_of_simps(5))
  ultimately have "combined_size_factor (engine_rules ?i caps) = combine_factor (dec_of_int 1)
      (factor_rule [] [] [] 0 (confidence_factor default_risk_config (Dec 85 (- 2))))"
    using cap_factor_None fill_factor_None
    by (simp add: combined_size_factor_def engine_rules_def fold_factor_None rule combine_factor_def factor_rule_def)
  then obtain sz where sz: "size_trade (ri_action ?i) (ri_config ?i) (ri_identity ?i) (ri_quote ?i) (ri_account ?i)
        (min_or_zero (map nc_limit caps)) (combined_size_factor (engine_rules ?i caps)) (ri_fx ?i) (ri_reduce_fraction ?i) = Inr sz"
      "sz_executable sz" "sz_side sz = Some order_side.BUY" "Dec 1 0 \<le> sz_max_quantity sz"
      "sz_reference_price sz = q_ask acme_quote" "sz_quantity sz = Dec 3 0" "sz_notional_account_currency sz = Dec 30015 (- 2)"
    using acme_sized by (auto simp: caps(2) acme_inputs_def split: sum.splits)
  obtain j where "inputs_summary ?i = Inr j"
    by (simp add: inputs_summary_def acme_inputs_def fs_as_dict_def fs_direction_def same_currency_snapshot_def Let_def)
  from sized_allowed[OF caps(1) clear sz(1,2) this] show thesis using that sz(3-7) by blast
qed

lemma acme_sized_allowed:
  obtains d where "evaluate (acme_inputs thesis_action.BUY) t = Inr d" "rd_allowed d"
    "sz_side (rd_sizing d) = Some order_side.BUY" "Dec 1 0 \<le> sz_max_quantity (rd_sizing d)"
  using acme_sized_priced by blast

lemma acme_allowed:
  obtains d where "evaluate (acme_inputs thesis_action.BUY) t = Inr d" "rd_allowed d"
  using acme_sized_allowed by blast

text \<open>
  C13: a block is absolute. The outcome is \<open>BLOCK\<close> exactly when some rule blocked; a blocked
  decision carries no side, no quantity and no executable size, whatever the caps, the
  confidence and the calibration record say; and every rule of the gates is in the record.
\<close>

theorem block_is_final:
  assumes "evaluate i t = Inr d"
  shows "(rd_outcome d = risk_outcome.BLOCK \<longleftrightarrow> rd_block_rule_ids d \<noteq> [])
    \<and> (rd_block_rule_ids d \<noteq> [] \<longrightarrow> \<not> rd_allowed d \<and> sz_side (rd_sizing d) = None
          \<and> dval (sz_quantity (rd_sizing d)) = 0 \<and> \<not> sz_executable (rd_sizing d))
    \<and> set (gate_results i) \<subseteq> set (rd_rules d)"
proof -
  have ids: "rd_block_rule_ids d \<noteq> [] \<longleftrightarrow> has_outcome rule_outcome.BLOCK (rd_rules d)"
    by (simp add: rd_block_rule_ids_def has_outcome_iff filter_empty_conv)
  show ?thesis
    using assms evaluate_gates[OF assms]
    by (cases rule: evaluate_cases) (auto simp: ids rd_allowed_def unsized_def)
qed

lemma block_is_final_witness:
  "\<exists>d. evaluate (acme_inputs thesis_action.BUY) 0 = Inr d \<and> set (gate_results (acme_inputs thesis_action.BUY)) \<subseteq> set (rd_rules d)
     \<and> rd_block_rule_ids d = []"
proof -
  obtain d where d: "evaluate (acme_inputs thesis_action.BUY) 0 = Inr d" "rd_allowed d" by (rule acme_allowed)
  then show ?thesis using block_is_final[OF d(1)] by blast
qed

text \<open>
  C14: nothing reaches sizing past a gate. A decision that is allowed satisfies every entry
  condition of its side: verified listing, fresh account, priceable fresh quote, usable rate,
  and the portfolio conditions.
\<close>

theorem allowed_meets_entry_conditions:
  assumes "evaluate i t = Inr d" "rd_allowed d"
  shows "identity_ok i \<and> account_ok i \<and> (\<exists>q. ri_quote i = Some q \<and> quote_ok (ri_config i) q)
    \<and> currency_ok i \<and> portfolio_ok i"
proof -
  have "\<not> has_outcome rule_outcome.BLOCK (rd_rules d)"
    using assms by (cases rule: evaluate_cases) (auto simp: rd_allowed_def)
  then have "gates_clear i"
    using evaluate_gates[OF assms(1)] by (auto simp: gates_clear_def has_outcome_iff)
  then show ?thesis by (simp add: gates_clear_conditions)
qed

lemma allowed_meets_entry_conditions_witness:
  "identity_ok (acme_inputs thesis_action.BUY) \<and> portfolio_ok (acme_inputs thesis_action.BUY)"
proof -
  obtain d where d: "evaluate (acme_inputs thesis_action.BUY) 0 = Inr d" "rd_allowed d" by (rule acme_allowed)
  then show ?thesis using allowed_meets_entry_conditions[OF d] by blast
qed

text \<open>
  C15: the verdict, rule by rule. For inputs whose caps can be computed, the decision blocks
  exactly when an entry condition fails, a cap has no headroom, or a conviction target could be
  filled only with a scrap; otherwise it allows, and it reports a reduced size exactly when
  some rule reduced. Neither confidence nor the calibration record can block or lift a block.
\<close>

theorem engine_verdict:
  assumes "evaluate i t = Inr d" "notional_caps i = Inr caps"
  shows "(rd_outcome d = risk_outcome.BLOCK \<longleftrightarrow>
        \<not> gates_clear i \<or> (\<exists>cap \<in> set caps. dval (nc_limit cap) \<le> 0) \<or> scrap caps (ri_config i))
    \<and> (rd_outcome d = risk_outcome.REDUCE_SIZE \<longleftrightarrow>
        rd_outcome d \<noteq> risk_outcome.BLOCK \<and> has_outcome rule_outcome.REDUCE (engine_rules i caps))"
  using assms(1)
proof (cases rule: evaluate_cases)
  case (1 caps')
  then show ?thesis using assms(2) engine_blocks[of i caps] by simp
next
  case (2 caps')
  then show ?thesis using assms(2) engine_blocks[of i caps] by (simp split: if_splits)
qed

lemma engine_verdict_witness:
  "\<exists>d. evaluate (acme_inputs thesis_action.BUY) 0 = Inr d \<and> rd_outcome d \<noteq> risk_outcome.BLOCK
     \<and> gates_clear (acme_inputs thesis_action.BUY)"
proof -
  obtain d where d: "evaluate (acme_inputs thesis_action.BUY) 0 = Inr d" "rd_allowed d" by (rule acme_allowed)
  obtain caps where "notional_caps (acme_inputs thesis_action.BUY) = Inr caps" by (rule acme_caps)
  from engine_verdict[OF d(1) this] d show ?thesis by (auto simp: rd_allowed_def)
qed

text \<open>
  Size factors only ever reduce. The product of all factors lies between 0 and 1, and
  appending rules can never enlarge it, whatever factors they carry.
\<close>

lemma factors_only_reduce:
  "0 \<le> dval (combined_size_factor (rules @ later))
   \<and> dval (combined_size_factor (rules @ later)) \<le> dval (combined_size_factor rules)
   \<and> dval (combined_size_factor rules) \<le> 1"
proof -
  have one: "dec_ok (dec_of_int 1)" by (simp add: dec_of_int_def dec_ok_def)
  have ok: "dec_ok f \<Longrightarrow> 0 \<le> dval f \<Longrightarrow> dval f \<le> 1 \<Longrightarrow> dec_ok (foldl combine_factor f rules)" for f rules
  proof (induction rules arbitrary: f)
    case (Cons r rules)
    note b = combine_factor_bounds[OF Cons.prems(2,3,1), of r]
    have "dval (combine_factor f r) \<le> 1" using b(2) Cons.prems(3) by linarith
    from Cons.IH[OF b(3,1) this] show ?case by simp
  qed simp
  let ?f = "combined_size_factor rules"
  have f: "0 \<le> dval ?f" "dval ?f \<le> 1" "dec_ok ?f"
    using fold_factor_bounds[of "dec_of_int 1" rules] ok[of "dec_of_int 1" rules] one
    by (simp_all add: combined_size_factor_def)
  then show ?thesis using fold_factor_bounds[OF f, of later] by (simp add: combined_size_factor_def)
qed

lemma caps_members:
  assumes "notional_caps i = Inr caps" "ri_action i = thesis_action.BUY" "ri_account i = Some a"
  obtains held where "set (portfolio_caps i a held) \<subseteq> set caps"
proof (rule that)
  show "set (portfolio_caps i a (case acct_position a (inst_broker_ticker (ri_identity i)) of
      None \<Rightarrow> ZERO | Some p \<Rightarrow> or_zero (pos_market_value p))) \<subseteq> set caps"
    using assms by (auto simp: notional_caps_def increasing_iff Let_def bindE_eq_Inr)
qed

definition spendable :: "risk_inputs \<Rightarrow> account_state \<Rightarrow> decimal" where
  "spendable i a =
     acct_cash_available a - pct (acct_total_value a) (rc_min_cash_reserve_pct (ri_config i))
       - res_notional (ri_reserved i)"

text \<open>
  C16: an allowed buy respects every cap at once. When no conversion is involved, the quantity
  times the ask is, up to one part in \<open>10 ^ 27\<close>, at most every ceiling that was computed, and in
  particular at most the cash left after the reserve and after what live proposals have claimed.
\<close>

theorem allowed_buy_respects_caps:
  assumes "evaluate i t = Inr d" "rd_allowed d" "ri_action i = thesis_action.BUY" "no_conversion (ri_fx i)"
    and "notional_caps i = Inr caps" "ri_account i = Some a" "ri_quote i = Some q" "q_ask q = Some ask"
  shows "0 < dval (sz_quantity (rd_sizing d))
    \<and> (\<forall>cap \<in> set caps. 10 ^ 27 * (dval (sz_quantity (rd_sizing d)) * dval ask) \<le> (10 ^ 27 + 1) * dval (nc_limit cap))
    \<and> 10 ^ 27 * (dval (sz_quantity (rd_sizing d)) * dval ask) \<le> (10 ^ 27 + 1) * dval (spendable i a)"
  using assms(1)
proof (cases rule: evaluate_cases)
  case (2 caps')
  let ?n = "sz_quantity (rd_sizing d)"
  have sz: "size_trade thesis_action.BUY (ri_config i) (ri_identity i) (Some q) (Some a)
      (min_or_zero (map nc_limit caps)) (combined_size_factor (rd_rules d)) (ri_fx i) (ri_reduce_fraction i) = Inr (rd_sizing d)"
    using 2(1,5) assms(3,5-7) by simp
  have ex: "sz_executable (rd_sizing d)" using assms(2) by (simp add: rd_allowed_def)
  have bound: "10 ^ 27 * (dval ?n * dval ask) \<le> (10 ^ 27 + 1) * dval (min_or_zero (map nc_limit caps))" "0 < dval ?n"
    using buy_cap_bound[OF sz ex] no_conversion_to[OF assms(4)] assms(8) by auto
  have caps: "\<forall>cap \<in> set caps. 10 ^ 27 * (dval ?n * dval ask) \<le> (10 ^ 27 + 1) * dval (nc_limit cap)"
  proof
    fix cap assume "cap \<in> set caps"
    then have "dval (min_or_zero (map nc_limit caps)) \<le> dval (nc_limit cap)" by (intro min_or_zero_le) simp
    then have "(10 ^ 27 + 1) * dval (min_or_zero (map nc_limit caps)) \<le> (10 ^ 27 + 1) * dval (nc_limit cap)"
      by (intro mult_left_mono) simp_all
    with bound(1) show "10 ^ 27 * (dval ?n * dval ask) \<le> (10 ^ 27 + 1) * dval (nc_limit cap)" by (rule order_trans)
  qed
  obtain held where "set (portfolio_caps i a held) \<subseteq> set caps" using caps_members assms(3,5,6) by blast
  then obtain cap where cap: "cap \<in> set caps" "nc_limit cap = dmax ZERO (spendable i a)"
    by (auto simp: portfolio_caps_def Let_def cap_of_def spendable_def)
  have "0 < dval (nc_limit cap)"
    using 2(1,2,3) assms(5) cap(1) by (simp add: engine_blocks not_le)
  then have "dval (nc_limit cap) = dval (spendable i a)" by (simp add: cap(2) dec_simps)
  then show ?thesis using bound(2) caps bspec[OF caps cap(1)] by simp
qed (use assms(2) in \<open>simp add: rd_allowed_def\<close>)

lemma allowed_buy_respects_caps_witness:
  "\<exists>d. evaluate (acme_inputs thesis_action.BUY) 0 = Inr d \<and> 0 < dval (sz_quantity (rd_sizing d))"
proof -
  let ?i = "acme_inputs thesis_action.BUY"
  obtain d where d: "evaluate ?i 0 = Inr d" "rd_allowed d" by (rule acme_allowed)
  obtain caps where caps: "notional_caps ?i = Inr caps" by (rule acme_caps)
  have "no_conversion (ri_fx ?i)" by (simp add: no_conversion_def acme_inputs_def same_currency_snapshot_def Let_def)
  then show ?thesis
    using allowed_buy_respects_caps[OF d _ _ caps, of acme_account acme_quote "Dec 10005 (- 2)"] d(1)
    by (auto simp: acme_inputs_def acme_quote_def)
qed

end
