(* ===== verification/Fx_Service.thy ===== *)
theory Fx_Service
  imports Risk_Models
begin

text \<open>
  \<open>backend/stockbrain/fx/service.py\<close> and its two adapters, \<open>fx/frankfurter.py\<close> and
  \<open>fx/alpaca.py\<close>: fetching one rate and judging it. The HTTP client is the parameter \<open>http\<close> (it
  answers with a decoded body or fails), \<open>Decimal(str(value))\<close> and \<open>fromisoformat\<close> are parameters
  that answer \<open>None\<close> where Python raises.
\<close>

section \<open>Providers\<close>

text \<open>A decoded JSON body; a number is the text of its \<open>repr\<close>.\<close>

datatype wire =
    WNull
  | WBool bool
  | WNum string
  | WStr string
  | WList "wire list"
  | WObj "(string \<times> wire) list"

fun wget :: "string \<Rightarrow> wire \<Rightarrow> wire option" where
  "wget k (WObj kvs) = map_of kvs k"
| "wget k _ = None"

text \<open>\<open>str(value)\<close>; inside a list or an object a string is shown by its \<open>repr\<close>.\<close>

fun wrepr :: "wire \<Rightarrow> string" where
  "wrepr WNull = ''None''"
| "wrepr (WBool b) = (if b then ''True'' else ''False'')"
| "wrepr (WNum t) = t"
| "wrepr (WStr s) = repr_str s"
| "wrepr (WList xs) = ''['' @ join '', '' (map wrepr xs) @ '']''"
| "wrepr (WObj kvs) = ''{'' @ join '', '' (map (\<lambda>(k, v). repr_str k @ '': '' @ wrepr v) kvs) @ ''}''"

definition wstr :: "wire \<Rightarrow> string" where
  "wstr v = (case v of WStr s \<Rightarrow> s | _ \<Rightarrow> wrepr v)"

text \<open>
  What a call of a provider can raise: the provider errors with their type name and message, told
  apart the way the handlers do, and \<open>ValueError\<close>.
\<close>

datatype provider_failure =
    AuthFailure string
  | EntitlementFailure string
  | OtherFailure string string
  | BadValue string

fun failure_type :: "provider_failure \<Rightarrow> string" where
  "failure_type (AuthFailure text) = ''ProviderAuthError''"
| "failure_type (EntitlementFailure text) = ''ProviderEntitlementError''"
| "failure_type (OtherFailure name text) = name"
| "failure_type (BadValue text) = ''ValueError''"

fun failure_text :: "provider_failure \<Rightarrow> string" where
  "failure_text (AuthFailure text) = text"
| "failure_text (EntitlementFailure text) = text"
| "failure_text (OtherFailure name text) = text"
| "failure_text (BadValue text) = text"

definition response_error :: "string \<Rightarrow> provider_failure + 'a" where
  "response_error text = Inl (OtherFailure ''ProviderResponseError'' text)"

type_synonym fx_latest = "string \<Rightarrow> string \<Rightarrow> provider_failure + fx_rate"

record fx_provider =
  fp_name :: string
  fp_grade :: fx_rate_grade
  fp_latest :: fx_latest
  fp_capability :: "provider_failure + fx_capability"

text \<open>Building an \<open>FxRate\<close> runs its check, whose \<open>ValueError\<close> leaves the adapter.\<close>

definition built :: "fx_rate \<Rightarrow> provider_failure + fx_rate" where
  "built r = (case make_fx_rate r of Inl (ValueError m) \<Rightarrow> Inl (BadValue m) | Inl _ \<Rightarrow> Inl (BadValue []) | Inr x \<Rightarrow> Inr x)"

definition positive_number :: "(string \<Rightarrow> decimal option) \<Rightarrow> wire option \<Rightarrow> decimal option" where
  "positive_number number value =
     (case value of
        None \<Rightarrow> None
      | Some WNull \<Rightarrow> None
      | Some (WBool _) \<Rightarrow> None
      | Some v \<Rightarrow> (case number (wstr v) of None \<Rightarrow> None | Some d \<Rightarrow> if Dec 0 0 < d then Some d else None))"

section \<open>Frankfurter\<close>

definition parse_date :: "(string \<Rightarrow> instant option) \<Rightarrow> wire option \<Rightarrow> instant option" where
  "parse_date midnight value =
     (case value of
        Some (WStr s) \<Rightarrow> if strip s = [] then None else midnight (strip s)
      | _ \<Rightarrow> None)"

definition frankfurter_latest ::
  "(string \<Rightarrow> string \<Rightarrow> provider_failure + wire) \<Rightarrow> (string \<Rightarrow> decimal option)
     \<Rightarrow> (string \<Rightarrow> instant option) \<Rightarrow> instant \<Rightarrow> fx_latest" where
  "frankfurter_latest http number midnight received_at base quote =
     (let source = normalize_currency (Some base); target = normalize_currency (Some quote)
      in if source = [] \<or> target = [] then Inl (BadValue ''both currencies are required'')
         else if source = target
         then Inl (BadValue ''a same-currency pair is not a rate; use identity_rate()'')
         else case http source target of
           Inl e \<Rightarrow> Inl e
         | Inr (WList (entry # others)) \<Rightarrow>
             (case entry of
                WObj kvs \<Rightarrow>
                  let entry_base = normalize_currency (Some (case map_of kvs ''base'' of None \<Rightarrow> [] | Some v \<Rightarrow> wstr v));
                      entry_quote = normalize_currency (Some (case map_of kvs ''quote'' of None \<Rightarrow> [] | Some v \<Rightarrow> wstr v))
                  in if {entry_base, entry_quote} \<noteq> {source, target}
                     then response_error (''frankfurter: asked for '' @ currency_pair source target
                       @ '' and received '' @ currency_pair entry_base entry_quote)
                     else (case positive_number number (map_of kvs ''rate'') of
                       None \<Rightarrow> response_error (''frankfurter: '' @ currency_pair entry_base entry_quote
                         @ '' carried no positive rate'')
                     | Some rate \<Rightarrow> (case parse_date midnight (map_of kvs ''date'') of
                         None \<Rightarrow> response_error ''frankfurter: rate entry carried no usable date''
                       | Some published \<Rightarrow> built
                           \<lparr>fr_base_currency = entry_base, fr_quote_currency = entry_quote,
                            fr_rate = rate, fr_provider = ''frankfurter'',
                            fr_grade = fx_rate_grade.REFERENCE, fr_provider_timestamp = published,
                            fr_received_at = received_at, fr_rate_type = ''central_bank_reference'',
                            fr_bid = None, fr_ask = None, fr_timestamp_precision = ''day''\<rparr>))
              | _ \<Rightarrow> response_error ''frankfurter: rate entry was not an object'')
         | Inr _ \<Rightarrow> response_error ''frankfurter: /v2/rates did not return a non-empty array'')"

record fx_settings =
  fxs_allow_reference_grade :: bool
  fxs_max_age_seconds :: decimal
  fxs_reference_max_age_seconds :: decimal
  fxs_probe_base_currency :: string
  fxs_probe_quote_currency :: string
  fxs_alpaca_credentials :: bool

definition capability_of ::
  "string \<Rightarrow> fx_rate_grade \<Rightarrow> string list \<Rightarrow> string option \<Rightarrow> fx_capability" where
  "capability_of name grade blockers detail =
     \<lparr>cap_provider = name, cap_grade = Some grade, cap_blockers = blockers, cap_detail = detail\<rparr>"

text \<open>The probe catches provider errors only: a \<open>ValueError\<close> leaves it.\<close>

definition frankfurter_capability ::
  "fx_settings \<Rightarrow> fx_latest \<Rightarrow> provider_failure + fx_capability" where
  "frankfurter_capability st latest =
     (case latest (normalize_currency (Some (fxs_probe_base_currency st)))
         (normalize_currency (Some (fxs_probe_quote_currency st))) of
        Inl (BadValue m) \<Rightarrow> Inl (BadValue m)
      | Inl e \<Rightarrow> Inr (capability_of ''frankfurter'' fx_rate_grade.REFERENCE
          [''the Frankfurter API is unavailable ('' @ failure_type e @ '')'']
          (Some (take 200 (failure_text e))))
      | Inr rate \<Rightarrow> Inr (capability_of ''frankfurter'' fx_rate_grade.REFERENCE
          (if fxs_allow_reference_grade st then []
           else [''FX_ALLOW_REFERENCE_GRADE is false, so this reference-grade ''
             @ ''fixing may not size a trade''])
          (Some (fr_pair rate @ '' available as a '' @ fr_rate_type rate @ '' fixing dated ''
             @ take 10 (isoformat (fr_provider_timestamp rate))))))"

section \<open>Alpaca\<close>

text \<open>The timestamp's fraction is cut to six digits before it is parsed.\<close>

fun z_as_offset :: "string \<Rightarrow> string" where
  "z_as_offset [] = []"
| "z_as_offset (c # s) = (if c = CHR ''Z'' then ''+00:00'' else [c]) @ z_as_offset s"

definition is_digit :: "char \<Rightarrow> bool" where
  "is_digit c = (let n = of_char c :: nat in 48 \<le> n \<and> n \<le> 57 \<or> n \<in> {178, 179, 185})"

definition cut_fraction :: "string \<Rightarrow> string" where
  "cut_fraction text =
     (if CHR ''.'' \<in> set text
      then let tail = tl (dropWhile (\<lambda>c. c \<noteq> CHR ''.'') text)
           in takeWhile (\<lambda>c. c \<noteq> CHR ''.'') text @ ''.'' @ take 6 (takeWhile is_digit tail)
              @ dropWhile is_digit tail
      else text)"

definition parse_instant :: "(string \<Rightarrow> instant option) \<Rightarrow> wire option \<Rightarrow> instant option" where
  "parse_instant fromiso value =
     (case value of
        Some (WStr s) \<Rightarrow> if s = [] then None else fromiso (cut_fraction (z_as_offset (strip s)))
      | _ \<Rightarrow> None)"

definition alpaca_mid :: "decimal option \<Rightarrow> decimal option \<Rightarrow> decimal option \<Rightarrow> decimal option" where
  "alpaca_mid mid bid ask =
     (case mid of
        Some m \<Rightarrow> Some m
      | None \<Rightarrow> (case (bid, ask) of
          (Some b, Some a) \<Rightarrow> (case ddiv (b + a) (dec_of_int 2) of Inr m \<Rightarrow> Some m | Inl _ \<Rightarrow> None)
        | _ \<Rightarrow> None))"

definition alpaca_to_rate ::
  "(string \<Rightarrow> decimal option) \<Rightarrow> (string \<Rightarrow> instant option) \<Rightarrow> wire \<Rightarrow> string \<Rightarrow> string \<Rightarrow> instant
     \<Rightarrow> provider_failure + fx_rate" where
  "alpaca_to_rate number fromiso entry base quote received_at =
     (let bid = positive_number number (wget ''bp'' entry);
          ask = positive_number number (wget ''ap'' entry)
      in case alpaca_mid (positive_number number (wget ''mp'' entry)) bid ask of
           None \<Rightarrow> response_error (''alpaca_fx: '' @ currency_pair base quote @ '' carried no usable mid price'')
         | Some mid \<Rightarrow> (case parse_instant fromiso (wget ''t'' entry) of
             None \<Rightarrow> response_error (''alpaca_fx: '' @ currency_pair base quote @ '' carried no timestamp'')
           | Some t \<Rightarrow> built
               \<lparr>fr_base_currency = base, fr_quote_currency = quote, fr_rate = mid,
                fr_provider = ''alpaca_fx'', fr_grade = fx_rate_grade.EXECUTION,
                fr_provider_timestamp = t, fr_received_at = received_at, fr_rate_type = ''mid'',
                fr_bid = bid, fr_ask = ask, fr_timestamp_precision = ''instant''\<rparr>))"

definition is_object :: "wire option \<Rightarrow> bool" where
  "is_object v = (case v of Some (WObj _) \<Rightarrow> True | _ \<Rightarrow> False)"

definition alpaca_latest ::
  "(string \<Rightarrow> provider_failure + wire) \<Rightarrow> (string \<Rightarrow> decimal option)
     \<Rightarrow> (string \<Rightarrow> instant option) \<Rightarrow> instant \<Rightarrow> fx_latest" where
  "alpaca_latest http number fromiso received_at base quote =
     (let source = normalize_currency (Some base); target = normalize_currency (Some quote);
          direct = currency_pair source target; inverse = currency_pair target source
      in if source = [] \<or> target = [] then Inl (BadValue ''both currencies are required'')
         else if source = target
         then Inl (BadValue ''a same-currency pair is not a rate; use identity_rate()'')
         else case http (direct @ '','' @ inverse) of
           Inl e \<Rightarrow> Inl e
         | Inr payload \<Rightarrow>
             if \<not> is_object (Some payload) then response_error ''alpaca_fx: response was not a JSON object''
             else case wget ''rates'' payload of
               Some (WObj rates) \<Rightarrow>
                 if is_object (map_of rates direct)
                 then alpaca_to_rate number fromiso (the (map_of rates direct)) source target received_at
                 else if is_object (map_of rates inverse)
                 then alpaca_to_rate number fromiso (the (map_of rates inverse)) target source received_at
                 else response_error (''alpaca_fx: neither '' @ direct @ '' nor '' @ inverse
                   @ '' was returned; the pair is not published by this feed'')
             | _ \<Rightarrow> response_error ''alpaca_fx: response had no 'rates' object'')"

definition alpaca_capability ::
  "fx_settings \<Rightarrow> fx_latest \<Rightarrow> provider_failure + fx_capability" where
  "alpaca_capability st latest =
     (let made = capability_of ''alpaca_fx'' fx_rate_grade.EXECUTION
      in if \<not> fxs_alpaca_credentials st
         then Inr (made [''Alpaca API credentials are not configured''] None)
         else case latest (normalize_currency (Some (fxs_probe_base_currency st)))
             (normalize_currency (Some (fxs_probe_quote_currency st))) of
           Inl (BadValue m) \<Rightarrow> Inl (BadValue m)
         | Inl (EntitlementFailure m) \<Rightarrow> Inr (made
             [''the Alpaca subscription does not include forex data ''
              @ ''(HTTP 403 'insufficient grants')''] (Some (take 200 m)))
         | Inl (AuthFailure m) \<Rightarrow> Inr (made
             [''Alpaca rejected the credential for the forex endpoint''] (Some (take 200 m)))
         | Inl (OtherFailure name m) \<Rightarrow> Inr (made
             [''the Alpaca forex endpoint is unavailable ('' @ name @ '')''] (Some (take 200 m)))
         | Inr rate \<Rightarrow> Inr (made []
             (Some (fr_pair rate @ '' available, '' @ fr_rate_type rate @ '' price''))))"

section \<open>Resolution\<close>

record fx_resolution =
  fxr_from_currency :: string
  fxr_to_currency :: string
  fxr_rate :: "fx_rate option"
  fxr_blockers :: "string list"
  fxr_same_currency :: bool
  fxr_provider :: "string option"
  fxr_resolved_at :: instant

definition fxr_usable :: "fx_resolution \<Rightarrow> bool" where
  "fxr_usable r = (fxr_blockers r = [])"

definition fxr_pair :: "fx_resolution \<Rightarrow> string" where
  "fxr_pair r = currency_pair (fxr_from_currency r) (fxr_to_currency r)"

definition fxr_as_dict :: "fx_resolution \<Rightarrow> json" where
  "fxr_as_dict r = JObj
     [(''from_currency'', JStr (fxr_from_currency r)),
      (''to_currency'', JStr (fxr_to_currency r)),
      (''pair'', JStr (fxr_pair r)),
      (''same_currency'', JBool (fxr_same_currency r)),
      (''usable'', JBool (fxr_usable r)),
      (''blockers'', JList (map JStr (fxr_blockers r))),
      (''provider'', jopt JStr (fxr_provider r)),
      (''resolved_at'', jtime (fxr_resolved_at r)),
      (''rate'', jopt fx_rate_as_dict (fxr_rate r))]"

definition fx_capability_of :: "fx_provider option \<Rightarrow> provider_failure + fx_capability" where
  "fx_capability_of provider =
     (case provider of
        None \<Rightarrow> Inr \<lparr>cap_provider = ''none'', cap_grade = None,
          cap_blockers = [''FX_PROVIDER is 'none': cross-currency sizing is blocked and no rate ''
            @ ''is ever inferred''], cap_detail = None\<rparr>
      | Some p \<Rightarrow> fp_capability p)"

definition missing_reason :: "string \<Rightarrow> provider_failure \<Rightarrow> string" where
  "missing_reason name e =
     (case e of
        BadValue m \<Rightarrow> ''the FX source returned an unusable rate: '' @ m
      | OtherFailure ty m \<Rightarrow> ''the '' @ name @ '' FX source is unavailable ('' @ ty
          @ ''); cross-currency sizing is blocked''
      | _ \<Rightarrow> ''the '' @ name @ '' FX source refused the request ('' @ failure_type e
          @ ''); cross-currency sizing is blocked'')"

definition resolve ::
  "fx_settings \<Rightarrow> fx_provider option \<Rightarrow> string \<Rightarrow> string \<Rightarrow> instant \<Rightarrow> fx_resolution" where
  "resolve st provider from_currency to_currency now =
     (let source = normalize_currency (Some from_currency);
          target = normalize_currency (Some to_currency);
          answer = (\<lambda>rate blockers same name.
            \<lparr>fxr_from_currency = source, fxr_to_currency = target, fxr_rate = rate,
             fxr_blockers = blockers, fxr_same_currency = same, fxr_provider = name,
             fxr_resolved_at = now\<rparr>)
      in if source = [] \<or> target = []
         then answer None
           [''the instrument or account currency is unknown, so no conversion is defined'']
           False (map_option fp_name provider)
         else if source = target then answer None [] True (Some ''identity'')
         else case provider of
           None \<Rightarrow> answer None
             [''no FX provider is configured, so '' @ source @ ''->'' @ target
              @ '' cannot be converted; set FX_PROVIDER to enable cross-currency sizing''] False None
         | Some p \<Rightarrow>
             let got = fp_latest p source target;
                 rate = (case got of Inr r \<Rightarrow> Some r | Inl _ \<Rightarrow> None);
                 why = (case got of Inr _ \<Rightarrow> None | Inl e \<Rightarrow> Some (missing_reason (fp_name p) e))
             in answer rate
                  (fx_blockers rate source target now (fxs_max_age_seconds st)
                     (fxs_reference_max_age_seconds st) (fxs_allow_reference_grade st) why)
                  False (Some (fp_name p)))"

section \<open>What a source promises\<close>

text \<open>
  The contract of \<open>FxRateProvider.latest\<close>: an answer was accepted by the constructor and measures
  the pair that was asked for, in one of its two directions.
\<close>

locale fx_source =
  fixes latest :: fx_latest
  assumes answer_accepted: "latest b q = Inr r \<Longrightarrow> make_fx_rate r = Inr r"
    and answer_measures: "latest b q = Inr r \<Longrightarrow> fr_supports r b q"
begin

text \<open>
  A resolution over such a source is usable exactly when the source answered with a rate of an
  admitted grade and age, and that rate then converts both ways.
\<close>

lemma resolve_usable:
  assumes "fp_latest p = latest"
    and "normalize_currency (Some f) \<noteq> []" "normalize_currency (Some t) \<noteq> []"
    and "normalize_currency (Some f) \<noteq> normalize_currency (Some t)"
  shows "fxr_usable (resolve st (Some p) f t now) \<longleftrightarrow>
    (\<exists>r. fxr_rate (resolve st (Some p) f t now) = Some r
       \<and> rate_usable r (normalize_currency (Some f)) (normalize_currency (Some t)) now
           (fxs_max_age_seconds st) (fxs_reference_max_age_seconds st) (fxs_allow_reference_grade st))"
  using assms by (simp add: resolve_def fxr_usable_def fx_blockers_empty_iff Let_def)

lemma resolve_converts:
  assumes p: "fp_latest p = latest" and r: "fxr_rate (resolve st (Some p) f t now) = Some r"
  shows "make_fx_rate r = Inr r \<and> okE (fr_convert r x f t now) \<and> okE (fr_convert r x t f now)"
proof -
  have l: "latest (normalize_currency (Some f)) (normalize_currency (Some t)) = Inr r"
    using assms by (auto simp: resolve_def Let_def split: if_splits sum.splits)
  have "fr_supports r f t" "fr_supports r t f" using answer_measures[OF l] by (auto simp: fr_supports_def Let_def)
  then show ?thesis
    using answer_accepted[OF l] fr_convert_ok by blast
qed

end

lemma built_Inr: "built r = Inr r' \<longleftrightarrow> r' = r \<and> make_fx_rate r = Inr r"
  by (auto simp: built_def make_fx_rate_def split: if_splits)

lemma frankfurter_answer:
  assumes "frankfurter_latest http number midnight seen b q = Inr r"
  shows "make_fx_rate r = Inr r \<and> fr_supports r b q"
proof -
  have "make_fx_rate r = Inr r
      \<and> {normalize_currency (Some (fr_base_currency r)), normalize_currency (Some (fr_quote_currency r))}
        = {normalize_currency (Some b), normalize_currency (Some q)}"
    using assms
    by (auto simp: frankfurter_latest_def response_error_def built_Inr Let_def
        split: if_splits sum.splits wire.splits list.splits option.splits)
  then show ?thesis by (auto simp: fr_supports_def Let_def doubleton_eq_iff)
qed

lemma alpaca_to_rate_Inr:
  assumes "alpaca_to_rate number fromiso entry b q seen = Inr r"
  shows "make_fx_rate r = Inr r \<and> fr_base_currency r = b \<and> fr_quote_currency r = q"
  using assms by (auto simp: alpaca_to_rate_def response_error_def built_Inr Let_def split: option.splits)

lemma alpaca_answer:
  assumes "alpaca_latest http number fromiso seen b q = Inr r"
  shows "make_fx_rate r = Inr r \<and> fr_supports r b q"
  using assms
  by (auto simp: alpaca_latest_def response_error_def fr_supports_def Let_def
      split: if_splits sum.splits option.splits wire.splits dest!: alpaca_to_rate_Inr)

interpretation frankfurter: fx_source "frankfurter_latest http number midnight seen"
  for http number midnight seen
  by unfold_locales (use frankfurter_answer in blast)+

interpretation alpaca: fx_source "alpaca_latest http number fromiso seen"
  for http number fromiso seen
  by unfold_locales (use alpaca_answer in blast)+

text \<open>
  C25: no rate is ever inferred. Over either adapter, whatever the HTTP client returns, a usable
  resolution of two different currencies carries a positive measured rate that the policy admits by grade and
  age and that converts between them in both directions; with one currency there is no rate at all, with an unknown one
  the resolution is not usable.
\<close>

theorem usable_resolution_measured:
  assumes "fp_latest p = frankfurter_latest http number midnight seen \<or> fp_latest p = alpaca_latest http' number fromiso seen"
    and "fxr_usable (resolve st (Some p) f t now)"
  shows "normalize_currency (Some f) \<noteq> [] \<and> normalize_currency (Some t) \<noteq> []
    \<and> (if normalize_currency (Some f) = normalize_currency (Some t)
       then fxr_rate (resolve st (Some p) f t now) = None
       else \<exists>r. fxr_rate (resolve st (Some p) f t now) = Some r \<and> 0 < dval (fr_rate r)
         \<and> rate_usable r (normalize_currency (Some f)) (normalize_currency (Some t)) now
             (fxs_max_age_seconds st) (fxs_reference_max_age_seconds st) (fxs_allow_reference_grade st)
         \<and> okE (fr_convert r x f t now) \<and> okE (fr_convert r x t f now))"
proof -
  have known: "normalize_currency (Some f) \<noteq> []" "normalize_currency (Some t) \<noteq> []"
    using assms(2) by (auto simp: resolve_def fxr_usable_def Let_def split: if_splits)
  show ?thesis
  proof (cases "normalize_currency (Some f) = normalize_currency (Some t)")
    case True
    then show ?thesis using known by (simp add: resolve_def Let_def)
  next
    case False
    have "\<exists>r. fxr_rate (resolve st (Some p) f t now) = Some r \<and> make_fx_rate r = Inr r
         \<and> rate_usable r (normalize_currency (Some f)) (normalize_currency (Some t)) now
             (fxs_max_age_seconds st) (fxs_reference_max_age_seconds st) (fxs_allow_reference_grade st)
         \<and> okE (fr_convert r x f t now) \<and> okE (fr_convert r x t f now)"
      using assms(1)
    proof
      assume p: "fp_latest p = frankfurter_latest http number midnight seen"
      show ?thesis using frankfurter.resolve_usable[OF p known False] frankfurter.resolve_converts[OF p] assms(2) by blast
    next
      assume p: "fp_latest p = alpaca_latest http' number fromiso seen"
      show ?thesis using alpaca.resolve_usable[OF p known False] alpaca.resolve_converts[OF p] assms(2) by blast
    qed
    then show ?thesis using known False by (auto simp: make_fx_rate_Inr)
  qed
qed

definition sample_latest :: fx_latest where
  "sample_latest = frankfurter_latest
     (\<lambda>s t. Inr (WList [WObj [(''base'', WStr ''GBP''), (''quote'', WStr ''USD''), (''rate'', WNum ''1.35''),
        (''date'', WStr ''2026-09-05'')]]))
     (\<lambda>s. Some (Dec 135 (-2))) (\<lambda>s. Some 0) 5"

definition sample_provider :: fx_provider where
  "sample_provider =
     \<lparr>fp_name = ''frankfurter'', fp_grade = fx_rate_grade.REFERENCE, fp_latest = sample_latest,
      fp_capability = Inl (BadValue [])\<rparr>"

definition sample_fx_settings :: fx_settings where
  "sample_fx_settings =
     \<lparr>fxs_allow_reference_grade = True, fxs_max_age_seconds = Dec 60 0,
      fxs_reference_max_age_seconds = Dec 86400 0, fxs_probe_base_currency = ''GBP'',
      fxs_probe_quote_currency = ''USD'', fxs_alpaca_credentials = False\<rparr>"

lemma usable_resolution_measured_witness:
  "\<exists>r. fxr_rate (resolve sample_fx_settings (Some sample_provider) ''usd'' ''GBP '' 7) = Some r
     \<and> okE (fr_convert r (Dec 100 0) ''usd'' ''GBP '' 7)"
proof -
  have n: "normalize_currency (Some ''usd'') = ''USD''" "normalize_currency (Some ''GBP '') = ''GBP''" by code_simp+
  have u: "fxr_usable (resolve sample_fx_settings (Some sample_provider) ''usd'' ''GBP '' 7)" by code_simp
  have l: "fp_latest sample_provider = frankfurter_latest
      (\<lambda>s t. Inr (WList [WObj [(''base'', WStr ''GBP''), (''quote'', WStr ''USD''), (''rate'', WNum ''1.35''),
         (''date'', WStr ''2026-09-05'')]]))
      (\<lambda>s. Some (Dec 135 (-2))) (\<lambda>s. Some 0) 5"
    by (simp add: sample_provider_def sample_latest_def)
  show ?thesis
    using usable_resolution_measured[OF disjI1[OF l] u, of "Dec 100 0"] by (simp add: n) blast
qed

end
