(* ===== verification/Store_Enums.thy ===== *)
theory Store_Enums
  imports Enums
begin

text \<open>
  The vocabularies of \<open>backend/stockbrain/enums.py\<close> that only the persistent store and the
  execution layer use, in the style of \<open>Enums\<close>, and the parse \<open>ExecutionFailure(text)\<close>.
\<close>

datatype approval_stage =
    APPROVE
  | CONFIRM
  | REJECT
  | DETAILS

fun approval_stage_value :: "approval_stage \<Rightarrow> string" where
  "approval_stage_value approval_stage.APPROVE = ''APPROVE''"
| "approval_stage_value approval_stage.CONFIRM = ''CONFIRM''"
| "approval_stage_value approval_stage.REJECT = ''REJECT''"
| "approval_stage_value approval_stage.DETAILS = ''DETAILS''"

datatype reconciliation_result =
    ORDER_FOUND
  | ORDER_NOT_PLACED
  | INCONCLUSIVE
  | MULTIPLE_CANDIDATES
  | BROKER_UNAVAILABLE

fun reconciliation_result_value :: "reconciliation_result \<Rightarrow> string" where
  "reconciliation_result_value reconciliation_result.ORDER_FOUND = ''ORDER_FOUND''"
| "reconciliation_result_value reconciliation_result.ORDER_NOT_PLACED = ''ORDER_NOT_PLACED''"
| "reconciliation_result_value reconciliation_result.INCONCLUSIVE = ''INCONCLUSIVE''"
| "reconciliation_result_value reconciliation_result.MULTIPLE_CANDIDATES = ''MULTIPLE_CANDIDATES''"
| "reconciliation_result_value reconciliation_result.BROKER_UNAVAILABLE = ''BROKER_UNAVAILABLE''"

datatype actor_type =
    SYSTEM
  | USER
  | LLM
  | BROKER

fun actor_type_value :: "actor_type \<Rightarrow> string" where
  "actor_type_value actor_type.SYSTEM = ''SYSTEM''"
| "actor_type_value actor_type.USER = ''USER''"
| "actor_type_value actor_type.LLM = ''LLM''"
| "actor_type_value actor_type.BROKER = ''BROKER''"

datatype job_status =
    PENDING
  | RUNNING
  | SUCCEEDED
  | FAILED
  | CANCELLED

fun job_status_value :: "job_status \<Rightarrow> string" where
  "job_status_value job_status.PENDING = ''PENDING''"
| "job_status_value job_status.RUNNING = ''RUNNING''"
| "job_status_value job_status.SUCCEEDED = ''SUCCEEDED''"
| "job_status_value job_status.FAILED = ''FAILED''"
| "job_status_value job_status.CANCELLED = ''CANCELLED''"

datatype job_type =
    CLASSIFY_EVENT
  | EXECUTE_PROPOSAL
  | RECONCILE_EXECUTION
  | RESOLVE_CANDIDATES
  | RUN_RESEARCH
  | GENERATE_PROPOSAL
  | REASSESS_POSITION
  | SEND_NOTIFICATION
  | BROKER_RECONCILE
  | WEB_DISCOVERY_SEARCH
  | CONTENT_EXTRACT
  | SEC_REFRESH
  | DISCLOSURE_FEED_POLL
  | INSTRUMENT_REFRESH
  | EXPIRE_PROPOSALS
  | PROVIDER_HEALTH_CHECK

fun job_type_value :: "job_type \<Rightarrow> string" where
  "job_type_value job_type.CLASSIFY_EVENT = ''CLASSIFY_EVENT''"
| "job_type_value job_type.EXECUTE_PROPOSAL = ''EXECUTE_PROPOSAL''"
| "job_type_value job_type.RECONCILE_EXECUTION = ''RECONCILE_EXECUTION''"
| "job_type_value job_type.RESOLVE_CANDIDATES = ''RESOLVE_CANDIDATES''"
| "job_type_value job_type.RUN_RESEARCH = ''RUN_RESEARCH''"
| "job_type_value job_type.GENERATE_PROPOSAL = ''GENERATE_PROPOSAL''"
| "job_type_value job_type.REASSESS_POSITION = ''REASSESS_POSITION''"
| "job_type_value job_type.SEND_NOTIFICATION = ''SEND_NOTIFICATION''"
| "job_type_value job_type.BROKER_RECONCILE = ''BROKER_RECONCILE''"
| "job_type_value job_type.WEB_DISCOVERY_SEARCH = ''WEB_DISCOVERY_SEARCH''"
| "job_type_value job_type.CONTENT_EXTRACT = ''CONTENT_EXTRACT''"
| "job_type_value job_type.SEC_REFRESH = ''SEC_REFRESH''"
| "job_type_value job_type.DISCLOSURE_FEED_POLL = ''DISCLOSURE_FEED_POLL''"
| "job_type_value job_type.INSTRUMENT_REFRESH = ''INSTRUMENT_REFRESH''"
| "job_type_value job_type.EXPIRE_PROPOSALS = ''EXPIRE_PROPOSALS''"
| "job_type_value job_type.PROVIDER_HEALTH_CHECK = ''PROVIDER_HEALTH_CHECK''"

datatype notification_event =
    PROPOSAL_MANUAL
  | PROPOSAL_AUTO_AUTHORIZED
  | PROPOSAL_REJECTED
  | PROPOSAL_INVALIDATED
  | PROPOSAL_EXPIRED
  | AUTHORIZATION_REFUSED
  | EXECUTION_SUBMITTED
  | EXECUTION_REJECTED
  | EXECUTION_FAILED
  | EXECUTION_AMBIGUOUS
  | EXECUTION_RECONCILED
  | EXECUTION_CONFIRMED

fun notification_event_value :: "notification_event \<Rightarrow> string" where
  "notification_event_value notification_event.PROPOSAL_MANUAL = ''PROPOSAL_MANUAL''"
| "notification_event_value notification_event.PROPOSAL_AUTO_AUTHORIZED = ''PROPOSAL_AUTO_AUTHORIZED''"
| "notification_event_value notification_event.PROPOSAL_REJECTED = ''PROPOSAL_REJECTED''"
| "notification_event_value notification_event.PROPOSAL_INVALIDATED = ''PROPOSAL_INVALIDATED''"
| "notification_event_value notification_event.PROPOSAL_EXPIRED = ''PROPOSAL_EXPIRED''"
| "notification_event_value notification_event.AUTHORIZATION_REFUSED = ''AUTHORIZATION_REFUSED''"
| "notification_event_value notification_event.EXECUTION_SUBMITTED = ''EXECUTION_SUBMITTED''"
| "notification_event_value notification_event.EXECUTION_REJECTED = ''EXECUTION_REJECTED''"
| "notification_event_value notification_event.EXECUTION_FAILED = ''EXECUTION_FAILED''"
| "notification_event_value notification_event.EXECUTION_AMBIGUOUS = ''EXECUTION_AMBIGUOUS''"
| "notification_event_value notification_event.EXECUTION_RECONCILED = ''EXECUTION_RECONCILED''"
| "notification_event_value notification_event.EXECUTION_CONFIRMED = ''EXECUTION_CONFIRMED''"

datatype control_flag =
    TRADING_PAUSED
  | KILL_SWITCH

fun control_flag_value :: "control_flag \<Rightarrow> string" where
  "control_flag_value control_flag.TRADING_PAUSED = ''control.trading_paused''"
| "control_flag_value control_flag.KILL_SWITCH = ''control.kill_switch''"


definition EXECUTION_FAILURES :: "execution_failure list" where
  "EXECUTION_FAILURES =
     [execution_failure.PREFLIGHT_REFUSED,
      execution_failure.RATE_LIMITED_LOCALLY,
      execution_failure.CONNECT_FAILED,
      execution_failure.BROKER_REJECTED,
      execution_failure.BROKER_AUTH_REJECTED,
      execution_failure.BROKER_RATE_LIMITED,
      execution_failure.BROKER_TIMEOUT,
      execution_failure.TRANSPORT_AMBIGUOUS,
      execution_failure.UNREADABLE_SUCCESS,
      execution_failure.UNEXPECTED_STATUS,
      execution_failure.CRASH_RECOVERY,
      execution_failure.PENDING_ORDER_LIMIT]"

definition execution_failure_of :: "string \<Rightarrow> execution_failure res" where
  "execution_failure_of text =
     (case find (\<lambda>c. execution_failure_value c = text) EXECUTION_FAILURES of
        Some c \<Rightarrow> Inr c
      | None \<Rightarrow> Inl (ValueError (repr_str text @ '' is not a valid ExecutionFailure'')))"

lemma execution_failure_roundtrip: "execution_failure_of (execution_failure_value c) = Inr c"
  by (cases c) (simp_all add: execution_failure_of_def EXECUTION_FAILURES_def)

end
