(* ===== verification/Proposal_State.thy ===== *)
theory Proposal_State
  imports Enums
begin

text \<open>
  \<open>backend/stockbrain/proposals/state_machine.py\<close>: the transition table every client of a
  proposal goes through, the status sets derived from it, and the lifecycle as a step relation
  with its reachable states.
\<close>

section \<open>The table\<close>

definition INVALIDATION_TARGETS :: "proposal_status set" where
  "INVALIDATION_TARGETS = {proposal_status.INVALIDATED}"

fun ALLOWED_TRANSITIONS :: "proposal_status \<Rightarrow> proposal_status set" where
  "ALLOWED_TRANSITIONS proposal_status.DRAFT =
     {proposal_status.READY, proposal_status.CANCELLED, proposal_status.FAILED}
       \<union> INVALIDATION_TARGETS"
| "ALLOWED_TRANSITIONS proposal_status.READY =
     {proposal_status.NOTIFIED, proposal_status.APPROVAL_PENDING, proposal_status.APPROVED,
      proposal_status.REJECTED, proposal_status.EXPIRED, proposal_status.CANCELLED}
       \<union> INVALIDATION_TARGETS"
| "ALLOWED_TRANSITIONS proposal_status.NOTIFIED =
     {proposal_status.APPROVAL_PENDING, proposal_status.APPROVED, proposal_status.REJECTED,
      proposal_status.EXPIRED, proposal_status.CANCELLED} \<union> INVALIDATION_TARGETS"
| "ALLOWED_TRANSITIONS proposal_status.APPROVAL_PENDING =
     {proposal_status.APPROVED, proposal_status.NOTIFIED, proposal_status.REJECTED,
      proposal_status.EXPIRED, proposal_status.CANCELLED, proposal_status.FAILED}
       \<union> INVALIDATION_TARGETS"
| "ALLOWED_TRANSITIONS proposal_status.APPROVED =
     {proposal_status.EXECUTING, proposal_status.EXPIRED, proposal_status.CANCELLED,
      proposal_status.FAILED} \<union> INVALIDATION_TARGETS"
| "ALLOWED_TRANSITIONS proposal_status.EXECUTING =
     {proposal_status.EXECUTED, proposal_status.FAILED, proposal_status.EXECUTION_AMBIGUOUS,
      proposal_status.APPROVED}"
| "ALLOWED_TRANSITIONS proposal_status.EXECUTION_AMBIGUOUS =
     {proposal_status.EXECUTED, proposal_status.FAILED, proposal_status.CANCELLED}"
| "ALLOWED_TRANSITIONS proposal_status.EXECUTED = {}"
| "ALLOWED_TRANSITIONS proposal_status.REJECTED = {}"
| "ALLOWED_TRANSITIONS proposal_status.EXPIRED = {}"
| "ALLOWED_TRANSITIONS proposal_status.FAILED = {}"
| "ALLOWED_TRANSITIONS proposal_status.CANCELLED = {}"
| "ALLOWED_TRANSITIONS proposal_status.INVALIDATED = {}"

definition TRANSITION_KEYS :: "proposal_status list" where
  "TRANSITION_KEYS =
     [proposal_status.DRAFT, proposal_status.READY, proposal_status.NOTIFIED,
      proposal_status.APPROVAL_PENDING, proposal_status.APPROVED, proposal_status.EXECUTING,
      proposal_status.EXECUTION_AMBIGUOUS, proposal_status.EXECUTED, proposal_status.REJECTED,
      proposal_status.EXPIRED, proposal_status.FAILED, proposal_status.CANCELLED,
      proposal_status.INVALIDATED]"

definition TERMINAL_STATUSES :: "proposal_status set" where
  "TERMINAL_STATUSES = set (filter (\<lambda>s. ALLOWED_TRANSITIONS s = {}) TRANSITION_KEYS)"

definition PRESEND_RECOVERY_TARGET :: proposal_status where
  "PRESEND_RECOVERY_TARGET = proposal_status.APPROVED"

definition EXECUTABLE_STATUSES :: "proposal_status set" where
  "EXECUTABLE_STATUSES = {proposal_status.APPROVED}"

definition IN_FLIGHT_STATUSES :: "proposal_status set" where
  "IN_FLIGHT_STATUSES = {proposal_status.EXECUTING, proposal_status.EXECUTION_AMBIGUOUS}"

definition PRE_EXECUTION_STATUSES :: "proposal_status set" where
  "PRE_EXECUTION_STATUSES =
     {proposal_status.DRAFT, proposal_status.READY, proposal_status.NOTIFIED,
      proposal_status.APPROVAL_PENDING, proposal_status.APPROVED}"

definition AUTHORIZABLE_STATUSES :: "proposal_status set" where
  "AUTHORIZABLE_STATUSES =
     {proposal_status.READY, proposal_status.NOTIFIED, proposal_status.APPROVAL_PENDING}"

definition ACTIVE_STATUSES :: "proposal_status list" where
  "ACTIVE_STATUSES =
     [proposal_status.DRAFT, proposal_status.READY, proposal_status.NOTIFIED,
      proposal_status.APPROVAL_PENDING, proposal_status.APPROVED, proposal_status.EXECUTING,
      proposal_status.EXECUTION_AMBIGUOUS]"

definition EXPOSURE_RESERVING_STATUSES :: "proposal_status list" where
  "EXPOSURE_RESERVING_STATUSES = ACTIVE_STATUSES"

definition is_terminal :: "proposal_status \<Rightarrow> bool" where
  "is_terminal s = (s \<in> TERMINAL_STATUSES)"

definition can_transition :: "proposal_status \<Rightarrow> proposal_status \<Rightarrow> bool" where
  "can_transition current target = (target \<in> ALLOWED_TRANSITIONS current)"

definition assert_transition :: "proposal_status \<Rightarrow> proposal_status \<Rightarrow> unit res" where
  "assert_transition current target =
     (if \<not> can_transition current target
      then Inl (InvalidProposalTransition (proposal_status_value current)
                  (proposal_status_value target))
      else Inr ())"

lemma transition_keys: "s \<in> set TRANSITION_KEYS"
  by (cases s) (simp_all add: TRANSITION_KEYS_def)

lemma is_terminal_iff: "is_terminal s \<longleftrightarrow> ALLOWED_TRANSITIONS s = {}"
  by (simp add: is_terminal_def TERMINAL_STATUSES_def transition_keys)

lemmas status_set_defs =
  INVALIDATION_TARGETS_def EXECUTABLE_STATUSES_def IN_FLIGHT_STATUSES_def
  PRE_EXECUTION_STATUSES_def AUTHORIZABLE_STATUSES_def ACTIVE_STATUSES_def
  EXPOSURE_RESERVING_STATUSES_def is_terminal_iff can_transition_def

section \<open>The lifecycle\<close>

text \<open>
  A legal run of one proposal: every mutation passes \<open>assert_transition\<close>. \<open>lifecycle s ts\<close>
  holds when the statuses \<open>ts\<close> may be entered one after the other from \<open>s\<close>; \<open>reachable s t\<close>
  when some run leads from \<open>s\<close> to \<open>t\<close>.
\<close>

fun lifecycle :: "proposal_status \<Rightarrow> proposal_status list \<Rightarrow> proposal_status res" where
  "lifecycle s [] = Inr s"
| "lifecycle s (t # ts) = bindE (assert_transition s t) (\<lambda>_. lifecycle t ts)"

inductive reachable :: "proposal_status \<Rightarrow> proposal_status \<Rightarrow> bool" where
  refl: "reachable s s"
| step: "reachable s t \<Longrightarrow> assert_transition t u = Inr () \<Longrightarrow> reachable s u"

lemma assert_transition_Inr [simp]: "assert_transition s t = Inr x \<longleftrightarrow> can_transition s t"
  by (simp add: assert_transition_def)

interpretation proposal: status_machine ALLOWED_TRANSITIONS lifecycle
  by unfold_locales (simp_all add: bindE_eq_Inr can_transition_def)

lemma reachable_iff_run: "reachable s t \<longleftrightarrow> (\<exists>ts. lifecycle s ts = Inr t)"
proof
  assume "reachable s t"
  then show "\<exists>ts. lifecycle s ts = Inr t"
  proof (induction rule: reachable.induct)
    case (refl s)
    show ?case by (rule exI[of _ "[]"]) simp
  next
    case (step s t u)
    then obtain ts where "lifecycle s ts = Inr t" by blast
    then have "lifecycle s (ts @ [u]) = Inr u"
      using step.hyps by (auto simp: proposal.run_append bindE_eq_Inr)
    then show ?case ..
  qed
next
  assume "\<exists>ts. lifecycle s ts = Inr t"
  then obtain ts where "lifecycle s ts = Inr t" ..
  then show "reachable s t"
  proof (induction ts arbitrary: t rule: rev_induct)
    case Nil
    then show ?case by (auto intro: reachable.refl)
  next
    case (snoc u ts)
    then obtain v where "lifecycle s ts = Inr v" "can_transition v u" "t = u"
      by (auto simp: proposal.run_append bindE_eq_Inr)
    then show ?case using snoc.IH[of v] by (auto intro: reachable.step)
  qed
qed

lemma active_iff_not_terminal: "s \<in> set ACTIVE_STATUSES \<longleftrightarrow> \<not> is_terminal s"
  by (cases s) (simp_all add: status_set_defs)

lemma only_approved_executes: "can_transition s proposal_status.EXECUTING \<longleftrightarrow> s = proposal_status.APPROVED"
  by (cases s) (simp_all add: status_set_defs)

section \<open>Properties of the lifecycle\<close>

text \<open>
  C1: no order without an authorization. Whatever the run, a proposal that was not in execution
  and ends with an order possibly at the broker (executing, ambiguous or executed) was
  \<open>APPROVED\<close> and went from there straight into \<open>EXECUTING\<close>.
\<close>

theorem executed_was_approved:
  assumes "lifecycle s ts = Inr t"
    and "t \<in> {proposal_status.EXECUTING, proposal_status.EXECUTION_AMBIGUOUS, proposal_status.EXECUTED}"
    and "s \<in> PRE_EXECUTION_STATUSES"
  shows "\<exists>us vs. s # ts = us @ proposal_status.APPROVED # proposal_status.EXECUTING # vs"
proof (rule proposal.run_cut[OF _ _ assms(1,2)])
  show "s \<notin> {proposal_status.EXECUTING, proposal_status.EXECUTION_AMBIGUOUS, proposal_status.EXECUTED}"
    using assms(3) by (auto simp: PRE_EXECUTION_STATUSES_def)
  show "a = proposal_status.APPROVED \<and> b = proposal_status.EXECUTING"
    if "a \<notin> {proposal_status.EXECUTING, proposal_status.EXECUTION_AMBIGUOUS, proposal_status.EXECUTED}"
      "b \<in> {proposal_status.EXECUTING, proposal_status.EXECUTION_AMBIGUOUS, proposal_status.EXECUTED}"
      "b \<in> ALLOWED_TRANSITIONS a" for a b
    using that by (cases a) (auto simp: INVALIDATION_TARGETS_def)
qed

lemma executed_was_approved_witness:
  "\<exists>us vs. [proposal_status.DRAFT, proposal_status.READY, proposal_status.APPROVED,
      proposal_status.EXECUTING, proposal_status.EXECUTED]
    = us @ proposal_status.APPROVED # proposal_status.EXECUTING # vs"
  by (rule executed_was_approved[where t = proposal_status.EXECUTED])
    (simp_all add: status_set_defs bindE_eq_Inr)

text \<open>
  C2: an ambiguous transmission is never resent. From \<open>EXECUTION_AMBIGUOUS\<close> no run reaches
  \<open>APPROVED\<close> or \<open>EXECUTING\<close> again: the only statuses ahead are the ones reconciliation records.
\<close>

theorem ambiguous_never_resent:
  assumes "lifecycle proposal_status.EXECUTION_AMBIGUOUS ts = Inr t"
  shows "set ts \<subseteq> {proposal_status.EXECUTED, proposal_status.FAILED, proposal_status.CANCELLED}
    \<and> length ts \<le> 1"
proof (cases ts)
  case (Cons u us)
  then have u: "u \<in> {proposal_status.EXECUTED, proposal_status.FAILED, proposal_status.CANCELLED}"
    "lifecycle u us = Inr t" using assms by (auto simp: proposal.run_Cons simp del: lifecycle.simps)
  then have "us = []" using proposal.run_stuck[of u us t] by auto
  then show ?thesis using u Cons by simp
qed simp

lemma ambiguous_never_resent_witness:
  "set [proposal_status.EXECUTED] \<subseteq>
      {proposal_status.EXECUTED, proposal_status.FAILED, proposal_status.CANCELLED}
    \<and> length [proposal_status.EXECUTED] \<le> 1"
  by (rule ambiguous_never_resent[where t = proposal_status.EXECUTED]) (simp add: status_set_defs bindE_eq_Inr)

text \<open>
  The table is its own reachability: a status is reachable exactly when a checked run leads
  there; terminal statuses are left by no run; the seven active statuses are exactly the
  non-terminal ones; and in-flight proposals cannot be expired, rejected or invalidated.
\<close>

lemma lifecycle_structure:
  "(reachable s t \<longleftrightarrow> (\<exists>ts. lifecycle s ts = Inr t))
    \<and> (is_terminal s \<longleftrightarrow> (\<forall>u. reachable s u \<longleftrightarrow> u = s))
    \<and> (s \<in> set ACTIVE_STATUSES \<longleftrightarrow> \<not> is_terminal s)
    \<and> {proposal_status.EXPIRED, proposal_status.REJECTED, proposal_status.INVALIDATED}
        \<inter> (\<Union>u \<in> IN_FLIGHT_STATUSES. ALLOWED_TRANSITIONS u) = {}"
proof (intro conjI)
  show "reachable s t \<longleftrightarrow> (\<exists>ts. lifecycle s ts = Inr t)" by (rule reachable_iff_run)
  show "s \<in> set ACTIVE_STATUSES \<longleftrightarrow> \<not> is_terminal s" by (rule active_iff_not_terminal)
  show "is_terminal s \<longleftrightarrow> (\<forall>u. reachable s u \<longleftrightarrow> u = s)"
  proof
    assume "is_terminal s"
    then show "\<forall>u. reachable s u \<longleftrightarrow> u = s"
      by (auto simp: reachable_iff_run is_terminal_iff proposal.run_stuck)
  next
    assume stuck: "\<forall>u. reachable s u \<longleftrightarrow> u = s"
    have "t = s" if "t \<in> ALLOWED_TRANSITIONS s" for t
      using stuck reachable.step[OF reachable.refl, of s t] that by (simp add: can_transition_def)
    then show "is_terminal s" by (cases s) (auto simp: status_set_defs)
  qed
qed (auto simp: IN_FLIGHT_STATUSES_def)

end
