(* ===== verification/Store.thy ===== *)
theory Store
  imports Store_Enums Proposal_State Fx_Base
begin

text \<open>
  The tables of \<open>backend/stockbrain/db/models\<close> the modelled operations read and write, the
  constraints PostgreSQL checks on them, and transactions: an operation that raises, or that
  leaves a row or a table against a constraint, leaves the database as it was. A table is the list of
  its rows, an identifier is the text of its UUID, and \<open>uuid4\<close> draws from a supply the database
  value carries, so nothing is assumed about the identifiers it yields; \<open>db_clock\<close> is \<open>now()\<close> of
  the current transaction. The columns of a
  proposal that record one quote, one exchange rate or one risk verdict are grouped.
\<close>

type_synonym uuid = string

section \<open>Rows\<close>

record quote_columns =
  qc_provider :: "string option"
  qc_feed :: "string option"
  qc_bid :: "decimal option"
  qc_ask :: "decimal option"
  qc_mid :: "decimal option"
  qc_spread :: "decimal option"
  qc_spread_bps :: "decimal option"
  qc_spread_status :: "string option"
  qc_timestamp :: instant
  qc_age_ms :: int
  qc_price_source :: price_source
  qc_market_session :: "string option"
  qc_session_source :: "string option"

record fx_columns =
  fc_required :: bool
  fc_rate :: "decimal option"
  fc_base_currency :: "string option"
  fc_quote_currency :: "string option"
  fc_direction :: "string option"
  fc_provider :: "string option"
  fc_rate_grade :: "string option"
  fc_rate_type :: "string option"
  fc_provider_timestamp :: "instant option"
  fc_received_at :: "instant option"
  fc_age_seconds :: "decimal option"

record risk_columns =
  rk_outcome :: "risk_outcome option"
  rk_policy_version :: "string option"
  rk_rules :: json
  rk_snapshot :: json
  rk_snapshot_hash :: "string option"

record trade_proposal =
  tp_id :: uuid
  tp_thesis_id :: "uuid option"
  tp_company_id :: "uuid option"
  tp_broker_instrument_id :: "uuid option"
  tp_research_run_id :: "uuid option"
  tp_broker :: broker
  tp_broker_ticker :: string
  tp_account_id :: string
  tp_broker_environment :: string
  tp_side :: order_side
  tp_order_type :: order_type
  tp_proposed_quantity :: decimal
  tp_reference_price :: decimal
  tp_reference_currency :: string
  tp_estimated_notional :: decimal
  tp_account_currency :: string
  tp_estimated_notional_account_currency :: "decimal option"
  tp_quote :: quote_columns
  tp_fx :: fx_columns
  tp_risk :: risk_columns
  tp_research_confidence :: "decimal option"
  tp_research_action :: "string option"
  tp_execution_policy :: execution_policy
  tp_authorization_source :: "authorization_source option"
  tp_authorization_policy_snapshot :: json
  tp_dedupe_key :: "string option"
  tp_invalidated_at :: "instant option"
  tp_invalidation_reason :: "string option"
  tp_sizing_reasons :: json
  tp_max_quantity :: "decimal option"
  tp_max_notional :: "decimal option"
  tp_status :: proposal_status
  tp_status_reason :: "string option"
  tp_expires_at :: instant
  tp_approved_at :: "instant option"
  tp_approved_by :: "string option"
  tp_approved_channel :: "approval_channel option"
  tp_rejected_at :: "instant option"
  tp_rejected_by :: "string option"
  tp_executed_at :: "instant option"
  tp_created_at :: instant
  tp_updated_at :: instant
  tp_version :: int

record execution_attempt =
  ea_id :: uuid
  ea_proposal_id :: uuid
  ea_attempt_number :: int
  ea_started_at :: instant
  ea_completed_at :: "instant option"
  ea_broker_environment :: string
  ea_request_payload :: json
  ea_request_fingerprint :: string
  ea_sent_to_broker :: bool
  ea_sent_at :: "instant option"
  ea_http_status :: "int option"
  ea_response_payload :: "json option"
  ea_broker_order_id :: "string option"
  ea_outcome :: execution_outcome
  ea_ambiguous :: bool
  ea_error :: "string option"
  ea_error_category :: "string option"
  ea_actor_identifier :: "string option"
  ea_rate_limit_headers :: "json option"
  ea_execution_snapshot :: json
  ea_preflight_at :: "instant option"
  ea_reconciled_at :: "instant option"
  ea_reconciliation_result :: "string option"
  ea_reconciliation_attempts :: int
  ea_reconciliation_detail :: json

record broker_order =
  bo_broker :: broker
  bo_broker_order_id :: string
  bo_proposal_id :: "uuid option"
  bo_execution_attempt_id :: "uuid option"
  bo_broker_ticker :: string
  bo_side :: order_side
  bo_order_type :: order_type
  bo_quantity :: decimal
  bo_filled_quantity :: "decimal option"
  bo_filled_value :: "decimal option"
  bo_currency :: "string option"
  bo_broker_status :: "string option"
  bo_broker_environment :: "string option"
  bo_initiated_from :: "string option"
  bo_is_terminal :: bool
  bo_discovered_by_reconciliation :: bool
  bo_submitted_at :: "instant option"
  bo_last_synced_at :: instant
  bo_raw :: "(string \<times> json) list"

record job =
  jb_id :: uuid
  jb_type :: string
  jb_payload :: json
  jb_status :: job_status
  jb_priority :: int
  jb_run_after :: instant
  jb_attempts :: int
  jb_max_attempts :: int
  jb_locked_by :: "string option"
  jb_locked_at :: "instant option"
  jb_last_error :: "string option"
  jb_dedupe_key :: "string option"
  jb_created_at :: instant
  jb_updated_at :: instant

record audit_entry =
  au_actor_type :: actor_type
  au_actor_id :: string
  au_action :: string
  au_entity_type :: string
  au_entity_id :: "uuid option"
  au_details :: json

record approval_action =
  aa_id :: uuid
  aa_proposal_id :: uuid
  aa_channel :: approval_channel
  aa_stage :: approval_stage
  aa_opaque_token_hash :: string
  aa_user_identifier :: string
  aa_chat_identifier :: "string option"
  aa_parent_action_id :: "uuid option"
  aa_expires_at :: instant
  aa_consumed_at :: "instant option"
  aa_context :: "(string \<times> json) list"

record risk_evaluation =
  re_id :: uuid
  re_stage :: string
  re_thesis_id :: "uuid option"
  re_proposal_id :: "uuid option"
  re_broker_ticker :: "string option"
  re_outcome :: risk_outcome
  re_policy_version :: "string option"
  re_rules :: json
  re_snapshot :: json
  re_snapshot_hash :: "string option"
  re_actor :: "string option"
  re_detail :: "string option"
  re_deferred :: bool
  re_created_at :: instant

record broker_instrument =
  bi_id :: uuid
  bi_company_id :: "uuid option"
  bi_broker :: broker
  bi_broker_ticker :: string
  bi_isin :: "string option"
  bi_currency :: "string option"
  bi_instrument_type :: "string option"
  bi_extended_hours :: bool
  bi_max_open_quantity :: "decimal option"
  bi_quantity_precision :: "int option"
  bi_exchange :: "string option"
  bi_market_symbol :: "string option"
  bi_is_active :: bool

record app_setting =
  as_key :: string
  as_value :: json
  as_description :: "string option"
  as_updated_by :: "string option"

record database =
  db_proposals :: "trade_proposal list"
  db_attempts :: "execution_attempt list"
  db_orders :: "broker_order list"
  db_jobs :: "job list"
  db_audit :: "audit_entry list"
  db_actions :: "approval_action list"
  db_evaluations :: "risk_evaluation list"
  db_instruments :: "broker_instrument list"
  db_settings :: "app_setting list"
  db_clock :: instant
  db_uuids :: "nat \<Rightarrow> uuid"
  db_drawn :: nat

section \<open>Reading and writing rows\<close>

definition find_proposal :: "database \<Rightarrow> uuid \<Rightarrow> trade_proposal option" where
  "find_proposal db pid = find_row tp_id pid (db_proposals db)"

definition find_attempt :: "database \<Rightarrow> uuid \<Rightarrow> execution_attempt option" where
  "find_attempt db aid = find_row ea_id aid (db_attempts db)"

definition find_instrument :: "database \<Rightarrow> uuid \<Rightarrow> broker_instrument option" where
  "find_instrument db iid = find_row bi_id iid (db_instruments db)"

text \<open>
  An update through the ORM: \<open>version\<close> is the optimistic-lock column, so a row that changed is
  written with the next version and a row that did not change is not written.
\<close>

definition written :: "trade_proposal \<Rightarrow> trade_proposal \<Rightarrow> trade_proposal" where
  "written old new = (if new = old then old else new\<lparr>tp_version := tp_version old + 1\<rparr>)"

definition set_proposal :: "uuid \<Rightarrow> (trade_proposal \<Rightarrow> trade_proposal) \<Rightarrow> database \<Rightarrow> database" where
  "set_proposal pid f db =
     db\<lparr>db_proposals := upd_rows tp_id pid (\<lambda>p. written p (f p)) (db_proposals db)\<rparr>"

definition set_attempt :: "uuid \<Rightarrow> (execution_attempt \<Rightarrow> execution_attempt) \<Rightarrow> database \<Rightarrow> database" where
  "set_attempt aid f db =
     db\<lparr>db_attempts := upd_rows ea_id aid f (db_attempts db)\<rparr>"

definition add_attempt :: "execution_attempt \<Rightarrow> database \<Rightarrow> database" where
  "add_attempt a db = db\<lparr>db_attempts := db_attempts db @ [a]\<rparr>"

definition add_audit ::
  "actor_type \<Rightarrow> string \<Rightarrow> string \<Rightarrow> string \<Rightarrow> uuid option \<Rightarrow> json \<Rightarrow> database \<Rightarrow> database" where
  "add_audit actor actor_id action entity_type entity_id details db =
     db\<lparr>db_audit := db_audit db
          @ [\<lparr>au_actor_type = actor, au_actor_id = actor_id, au_action = action,
              au_entity_type = entity_type, au_entity_id = entity_id, au_details = details\<rparr>]\<rparr>"

text \<open>\<open>uuid.uuid4()\<close>, the default of every primary key.\<close>

definition uuid4 :: "database \<Rightarrow> uuid \<times> database" where
  "uuid4 db = (db_uuids db (db_drawn db), db\<lparr>db_drawn := db_drawn db + 1\<rparr>)"

lemma set_proposal_frame [frame_simps]:
  "db_attempts (set_proposal pid f db) = db_attempts db" "db_orders (set_proposal pid f db) = db_orders db"
  "db_jobs (set_proposal pid f db) = db_jobs db" "db_actions (set_proposal pid f db) = db_actions db"
  "db_instruments (set_proposal pid f db) = db_instruments db" "db_settings (set_proposal pid f db) = db_settings db"
  "db_evaluations (set_proposal pid f db) = db_evaluations db"
  by (simp_all add: set_proposal_def)

lemma set_attempt_frame [frame_simps]:
  "db_proposals (set_attempt aid g db) = db_proposals db" "db_orders (set_attempt aid g db) = db_orders db"
  "db_jobs (set_attempt aid g db) = db_jobs db" "db_actions (set_attempt aid g db) = db_actions db"
  "db_instruments (set_attempt aid g db) = db_instruments db" "db_settings (set_attempt aid g db) = db_settings db"
  by (simp_all add: set_attempt_def)

lemma add_frame [frame_simps]:
  "db_proposals (add_attempt a db) = db_proposals db" "db_orders (add_attempt a db) = db_orders db"
  "db_jobs (add_attempt a db) = db_jobs db" "db_actions (add_attempt a db) = db_actions db"
  "db_attempts (add_attempt a db) = db_attempts db @ [a]" "db_settings (add_attempt a db) = db_settings db"
  "db_proposals (add_audit t who act ety eid d db) = db_proposals db"
  "db_attempts (add_audit t who act ety eid d db) = db_attempts db"
  "db_orders (add_audit t who act ety eid d db) = db_orders db"
  "db_jobs (add_audit t who act ety eid d db) = db_jobs db"
  "db_actions (add_audit t who act ety eid d db) = db_actions db"
  "db_instruments (add_audit t who act ety eid d db) = db_instruments db"
  "db_settings (add_audit t who act ety eid d db) = db_settings db"
  by (simp_all add: add_attempt_def add_audit_def)

lemma tp_id_written [simp]: "tp_id (written p q) = tp_id q"
  by (simp add: written_def)

lemma written_fields [simp]:
  "tp_status (written old new) = tp_status new" "tp_id (written old new) = tp_id new"
  by (simp_all add: written_def)

lemma find_proposal_frame [frame_simps]:
  "find_proposal (set_attempt aid g db) pid = find_proposal db pid"
  "find_proposal (add_attempt a db) pid = find_proposal db pid"
  "find_proposal (add_audit t who act ety eid d db) pid = find_proposal db pid"
  "find_attempt (set_proposal k f db) aid = find_attempt db aid"
  "find_attempt (add_audit t who act ety eid d db) aid = find_attempt db aid"
  by (simp_all add: find_proposal_def find_attempt_def frame_simps)

lemma find_set_proposal:
  assumes "\<And>p. tp_id p = pid \<Longrightarrow> tp_id (f p) = pid"
  shows "find_proposal (set_proposal pid f db) k
    = map_option (\<lambda>p. if k = pid then written p (f p) else p) (find_proposal db k)"
  using find_row_upd_rows[where key = tp_id and f = "\<lambda>p. written p (f p)" and k = pid and k' = k and rs = "db_proposals db"] assms
  by (simp add: find_proposal_def set_proposal_def)

lemma find_set_attempt:
  assumes "\<And>a. ea_id a = aid \<Longrightarrow> ea_id (g a) = aid"
  shows "find_attempt (set_attempt aid g db) k = map_option (\<lambda>a. if k = aid then g a else a) (find_attempt db k)"
  using find_row_upd_rows[where key = ea_id and f = g and k = aid and k' = k and rs = "db_attempts db"] assms
  by (simp add: find_attempt_def set_attempt_def)

section \<open>Constraints\<close>

text \<open>The \<open>CHECK\<close> constraints of \<open>trade_proposals\<close>; a comparison with \<open>NULL\<close> passes.\<close>

definition proposal_row_ok :: "trade_proposal \<Rightarrow> bool" where
  "proposal_row_ok p =
     (Dec 0 0 < tp_proposed_quantity p \<and> Dec 0 0 < tp_reference_price p
      \<and> 0 \<le> qc_age_ms (tp_quote p)
      \<and> (tp_status p = proposal_status.APPROVED \<longrightarrow>
           tp_authorization_source p \<noteq> None \<and> tp_approved_at p \<noteq> None \<and> tp_approved_by p \<noteq> None)
      \<and> (tp_authorization_source p = Some authorization_source.SYSTEM_AUTOMATIC \<longrightarrow>
           tp_execution_policy p = execution_policy.AUTOMATIC)
      \<and> (tp_invalidated_at p \<noteq> None \<longrightarrow> tp_status p = proposal_status.INVALIDATED))"

text \<open>The \<open>CHECK\<close> constraints of \<open>execution_attempts\<close>.\<close>

definition attempt_row_ok :: "execution_attempt \<Rightarrow> bool" where
  "attempt_row_ok a =
     ((ea_sent_to_broker a \<longrightarrow> ea_sent_at a \<noteq> None)
      \<and> (ea_ambiguous a \<longleftrightarrow> ea_outcome a = execution_outcome.AMBIGUOUS)
      \<and> (ea_broker_order_id a \<noteq> None \<longrightarrow> ea_sent_to_broker a)
      \<and> (ea_outcome a \<in> {execution_outcome.SUBMITTED, execution_outcome.REJECTED_BY_BROKER} \<longrightarrow>
           ea_sent_to_broker a))"

text \<open>
  Primary keys, unique indexes (the partial ones with their predicate) and foreign keys.
  \<open>sent_once\<close> is \<open>uq_execution_attempts_sent_once\<close>.
\<close>

definition sent_once :: "execution_attempt list \<Rightarrow> bool" where
  "sent_once as = distinct (map ea_proposal_id (filter ea_sent_to_broker as))"

definition active :: "trade_proposal \<Rightarrow> bool" where
  "active p = (tp_status p \<in> set ACTIVE_STATUSES)"

definition proposals_table_ok :: "trade_proposal list \<Rightarrow> bool" where
  "proposals_table_ok ps =
     (list_all proposal_row_ok ps \<and> distinct (map tp_id ps)
      \<and> distinct (map (\<lambda>p. (tp_broker p, tp_account_id p, tp_broker_ticker p)) (filter active ps))
      \<and> distinct (map (\<lambda>p. tp_thesis_id p) (filter (\<lambda>p. active p \<and> tp_thesis_id p \<noteq> None) ps))
      \<and> distinct (map (\<lambda>p. tp_dedupe_key p) (filter (\<lambda>p. tp_dedupe_key p \<noteq> None) ps)))"

definition attempts_table_ok :: "trade_proposal list \<Rightarrow> execution_attempt list \<Rightarrow> bool" where
  "attempts_table_ok ps as =
     (list_all attempt_row_ok as \<and> distinct (map ea_id as) \<and> sent_once as
      \<and> distinct (map (\<lambda>a. (ea_proposal_id a, ea_attempt_number a)) as)
      \<and> list_all (\<lambda>a. (ea_proposal_id a, ea_broker_environment a)
            \<in> set (map (\<lambda>p. (tp_id p, tp_broker_environment p)) ps)) as)"

definition job_active :: "job \<Rightarrow> bool" where
  "job_active j =
     (jb_dedupe_key j \<noteq> None \<and> jb_status j \<in> {job_status.PENDING, job_status.RUNNING})"

definition jobs_table_ok :: "job list \<Rightarrow> bool" where
  "jobs_table_ok js =
     (distinct (map jb_id js) \<and> distinct (map jb_dedupe_key (filter job_active js)))"

definition orders_table_ok :: "broker_order list \<Rightarrow> bool" where
  "orders_table_ok os = distinct (map (\<lambda>r. (bo_broker r, bo_broker_order_id r)) os)"

definition actions_table_ok :: "trade_proposal list \<Rightarrow> approval_action list \<Rightarrow> bool" where
  "actions_table_ok ps as =
     (distinct (map aa_id as) \<and> distinct (map aa_opaque_token_hash as)
      \<and> set (map aa_proposal_id as) \<subseteq> set (map tp_id ps))"

definition database_ok :: "database \<Rightarrow> bool" where
  "database_ok db =
     (proposals_table_ok (db_proposals db)
      \<and> attempts_table_ok (db_proposals db) (db_attempts db)
      \<and> jobs_table_ok (db_jobs db) \<and> orders_table_ok (db_orders db)
      \<and> actions_table_ok (db_proposals db) (db_actions db))"

text \<open>
  \<open>async with database.transaction()\<close>: the block's writes are committed together when no
  exception leaves it and every constraint holds.
\<close>

definition transaction :: "(database \<Rightarrow> (database \<times> 'a) res) \<Rightarrow> database \<Rightarrow> (database \<times> 'a) res" where
  "transaction block db =
     bindE (block db) (\<lambda>(db', r). if database_ok db' then Inr (db', r) else Inl IntegrityError)"

lemma transaction_Inr:
  "transaction block db = Inr (db', r) \<longleftrightarrow> block db = Inr (db', r) \<and> database_ok db'"
  by (cases "block db") (auto simp: transaction_def split: if_splits)

section \<open>A database without rows\<close>

definition empty_database :: database where
  "empty_database =
     \<lparr>db_proposals = [], db_attempts = [], db_orders = [], db_jobs = [], db_audit = [], db_actions = [], db_evaluations = [],
      db_instruments = [], db_settings = [], db_clock = 0, db_uuids = (\<lambda>n. replicate n CHR ''u''),
      db_drawn = 0\<rparr>"

lemma empty_database_ok: "database_ok empty_database"
  by code_simp

end
