(* ===== verification/Evaluation.thy ===== *)
theory Evaluation
  imports Engine Fx_Service Store "HOL-Library.AList"
begin

text \<open>
  \<open>backend/stockbrain/proposals/evaluation.py\<close> and \<open>proposals/holdings.py\<close>: the evaluation that
  guards generation, authorization and transmission. The account, the quote and the session come
  from network calls and arrive as values; the memory service's calibration is a parameter.
\<close>

section \<open>Holdings\<close>

record position_row =
  pw_broker :: broker
  pw_broker_ticker :: string
  pw_quantity :: decimal

record thesis_row =
  th_id :: uuid
  th_original_thesis_id :: "uuid option"
  th_action :: thesis_action
  th_confidence :: decimal
  th_created_at :: instant

record holding_belief =
  hb_broker_ticker :: string
  hb_origin_thesis_id :: "uuid option"
  hb_thesis_id :: "uuid option"
  hb_action :: "thesis_action option"
  hb_confidence :: "decimal option"
  hb_thesis_at :: "instant option"

definition hb_managed :: "holding_belief \<Rightarrow> bool" where
  "hb_managed b = (hb_origin_thesis_id b \<noteq> None)"

definition hb_weight :: "holding_belief \<Rightarrow> risk_config \<Rightarrow> decimal" where
  "hb_weight b config =
     (case hb_confidence b of
        None \<Rightarrow> rc_conviction_min_weight config
      | Some confidence \<Rightarrow>
          if hb_action b \<noteq> Some thesis_action.BUY then rc_conviction_min_weight config
          else conviction_weight config confidence)"

text \<open>\<open>order_by(key.desc()).limit(1)\<close>: the first row with the greatest key.\<close>

definition latest_by :: "('r \<Rightarrow> instant) \<Rightarrow> 'r list \<Rightarrow> 'r option" where
  "latest_by key rows = (case sort_key (\<lambda>r. - key r) rows of [] \<Rightarrow> None | r # rs \<Rightarrow> Some r)"

definition origin_thesis :: "database \<Rightarrow> broker \<Rightarrow> string \<Rightarrow> string \<Rightarrow> uuid option" where
  "origin_thesis db brk environment ticker =
     (case latest_by (\<lambda>p. or_else (tp_executed_at p) 0)
         (filter (\<lambda>p. tp_broker p = brk \<and> tp_broker_ticker p = ticker
              \<and> tp_broker_environment p = environment \<and> tp_side p = order_side.BUY
              \<and> tp_status p = proposal_status.EXECUTED \<and> tp_thesis_id p \<noteq> None
              \<and> tp_executed_at p \<noteq> None) (db_proposals db)) of
        None \<Rightarrow> None
      | Some p \<Rightarrow> tp_thesis_id p)"

definition belief_of :: "thesis_row list \<Rightarrow> database \<Rightarrow> broker \<Rightarrow> string \<Rightarrow> position_row \<Rightarrow> holding_belief" where
  "belief_of theses db brk environment position =
     (let origin = origin_thesis db brk environment (pw_broker_ticker position);
          latest = (case origin of
            None \<Rightarrow> None
          | Some t \<Rightarrow> latest_by th_created_at
              (filter (\<lambda>r. th_id r = t \<or> th_original_thesis_id r = Some t) theses))
      in \<lparr>hb_broker_ticker = pw_broker_ticker position, hb_origin_thesis_id = origin,
          hb_thesis_id = map_option th_id latest, hb_action = map_option th_action latest,
          hb_confidence = map_option th_confidence latest,
          hb_thesis_at = map_option th_created_at latest\<rparr>)"

definition load_holding_beliefs ::
  "position_row list \<Rightarrow> thesis_row list \<Rightarrow> database \<Rightarrow> broker \<Rightarrow> string \<Rightarrow> holding_belief list" where
  "load_holding_beliefs positions theses db brk environment =
     map (belief_of theses db brk environment)
       (sort_key pw_broker_ticker
          (filter (\<lambda>r. pw_broker r = brk \<and> Dec 0 0 < pw_quantity r) positions))"

definition holding_weights ::
  "position_row list \<Rightarrow> thesis_row list \<Rightarrow> database \<Rightarrow> broker \<Rightarrow> string \<Rightarrow> risk_config \<Rightarrow> string
     \<Rightarrow> decimal list" where
  "holding_weights positions theses db brk environment config exclude_ticker =
     map (\<lambda>b. hb_weight b config)
       (filter (\<lambda>b. hb_broker_ticker b \<noteq> exclude_ticker)
          (load_holding_beliefs positions theses db brk environment))"

section \<open>Revalidation\<close>

record revalidation =
  rv_proposal_id :: "uuid option"
  rv_decision :: risk_decision
  rv_rules :: "rule_result list"
  rv_quote :: "quote_snapshot option"
  rv_account :: "account_state option"
  rv_fx :: "fx_snapshot option"
  rv_quote_reason :: "string option"
  rv_account_reason :: "string option"

definition rv_blocked :: "revalidation \<Rightarrow> rule_result list" where
  "rv_blocked r = filter (\<lambda>rule. rr_outcome rule = rule_outcome.BLOCK) (rv_rules r)"

definition rv_allowed :: "revalidation \<Rightarrow> bool" where
  "rv_allowed r = (rv_blocked r = [])"

definition rv_reasons :: "revalidation \<Rightarrow> string list" where
  "rv_reasons r = map rr_reason (rv_blocked r)"

definition rv_rule_ids :: "revalidation \<Rightarrow> string list" where
  "rv_rule_ids r = map rr_rule_id (rv_blocked r)"

definition rv_as_dict :: "revalidation \<Rightarrow> json res" where
  "rv_as_dict r =
     bindE (case rv_fx r of None \<Rightarrow> Inr JNull | Some fx \<Rightarrow> fs_as_dict fx) (\<lambda>fx. Inr (JObj
       [(''outcome'', JStr (risk_outcome_value
           (if rv_blocked r \<noteq> [] then risk_outcome.BLOCK else rd_outcome (rv_decision r)))),
        (''policy_version'', JStr (rd_policy_version (rv_decision r))),
        (''rules'', JList (map rr_as_dict (rv_rules r))),
        (''snapshot'', rd_as_dict (rv_decision r)),
        (''snapshot_hash'', JStr (rd_snapshot_hash (rv_decision r))),
        (''quote_missing_reason'', jopt JStr (rv_quote_reason r)),
        (''account_missing_reason'', jopt JStr (rv_account_reason r)),
        (''fx'', fx)]))"

record evaluation_facts =
  ef_account :: "account_state option"
  ef_quote :: "quote_snapshot option"
  ef_fx :: "fx_snapshot option"
  ef_account_reason :: "string option"
  ef_quote_reason :: "string option"

record evaluation_context =
  ex_action :: thesis_action
  ex_confidence :: decimal
  ex_identity :: instrument_identity
  ex_account_id :: string
  ex_proposal :: "trade_proposal option"
  ex_event_type :: "string option"
  ex_reduce_fraction :: "decimal option"

record evaluator =
  el_config :: risk_config
  el_broker :: broker
  el_environment :: string
  el_fx_settings :: fx_settings
  el_fx_provider :: "fx_provider option"
  el_fx_max_rate_drift_pct :: decimal
  el_memory :: "(string \<Rightarrow> thesis_action \<Rightarrow> instant \<Rightarrow> calibration_bucket option) option"
  el_positions :: "position_row list"
  el_theses :: "thesis_row list"

section \<open>Exchange rate and reservations\<close>

definition el_fx_snapshot ::
  "evaluator \<Rightarrow> account_state option \<Rightarrow> string option \<Rightarrow> instant \<Rightarrow> fx_snapshot option" where
  "el_fx_snapshot el account instrument_currency now =
     (let account_ccy = normalize_currency (map_option acct_currency account);
          listing_currency = normalize_currency instrument_currency
      in if account_ccy = [] \<or> listing_currency = [] then None
         else if account_ccy = listing_currency
         then Some (same_currency_snapshot account_ccy)
         else
           let resolution = resolve (el_fx_settings el) (el_fx_provider el) account_ccy listing_currency now;
               rate = fxr_rate resolution
           in Some \<lparr>fs_account_currency = account_ccy, fs_instrument_currency = listing_currency,
                fs_same_currency = False, fs_blockers = fxr_blockers resolution,
                fs_rate = map_option fr_rate rate,
                fs_base_currency = map_option fr_base_currency rate,
                fs_quote_currency = map_option fr_quote_currency rate,
                fs_provider = (case rate of None \<Rightarrow> fxr_provider resolution | Some r \<Rightarrow> Some (fr_provider r)),
                fs_grade = map_option fr_grade rate, fs_rate_type = map_option fr_rate_type rate,
                fs_provider_timestamp = map_option fr_provider_timestamp rate,
                fs_received_at = map_option fr_received_at rate,
                fs_age_seconds = map_option (\<lambda>r. fr_age_seconds r now) rate,
                fs_provider_timestamp_precision = map_option fr_timestamp_precision rate\<rparr>)"

text \<open>What one live buy reserves, in account currency, or why that is not known.\<close>

definition reserved_amount :: "string option \<Rightarrow> trade_proposal \<Rightarrow> string + decimal" where
  "reserved_amount account_ccy row =
     (let currency = normalize_currency (Some (tp_account_currency row));
          reference_currency = normalize_currency (Some (tp_reference_currency row));
          same_currency = (reference_currency \<noteq> [] \<and> currency = reference_currency);
          amount = (if same_currency \<and> \<not> fc_required (tp_fx row)
                    then (case tp_estimated_notional_account_currency row of
                            None \<Rightarrow> Some (tp_estimated_notional row)
                          | Some a \<Rightarrow> Some (dmax a (tp_estimated_notional row)))
                    else tp_estimated_notional_account_currency row)
      in if currency = [] \<or> (or_else account_ccy [] \<noteq> [] \<and> currency \<noteq> normalize_currency account_ccy)
         then Inl (''proposal '' @ tp_id row @ '' reserves a different or unknown account currency'')
         else case amount of
           None \<Rightarrow> Inl (''proposal '' @ tp_id row @ '' has no validated account-currency reservation'')
         | Some a \<Rightarrow>
             if reference_currency = [] \<or> fc_required (tp_fx row) = same_currency \<or> a \<le> ZERO
             then Inl (''proposal '' @ tp_id row @ '' has no validated account-currency reservation'')
             else Inr a)"

definition reserving_rows :: "broker \<Rightarrow> string \<Rightarrow> uuid option \<Rightarrow> database \<Rightarrow> trade_proposal list" where
  "reserving_rows brk account_id exclude db =
     filter (\<lambda>p. tp_status p \<in> set EXPOSURE_RESERVING_STATUSES \<and> tp_broker p = brk
         \<and> tp_account_id p = account_id \<and> Some (tp_id p) \<noteq> exclude) (db_proposals db)"

definition amounts_of :: "string option \<Rightarrow> trade_proposal list \<Rightarrow> decimal list" where
  "amounts_of account_ccy rows =
     concat (map (\<lambda>r. if tp_side r \<noteq> order_side.BUY then []
        else case reserved_amount account_ccy r of Inl _ \<Rightarrow> [] | Inr a \<Rightarrow> [a]) rows)"

definition dsum :: "decimal list \<Rightarrow> decimal" where
  "dsum xs = foldl (+) ZERO xs"

text \<open>\<open>sum\<close> over the rows of one instrument adds a zero for a row that reserves nothing.\<close>

definition el_reserved_exposure ::
  "evaluator \<Rightarrow> database \<Rightarrow> string \<Rightarrow> string \<Rightarrow> string option \<Rightarrow> uuid option \<Rightarrow> reserved_exposure" where
  "el_reserved_exposure el db account_id broker_ticker account_ccy exclude =
     (let rows = reserving_rows (el_broker el) account_id exclude db;
          same = filter (\<lambda>r. tp_broker_ticker r = broker_ticker) rows
      in \<lparr>res_count = int (length rows),
          res_notional = dsum (amounts_of account_ccy rows),
          res_same_instrument_count = int (length same),
          res_same_instrument_notional = dsum (concat (map (\<lambda>r.
            case amounts_of account_ccy [r] of [] \<Rightarrow> [ZERO] | as \<Rightarrow> as) same)),
          res_same_instrument_sides = sort (remdups (map (\<lambda>r. order_side_value (tp_side r)) same)),
          res_blockers = concat (map (\<lambda>r. if tp_side r \<noteq> order_side.BUY then []
             else case reserved_amount account_ccy r of Inl m \<Rightarrow> [m] | Inr _ \<Rightarrow> []) rows)\<rparr>)"

section \<open>Constraints of an existing proposal\<close>

definition el_price_drift :: "evaluator \<Rightarrow> trade_proposal \<Rightarrow> quote_snapshot option \<Rightarrow> rule_result res" where
  "el_price_drift el p quote =
     reference_price_drift (tp_reference_price p)
       (case quote of None \<Rightarrow> None | Some q \<Rightarrow> q_mid q)
       (if tp_side p = order_side.SELL
        then dmax (rc_max_reference_price_drift_pct (el_config el)) (rc_max_exit_price_drift_pct (el_config el))
        else rc_max_reference_price_drift_pct (el_config el))"

definition el_fx_drift :: "evaluator \<Rightarrow> trade_proposal \<Rightarrow> fx_snapshot option \<Rightarrow> rule_result res" where
  "el_fx_drift el p fx = fx_rate_drift (fc_rate (tp_fx p)) fx (el_fx_max_rate_drift_pct el)"

definition policy_version_unchanged :: "trade_proposal \<Rightarrow> string \<Rightarrow> rule_result" where
  "policy_version_unchanged p current =
     (let unchanged = rk_policy_version (tp_risk p) \<in> {None, Some current}
      in verdict_of ''risk_policy_version'' 1 (pass_if unchanged)
           (if unchanged then ''the risk configuration is unchanged since this proposal was generated''
            else ''the risk configuration changed after this proposal was generated; ''
              @ ''a new analysis is required rather than authorizing against limits ''
              @ ''nobody chose for it'')
           (rk_policy_version (tp_risk p)) (Some current))"

definition envelope_still_covers :: "trade_proposal \<Rightarrow> risk_decision \<Rightarrow> rule_result" where
  "envelope_still_covers p d =
     (let sizing = rd_sizing d; proposed = dec_str (tp_proposed_quantity p)
      in if rd_outcome d = risk_outcome.BLOCK
         then verdict_of ''authorization_envelope'' 2 rule_outcome.WARN
           (''the fresh risk envelope could not be recomputed because deterministic ''
            @ ''risk blocked before sizing; the blocking rules are the verdict'')
           None (Some proposed)
         else if sz_side sizing \<noteq> Some (tp_side p)
         then verdict_of ''authorization_envelope'' 2 rule_outcome.BLOCK
           (''the deterministic side changed since generation ('' @ order_side_value (tp_side p) @ '' -> ''
            @ (case sz_side sizing of None \<Rightarrow> ''none'' | Some s \<Rightarrow> order_side_value s) @ '')'')
           (map_option order_side_value (sz_side sizing)) (Some (order_side_value (tp_side p)))
         else
           let covered = tp_proposed_quantity p \<le> sz_max_quantity sizing
           in verdict_of ''authorization_envelope'' 2 (pass_if covered)
                (if covered
                 then ''the fresh risk envelope still permits '' @ proposed @ '' share(s) (up to ''
                   @ dec_str (sz_max_quantity sizing) @ '')''
                 else ''the fresh risk envelope permits only '' @ dec_str (sz_max_quantity sizing)
                   @ '' share(s), below the proposed '' @ proposed @ ''; the proposal is not ''
                   @ ''silently re-sized'')
                (Some (dec_str (sz_max_quantity sizing))) (Some proposed))"

definition authorization_rules ::
  "evaluator \<Rightarrow> trade_proposal \<Rightarrow> risk_decision \<Rightarrow> quote_snapshot option \<Rightarrow> fx_snapshot option \<Rightarrow> instant
     \<Rightarrow> rule_result list res" where
  "authorization_rules el p d quote fx now =
     bindE (el_price_drift el p quote) (\<lambda>price.
     bindE (el_fx_drift el p fx) (\<lambda>rate.
       Inr [proposal_ttl (tp_expires_at p) now, price, rate,
            policy_version_unchanged p (rc_version (el_config el)), envelope_still_covers p d]))"

section \<open>Evaluation\<close>

text \<open>A holding without a valuation is valued at its price, over the same exchange rate.\<close>

definition with_valuation ::
  "evaluation_context \<Rightarrow> evaluation_facts \<Rightarrow> account_state option res" where
  "with_valuation cx facts =
     (case ef_account facts of
        None \<Rightarrow> Inr None
      | Some account \<Rightarrow>
          (case (acct_position account (inst_broker_ticker (ex_identity cx)), ef_fx facts) of
             (Some position, Some fx) \<Rightarrow>
               (case (pos_market_value position, pos_current_price position) of
                  (None, Some price) \<Rightarrow>
                    if normalize_currency (pos_currency position)
                         = normalize_currency (inst_currency (ex_identity cx)) \<and> fs_usable fx
                    then bindE (fs_to_account_currency fx (pos_quantity position * price)) (\<lambda>value.
                      Inr (Some (account\<lparr>acct_positions :=
                        AList.update (pos_broker_ticker position)
                          (position\<lparr>pos_market_value := Some value\<rparr>) (acct_positions account)\<rparr>)))
                    else Inr (Some account)
                | _ \<Rightarrow> Inr (Some account))
           | _ \<Rightarrow> Inr (Some account)))"

definition el_inputs ::
  "evaluator \<Rightarrow> database \<Rightarrow> evaluation_context \<Rightarrow> evaluation_facts \<Rightarrow> account_state option \<Rightarrow> instant
     \<Rightarrow> risk_inputs" where
  "el_inputs el db cx facts account now =
     \<lparr>ri_config = el_config el, ri_action = ex_action cx, ri_confidence = ex_confidence cx,
      ri_identity = ex_identity cx, ri_account = account, ri_quote = ef_quote facts,
      ri_reserved = el_reserved_exposure el db (ex_account_id cx) (inst_broker_ticker (ex_identity cx))
        (map_option acct_currency account) (map_option tp_id (ex_proposal cx)),
      ri_now = now, ri_fx = ef_fx facts,
      ri_account_state_missing_reason = ef_account_reason facts,
      ri_quote_missing_reason = ef_quote_reason facts,
      ri_authorized_fx_rate = (case ex_proposal cx of None \<Rightarrow> None | Some p \<Rightarrow> fc_rate (tp_fx p)),
      ri_calibration = (case (el_memory el, ex_event_type cx) of
          (Some calibrate, Some event_type) \<Rightarrow> calibrate event_type (ex_action cx) now
        | _ \<Rightarrow> None),
      ri_other_holding_weights =
        (if rc_sizing_mode (el_config el) = ''conviction'' \<and> rc_target_positions (el_config el) = 0
            \<and> ex_action cx \<in> EXPOSURE_INCREASING_ACTIONS
         then Some (holding_weights (el_positions el) (el_theses el) db (el_broker el)
                (el_environment el) (el_config el) (inst_broker_ticker (ex_identity cx)))
         else None),
      ri_reduce_fraction =
        (if ex_proposal cx \<noteq> None \<and> ex_action cx = thesis_action.REDUCE then Some (dec_of_int 1)
         else ex_reduce_fraction cx)\<rparr>"

definition evaluate_proposal ::
  "evaluator \<Rightarrow> database \<Rightarrow> evaluation_context \<Rightarrow> evaluation_facts \<Rightarrow> instant \<Rightarrow> revalidation res" where
  "evaluate_proposal el db cx facts now =
     bindE (with_valuation cx facts) (\<lambda>account.
     bindE (evaluate (el_inputs el db cx facts account now) now) (\<lambda>decision.
     bindE (case ex_proposal cx of
              None \<Rightarrow> Inr []
            | Some p \<Rightarrow> authorization_rules el p decision (ef_quote facts) (ef_fx facts) now) (\<lambda>more_rules.
       Inr \<lparr>rv_proposal_id = map_option tp_id (ex_proposal cx), rv_decision = decision,
            rv_rules = rd_rules decision @ more_rules, rv_quote = ef_quote facts,
            rv_account = account, rv_fx = ef_fx facts, rv_quote_reason = ef_quote_reason facts,
            rv_account_reason = ef_account_reason facts\<rparr>)))"

text \<open>Whether the market moved out from under a live proposal; a missing quote is no reason.\<close>

definition market_failure ::
  "evaluator \<Rightarrow> trade_proposal \<Rightarrow> quote_snapshot option \<Rightarrow> fx_snapshot option \<Rightarrow> string option res" where
  "market_failure el p quote fx =
     bindE (if fc_required (tp_fx p) \<and> (case fx of None \<Rightarrow> False | Some s \<Rightarrow> fs_usable s)
            then bindE (el_fx_drift el p fx) (\<lambda>r.
              Inr (if rr_outcome r = rule_outcome.BLOCK then Some (rr_reason r) else None))
            else Inr None) (\<lambda>rate_moved.
       if rate_moved \<noteq> None then Inr rate_moved
       else case quote of
         None \<Rightarrow> Inr None
       | Some q \<Rightarrow>
           if \<not> sa_is_ok (q_spread q)
           then Inr (Some (''the market widened after this proposal was generated: '' @ sa_detail (q_spread q)))
           else bindE (el_price_drift el p quote) (\<lambda>r.
             Inr (if rr_outcome r = rule_outcome.BLOCK then Some (rr_reason r) else None)))"

section \<open>What allowing an existing proposal means\<close>

definition price_close :: "evaluator \<Rightarrow> trade_proposal \<Rightarrow> quote_snapshot option \<Rightarrow> bool" where
  "price_close el p quote =
     (case quote of
        None \<Rightarrow> False
      | Some q \<Rightarrow> (case q_mid q of
          None \<Rightarrow> False
        | Some mid \<Rightarrow> 0 < dval (tp_reference_price p)
            \<and> dval (dquot \<bar>mid - tp_reference_price p\<bar> (tp_reference_price p))
              \<le> max (dval (rc_max_reference_price_drift_pct (el_config el)))
                    (if tp_side p = order_side.SELL then dval (rc_max_exit_price_drift_pct (el_config el))
                     else dval (rc_max_reference_price_drift_pct (el_config el)))))"

definition rate_close :: "evaluator \<Rightarrow> trade_proposal \<Rightarrow> fx_snapshot option \<Rightarrow> bool" where
  "rate_close el p fx =
     (case (fx, fc_rate (tp_fx p)) of
        (Some s, Some authorized) \<Rightarrow>
          fs_same_currency s \<or> dval authorized \<le> 0
          \<or> (fs_usable s \<and> (case fs_rate s of
                 None \<Rightarrow> False
               | Some rate \<Rightarrow> dval (dquot \<bar>rate - authorized\<bar> authorized) \<le> dval (el_fx_max_rate_drift_pct el)))
      | _ \<Rightarrow> True)"

lemma price_drift_blocks:
  "el_price_drift el p quote = Inr r \<Longrightarrow> rr_outcome r = rule_outcome.BLOCK \<longleftrightarrow> \<not> price_close el p quote"
  by (auto simp: el_price_drift_def reference_price_drift_def price_close_def Let_def bindE_eq_Inr ddiv_Inr
      dec_le_iff dval_dmax pass_if_def not_le max_def split: option.splits if_splits)

lemma fx_drift_blocks:
  "el_fx_drift el p fx = Inr r \<Longrightarrow> rr_outcome r = rule_outcome.BLOCK \<longleftrightarrow> \<not> rate_close el p fx"
  by (auto simp: el_fx_drift_def fx_rate_drift_def rate_close_def Let_def bindE_eq_Inr ddiv_Inr
      dec_le_iff pass_if_def not_le split: option.splits if_splits bool.splits)

lemma authorization_rules_clear:
  assumes "authorization_rules el p d quote fx now = Inr rules"
  shows "\<not> (\<exists>r \<in> set rules. rr_outcome r = rule_outcome.BLOCK) \<longleftrightarrow>
    now < tp_expires_at p \<and> price_close el p quote \<and> rate_close el p fx
    \<and> rk_policy_version (tp_risk p) \<in> {None, Some (rc_version (el_config el))}
    \<and> (rd_outcome d \<noteq> risk_outcome.BLOCK \<longrightarrow>
         sz_side (rd_sizing d) = Some (tp_side p)
         \<and> dval (tp_proposed_quantity p) \<le> dval (sz_max_quantity (rd_sizing d)))"
proof -
  obtain price rate where "el_price_drift el p quote = Inr price" "el_fx_drift el p fx = Inr rate"
    and rules: "rules = [proposal_ttl (tp_expires_at p) now, price, rate,
        policy_version_unchanged p (rc_version (el_config el)), envelope_still_covers p d]"
    using assms by (auto simp: authorization_rules_def bindE_eq_Inr)
  note drifts = price_drift_blocks[OF this(1)] fx_drift_blocks[OF this(2)]
  have ttl: "rr_outcome (proposal_ttl (tp_expires_at p) now) = rule_outcome.BLOCK \<longleftrightarrow> tp_expires_at p \<le> now"
    by (simp add: proposal_ttl_def Let_def)
  have policy: "rr_outcome (policy_version_unchanged p (rc_version (el_config el))) = rule_outcome.BLOCK
      \<longleftrightarrow> rk_policy_version (tp_risk p) \<notin> {None, Some (rc_version (el_config el))}"
    by (simp add: policy_version_unchanged_def Let_def)
  have envelope: "rr_outcome (envelope_still_covers p d) = rule_outcome.BLOCK \<longleftrightarrow> rd_outcome d \<noteq> risk_outcome.BLOCK
      \<and> \<not> (sz_side (rd_sizing d) = Some (tp_side p)
          \<and> dval (tp_proposed_quantity p) \<le> dval (sz_max_quantity (rd_sizing d)))"
    by (simp add: envelope_still_covers_def Let_def dec_le_iff)
  show ?thesis using drifts ttl policy envelope by (auto simp: rules not_le not_less)
qed

lemma rv_allowed_parts:
  assumes "evaluate_proposal el db cx facts now = Inr r" "ex_proposal cx = Some p"
  obtains rules where "authorization_rules el p (rv_decision r) (ef_quote facts) (ef_fx facts) now = Inr rules"
    "rv_allowed r \<longleftrightarrow> rd_outcome (rv_decision r) \<noteq> risk_outcome.BLOCK
       \<and> \<not> (\<exists>x \<in> set rules. rr_outcome x = rule_outcome.BLOCK)"
proof -
  obtain inputs rules where e: "evaluate inputs now = Inr (rv_decision r)"
    and rules: "rv_rules r = rd_rules (rv_decision r) @ rules"
    and auth: "authorization_rules el p (rv_decision r) (ef_quote facts) (ef_fx facts) now = Inr rules"
    using assms by (auto simp: evaluate_proposal_def bindE_eq_Inr)
  have "(\<exists>x \<in> set (rd_rules (rv_decision r)). rr_outcome x = rule_outcome.BLOCK) \<longleftrightarrow> rd_outcome (rv_decision r) = risk_outcome.BLOCK"
    using e by (cases rule: evaluate_cases) (auto simp: has_outcome_iff)
  then show thesis by (intro that[OF auth]) (auto simp: rv_allowed_def rv_blocked_def rules filter_empty_conv)
qed

text \<open>
  C26: when a live proposal is still good. A fresh evaluation of an existing proposal has no blocking rule exactly
  when the engine does not block, the proposal has not expired, the price and the rate stayed within
  their drift limits of the recorded ones, the risk configuration is the one the proposal was generated under, and
  the fresh envelope has the same side and room for the recorded quantity. A blocked engine never
  turns into a statement about the quantity.
\<close>

theorem live_proposal_still_good:
  assumes "evaluate_proposal el db cx facts now = Inr r" "ex_proposal cx = Some p"
  shows "rv_allowed r \<longleftrightarrow>
    rd_outcome (rv_decision r) \<noteq> risk_outcome.BLOCK \<and> now < tp_expires_at p
    \<and> price_close el p (ef_quote facts) \<and> rate_close el p (ef_fx facts)
    \<and> rk_policy_version (tp_risk p) \<in> {None, Some (rc_version (el_config el))}
    \<and> sz_side (rd_sizing (rv_decision r)) = Some (tp_side p)
    \<and> dval (tp_proposed_quantity p) \<le> dval (sz_max_quantity (rd_sizing (rv_decision r)))"
proof -
  obtain rules where auth: "authorization_rules el p (rv_decision r) (ef_quote facts) (ef_fx facts) now = Inr rules"
    and allowed: "rv_allowed r \<longleftrightarrow> rd_outcome (rv_decision r) \<noteq> risk_outcome.BLOCK
       \<and> \<not> (\<exists>x \<in> set rules. rr_outcome x = rule_outcome.BLOCK)"
    by (rule rv_allowed_parts[OF assms])
  show ?thesis unfolding allowed authorization_rules_clear[OF auth] by blast
qed

text \<open>One share of the example listing, proposed at its price on an otherwise empty database.\<close>

definition acme_proposal :: trade_proposal where
  "acme_proposal =
     \<lparr>tp_id = ''p1'', tp_thesis_id = Some ''t1'', tp_company_id = Some ''7'', tp_broker_instrument_id = Some ''1'',
      tp_research_run_id = Some ''r1'', tp_broker = broker.TRADING212, tp_broker_ticker = ''ACME_US_EQ'',
      tp_account_id = ''A1'', tp_broker_environment = ''demo'', tp_side = order_side.BUY,
      tp_order_type = order_type.MARKET, tp_proposed_quantity = Dec 1 0, tp_reference_price = Dec 100 0,
      tp_reference_currency = ''USD'', tp_estimated_notional = Dec 100 0, tp_account_currency = ''USD'',
      tp_estimated_notional_account_currency = Some (Dec 100 0),
      tp_quote = \<lparr>qc_provider = None, qc_feed = None, qc_bid = None, qc_ask = None, qc_mid = None,
        qc_spread = None, qc_spread_bps = None, qc_spread_status = None, qc_timestamp = 0, qc_age_ms = 0,
        qc_price_source = price_source.ALPACA_IEX, qc_market_session = None, qc_session_source = None\<rparr>,
      tp_fx = \<lparr>fc_required = False, fc_rate = None, fc_base_currency = None, fc_quote_currency = None,
        fc_direction = None, fc_provider = None, fc_rate_grade = None, fc_rate_type = None,
        fc_provider_timestamp = None, fc_received_at = None, fc_age_seconds = None\<rparr>,
      tp_risk = \<lparr>rk_outcome = None, rk_policy_version = None, rk_rules = JNull, rk_snapshot = JNull,
        rk_snapshot_hash = None\<rparr>,
      tp_research_confidence = Some (Dec 85 (- 2)), tp_research_action = Some ''BUY'',
      tp_execution_policy = execution_policy.MANUAL, tp_authorization_source = Some authorization_source.HUMAN_WEB,
      tp_authorization_policy_snapshot = JNull, tp_dedupe_key = Some ''k1'', tp_invalidated_at = None,
      tp_invalidation_reason = None, tp_sizing_reasons = JNull, tp_max_quantity = None, tp_max_notional = None,
      tp_status = proposal_status.APPROVED, tp_status_reason = None, tp_expires_at = 900000000,
      tp_approved_at = Some 1000000, tp_approved_by = Some ''operator'',
      tp_approved_channel = Some approval_channel.WEB, tp_rejected_at = None, tp_rejected_by = None,
      tp_executed_at = None, tp_created_at = 0, tp_updated_at = 0, tp_version = 1\<rparr>"

definition acme_evaluator :: evaluator where
  "acme_evaluator =
     \<lparr>el_config = default_risk_config, el_broker = broker.TRADING212, el_environment = ''demo'',
      el_fx_settings = sample_fx_settings, el_fx_provider = None, el_fx_max_rate_drift_pct = Dec 1 (- 2),
      el_memory = None, el_positions = [], el_theses = []\<rparr>"

definition acme_context :: evaluation_context where
  "acme_context =
     \<lparr>ex_action = thesis_action.BUY, ex_confidence = Dec 85 (- 2), ex_identity = acme_identity,
      ex_account_id = ''A1'', ex_proposal = Some acme_proposal, ex_event_type = None, ex_reduce_fraction = None\<rparr>"

definition acme_evaluation_facts :: evaluation_facts where
  "acme_evaluation_facts =
     \<lparr>ef_account = Some acme_account, ef_quote = Some acme_quote, ef_fx = Some (same_currency_snapshot ''USD''),
      ef_account_reason = None, ef_quote_reason = None\<rparr>"

lemma acme_el_inputs:
  "el_inputs acme_evaluator empty_database acme_context acme_evaluation_facts (Some acme_account) 2000000
     = acme_inputs thesis_action.BUY"
  by (simp add: el_inputs_def acme_evaluator_def acme_context_def acme_evaluation_facts_def acme_inputs_def
      acme_proposal_def el_reserved_exposure_def reserving_rows_def empty_database_def amounts_of_def dsum_def
      no_reservations_def ZERO_def dec_of_int_def default_risk_config_def Let_def)

lemma acme_revalidated:
  obtains r where "evaluate_proposal acme_evaluator empty_database acme_context acme_evaluation_facts 2000000 = Inr r"
    "rd_outcome (rv_decision r) \<noteq> risk_outcome.BLOCK" "sz_side (rd_sizing (rv_decision r)) = Some order_side.BUY"
    "Dec 1 0 \<le> sz_max_quantity (rd_sizing (rv_decision r))"
proof -
  obtain d where d: "evaluate (acme_inputs thesis_action.BUY) 2000000 = Inr d" "rd_allowed d"
      "sz_side (rd_sizing d) = Some order_side.BUY" "Dec 1 0 \<le> sz_max_quantity (rd_sizing d)"
    by (rule acme_sized_allowed)
  have v: "with_valuation acme_context acme_evaluation_facts = Inr (Some acme_account)" by code_simp
  have "okE (el_price_drift acme_evaluator acme_proposal (Some acme_quote))"
       "okE (el_fx_drift acme_evaluator acme_proposal (Some (same_currency_snapshot ''USD'')))" by code_simp+
  then obtain rules where a: "authorization_rules acme_evaluator acme_proposal d (Some acme_quote)
      (Some (same_currency_snapshot ''USD'')) 2000000 = Inr rules"
    by (auto simp: authorization_rules_def okE_conv)
  have c: "ex_proposal acme_context = Some acme_proposal" "ef_quote acme_evaluation_facts = Some acme_quote"
      "ef_fx acme_evaluation_facts = Some (same_currency_snapshot ''USD'')"
    by (simp_all add: acme_context_def acme_evaluation_facts_def)
  show thesis
    by (rule that, unfold evaluate_proposal_def v bindE_Inr acme_el_inputs d(1) c option.case a, rule HOL.refl)
      (use d in \<open>simp_all add: rd_allowed_def\<close>)
qed

lemma acme_close:
  "ex_proposal acme_context = Some acme_proposal"
  "price_close acme_evaluator acme_proposal (ef_quote acme_evaluation_facts)"
  "rate_close acme_evaluator acme_proposal (ef_fx acme_evaluation_facts)"
  "rk_policy_version (tp_risk acme_proposal) = None" "2000000 < tp_expires_at acme_proposal"
  "tp_side acme_proposal = order_side.BUY" "tp_proposed_quantity acme_proposal = Dec 1 0"
  by code_simp+

lemma acme_still_good:
  obtains r where "evaluate_proposal acme_evaluator empty_database acme_context acme_evaluation_facts 2000000 = Inr r"
    "rv_allowed r"
proof (rule acme_revalidated)
  fix r assume r: "evaluate_proposal acme_evaluator empty_database acme_context acme_evaluation_facts 2000000 = Inr r"
    "rd_outcome (rv_decision r) \<noteq> risk_outcome.BLOCK" "sz_side (rd_sizing (rv_decision r)) = Some order_side.BUY"
    "Dec 1 0 \<le> sz_max_quantity (rd_sizing (rv_decision r))"
  obtain rules where "authorization_rules acme_evaluator acme_proposal (rv_decision r)
      (ef_quote acme_evaluation_facts) (ef_fx acme_evaluation_facts) 2000000 = Inr rules"
    "rv_allowed r \<longleftrightarrow> rd_outcome (rv_decision r) \<noteq> risk_outcome.BLOCK
       \<and> \<not> (\<exists>x \<in> set rules. rr_outcome x = rule_outcome.BLOCK)"
    by (rule rv_allowed_parts[OF r(1) acme_close(1)])
  then show thesis using that[OF r(1)] r(2-4) acme_close(2-7) authorization_rules_clear by (simp add: dec_le_iff)
qed

lemma live_proposal_still_good_witness:
  "\<exists>r. evaluate_proposal acme_evaluator empty_database acme_context acme_evaluation_facts 2000000 = Inr r \<and> rv_allowed r"
proof (rule acme_revalidated)
  fix r assume r: "evaluate_proposal acme_evaluator empty_database acme_context acme_evaluation_facts 2000000 = Inr r"
    "rd_outcome (rv_decision r) \<noteq> risk_outcome.BLOCK" "sz_side (rd_sizing (rv_decision r)) = Some order_side.BUY"
    "Dec 1 0 \<le> sz_max_quantity (rd_sizing (rv_decision r))"
  then show ?thesis
    using live_proposal_still_good[OF r(1) acme_close(1)] acme_close(2-7) by (simp add: dec_le_iff)
qed

end
