(* ===== verification/Canonical_Text.thy ===== *)
theory Canonical_Text
  imports Json_Digest
begin

text \<open>
  The text that is hashed determines the payload: a string literal, a number and a whole value
  can each be read off the front of a text, so two payloads with one canonical text are the same payload;
  and the plain notation of a decimal determines its value.
\<close>

section \<open>Escapes and string literals\<close>

lemma of_char_below: "(of_char c :: nat) < 256"
  by (cases c) (simp add: of_char_def)

text \<open>Reading one escaped character back, with the rest of the text.\<close>

definition hex_val :: "char \<Rightarrow> nat" where
  "hex_val c = length (takeWhile (\<lambda>d. d \<noteq> c) ''0123456789abcdef'')"

definition unescape :: "string \<Rightarrow> char \<times> string" where
  "unescape s =
     (if hd s \<noteq> CHR 0x5C then (hd s, tl s)
      else if s ! 1 = CHR ''u''
      then (char_of (16 * hex_val (s ! 4) + hex_val (s ! 5)), drop 6 s)
      else (if s ! 1 = CHR ''n'' then CHR 0x0A else if s ! 1 = CHR ''r'' then CHR 0x0D
            else if s ! 1 = CHR ''t'' then CHR 0x09 else if s ! 1 = CHR ''b'' then CHR 0x08
            else if s ! 1 = CHR ''f'' then CHR 0x0C else s ! 1, drop 2 s))"

lemma hex_val_digit: "i < 16 \<Longrightarrow> hex_val (hex_digit i) = i"
proof -
  have "list_all (\<lambda>i. hex_val (hex_digit i) = i) [0..<16]" by code_simp
  then show "i < 16 \<Longrightarrow> ?thesis" by (simp add: list_all_iff)
qed

lemma of_char_code: "(of_char c :: nat) = n \<Longrightarrow> c = char_of n"
  using char_of_char[where 'a = nat, of c] by simp

lemma unescape_escape: "unescape (escape_char c @ x) = (c, x)"
proof -
  let ?n = "of_char c :: nat"
  have "?n div 16 < 16" "?n mod 16 < 16"
    using of_char_below[of c] less_mult_imp_div_less[of ?n 16 16] by simp_all
  then have u: "char_of (16 * hex_val (hex_digit (?n div 16)) + hex_val (hex_digit (?n mod 16))) = c"
    by (simp add: hex_val_digit)
  have codes: "CHR 0x0A = char_of (10 :: nat)" "CHR 0x0D = char_of (13 :: nat)" "CHR 0x09 = char_of (9 :: nat)"
    "CHR 0x08 = char_of (8 :: nat)" "CHR 0x0C = char_of (12 :: nat)" by code_simp+
  consider "c = CHR 0x22" | "c = CHR 0x5C" | "?n = 10" | "?n = 13" | "?n = 9" | "?n = 8" | "?n = 12"
    | "c \<noteq> CHR 0x22" "c \<noteq> CHR 0x5C" "?n \<notin> {8, 9, 10, 12, 13}" by auto
  then show ?thesis
  proof cases
    case 3
    then have "c = CHR 0x0A" using of_char_code[of c] codes(1) by metis
    then show ?thesis by (simp add: escape_char_def unescape_def)
  next
    case 4
    then have "c = CHR 0x0D" using of_char_code[of c] codes(2) by metis
    then show ?thesis by (simp add: escape_char_def unescape_def)
  next
    case 5
    then have "c = CHR 0x09" using of_char_code[of c] codes(3) by metis
    then show ?thesis by (simp add: escape_char_def unescape_def)
  next
    case 6
    then have "c = CHR 0x08" using of_char_code[of c] codes(4) by metis
    then show ?thesis by (simp add: escape_char_def unescape_def)
  next
    case 7
    then have "c = CHR 0x0C" using of_char_code[of c] codes(5) by metis
    then show ?thesis by (simp add: escape_char_def unescape_def)
  next
    case 8
    then show ?thesis using u
      by (cases "?n < 32 \<or> 126 < ?n") (simp_all add: escape_char_def unescape_def Let_def)
  qed (simp_all add: escape_char_def unescape_def)
qed

lemma escape_char_prefix: "escape_char c @ x = escape_char d @ y \<Longrightarrow> c = d \<and> x = y"
  by (metis Pair_inject unescape_escape)

lemma escape_char_Cons: "\<exists>e es. escape_char c = e # es \<and> e \<noteq> CHR 0x22"
  by (auto simp: escape_char_def Let_def)

lemma quoted_prefix: "quoted s @ x = quoted t @ y \<Longrightarrow> s = t \<and> x = y"
proof (induction s arbitrary: t)
  case Nil
  show ?case
  proof (cases t)
    case (Cons d u)
    obtain e es where "escape_char d = e # es" "e \<noteq> CHR 0x22" using escape_char_Cons by blast
    then show ?thesis using Nil Cons by (simp add: quoted_def)
  qed (use Nil in \<open>simp add: quoted_def\<close>)
next
  case (Cons c s)
  show ?case
  proof (cases t)
    case Nil
    then show ?thesis using Cons.prems escape_char_Cons[of c] by (auto simp: quoted_def)
  next
    case (Cons d u)
    then have "escape_char c @ (concat (map escape_char s) @ [CHR 0x22] @ x)
        = escape_char d @ (concat (map escape_char u) @ [CHR 0x22] @ y)"
      using Cons.prems by (simp add: quoted_def)
    from escape_char_prefix[OF this] show ?thesis using Cons Cons.IH[of u] by (simp add: quoted_def)
  qed
qed

section \<open>Integers\<close>

definition digit_chars :: string where
  "digit_chars = ''0123456789''"

definition digits_val :: "string \<Rightarrow> int" where
  "digits_val s = foldl (\<lambda>a c. a * 10 + (of_char c - 48)) 0 s"

lemma digit_char: "0 \<le> i \<Longrightarrow> i < 10 \<Longrightarrow> of_char (''0123456789'' ! nat i) = i + 48 \<and> ''0123456789'' ! nat i \<in> set digit_chars"
proof -
  assume "0 \<le> i" "i < 10"
  then have "i = 0 \<or> i = 1 \<or> i = 2 \<or> i = 3 \<or> i = 4 \<or> i = 5 \<or> i = 6 \<or> i = 7 \<or> i = 8 \<or> i = 9" by arith
  then show ?thesis by (auto simp: digit_chars_def)
qed

lemma digits_val_snoc: "digits_val (s @ [c]) = digits_val s * 10 + (of_char c - 48)"
  by (simp add: digits_val_def)

lemma show_uint_val: "0 \<le> n \<Longrightarrow> digits_val (show_uint n) = n \<and> set (show_uint n) \<subseteq> set digit_chars \<and> show_uint n \<noteq> []"
proof (induction n rule: show_uint.induct)
  case (1 n)
  show ?case
  proof (cases "n < 10")
    case True
    then show ?thesis using digit_char[of n] 1(2) by (subst (1 2 3) show_uint.simps) (simp add: digits_val_def)
  next
    case False
    then show ?thesis using 1 digit_char[of "n mod 10"]
      by (subst (1 2 3) show_uint.simps) (simp add: digits_val_snoc)
  qed
qed

lemma show_uint_inj: "0 \<le> n \<Longrightarrow> 0 \<le> m \<Longrightarrow> show_uint n = show_uint m \<longleftrightarrow> n = m"
  by (metis show_uint_val)

definition delim :: "string \<Rightarrow> bool" where
  "delim x = (x = [] \<or> hd x \<notin> set digit_chars)"

lemma digits_prefix:
  assumes "set s \<subseteq> set digit_chars" "set t \<subseteq> set digit_chars" "delim x" "delim y" "s @ x = t @ y"
  shows "s = t \<and> x = y"
proof -
  have "takeWhile (\<lambda>c. c \<in> set digit_chars) (s @ x) = s" "takeWhile (\<lambda>c. c \<in> set digit_chars) (t @ y) = t"
    using assms(1-4) by (auto simp: delim_def takeWhile_append neq_Nil_conv takeWhile_eq_Nil_iff)
  then show ?thesis using assms(5) by simp
qed

lemma show_int_prefix:
  assumes "show_int n @ x = show_int m @ y" "delim x" "delim y"
  shows "n = m \<and> x = y"
proof -
  have d: "CHR ''-'' \<notin> set digit_chars" by (simp add: digit_chars_def)
  have h: "hd (show_uint k) \<in> set digit_chars" "show_uint k \<noteq> []" if "0 \<le> k" for k
    using show_uint_val[OF that] hd_in_set[of "show_uint k"] by auto
  show ?thesis
  proof (cases "n < 0 \<longleftrightarrow> m < 0")
    case True
    then have "show_uint \<bar>n\<bar> @ x = show_uint \<bar>m\<bar> @ y" using assms(1) by (auto simp: show_int_def split: if_splits)
    then have "show_uint \<bar>n\<bar> = show_uint \<bar>m\<bar> \<and> x = y"
      by (intro digits_prefix assms(2,3)) (use show_uint_val in auto)
    then show ?thesis using True show_uint_inj[of "\<bar>n\<bar>" "\<bar>m\<bar>"] by auto
  next
    case False
    then show ?thesis using assms(1) d h[of n] h[of m]
      by (auto simp: show_int_def split: if_splits dest!: arg_cong[of _ _ hd])
  qed
qed

section \<open>Whole values\<close>

lemma show_int_Cons: "\<exists>c cs. show_int n = c # cs \<and> (c = CHR ''-'' \<or> c \<in> set digit_chars)"
proof (cases "n < 0")
  case False
  then show ?thesis using show_uint_val[of n] by (cases "show_uint n") (auto simp: show_int_def)
qed (simp add: show_int_def)

lemma dumps_Cons: "\<exists>c cs. dumps j = c # cs \<and> c \<noteq> CHR '']''"
  using show_int_Cons by (cases j) (force simp: quoted_def digit_chars_def)+

lemma quoted_Cons: "\<exists>cs. quoted s = CHR 0x22 # cs"
  by (simp add: quoted_def)

fun kind :: "json \<Rightarrow> nat" where
  "kind JNull = 0"
| "kind (JBool b) = (if b then 1 else 2)"
| "kind (JStr s) = 3"
| "kind (JList xs) = 4"
| "kind (JObj kvs) = 5"
| "kind (JInt n) = 6"

definition kind_char :: "char \<Rightarrow> nat" where
  "kind_char c = (if c = CHR ''n'' then 0 else if c = CHR ''t'' then 1 else if c = CHR ''f'' then 2
     else if c = CHR 0x22 then 3 else if c = CHR ''['' then 4 else if c = CHR ''{'' then 5 else 6)"

lemma kind_dumps: "kind_char (hd (dumps j @ x)) = kind j"
proof (cases j)
  case (JInt n)
  then show ?thesis using show_int_Cons[of n] by (auto simp: kind_char_def digit_chars_def)
qed (auto simp: kind_char_def quoted_def)

lemma dumps_kind: "dumps j @ x = dumps k @ y \<Longrightarrow> kind j = kind k"
  by (metis kind_dumps)

lemma delim_simps [simp]: "delim (CHR '']'' # x)" "delim (CHR '','' # x)" "delim (CHR ''}'' # x)" "delim []"
  by (simp_all add: delim_def digit_chars_def)

lemma dumps_prefix:
  "dumps j @ x = dumps k @ y \<Longrightarrow> delim x \<Longrightarrow> delim y \<Longrightarrow> j = k \<and> x = y"
  "dumps_list xs @ x = dumps_list ys @ y \<Longrightarrow> xs = ys \<and> x = y"
  "dumps_fields kvs @ x = dumps_fields lvs @ y \<Longrightarrow> kvs = lvs \<and> x = y"
proof (induction j and xs and kvs arbitrary: k x y and ys x y and lvs x y rule: dumps_dumps_list_dumps_fields.induct)
  case 1 then show ?case using dumps_kind[OF 1(1)] by (cases k) (auto split: if_splits)
next
  case (2 b) then show ?case using dumps_kind[OF 2(1)] by (cases k) (auto split: if_splits)
next
  case (3 n)
  obtain m where "k = JInt m" using dumps_kind[OF 3(1)] by (cases k) (auto split: if_splits)
  then show ?case using 3 show_int_prefix[of n x m y] by simp
next
  case (4 s)
  obtain m where "k = JStr m" using dumps_kind[OF 4(1)] by (cases k) (auto split: if_splits)
  then show ?case using 4 quoted_prefix[of s x m y] by simp
next
  case (5 xs)
  obtain m where "k = JList m" using dumps_kind[OF 5(2)] by (cases k) (auto split: if_splits)
  then show ?case using 5(1)[of x m y] 5(2) by simp
next
  case (6 kvs)
  obtain m where "k = JObj m" using dumps_kind[OF 6(2)] by (cases k) (auto split: if_splits)
  then show ?case using 6(1)[of x m y] 6(2) by simp
next
  case 7
  show ?case
  proof (cases ys)
    case (Cons j js)
    then show ?thesis using 7 dumps_Cons[of j] by auto
  qed (use 7 in simp)
next
  case (8 j js)
  show ?case
  proof (cases ys)
    case Nil
    then show ?thesis using 8(3) dumps_Cons[of j] by auto
  next
    case (Cons k ks)
    let ?r = "\<lambda>js. if js = [] then '']'' else '','' @ dumps_list js"
    have "dumps j @ (?r js @ x) = dumps k @ (?r ks @ y)" using 8(3) Cons by simp
    then have "j = k \<and> ?r js @ x = ?r ks @ y" by (rule 8(1)) simp_all
    then show ?thesis using Cons 8(2)[of x ks y] by (auto split: if_splits)
  qed
next
  case 9
  show ?case
  proof (cases lvs)
    case (Cons j js)
    then show ?thesis using 9 quoted_Cons[of "fst j"] by auto
  qed (use 9 in simp)
next
  case (10 kv kvs)
  show ?case
  proof (cases lvs)
    case Nil
    then show ?thesis using 10(3) quoted_Cons[of "fst kv"] by auto
  next
    case (Cons lv lws)
    let ?r = "\<lambda>js. if js = [] then ''}'' else '','' @ dumps_fields js"
    have "quoted (fst kv) @ ('':'' @ dumps (snd kv) @ ?r kvs @ x) = quoted (fst lv) @ ('':'' @ dumps (snd lv) @ ?r lws @ y)"
      using 10(3) Cons by simp
    from quoted_prefix[OF this] have f: "fst kv = fst lv" "dumps (snd kv) @ (?r kvs @ x) = dumps (snd lv) @ (?r lws @ y)"
      by simp_all
    from f(2) have "snd kv = snd lv \<and> ?r kvs @ x = ?r lws @ y" by (rule 10(1)) simp_all
    then show ?thesis using Cons f(1) 10(2)[of x lws y] by (auto split: if_splits intro: prod_eqI)
  qed
qed

lemma dumps_inj: "dumps j = dumps k \<longleftrightarrow> j = k"
  using dumps_prefix(1)[of j "[]" k "[]"] by auto

section \<open>Decimals\<close>

lemma digits_val_append: "digits_val (s @ t) = digits_val s * 10 ^ length t + digits_val t"
  by (induction t rule: rev_induct) (simp_all add: digits_val_snoc append_assoc[symmetric] algebra_simps del: append_assoc, simp add: digits_val_def)

lemma digits_val_Nil [simp]: "digits_val [] = 0"
  by (simp add: digits_val_def)

lemma digits_val_zeros [simp]: "digits_val (replicate k (CHR ''0'')) = 0"
  by (induction k) (simp_all add: digits_val_def)

definition fixed_val :: "string \<Rightarrow> rat" where
  "fixed_val t =
     (let s = (if t \<noteq> [] \<and> hd t = CHR ''-'' then tl t else t);
          b = drop 1 (dropWhile (\<lambda>c. c \<noteq> CHR ''.'') s)
      in (if s = t then 1 else - 1)
           * of_int (digits_val (takeWhile (\<lambda>c. c \<noteq> CHR ''.'') s @ b)) / 10 ^ length b)"

lemma no_dot: "set ds \<subseteq> set digit_chars \<Longrightarrow> CHR ''.'' \<notin> set ds \<and> CHR ''-'' \<notin> set ds"
  by (auto simp: digit_chars_def)

lemma split_dot:
  assumes "CHR ''.'' \<notin> set a"
  shows "takeWhile (\<lambda>c. c \<noteq> CHR ''.'') (a @ CHR ''.'' # b) = a" "dropWhile (\<lambda>c. c \<noteq> CHR ''.'') (a @ CHR ''.'' # b) = CHR ''.'' # b"
    "takeWhile (\<lambda>c. c \<noteq> CHR ''.'') a = a" "dropWhile (\<lambda>c. c \<noteq> CHR ''.'') a = []"
  using assms by (induction a) auto

definition plain_val :: "string \<Rightarrow> rat" where
  "plain_val s = (let b = drop 1 (dropWhile (\<lambda>c. c \<noteq> CHR ''.'') s)
     in of_int (digits_val (takeWhile (\<lambda>c. c \<noteq> CHR ''.'') s @ b)) / 10 ^ length b)"

lemma fixed_val_plain: "hd s \<noteq> CHR ''-'' \<Longrightarrow> s \<noteq> [] \<Longrightarrow> fixed_val s = plain_val s \<and> fixed_val (CHR ''-'' # s) = - plain_val s"
  by (simp add: fixed_val_def plain_val_def Let_def)

lemma plain_val_place_dot:
  assumes ds: "set ds \<subseteq> set digit_chars" 
  shows "plain_val (place_dot ds dot) = of_int (digits_val ds) * 10 powi (dot - int (length ds))"
proof -
  note nd = no_dot[OF ds, THEN conjunct1]
  consider "dot \<le> 0" | "0 < dot" "int (length ds) \<le> dot" | "0 < dot" "dot < int (length ds)" by linarith
  then show ?thesis
  proof cases
    case 1
    have z: "CHR ''.'' \<notin> set ''0''" by simp
    have v: "plain_val (place_dot ds dot) = of_int (digits_val ds) / 10 ^ (nat (- dot) + length ds)"
      using 1 split_dot(1,2)[OF z, of "zeros (- dot) @ ds"] 
      by (simp add: plain_val_def place_dot_def zeros_def digits_val_append Let_def)
         (simp add: digits_val_def digits_val_append[unfolded digits_val_def] digits_val_zeros[unfolded digits_val_def])
    have "dot - int (length ds) = - int (nat (- dot) + length ds)" using 1 by simp
    then show ?thesis unfolding v by (simp only: power_int_minus power_int_of_nat divide_inverse)
  next
    case 2
    define k where "k = nat (dot - int (length ds))"
    have "CHR ''.'' \<notin> set (ds @ replicate k (CHR ''0''))" using nd by simp
    then have "plain_val (place_dot ds dot) = of_int (digits_val ds) * 10 ^ k"
      using 2 split_dot(3,4)[of "ds @ replicate k (CHR ''0'')"]
      by (simp add: plain_val_def place_dot_def zeros_def k_def[symmetric] digits_val_append)
    moreover have "dot - int (length ds) = int k" using 2 by (simp add: k_def)
    ultimately show ?thesis by (simp only: power_int_of_nat)
  next
    case 3
    have d: "CHR ''.'' \<notin> set (take (nat dot) ds)" using nd by (meson in_set_takeD)
    have "plain_val (place_dot ds dot) = of_int (digits_val ds) / 10 ^ (length ds - nat dot)"
      using 3 split_dot(1,2)[OF d, of "drop (nat dot) ds"] by (simp add: plain_val_def place_dot_def Let_def)
    moreover have "dot - int (length ds) = - int (length ds - nat dot)" using 3 by simp
    ultimately show ?thesis by (simp only: power_int_minus power_int_of_nat divide_inverse)
  qed
qed

lemma place_dot_Cons: "set ds \<subseteq> set digit_chars \<Longrightarrow> ds \<noteq> [] \<Longrightarrow> place_dot ds dot \<noteq> [] \<and> hd (place_dot ds dot) \<noteq> CHR ''-''"
  using no_dot[of ds] by (cases ds) (auto simp: place_dot_def take_Cons')

lemma fixed_val_fixed_str: "fixed_val (fixed_str d) = dval d"
proof -
  obtain c e where d: "d = Dec c e" by (cases d)
  let ?d = "if c = 0 \<and> 0 < e then Dec 0 0 else Dec c e"
  let ?ds = "show_uint \<bar>coeff ?d\<bar>"
  have ds: "set ?ds \<subseteq> set digit_chars" "?ds \<noteq> []" "digits_val ?ds = \<bar>coeff ?d\<bar>"
    using show_uint_val[of "\<bar>coeff ?d\<bar>"] by auto
  have p: "plain_val (place_dot ?ds (expo ?d + int (length ?ds))) = of_int \<bar>coeff ?d\<bar> * 10 powi expo ?d"
    by (simp add: plain_val_place_dot[OF ds(1)] ds(3))
  have "dval ?d = dval d" by (simp add: d dval_Dec)
  then show ?thesis using p fixed_val_plain[OF conjunct2[OF place_dot_Cons[OF ds(1,2)]] conjunct1[OF place_dot_Cons[OF ds(1,2)]], of "expo ?d + int (length ?ds)"]
    unfolding fixed_str_def d by (auto simp: Let_def dval_Dec split: if_splits)
qed

lemma fixed_str_dval: "fixed_str a = fixed_str b \<Longrightarrow> dval a = dval b"
  by (metis fixed_val_fixed_str)
end
