(* ===== verification/Exec_Models.thy ===== *)
theory Exec_Models
  imports Store Canonical_Text "HOL-Library.Multiset"
begin

text \<open>
  \<open>backend/stockbrain/execution/models.py\<close> and \<open>execution/fingerprint.py\<close>: the command that may be
  transmitted, the broker's answers in their normal form, and the fingerprint of a command.
  A payload (\<open>dict[str, Any]\<close>) is the list of its entries.
\<close>

section \<open>The command\<close>

record execution_command =
  ec_proposal_id :: uuid
  ec_broker :: broker
  ec_broker_environment :: string
  ec_broker_ticker :: string
  ec_side :: order_side
  ec_order_type :: order_type
  ec_quantity :: decimal
  ec_extended_hours :: bool

definition make_execution_command :: "execution_command \<Rightarrow> execution_command res" where
  "make_execution_command c =
     (if ec_quantity c \<le> Dec 0 0
      then Inl (ValueError ''an execution command must carry a positive quantity'')
      else if ec_order_type c \<noteq> order_type.MARKET
      then Inl (ValueError (order_type_value (ec_order_type c) @ '' orders are not implemented''))
      else Inr c)"

definition ec_signed_quantity :: "execution_command \<Rightarrow> decimal" where
  "ec_signed_quantity c = (if ec_side c = order_side.BUY then ec_quantity c else - ec_quantity c)"

definition ec_as_dict :: "execution_command \<Rightarrow> (string \<times> json) list" where
  "ec_as_dict c =
     [(''proposal_id'', JStr (ec_proposal_id c)),
      (''broker'', JStr (broker_value (ec_broker c))),
      (''broker_environment'', JStr (ec_broker_environment c)),
      (''broker_ticker'', JStr (ec_broker_ticker c)),
      (''side'', JStr (order_side_value (ec_side c))),
      (''order_type'', JStr (order_type_value (ec_order_type c))),
      (''quantity'', jdec (ec_quantity c)),
      (''signed_quantity'', jdec (ec_signed_quantity c)),
      (''extended_hours'', JBool (ec_extended_hours c))]"

section \<open>The broker's answers\<close>

record broker_order_view =
  ov_broker_order_id :: string
  ov_broker_ticker :: "string option"
  ov_signed_quantity :: "decimal option"
  ov_filled_quantity :: "decimal option"
  ov_filled_value :: "decimal option"
  ov_status :: "string option"
  ov_order_type :: "string option"
  ov_side :: "string option"
  ov_currency :: "string option"
  ov_created_at :: "instant option"
  ov_initiated_from :: "string option"
  ov_raw :: "(string \<times> json) list"

definition ov_placed_by_api :: "broker_order_view \<Rightarrow> bool" where
  "ov_placed_by_api r = (ov_initiated_from r = Some ''API'')"

definition ov_status_text :: "broker_order_view \<Rightarrow> string" where
  "ov_status_text r = upper (or_else (ov_status r) [])"

definition ov_is_terminal :: "broker_order_view \<Rightarrow> bool" where
  "ov_is_terminal r = (ov_status_text r \<in> {''FILLED'', ''CANCELLED'', ''REJECTED''})"

record broker_acknowledgement =
  ba_order :: broker_order_view
  ba_http_status :: int
  ba_payload :: "(string \<times> json) list"
  ba_rate_limit :: "(string \<times> json) list"

record pending_order_count =
  pc_broker_ticker :: string
  pc_pending :: int
  pc_read_ok :: bool
  pc_api_initiated :: int
  pc_error_category :: "string option"

definition pc_as_dict :: "pending_order_count \<Rightarrow> json" where
  "pc_as_dict c = JObj
     [(''broker_ticker'', JStr (pc_broker_ticker c)),
      (''pending'', JInt (pc_pending c)),
      (''api_initiated'', JInt (pc_api_initiated c)),
      (''read_ok'', JBool (pc_read_ok c)),
      (''error_category'', jopt JStr (pc_error_category c))]"

record candidate_search =
  cs_candidates :: "broker_order_view list"
  cs_pending_ok :: bool
  cs_history_ok :: bool
  cs_scanned :: int
  cs_error_category :: "string option"

definition cs_complete :: "candidate_search \<Rightarrow> bool" where
  "cs_complete s = (cs_pending_ok s \<and> cs_history_ok s)"

record preflight_refusal =
  pr_category :: execution_failure
  pr_reasons :: "string list"
  pr_invalidates :: bool
  pr_rule_ids :: "string list"

definition pr_detail :: "preflight_refusal \<Rightarrow> string" where
  "pr_detail r =
     (let text = join ''; '' (pr_reasons r)
      in if text = [] then execution_failure_value (pr_category r) else text)"

section \<open>Fingerprint\<close>

definition FINGERPRINT_VERSION :: int where
  "FINGERPRINT_VERSION = 1"

definition fingerprint_payload :: "execution_command \<Rightarrow> json" where
  "fingerprint_payload c = JObj
     [(''version'', JInt FINGERPRINT_VERSION),
      (''proposal_id'', JStr (ec_proposal_id c)),
      (''broker'', JStr (broker_value (ec_broker c))),
      (''broker_environment'', JStr (ec_broker_environment c)),
      (''broker_ticker'', JStr (ec_broker_ticker c)),
      (''order_type'', JStr (order_type_value (ec_order_type c))),
      (''side'', JStr (order_side_value (ec_side c))),
      (''quantity'', JStr (fixed_str (ec_quantity c))),
      (''signed_quantity'', JStr (fixed_str (ec_signed_quantity c))),
      (''extended_hours'', JBool (ec_extended_hours c))]"

definition fingerprint_for :: "execution_command \<Rightarrow> string" where
  "fingerprint_for c = json_digest (fingerprint_payload c)"

fun entries :: "json \<Rightarrow> (string \<times> json) list" where
  "entries (JObj kvs) = kvs"
| "entries _ = []"

text \<open>Sorting the keys of an object keeps the value of each of its keys.\<close>

lemma sort_keys_field:
  assumes "sort_keys (JObj kvs) = sort_keys (JObj lvs)" "distinct (map fst kvs)" "distinct (map fst lvs)"
  shows "map_option sort_keys (map_of kvs k) = map_option sort_keys (map_of lvs k)"
proof -
  have m: "map_of (map (\<lambda>(k, v). (k, sort_keys v)) xs) k = map_option sort_keys (map_of xs k)" for xs
    by (induction xs) auto
  have d: "map_of (sort_key fst (map (\<lambda>(k, v). (k, sort_keys v)) xs)) k = map_option sort_keys (map_of xs k)"
    if "distinct (map fst xs)" for xs
  proof -
    let ?ys = "map (\<lambda>(k, v). (k, sort_keys v)) xs"
    have y: "distinct (map fst ?ys)" using that by (simp add: o_def case_prod_beta)
    have "mset (map fst (sort_key fst ?ys)) = mset (map fst ?ys)" by (simp only: mset_map mset_sort)
    then have "distinct (map fst (sort_key fst ?ys))" using y mset_eq_imp_distinct_iff by blast
    then have "map_of (sort_key fst ?ys) = map_of ?ys" using y by (simp add: map_of_inject_set)
    then show ?thesis by (simp add: m)
  qed
  show ?thesis using d[OF assms(2)] d[OF assms(3)] assms(1) by simp
qed

lemma payload_keys: "distinct (map fst (entries (fingerprint_payload c)))"
  by (simp add: fingerprint_payload_def)

lemma payload_entries: "fingerprint_payload c = JObj (entries (fingerprint_payload c))"
  by (simp add: fingerprint_payload_def)

text \<open>
  C24: a fingerprint text identifies the trade. Two commands whose canonical payloads are the same
  text agree on the proposal, the environment, the listing, the order type, the side, the session flag and
  the value of the quantity; the digest covers nothing else.
\<close>

theorem fingerprint_identifies_trade:
  assumes "dumps (sort_keys (fingerprint_payload c)) = dumps (sort_keys (fingerprint_payload d))"
  shows "ec_proposal_id c = ec_proposal_id d \<and> ec_broker_environment c = ec_broker_environment d
    \<and> ec_broker_ticker c = ec_broker_ticker d \<and> ec_order_type c = ec_order_type d
    \<and> ec_side c = ec_side d \<and> ec_extended_hours c = ec_extended_hours d
    \<and> dval (ec_quantity c) = dval (ec_quantity d)"
proof -
  have "sort_keys (fingerprint_payload c) = sort_keys (fingerprint_payload d)"
    using assms by (simp add: dumps_inj)
  then have "sort_keys (JObj (entries (fingerprint_payload c))) = sort_keys (JObj (entries (fingerprint_payload d)))"
    by (simp only: payload_entries[symmetric])
  note F = sort_keys_field[OF this payload_keys payload_keys]
  have eq1: "fixed_str (ec_quantity c) = fixed_str (ec_quantity d)"
    using F[of "''quantity''"] by (simp add: fingerprint_payload_def)
  have eq2: "order_side_value (ec_side c) = order_side_value (ec_side d)"
    using F[of "''side''"] by (simp add: fingerprint_payload_def)
  have eq3: "order_type_value (ec_order_type c) = order_type_value (ec_order_type d)"
    using F[of "''order_type''"] by (simp add: fingerprint_payload_def)
  have eq4: "ec_proposal_id c = ec_proposal_id d"
    using F[of "''proposal_id''"] by (simp add: fingerprint_payload_def)
  have eq5: "ec_broker_environment c = ec_broker_environment d"
    using F[of "''broker_environment''"] by (simp add: fingerprint_payload_def)
  have eq6: "ec_broker_ticker c = ec_broker_ticker d"
    using F[of "''broker_ticker''"] by (simp add: fingerprint_payload_def)
  have eq7: "ec_extended_hours c = ec_extended_hours d"
    using F[of "''extended_hours''"] by (simp add: fingerprint_payload_def)
  have "ec_side c = ec_side d" using eq2 by (cases "ec_side c"; cases "ec_side d") simp_all
  moreover have "ec_order_type c = ec_order_type d"
    using eq3 by (cases "ec_order_type c"; cases "ec_order_type d") simp_all
  ultimately show ?thesis using eq4 eq5 eq6 eq7 fixed_str_dval[OF eq1] by blast
qed

definition sample_command :: "decimal \<Rightarrow> execution_command" where
  "sample_command q =
     \<lparr>ec_proposal_id = ''p'', ec_broker = broker.TRADING212, ec_broker_environment = ''demo'',
      ec_broker_ticker = ''ACME_US_EQ'', ec_side = order_side.BUY, ec_order_type = order_type.MARKET,
      ec_quantity = q, ec_extended_hours = False\<rparr>"

lemma fingerprint_identifies_trade_witness:
  "dval (ec_quantity (sample_command (Dec 100 0))) = dval (ec_quantity (sample_command (Dec 1 2)))"
proof -
  have "fixed_str (Dec 100 0) = fixed_str (Dec 1 2)" by code_simp
  then have "fingerprint_payload (sample_command (Dec 100 0)) = fingerprint_payload (sample_command (Dec 1 2))"
    by (simp add: fingerprint_payload_def sample_command_def ec_signed_quantity_def)
  then show ?thesis
    using fingerprint_identifies_trade[of "sample_command (Dec 100 0)" "sample_command (Dec 1 2)"] by simp
qed

end
