(* ===== verification/Control.thy ===== *)
theory Control
  imports Store
begin

text \<open>
  \<open>backend/stockbrain/control/state.py\<close>: pause and kill switch, kept in \<open>app_settings\<close> and read
  from there on every use. \<open>datetime.fromisoformat\<close> is the parameter \<open>fromiso\<close>.
\<close>

section \<open>The two flags\<close>

record control_state =
  ct_flag :: control_flag
  ct_active :: bool
  ct_changed_at :: "instant option"
  ct_actor :: "string option"
  ct_source :: "string option"
  ct_reason :: "string option"

definition ct_as_dict :: "control_state \<Rightarrow> json" where
  "ct_as_dict s = JObj
     [(''flag'', JStr (control_flag_value (ct_flag s))),
      (''active'', JBool (ct_active s)),
      (''changed_at'', jopt jtime (ct_changed_at s)),
      (''actor'', jopt JStr (ct_actor s)),
      (''source'', jopt JStr (ct_source s)),
      (''reason'', jopt JStr (ct_reason s))]"

record control_snapshot =
  cn_paused :: control_state
  cn_kill_switch :: control_state

definition trading_halted :: "control_snapshot \<Rightarrow> bool" where
  "trading_halted s = (ct_active (cn_paused s) \<or> ct_active (cn_kill_switch s))"

definition because :: "control_state \<Rightarrow> string" where
  "because s = (case ct_reason s of None \<Rightarrow> [] | Some r \<Rightarrow> if r = [] then [] else '' ('' @ r @ '')'')"

definition control_blockers :: "control_snapshot \<Rightarrow> string list" where
  "control_blockers s =
     (if ct_active (cn_kill_switch s)
      then [''the emergency kill switch is engaged'' @ because (cn_kill_switch s)] else [])
     @ (if ct_active (cn_paused s) then [''trading is paused'' @ because (cn_paused s)] else [])"

definition cn_as_dict :: "control_snapshot \<Rightarrow> json" where
  "cn_as_dict s = JObj
     [(''trading_halted'', JBool (trading_halted s)),
      (''paused'', ct_as_dict (cn_paused s)),
      (''kill_switch'', ct_as_dict (cn_kill_switch s)),
      (''blockers'', JList (map JStr (control_blockers s)))]"

section \<open>Reading\<close>

definition text_of :: "json option \<Rightarrow> string option" where
  "text_of v = (case v of Some (JStr s) \<Rightarrow> if s = [] then None else Some s | _ \<Rightarrow> None)"

text \<open>\<open>bool(value)\<close>\<close>

fun truthy :: "json option \<Rightarrow> bool" where
  "truthy (Some (JBool b)) = b"
| "truthy (Some (JInt n)) = (n \<noteq> 0)"
| "truthy (Some (JStr s)) = (s \<noteq> [])"
| "truthy (Some (JList xs)) = (xs \<noteq> [])"
| "truthy (Some (JObj kvs)) = (kvs \<noteq> [])"
| "truthy _ = False"

definition inactive :: "control_flag \<Rightarrow> control_state" where
  "inactive flag = \<lparr>ct_flag = flag, ct_active = False, ct_changed_at = None, ct_actor = None,
     ct_source = None, ct_reason = None\<rparr>"

fun state_from_row :: "(string \<Rightarrow> instant option) \<Rightarrow> control_flag \<Rightarrow> json option \<Rightarrow> control_state" where
  "state_from_row fromiso flag (Some (JObj kvs)) =
     \<lparr>ct_flag = flag, ct_active = truthy (map_of kvs ''active''),
      ct_changed_at = (case map_of kvs ''changed_at'' of Some (JStr t) \<Rightarrow> fromiso t | _ \<Rightarrow> None),
      ct_actor = text_of (map_of kvs ''actor''), ct_source = text_of (map_of kvs ''source''),
      ct_reason = text_of (map_of kvs ''reason'')\<rparr>"
| "state_from_row fromiso flag _ = inactive flag"

definition setting :: "database \<Rightarrow> string \<Rightarrow> json option" where
  "setting db key = map_option as_value (find_row as_key key (db_settings db))"

definition control_snapshot_of :: "(string \<Rightarrow> instant option) \<Rightarrow> database \<Rightarrow> control_snapshot" where
  "control_snapshot_of fromiso db =
     \<lparr>cn_paused = state_from_row fromiso control_flag.TRADING_PAUSED
        (setting db (control_flag_value control_flag.TRADING_PAUSED)),
      cn_kill_switch = state_from_row fromiso control_flag.KILL_SWITCH
        (setting db (control_flag_value control_flag.KILL_SWITCH))\<rparr>"

section \<open>Writing\<close>

fun DESCRIPTIONS :: "control_flag \<Rightarrow> string" where
  "DESCRIPTIONS control_flag.TRADING_PAUSED =
     ''Operator pause. Suspends proposal generation and every authorization path. ''
     @ ''Ingestion, research and broker reconciliation are unaffected.''"
| "DESCRIPTIONS control_flag.KILL_SWITCH =
     ''Emergency kill switch (spec section 20). Suspends proposal generation, every ''
     @ ''authorization path and any future order transmission. Never liquidates a ''
     @ ''position and never cancels a broker order.''"

text \<open>\<open>(reason or "")[:500] or None\<close>\<close>

definition short_reason :: "string option \<Rightarrow> string option" where
  "short_reason reason =
     (let t = take 500 (or_else reason []) in if t = [] then None else Some t)"

definition after_dot :: "string \<Rightarrow> string" where
  "after_dot s = tl (dropWhile (\<lambda>c. c \<noteq> CHR ''.'') s)"

definition upsert_setting :: "app_setting \<Rightarrow> app_setting list \<Rightarrow> app_setting list" where
  "upsert_setting row rows =
     (if find_row as_key (as_key row) rows = None then rows @ [row]
      else upd_rows as_key (as_key row) (\<lambda>_. row) rows)"

definition set_flag ::
  "control_flag \<Rightarrow> bool \<Rightarrow> string \<Rightarrow> string \<Rightarrow> string option \<Rightarrow> instant \<Rightarrow> database \<Rightarrow> database" where
  "set_flag flag active_now actor source reason now db =
     (let payload = JObj
            [(''active'', JBool active_now), (''changed_at'', jtime now), (''actor'', JStr actor),
             (''source'', JStr source), (''reason'', jopt JStr (short_reason reason))];
          human = take 5 source = ''HUMAN''
      in add_audit (if human then actor_type.USER else actor_type.SYSTEM) actor
           (''control.'' @ after_dot (control_flag_value flag) @ ''.''
            @ (if active_now then ''engaged'' else ''released''))
           ''app_setting'' None
           (JObj [(''flag'', JStr (control_flag_value flag)), (''active'', JBool active_now),
                  (''source'', JStr source), (''reason'', jopt JStr (short_reason reason)),
                  (''broker_positions_touched'', JBool False), (''broker_orders_touched'', JBool False)])
           (db\<lparr>db_settings := upsert_setting
                  \<lparr>as_key = control_flag_value flag, as_value = payload,
                   as_description = Some (DESCRIPTIONS flag), as_updated_by = Some actor\<rparr>
                  (db_settings db)\<rparr>))"

definition pause :: "string \<Rightarrow> string \<Rightarrow> string option \<Rightarrow> instant \<Rightarrow> database \<Rightarrow> database" where
  "pause = set_flag control_flag.TRADING_PAUSED True"

definition resume :: "string \<Rightarrow> string \<Rightarrow> string option \<Rightarrow> instant \<Rightarrow> database \<Rightarrow> database" where
  "resume = set_flag control_flag.TRADING_PAUSED False"

definition engage_kill_switch :: "string \<Rightarrow> string \<Rightarrow> string option \<Rightarrow> instant \<Rightarrow> database \<Rightarrow> database" where
  "engage_kill_switch = set_flag control_flag.KILL_SWITCH True"

definition release_kill_switch :: "string \<Rightarrow> string \<Rightarrow> string option \<Rightarrow> instant \<Rightarrow> database \<Rightarrow> database" where
  "release_kill_switch = set_flag control_flag.KILL_SWITCH False"

section \<open>What a change means for the next read\<close>

lemma find_row_upsert:
  "find_row as_key k (upsert_setting row rows)
     = (if k = as_key row then Some row else find_row as_key k rows)"
proof (cases "find_row as_key (as_key row) rows")
  case None
  then show ?thesis by (auto simp: upsert_setting_def find_row_append split: option.split)
next
  case (Some r)
  have "find_row as_key k (upd_rows as_key (as_key row) (\<lambda>_. row) rows)
    = (if k = as_key row then map_option (\<lambda>_. row) (find_row as_key k rows) else find_row as_key k rows)"
    by (induction rows) (auto simp: upd_rows_def)
  then show ?thesis using Some by (simp add: upsert_setting_def)
qed

lemma control_flag_value_inj: "control_flag_value f = control_flag_value g \<longleftrightarrow> f = g"
  by (cases f; cases g) simp_all

lemma setting_set_flag:
  "setting (set_flag flag a actor source reason now db) (control_flag_value g)
     = (if g = flag then Some (JObj
            [(''active'', JBool a), (''changed_at'', jtime now), (''actor'', JStr actor),
             (''source'', JStr source), (''reason'', jopt JStr (short_reason reason))])
        else setting db (control_flag_value g))"
  by (simp add: setting_def set_flag_def add_audit_def Let_def find_row_upsert control_flag_value_inj)

lemma halted_iff_blockers: "trading_halted s \<longleftrightarrow> control_blockers s \<noteq> []"
  by (simp add: trading_halted_def control_blockers_def)

definition flag_state :: "control_flag \<Rightarrow> control_snapshot \<Rightarrow> control_state" where
  "flag_state flag s = (if flag = control_flag.KILL_SWITCH then cn_kill_switch s else cn_paused s)"

text \<open>
  A control change does what it says and nothing else. After any change the next reader sees
  the flag as it was set and the other flag exactly as it was, so a resume never lifts the kill
  switch; trading is halted exactly when some flag is active, which is exactly when there is a
  blocker to show; and no proposal, attempt, order or job is touched.
\<close>

lemma control_change_is_local:
  "ct_active (flag_state flag (control_snapshot_of fromiso (set_flag flag a actor source reason now db))) = a
    \<and> (g = flag \<or> flag_state g (control_snapshot_of fromiso (set_flag flag a actor source reason now db))
          = flag_state g (control_snapshot_of fromiso db))
    \<and> (trading_halted s \<longleftrightarrow> control_blockers s \<noteq> [])
    \<and> db_proposals (set_flag flag a actor source reason now db) = db_proposals db
    \<and> db_attempts (set_flag flag a actor source reason now db) = db_attempts db
    \<and> db_orders (set_flag flag a actor source reason now db) = db_orders db
    \<and> db_jobs (set_flag flag a actor source reason now db) = db_jobs db"
proof (intro conjI)
  show "ct_active (flag_state flag (control_snapshot_of fromiso (set_flag flag a actor source reason now db))) = a"
    by (cases flag) (simp_all add: flag_state_def control_snapshot_of_def setting_set_flag del: control_flag_value.simps)
  show "g = flag \<or> flag_state g (control_snapshot_of fromiso (set_flag flag a actor source reason now db))
      = flag_state g (control_snapshot_of fromiso db)"
    by (cases flag; cases g) (simp_all add: flag_state_def control_snapshot_of_def setting_set_flag del: control_flag_value.simps)
  show "trading_halted s \<longleftrightarrow> control_blockers s \<noteq> []" by (rule halted_iff_blockers)
qed (simp_all add: set_flag_def add_audit_def Let_def)

end
