(* ===== verification/Preflight.thy ===== *)
theory Preflight
  imports Evaluation Exec_Models Control
begin

text \<open>
  The transmission gates of \<open>backend/stockbrain/config.py\<close> and \<open>execution/preflight.py\<close>, the last
  questions asked before an order is sent.
\<close>

section \<open>Transmission gates\<close>

datatype broker_environment =
    DEMO
  | LIVE

fun broker_environment_value :: "broker_environment \<Rightarrow> string" where
  "broker_environment_value broker_environment.DEMO = ''demo''"
| "broker_environment_value broker_environment.LIVE = ''live''"

datatype execution_mode =
    RESEARCH_ONLY
  | MANUAL_APPROVAL

fun execution_mode_value :: "execution_mode \<Rightarrow> string" where
  "execution_mode_value execution_mode.RESEARCH_ONLY = ''research_only''"
| "execution_mode_value execution_mode.MANUAL_APPROVAL = ''manual_approval''"

text \<open>
  Durations are in microseconds; \<open>xs_reconcile_min_age_text\<close> is the \<open>:g\<close> rendering of the settle
  window in seconds that one message shows.
\<close>

record exec_settings =
  xs_api_key :: string
  xs_api_secret :: string
  xs_env :: broker_environment
  xs_live_execution_enabled :: bool
  xs_written_consent_confirmed :: bool
  xs_execution_mode :: execution_mode
  xs_automated_consent_confirmed :: bool
  xs_execution_enabled :: bool
  xs_order_extended_hours :: bool
  xs_max_pending_orders_per_ticker :: int
  xs_pending_order_headroom :: int
  xs_order_timeout :: int
  xs_reconcile_min_age :: int
  xs_reconcile_min_age_text :: string
  xs_reconcile_window :: int
  xs_reconcile_max_attempts :: int

definition broker_credentials_present :: "exec_settings \<Rightarrow> bool" where
  "broker_credentials_present st = (xs_api_key st \<noteq> [] \<and> xs_api_secret st \<noteq> [])"

definition execution_blockers :: "exec_settings \<Rightarrow> string list" where
  "execution_blockers st =
     (if xs_env st \<noteq> broker_environment.LIVE
      then [''T212_ENV is not 'live' (demo environment in use)''] else [])
     @ (if \<not> xs_live_execution_enabled st then [''T212_LIVE_EXECUTION_ENABLED is false''] else [])
     @ (if \<not> xs_written_consent_confirmed st
        then [''T212_WRITTEN_CONSENT_CONFIRMED is false: Trading 212 API Terms require prior ''
              @ ''written consent for a customised live interface''] else [])
     @ (if xs_execution_mode st \<noteq> execution_mode.MANUAL_APPROVAL
        then [''EXECUTION_MODE is '' @ [CHR 0x27] @ execution_mode_value (xs_execution_mode st) @ [CHR 0x27]]
        else [])
     @ (if \<not> broker_credentials_present st
        then [''Trading 212 API credentials are not configured''] else [])"

definition live_execution_permitted :: "exec_settings \<Rightarrow> bool" where
  "live_execution_permitted st = (execution_blockers st = [])"

definition order_transmission_blockers :: "exec_settings \<Rightarrow> string list" where
  "order_transmission_blockers st =
     (if \<not> xs_execution_enabled st then [''T212_EXECUTION_ENABLED is false''] else [])
     @ (if \<not> broker_credentials_present st
        then [''Trading 212 API credentials are not configured''] else [])
     @ (if xs_execution_mode st \<noteq> execution_mode.MANUAL_APPROVAL
        then [''EXECUTION_MODE is '' @ [CHR 0x27] @ execution_mode_value (xs_execution_mode st) @ [CHR 0x27]]
        else [])
     @ (if xs_env st = broker_environment.LIVE then execution_blockers st else [])"

definition order_transmission_permitted :: "exec_settings \<Rightarrow> bool" where
  "order_transmission_permitted st = (order_transmission_blockers st = [])"

section \<open>Refusals\<close>

definition MISSING_INPUT_RULE_IDS :: "string list" where
  "MISSING_INPUT_RULE_IDS = [''quote_available'', ''account_state_available'', ''fx_available'']"

definition STALE_INPUT_RULE_IDS :: "string list" where
  "STALE_INPUT_RULE_IDS = [''quote_freshness'', ''account_state_freshness'', ''fx_freshness'']"

definition is_transient :: "string list \<Rightarrow> bool" where
  "is_transient blocked =
     (if blocked = [] then False
      else if set blocked \<inter> set MISSING_INPUT_RULE_IDS \<noteq> {} then True
      else set blocked \<subseteq> set STALE_INPUT_RULE_IDS)"

record preflight_outcome =
  po_refusal :: "preflight_refusal option"
  po_revalidation :: "revalidation option"
  po_control :: "control_snapshot option"
  po_proposal_version :: "int option"

definition po_permitted :: "preflight_outcome \<Rightarrow> bool" where
  "po_permitted r = (po_refusal r = None)"

definition refused :: "string list \<Rightarrow> bool \<Rightarrow> string list \<Rightarrow> preflight_refusal" where
  "refused reasons invalidates rule_ids =
     \<lparr>pr_category = execution_failure.PREFLIGHT_REFUSED, pr_reasons = reasons,
      pr_invalidates = invalidates, pr_rule_ids = rule_ids\<rparr>"

definition permission_reasons ::
  "exec_settings \<Rightarrow> string \<Rightarrow> trade_proposal \<Rightarrow> control_snapshot \<Rightarrow> string list" where
  "permission_reasons st provider_environment p control =
     (let configured = broker_environment_value (xs_env st);
          here = ''the proposal was created against the '' @ repr_str (tp_broker_environment p)
                 @ '' broker environment and ''
      in (if tp_broker_environment p \<noteq> configured
          then [here @ ''this process is configured for '' @ repr_str configured] else [])
         @ (if tp_broker_environment p \<noteq> provider_environment
            then [here @ ''the execution provider points at '' @ repr_str provider_environment] else [])
         @ order_transmission_blockers st
         @ (if trading_halted control then control_blockers control else [])
         @ (if tp_authorization_source p = Some authorization_source.SYSTEM_AUTOMATIC
               \<and> xs_env st = broker_environment.LIVE \<and> \<not> xs_automated_consent_confirmed st
            then [''a SYSTEM_AUTOMATIC authorization cannot be transmitted to the live ''
                  @ ''environment without T212_AUTOMATED_TRADING_CONSENT_CONFIRMED=true''] else [])
         @ (if tp_execution_policy p = execution_policy.AUTOMATIC
               \<and> tp_authorization_source p \<noteq> Some authorization_source.SYSTEM_AUTOMATIC
               \<and> tp_authorization_source p \<noteq> None
               \<and> xs_env st = broker_environment.LIVE \<and> \<not> xs_automated_consent_confirmed st
            then [''an AUTOMATIC-policy proposal cannot be transmitted live without ''
                  @ ''T212_AUTOMATED_TRADING_CONSENT_CONFIRMED=true''] else []))"

definition state_reasons :: "trade_proposal \<Rightarrow> instant \<Rightarrow> bool \<Rightarrow> string list" where
  "state_reasons p now sent_attempt_exists =
     (if tp_status p \<notin> EXECUTABLE_STATUSES
      then [''the proposal is '' @ proposal_status_value (tp_status p)
            @ '' and only APPROVED may be executed''] else [])
     @ (if tp_authorization_source p = None \<or> tp_approved_at p = None
        then [''the proposal carries no authorization provenance''] else [])
     @ (if tp_expires_at p \<le> now then [''the proposal expired before it could be transmitted''] else [])
     @ (if sent_attempt_exists
        then [''an execution attempt for this proposal has already been recorded as sent; ''
              @ ''reconciliation decides what happened to it''] else [])
     @ (if tp_proposed_quantity p \<le> 0 then [''the proposal carries no positive quantity''] else [])"

definition position_reason :: "trade_proposal \<Rightarrow> revalidation \<Rightarrow> string option" where
  "position_reason p rv =
     (if tp_side p \<noteq> order_side.SELL then None
      else case rv_account rv of
        None \<Rightarrow> None
      | Some account \<Rightarrow>
          let available = (case acct_position account (tp_broker_ticker p) of
                None \<Rightarrow> ZERO | Some position \<Rightarrow> pos_quantity_available position)
          in if available < tp_proposed_quantity p
             then Some (''the position backing this sale has '' @ dec_str available
               @ '' share(s) available to trade, below the proposed '' @ dec_str (tp_proposed_quantity p))
             else None)"

section \<open>The preflight\<close>

text \<open>
  \<open>revalidated\<close> is the answer of \<open>ProposalService.revalidate\<close>: \<open>None\<close> when the proposal is gone.
\<close>

definition preflight_run ::
  "exec_settings \<Rightarrow> string \<Rightarrow> control_snapshot \<Rightarrow> revalidation option res \<Rightarrow> trade_proposal \<Rightarrow> instant \<Rightarrow> bool
     \<Rightarrow> preflight_outcome res" where
  "preflight_run st provider_environment control revalidated p now sent_attempt_exists =
     (let blocking = permission_reasons st provider_environment p control
                     @ state_reasons p now sent_attempt_exists
      in if blocking \<noteq> []
         then Inr \<lparr>po_refusal = Some (refused blocking False []), po_revalidation = None,
                po_control = Some control, po_proposal_version = None\<rparr>
         else bindE revalidated (\<lambda>answer. Inr (case answer of
           None \<Rightarrow>
             \<lparr>po_refusal = Some (refused [''the proposal no longer exists''] False []),
              po_revalidation = None, po_control = Some control, po_proposal_version = None\<rparr>
         | Some rv \<Rightarrow>
             let risk_reasons = rv_reasons rv @ opt_list (position_reason p rv)
             in if risk_reasons \<noteq> []
                then \<lparr>po_refusal = Some (refused risk_reasons (\<not> is_transient (rv_rule_ids rv)) (rv_rule_ids rv)),
                       po_revalidation = Some rv, po_control = Some control, po_proposal_version = None\<rparr>
                else \<lparr>po_refusal = None, po_revalidation = Some rv, po_control = Some control,
                       po_proposal_version = Some (tp_version p)\<rparr>)))"

section \<open>When an order may leave\<close>

definition gates_open :: "exec_settings \<Rightarrow> bool" where
  "gates_open st =
     (xs_execution_enabled st \<and> broker_credentials_present st
      \<and> xs_execution_mode st = execution_mode.MANUAL_APPROVAL
      \<and> (xs_env st = broker_environment.LIVE \<longrightarrow>
           xs_live_execution_enabled st \<and> xs_written_consent_confirmed st))"

lemma transmission_gates: "order_transmission_blockers st = [] \<longleftrightarrow> gates_open st"
  by (auto simp: order_transmission_blockers_def execution_blockers_def gates_open_def)

definition consent_given :: "exec_settings \<Rightarrow> trade_proposal \<Rightarrow> bool" where
  "consent_given st p =
     (xs_env st = broker_environment.LIVE
      \<and> (tp_authorization_source p = Some authorization_source.SYSTEM_AUTOMATIC
         \<or> tp_execution_policy p = execution_policy.AUTOMATIC \<and> tp_authorization_source p \<noteq> None)
      \<longrightarrow> xs_automated_consent_confirmed st)"

lemma permission_reasons_Nil:
  "permission_reasons st env p control = [] \<longleftrightarrow>
     tp_broker_environment p = broker_environment_value (xs_env st) \<and> tp_broker_environment p = env
     \<and> gates_open st \<and> \<not> trading_halted control \<and> consent_given st p"
  by (auto simp: permission_reasons_def Let_def transmission_gates consent_given_def halted_iff_blockers)

definition sendable :: "trade_proposal \<Rightarrow> instant \<Rightarrow> bool" where
  "sendable p now =
     (tp_status p = proposal_status.APPROVED \<and> tp_authorization_source p \<noteq> None
      \<and> tp_approved_at p \<noteq> None \<and> now < tp_expires_at p \<and> 0 < dval (tp_proposed_quantity p))"

lemma state_reasons_Nil: "state_reasons p now sent = [] \<longleftrightarrow> sendable p now \<and> \<not> sent"
  by (auto simp: state_reasons_def sendable_def EXECUTABLE_STATUSES_def dec_le_iff)

definition shares_available :: "trade_proposal \<Rightarrow> revalidation \<Rightarrow> bool" where
  "shares_available p rv =
     (tp_side p = order_side.SELL \<longrightarrow>
       (case rv_account rv of
          None \<Rightarrow> True
        | Some account \<Rightarrow> dval (tp_proposed_quantity p)
            \<le> (case acct_position account (tp_broker_ticker p) of
                 None \<Rightarrow> 0 | Some position \<Rightarrow> dval (pos_quantity_available position))))"

lemma position_reason_None: "position_reason p rv = None \<longleftrightarrow> shares_available p rv"
  by (auto simp: position_reason_def shares_available_def Let_def dec_less_iff not_less split: option.split)

lemma risk_reasons_Nil:
  "rv_reasons rv @ opt_list (position_reason p rv) = [] \<longleftrightarrow> rv_allowed rv \<and> shares_available p rv"
  by (cases "position_reason p rv")
    (auto simp: rv_reasons_def rv_allowed_def position_reason_None[symmetric])

lemma preflight_cases:
  assumes "preflight_run st env control revalidated p now sent = Inr out"
  obtains "permission_reasons st env p control @ state_reasons p now sent \<noteq> []"
      "po_refusal out = Some (refused (permission_reasons st env p control @ state_reasons p now sent) False [])"
  | "permission_reasons st env p control @ state_reasons p now sent = []" "revalidated = Inr None"
      "po_refusal out = Some (refused [''the proposal no longer exists''] False [])"
  | rv where "permission_reasons st env p control @ state_reasons p now sent = []" "revalidated = Inr (Some rv)"
      "\<not> (rv_allowed rv \<and> shares_available p rv)"
      "po_refusal out = Some (refused (rv_reasons rv @ opt_list (position_reason p rv))
         (\<not> is_transient (rv_rule_ids rv)) (rv_rule_ids rv))"
  | rv where "permission_reasons st env p control @ state_reasons p now sent = []" "revalidated = Inr (Some rv)"
      "rv_allowed rv \<and> shares_available p rv"
      "out = \<lparr>po_refusal = None, po_revalidation = Some rv, po_control = Some control,
         po_proposal_version = Some (tp_version p)\<rparr>"
proof (cases "permission_reasons st env p control @ state_reasons p now sent = []")
  case False
  then show thesis using assms by (intro that(1)) (auto simp: preflight_run_def Let_def)
next
  case True
  obtain answer where a: "revalidated = Inr answer" using assms True by (auto simp: preflight_run_def bindE_eq_Inr)
  show thesis
  proof (cases answer)
    case None
    then show thesis using assms True a by (intro that(2)) (auto simp: preflight_run_def Let_def)
  next
    case (Some rv)
    show thesis
    proof (cases "rv_allowed rv \<and> shares_available p rv")
      case ok: True
      then show thesis using assms True a Some that(4)[OF True, of rv]
        by (simp add: preflight_run_def Let_def risk_reasons_Nil del: append_is_Nil_conv)
    next
      case bad: False
      then show thesis using assms True a Some that(3)[OF True, of rv]
        by (auto simp: preflight_run_def Let_def risk_reasons_Nil simp del: append_is_Nil_conv)
    qed
  qed
qed

lemma preflight_total: "\<exists>out. preflight_run st env control (Inr answer) p now sent = Inr out"
  unfolding preflight_run_def Let_def bindE_Inr by (simp split: if_split)

lemma preflight_refuses:
  "permission_reasons st env p control @ state_reasons p now sent \<noteq> [] \<Longrightarrow>
     \<exists>out r. preflight_run st env control revalidated p now sent = Inr out \<and> po_refusal out = Some r"
  unfolding preflight_run_def Let_def by (simp only: if_True simp_thms) simp

text \<open>
  C27: what an order needs at the last moment. The preflight permits a transmission exactly when the
  proposal's environment is the configured one and the provider's, every transmission gate of that environment is
  open, nothing is paused, automated orders have the consent live trading asks for, the proposal is
  approved with its provenance, unexpired, not yet sent and for a positive quantity, and a fresh evaluation has no
  blocking rule and leaves enough shares for a sale.
\<close>

theorem preflight_permits:
  assumes "preflight_run st env control revalidated p now sent = Inr out"
  shows "po_permitted out \<longleftrightarrow>
    tp_broker_environment p = broker_environment_value (xs_env st) \<and> tp_broker_environment p = env
    \<and> gates_open st \<and> \<not> trading_halted control \<and> consent_given st p \<and> sendable p now \<and> \<not> sent
    \<and> (\<exists>rv. revalidated = Inr (Some rv) \<and> rv_allowed rv \<and> shares_available p rv)"
  using assms
  by (cases rule: preflight_cases)
    (auto simp: po_permitted_def permission_reasons_Nil state_reasons_Nil)

text \<open>
  C28: an outage defers, only the trade itself retires. A refusal invalidates the proposal exactly when
  permission and state were in order, a fresh evaluation refused, and that refusal neither names a
  missing input nor consists of stale inputs alone; a kill switch, a pause or a closed gate never does.
\<close>

theorem refusal_invalidates:
  assumes "preflight_run st env control revalidated p now sent = Inr out" "po_refusal out = Some r"
  shows "pr_invalidates r \<longleftrightarrow>
    (\<exists>rv. revalidated = Inr (Some rv) \<and> po_revalidation out = Some rv
       \<and> gates_open st \<and> \<not> trading_halted control \<and> sendable p now
       \<and> set (rv_rule_ids rv) \<inter> set MISSING_INPUT_RULE_IDS = {}
       \<and> (rv_rule_ids rv = [] \<or> \<not> set (rv_rule_ids rv) \<subseteq> set STALE_INPUT_RULE_IDS))"
  using assms(1)
proof (cases rule: preflight_cases)
  case 1
  then have "po_revalidation out = None" using assms(1) by (auto simp: preflight_run_def Let_def)
  then show ?thesis using 1 assms(2) by (auto simp: refused_def)
next
  case (3 rv)
  then have "po_revalidation out = Some rv"
    using assms(1) by (auto simp: preflight_run_def Let_def risk_reasons_Nil simp del: append_is_Nil_conv)
  then show ?thesis using 3 assms(2)
    by (auto simp: refused_def is_transient_def permission_reasons_Nil state_reasons_Nil)
qed (use assms(2) in \<open>auto simp: refused_def\<close>)

section \<open>An example\<close>

definition demo_settings :: exec_settings where
  "demo_settings =
     \<lparr>xs_api_key = ''k'', xs_api_secret = ''s'', xs_env = broker_environment.DEMO,
      xs_live_execution_enabled = False, xs_written_consent_confirmed = False,
      xs_execution_mode = execution_mode.MANUAL_APPROVAL, xs_automated_consent_confirmed = False,
      xs_execution_enabled = True, xs_order_extended_hours = False, xs_max_pending_orders_per_ticker = 50,
      xs_pending_order_headroom = 5, xs_order_timeout = 30000000, xs_reconcile_min_age = 60000000,
      xs_reconcile_min_age_text = ''60'', xs_reconcile_window = 900000000, xs_reconcile_max_attempts = 20\<rparr>"

definition running :: control_snapshot where
  "running = \<lparr>cn_paused = inactive control_flag.TRADING_PAUSED, cn_kill_switch = inactive control_flag.KILL_SWITCH\<rparr>"

lemma preflight_permits_witness:
  "\<exists>rv out. preflight_run demo_settings ''demo'' running (Inr (Some rv)) acme_proposal 2000000 False = Inr out
     \<and> po_permitted out"
proof -
  obtain rv where rv: "evaluate_proposal acme_evaluator empty_database acme_context acme_evaluation_facts 2000000 = Inr rv"
      "rv_allowed rv"
    by (rule acme_still_good)
  obtain out where out: "preflight_run demo_settings ''demo'' running (Inr (Some rv)) acme_proposal 2000000 False = Inr out"
    using preflight_total by blast
  have "gates_open demo_settings" "\<not> trading_halted running" "consent_given demo_settings acme_proposal"
      "sendable acme_proposal 2000000" "shares_available acme_proposal rv"
      "tp_broker_environment acme_proposal = ''demo''" "broker_environment_value (xs_env demo_settings) = ''demo''"
    by (simp_all add: gates_open_def demo_settings_def broker_credentials_present_def trading_halted_def running_def
        inactive_def consent_given_def sendable_def acme_proposal_def dval_Dec shares_available_def)
  then show ?thesis using preflight_permits[OF out] rv(2) out by auto
qed

lemma refusal_invalidates_witness:
  "\<exists>r out. preflight_run (demo_settings\<lparr>xs_execution_enabled := False\<rparr>) ''demo'' running (Inl AssertionError)
       acme_proposal 2000000 False = Inr out
     \<and> po_refusal out = Some r \<and> \<not> pr_invalidates r"
proof -
  let ?st = "demo_settings\<lparr>xs_execution_enabled := False\<rparr>"
  have "\<not> gates_open ?st" by (simp add: gates_open_def)
  then obtain out r where out: "preflight_run ?st ''demo'' running (Inl AssertionError) acme_proposal 2000000 False = Inr out"
      "po_refusal out = Some r"
    using preflight_refuses[of ?st "''demo''" acme_proposal running 2000000 False "Inl AssertionError"]
    by (auto simp: permission_reasons_Nil)
  then show ?thesis using refusal_invalidates[OF out] \<open>\<not> gates_open ?st\<close> by blast
qed

end
