(* ===== verification/Queue.thy ===== *)
theory Queue
  imports Store "HOL-Library.Product_Lexorder"
begin

text \<open>
  \<open>backend/stockbrain/jobs/queue.py\<close>: the durable work queue. Claiming with \<open>SKIP LOCKED\<close> and the bulk updates are
  atomic on the rows they touch, so each is one function on the database. \<open>fail\<close> is not: it reads the job
  without a lock and writes it later, and what others commit in between is the parameter \<open>between\<close>.
  The jitter of the backoff is \<open>random.uniform\<close>, a parameter.
\<close>

section \<open>Operations\<close>

definition enqueue ::
  "string \<Rightarrow> json \<Rightarrow> int \<Rightarrow> instant option \<Rightarrow> int \<Rightarrow> string option \<Rightarrow> database \<Rightarrow> uuid option \<times> database"
where
  "enqueue name payload priority run_after max_attempts dedupe_key db =
     (let (jid, db1) = uuid4 db;
          jobs = db_jobs db1
            @ [\<lparr>jb_id = jid, jb_type = name, jb_payload = payload, jb_status = job_status.PENDING,
                jb_priority = priority, jb_run_after = or_else run_after (db_clock db1),
                jb_attempts = 0, jb_max_attempts = max_attempts, jb_locked_by = None,
                jb_locked_at = None, jb_last_error = None, jb_dedupe_key = dedupe_key,
                jb_created_at = db_clock db1, jb_updated_at = db_clock db1\<rparr>]
      in if jobs_table_ok jobs then (Some jid, db1\<lparr>db_jobs := jobs\<rparr>) else (None, db1))"

definition set_job :: "uuid \<Rightarrow> (job \<Rightarrow> job) \<Rightarrow> database \<Rightarrow> database" where
  "set_job jid f db = db\<lparr>db_jobs := upd_rows jb_id jid f (db_jobs db)\<rparr>"

definition runnable :: "instant \<Rightarrow> job \<Rightarrow> bool" where
  "runnable now j = (jb_status j = job_status.PENDING \<and> jb_run_after j \<le> now)"

definition claim_job :: "string \<Rightarrow> instant \<Rightarrow> database \<Rightarrow> job option \<times> database" where
  "claim_job worker_id now db =
     (case sort_key (\<lambda>j. (jb_priority j, jb_created_at j)) (filter (runnable (db_clock db)) (db_jobs db)) of
        [] \<Rightarrow> (None, db)
      | j # js \<Rightarrow>
          let j' = j\<lparr>jb_status := job_status.RUNNING, jb_locked_by := Some worker_id,
                jb_locked_at := Some now, jb_attempts := jb_attempts j + 1\<rparr>
          in (Some j', set_job (jb_id j) (\<lambda>_. j') db))"

definition complete_job :: "uuid \<Rightarrow> instant \<Rightarrow> database \<Rightarrow> database" where
  "complete_job jid now =
     set_job jid (\<lambda>j. j\<lparr>jb_status := job_status.SUCCEEDED, jb_locked_by := None, jb_locked_at := None,
       jb_last_error := None, jb_updated_at := now\<rparr>)"

text \<open>
  The delay in seconds before another try, and the row after a failure; the result says whether
  the job was rescheduled.
\<close>

definition backoff :: "rat \<Rightarrow> rat \<Rightarrow> int \<Rightarrow> rat" where
  "backoff retry_base retry_max attempts = min retry_max (retry_base * 2 ^ nat (attempts - 1))"

definition failed_job :: "string \<Rightarrow> (rat \<Rightarrow> rat \<Rightarrow> rat) \<Rightarrow> rat \<Rightarrow> rat \<Rightarrow> instant \<Rightarrow> instant \<Rightarrow> job \<Rightarrow> job" where
  "failed_job error uniform retry_base retry_max clock now j =
     (let j1 = j\<lparr>jb_last_error := Some (take 2000 error), jb_locked_by := None,
            jb_locked_at := None, jb_updated_at := now\<rparr>
      in if jb_max_attempts j \<le> jb_attempts j then j1\<lparr>jb_status := job_status.FAILED\<rparr>
         else let delay = backoff retry_base retry_max (jb_attempts j)
              in j1\<lparr>jb_status := job_status.PENDING,
                    jb_run_after := clock + round (uniform (delay / 2) delay * of_int usec)\<rparr>)"

text \<open>
  The flush of a modified object: only the columns whose value differs from the loaded one are written, on whatever
  the row holds by then. \<open>run_after\<close> is assigned an expression of the database clock and always written.
\<close>

definition flushed :: "job \<Rightarrow> job \<Rightarrow> job \<Rightarrow> job" where
  "flushed loaded modified row =
     row\<lparr>jb_last_error := (if jb_last_error modified = jb_last_error loaded then jb_last_error row else jb_last_error modified),
         jb_locked_by := (if jb_locked_by modified = jb_locked_by loaded then jb_locked_by row else jb_locked_by modified),
         jb_locked_at := (if jb_locked_at modified = jb_locked_at loaded then jb_locked_at row else jb_locked_at modified),
         jb_updated_at := (if jb_updated_at modified = jb_updated_at loaded then jb_updated_at row else jb_updated_at modified),
         jb_status := (if jb_status modified = jb_status loaded then jb_status row else jb_status modified),
         jb_run_after := (if jb_attempts loaded < jb_max_attempts loaded then jb_run_after modified else jb_run_after row)\<rparr>"

definition fail_job ::
  "uuid \<Rightarrow> string \<Rightarrow> (rat \<Rightarrow> rat \<Rightarrow> rat) \<Rightarrow> rat \<Rightarrow> rat \<Rightarrow> instant \<Rightarrow> (database \<Rightarrow> database) \<Rightarrow> database
     \<Rightarrow> bool \<times> database" where
  "fail_job jid error uniform retry_base retry_max now between db =
     (case find_row jb_id jid (db_jobs db) of
        None \<Rightarrow> (False, db)
      | Some j \<Rightarrow>
          (jb_attempts j < jb_max_attempts j,
           set_job jid (flushed j (failed_job error uniform retry_base retry_max (db_clock db) now j)) (between db)))"

definition stale :: "instant \<Rightarrow> job \<Rightarrow> bool" where
  "stale cutoff j =
     (jb_status j = job_status.RUNNING
      \<and> (case jb_locked_at j of None \<Rightarrow> False | Some t \<Rightarrow> t < cutoff))"

definition reclaimed_job :: "instant \<Rightarrow> instant \<Rightarrow> instant \<Rightarrow> job \<Rightarrow> job" where
  "reclaimed_job cutoff clock now j =
     (if \<not> stale cutoff j then j
      else if jb_attempts j < jb_max_attempts j
      then j\<lparr>jb_status := job_status.PENDING, jb_locked_by := None, jb_locked_at := None,
             jb_last_error := Some ''reclaimed after worker timeout'', jb_run_after := clock,
             jb_updated_at := now\<rparr>
      else j\<lparr>jb_status := job_status.FAILED, jb_locked_by := None, jb_locked_at := None,
             jb_last_error := Some ''worker timed out with no attempts remaining'',
             jb_updated_at := now\<rparr>)"

definition reclaim_abandoned :: "int \<Rightarrow> instant \<Rightarrow> database \<Rightarrow> nat \<times> database" where
  "reclaim_abandoned timeout_seconds now db =
     (let cutoff = now - timeout_seconds * usec
      in (length (filter (\<lambda>j. stale cutoff j \<and> jb_attempts j < jb_max_attempts j) (db_jobs db)),
          db\<lparr>db_jobs := map (reclaimed_job cutoff (db_clock db) now) (db_jobs db)\<rparr>))"

definition pending_count :: "database \<Rightarrow> nat" where
  "pending_count db = length (filter (\<lambda>j. jb_status j = job_status.PENDING) (db_jobs db))"

section \<open>Runs of the queue\<close>

text \<open>
  What the workers and the scheduler do to the queue over time, in any order; \<open>run_queue\<close> returns
  the identifiers of the jobs handed out, one per claim. Here no operation runs between the read and the write of
  a failure.
\<close>

datatype queue_op =
    Enqueue string json int "instant option" int "string option"
  | Claim string instant
  | Complete uuid instant
  | Fail uuid string rat rat instant
  | Reclaim int instant

fun queue_step :: "(rat \<Rightarrow> rat \<Rightarrow> rat) \<Rightarrow> queue_op \<Rightarrow> database \<Rightarrow> uuid list \<times> database" where
  "queue_step u (Enqueue name payload priority run_after max_attempts key) db =
     ([], snd (enqueue name payload priority run_after max_attempts key db))"
| "queue_step u (Claim worker now) db =
     (let (j, db') = claim_job worker now db in (case j of None \<Rightarrow> [] | Some j \<Rightarrow> [jb_id j], db'))"
| "queue_step u (Complete jid now) db = ([], complete_job jid now db)"
| "queue_step u (Fail jid error base cap now) db = ([], snd (fail_job jid error u base cap now (\<lambda>d. d) db))"
| "queue_step u (Reclaim timeout now) db = ([], snd (reclaim_abandoned timeout now db))"

fun run_queue :: "(rat \<Rightarrow> rat \<Rightarrow> rat) \<Rightarrow> queue_op list \<Rightarrow> database \<Rightarrow> uuid list \<times> database" where
  "run_queue u [] db = ([], db)"
| "run_queue u (p # ps) db =
     (let (ids, db1) = queue_step u p db; (ids', db2) = run_queue u ps db1 in (ids @ ids', db2))"

definition within_budget :: "job \<Rightarrow> bool" where
  "within_budget j =
     (0 \<le> jb_attempts j
      \<and> (jb_status j = job_status.PENDING \<longrightarrow> jb_attempts j < jb_max_attempts j)
      \<and> (jb_attempts j \<le> max 0 (jb_max_attempts j)))"

definition queue_ok :: "database \<Rightarrow> bool" where
  "queue_ok db = (distinct (map jb_id (db_jobs db)) \<and> list_all within_budget (db_jobs db))"

definition tries :: "database \<Rightarrow> uuid \<Rightarrow> int" where
  "tries db jid = (case find_row jb_id jid (db_jobs db) of None \<Rightarrow> 0 | Some j \<Rightarrow> jb_attempts j)"

fun bounded_op :: "queue_op \<Rightarrow> bool" where
  "bounded_op (Enqueue name payload priority run_after max_attempts key) = (1 \<le> max_attempts)"
| "bounded_op _ = True"

lemma claim_job_cases:
  obtains "claim_job worker now db = (None, db)"
  | j j' where "j \<in> set (db_jobs db)" "runnable (db_clock db) j"
      "j' = j\<lparr>jb_status := job_status.RUNNING, jb_locked_by := Some worker,
         jb_locked_at := Some now, jb_attempts := jb_attempts j + 1\<rparr>"
      "claim_job worker now db = (Some j', set_job (jb_id j) (\<lambda>_. j') db)"
proof (cases "sort_key (\<lambda>j. (jb_priority j, jb_created_at j)) (filter (runnable (db_clock db)) (db_jobs db))")
  case (Cons j js)
  then have "j \<in> set (filter (runnable (db_clock db)) (db_jobs db))"
    by (metis list.set_intros(1) set_sort)
  then show ?thesis using Cons by (intro that(2)[OF _ _ HOL.refl]) (auto simp: claim_job_def Let_def)
qed (use that(1) in \<open>simp add: claim_job_def\<close>)

text \<open>An update of one job that keeps its identifier and its budget keeps the queue.\<close>

lemma set_job_queue:
  assumes "queue_ok db" and "\<And>j. jb_id (f j) = jb_id j"
    and "\<And>j. j \<in> set (db_jobs db) \<Longrightarrow> jb_id j = jid \<Longrightarrow> within_budget j \<Longrightarrow> within_budget (f j)"
  shows "queue_ok (set_job jid f db)"
  using assms
  by (force simp: queue_ok_def set_job_def list_all_iff dest!: set_upd_rows split: if_splits)

lemma tries_set_job:
  assumes "\<And>j. jb_id (f j) = jb_id j" "\<And>j. jb_attempts (f j) = jb_attempts j"
  shows "tries (set_job jid f db) k = tries db k"
  using assms by (simp add: tries_def set_job_def find_row_upd_rows split: option.split)

lemma set_job_const:
  assumes "queue_ok db" "j \<in> set (db_jobs db)"
  shows "set_job (jb_id j) (\<lambda>_. j') db = set_job (jb_id j) (\<lambda>k. if k = j then j' else k) db"
proof -
  have "k = j" if "k \<in> set (db_jobs db)" "jb_id k = jb_id j" for k
    using assms that by (auto simp: queue_ok_def distinct_map dest: inj_onD)
  then show ?thesis by (auto simp: set_job_def upd_rows_def)
qed

lemma queue_step_claim:
  assumes ok: "queue_ok db"
  shows "queue_ok (snd (queue_step u (Claim worker now) db))
    \<and> tries (snd (queue_step u (Claim worker now) db)) k
      = tries db k + int (count_list (fst (queue_step u (Claim worker now) db)) k)"
proof (cases rule: claim_job_cases[of worker now db])
  case (2 j j')
  let ?f = "\<lambda>k. if k = j then j' else k"
  have b: "within_budget j'" and a: "jb_attempts j' = jb_attempts j + 1"
    using 2 ok by (auto simp: queue_ok_def within_budget_def list_all_iff runnable_def)
  have f: "jb_id (?f i) = jb_id i" for i using 2(3) by simp
  then have f': "jb_id i = i' \<Longrightarrow> jb_id (?f i) = i'" for i i' by simp
  note eq = set_job_const[OF ok 2(1), of j']
  have "queue_ok (set_job (jb_id j) ?f db)" by (rule set_job_queue[OF ok f]) (simp add: b)
  moreover have "tries (set_job (jb_id j) ?f db) k = tries db k + (if jb_id j = k then 1 else 0)"
    using find_row_unique[of jb_id "db_jobs db" j] ok 2(1) a
    by (auto simp: tries_def set_job_def find_row_upd_rows[where f = ?f and key = jb_id, OF f'] queue_ok_def split: option.split
        dest: find_row_Some)
  moreover have "queue_step u (Claim worker now) db = ([jb_id j], set_job (jb_id j) ?f db)"
    using 2(4) f[of j] by (simp add: eq)
  ultimately show ?thesis by simp
qed (simp add: ok)

lemma enqueue_cases:
  "enqueue name payload priority run_after max_attempts key db = (r, db') \<Longrightarrow>
     (\<exists>n. db' = db\<lparr>db_drawn := n\<rparr>) \<or> (\<exists>j n. db' = db\<lparr>db_drawn := n, db_jobs := db_jobs db @ [j]\<rparr>
       \<and> r = Some (jb_id j) \<and> jobs_table_ok (db_jobs db @ [j]) \<and> jb_status j = job_status.PENDING
       \<and> jb_attempts j = 0 \<and> jb_max_attempts j = max_attempts)"
  by (auto simp: enqueue_def uuid4_def Let_def split: if_splits)

lemma enqueue_frame [frame_simps]:
  "db_proposals (snd (enqueue name payload priority run_after max_attempts key db)) = db_proposals db"
  "db_attempts (snd (enqueue name payload priority run_after max_attempts key db)) = db_attempts db"
  "db_orders (snd (enqueue name payload priority run_after max_attempts key db)) = db_orders db"
  "db_actions (snd (enqueue name payload priority run_after max_attempts key db)) = db_actions db"
  "db_instruments (snd (enqueue name payload priority run_after max_attempts key db)) = db_instruments db"
  "db_settings (snd (enqueue name payload priority run_after max_attempts key db)) = db_settings db"
  by (simp_all add: enqueue_def uuid4_def Let_def)

lemma enqueue_jobs_ok:
  "jobs_table_ok (db_jobs db) \<Longrightarrow> jobs_table_ok (db_jobs (snd (enqueue name payload priority run_after max_attempts key db)))"
  by (simp add: enqueue_def uuid4_def Let_def)

text \<open>A failure that nothing overtakes writes the whole new row.\<close>

lemma flushed_same: "flushed j (failed_job error u base cap clock now j) j = failed_job error u base cap clock now j"
  by (simp add: flushed_def failed_job_def Let_def)

lemma set_job_flushed:
  assumes "distinct (map jb_id (db_jobs db))" "find_row jb_id jid (db_jobs db) = Some j"
  shows "set_job jid (flushed j (failed_job error u base cap clock now j)) db
    = set_job jid (failed_job error u base cap clock now) db"
proof -
  have "r = j" if "r \<in> set (db_jobs db)" "jb_id r = jid" for r
    using find_row_unique[OF assms(1) that(1)] that(2) assms(2) by simp
  then show ?thesis by (auto simp: set_job_def upd_rows_def flushed_same)
qed

lemma queue_step_ok:
  assumes ok: "queue_ok db" and b: "bounded_op p"
  shows "queue_ok (snd (queue_step u p db))
    \<and> tries (snd (queue_step u p db)) k = tries db k + int (count_list (fst (queue_step u p db)) k)"
proof (cases p)
  case (Enqueue name payload priority run_after max_attempts key)
  obtain r db' where e: "enqueue name payload priority run_after max_attempts key db = (r, db')"
    by fastforce
  from enqueue_cases[OF e] show ?thesis
  proof (elim disjE exE conjE)
    fix j n assume j: "db' = db\<lparr>db_drawn := n, db_jobs := db_jobs db @ [j]\<rparr>"
      "jobs_table_ok (db_jobs db @ [j])" "jb_status j = job_status.PENDING" "jb_attempts j = 0"
      "jb_max_attempts j = max_attempts"
    then have "queue_ok db'" using ok b Enqueue
      by (auto simp: queue_ok_def jobs_table_ok_def within_budget_def)
    moreover have "tries db' k = tries db k"
      using j by (auto simp: tries_def find_row_append split: option.split)
    ultimately show ?thesis using Enqueue e by simp
  qed (use ok Enqueue e in \<open>simp add: queue_ok_def tries_def\<close>)
next
  case (Claim worker now)
  then show ?thesis using queue_step_claim[OF ok] by simp
next
  case (Complete jid now)
  have "queue_ok (complete_job jid now db)" "tries (complete_job jid now db) k = tries db k"
    unfolding complete_job_def
    by (intro set_job_queue[OF ok]) (auto intro!: tries_set_job simp: within_budget_def)
  then show ?thesis using Complete by simp
next
  case (Fail jid error base cap now)
  let ?f = "failed_job error u base cap (db_clock db) now"
  have f: "jb_id (?f j) = jb_id j" "jb_attempts (?f j) = jb_attempts j" for j
    by (simp_all add: failed_job_def Let_def)
  have "queue_ok (set_job jid ?f db)"
    by (rule set_job_queue[OF ok f(1)]) (simp add: within_budget_def failed_job_def Let_def)
  moreover have "tries (set_job jid ?f db) k = tries db k" by (rule tries_set_job[OF f])
  moreover have "set_job jid (flushed j (?f j)) db = set_job jid ?f db" if "find_row jb_id jid (db_jobs db) = Some j" for j
    by (rule set_job_flushed[OF _ that]) (use ok in \<open>simp add: queue_ok_def jobs_table_ok_def\<close>)
  ultimately show ?thesis using Fail ok by (simp add: fail_job_def split: option.split)
next
  case (Reclaim timeout now)
  let ?f = "reclaimed_job (now - timeout * usec) (db_clock db) now"
  have f: "jb_id (?f j) = jb_id j" "jb_attempts (?f j) = jb_attempts j" "within_budget j \<Longrightarrow> within_budget (?f j)" for j
    by (auto simp: reclaimed_job_def stale_def within_budget_def)
  have "find_row jb_id k (map ?f js) = map_option ?f (find_row jb_id k js)" for js
    by (induction js) (simp_all add: f)
  then show ?thesis using Reclaim ok
    by (auto simp: reclaim_abandoned_def Let_def queue_ok_def tries_def f list_all_iff o_def split: option.split)
qed

lemma run_queue_ok:
  "queue_ok db \<Longrightarrow> list_all bounded_op ps \<Longrightarrow> run_queue u ps db = (ids, db') \<Longrightarrow>
     queue_ok db' \<and> tries db' k = tries db k + int (count_list ids k)"
proof (induction ps arbitrary: db ids)
  case (Cons p ps)
  obtain i1 db1 where 1: "queue_step u p db = (i1, db1)" by fastforce
  obtain i2 where 2: "run_queue u ps db1 = (i2, db')" "ids = i1 @ i2"
    using Cons.prems(3) 1 by (auto split: prod.splits)
  have "queue_ok db1" "tries db1 k = tries db k + int (count_list i1 k)"
    using queue_step_ok[of db p u k] Cons.prems 1 by auto
  then show ?case using Cons.IH[of db1 i2] Cons.prems(2) 2 by simp
qed simp

text \<open>
  C23: a job is handed out at most as often as its budget allows. Whatever the order of enqueueing, claiming,
  completing, failing and reclaiming, none committing inside a failure, the claims of one job number at most its
  maximum of attempts, and a job the queue would hand out next has an attempt left.
\<close>

theorem job_claims_bounded:
  assumes "queue_ok db" "list_all bounded_op ps" "run_queue u ps db = (ids, db')"
    and "j \<in> set (db_jobs db')"
  shows "int (count_list ids (jb_id j)) \<le> max 0 (jb_max_attempts j)
    \<and> (jb_status j = job_status.PENDING \<longrightarrow> jb_attempts j < jb_max_attempts j)"
proof -
  have ok: "queue_ok db'" and t: "tries db' (jb_id j) = tries db (jb_id j) + int (count_list ids (jb_id j))"
    using run_queue_ok[OF assms(1-3), of "jb_id j"] by auto
  then have "tries db' (jb_id j) = jb_attempts j" "within_budget j"
    using find_row_unique[of jb_id "db_jobs db'" j] assms(4) by (auto simp: tries_def queue_ok_def list_all_iff)
  moreover have "0 \<le> tries db (jb_id j)"
    using assms(1) by (auto simp: tries_def queue_ok_def list_all_iff within_budget_def
        dest!: find_row_Some split: option.split)
  ultimately show ?thesis using t by (auto simp: within_budget_def)
qed

definition sample_run :: "uuid list \<times> database" where
  "sample_run =
     run_queue (\<lambda>a b. b)
       [Enqueue ''EXECUTE_PROPOSAL'' JNull 5 None 2 (Some ''execute:p''), Claim ''w1'' 10,
        Fail [] ''boom'' 5 900 20, Reclaim 300 30, Claim ''w2'' 40]
       empty_database"

lemma job_claims_bounded_witness:
  "int (count_list (fst sample_run) (jb_id (hd (db_jobs (snd sample_run)))))
     \<le> max 0 (jb_max_attempts (hd (db_jobs (snd sample_run))))"
proof -
  have "queue_ok empty_database" by code_simp
  moreover have "db_jobs (snd sample_run) \<noteq> []" by code_simp
  ultimately show ?thesis
    using job_claims_bounded[of empty_database
        "[Enqueue ''EXECUTE_PROPOSAL'' JNull 5 None 2 (Some ''execute:p''), Claim ''w1'' 10,
          Fail [] ''boom'' 5 900 20, Reclaim 300 30, Claim ''w2'' 40]"
        "\<lambda>a b. b" "fst sample_run" "snd sample_run" "hd (db_jobs (snd sample_run))"]
    by (simp add: sample_run_def)
qed

text \<open>
  A failure that is overtaken can break that bound: the job of a slow worker is reclaimed and claimed for its last attempt
  between the read and the write of the worker's failure, which puts it back into the queue once more.
\<close>

definition slow_worker :: database where
  "slow_worker = snd (claim_job ''w1'' 0 (snd (enqueue ''EXECUTE_PROPOSAL'' JNull 5 None 2 None empty_database)))"

definition overtaken :: database where
  "overtaken = snd (fail_job [] ''boom'' (\<lambda>a b. b) 5 900 (400 * usec)
     (\<lambda>db. snd (claim_job ''w2'' (400 * usec) (snd (reclaim_abandoned 300 (400 * usec) db)))) slow_worker)"

lemma overtaken_failure_exceeds_budget:
  "case fst (claim_job ''w3'' (500 * usec) (overtaken\<lparr>db_clock := 500 * usec\<rparr>)) of
     None \<Rightarrow> False | Some j \<Rightarrow> jb_max_attempts j < jb_attempts j"
  by code_simp

end
