(* ===== verification/Lifecycle.thy ===== *)
theory Lifecycle
  imports Queue Evaluation
begin

text \<open>
  \<open>backend/stockbrain/proposals/lifecycle.py\<close>: what happens to a proposal besides authorization and
  execution, with its notifications and approval tokens. An operation takes the database and
  returns it; one that raises leaves it unchanged. The account snapshot a check reads arrives as a value, as do
  the identifiers of superseded theses.
\<close>

section \<open>Side effects shared by every transition\<close>

text \<open>\<open>(detail or "")[:500] or None\<close>\<close>

definition short_detail :: "nat \<Rightarrow> string option \<Rightarrow> string option" where
  "short_detail n detail = (let t = take n (or_else detail []) in if t = [] then None else Some t)"

definition notify :: "uuid \<Rightarrow> notification_event \<Rightarrow> string option \<Rightarrow> database \<Rightarrow> database" where
  "notify pid event detail db =
     snd (enqueue (job_type_value job_type.SEND_NOTIFICATION)
       (JObj [(''proposal_id'', JStr pid), (''event'', JStr (notification_event_value event)),
              (''detail'', jopt JStr (short_detail 500 detail))])
       15 None 3 (Some (''notify:'' @ pid @ '':'' @ notification_event_value event)) db)"

definition retire_approval_actions :: "uuid list \<Rightarrow> instant \<Rightarrow> database \<Rightarrow> database" where
  "retire_approval_actions pids now db =
     db\<lparr>db_actions := map (\<lambda>a. if aa_proposal_id a \<in> set pids \<and> aa_consumed_at a = None
          then a\<lparr>aa_consumed_at := Some now\<rparr> else a) (db_actions db)\<rparr>"

definition enqueue_for_thesis :: "uuid \<Rightarrow> database \<Rightarrow> uuid option \<times> database" where
  "enqueue_for_thesis thesis_id =
     enqueue (job_type_value job_type.GENERATE_PROPOSAL) (JObj [(''thesis_id'', JStr thesis_id)])
       25 None 3 (Some (''proposal:'' @ thesis_id))"

text \<open>\<open>thesis_of\<close> is the thesis a research run published, when it published one.\<close>

definition enqueue_for_run :: "(uuid \<Rightarrow> uuid option) \<Rightarrow> uuid \<Rightarrow> database \<Rightarrow> nat \<times> database" where
  "enqueue_for_run thesis_of run_id db =
     (case thesis_of run_id of
        None \<Rightarrow> (0, db)
      | Some t \<Rightarrow>
          (let (job_id, db') = enqueue_for_thesis t db in (if job_id = None then 0 else 1, db')))"

section \<open>Rejecting and cancelling\<close>

definition terminated :: "proposal_status \<Rightarrow> string \<Rightarrow> string \<Rightarrow> instant \<Rightarrow> trade_proposal \<Rightarrow> trade_proposal" where
  "terminated target actor reason now p =
     (let p1 = p\<lparr>tp_status := target, tp_status_reason := Some (take 1000 reason), tp_updated_at := now\<rparr>
      in if target = proposal_status.REJECTED
         then p1\<lparr>tp_rejected_at := Some now, tp_rejected_by := Some actor\<rparr> else p1)"

definition terminate ::
  "uuid \<Rightarrow> proposal_status \<Rightarrow> string \<Rightarrow> string \<Rightarrow> string \<Rightarrow> instant \<Rightarrow> database \<Rightarrow> (database \<times> trade_proposal option) res" where
  "terminate pid target actor reason action now =
     transaction (\<lambda>db.
       case find_proposal db pid of
         None \<Rightarrow> Inl (ProposalAlreadyConsumed ''proposal not found'')
       | Some p \<Rightarrow>
           if \<not> can_transition (tp_status p) target
           then Inl (ProposalAlreadyConsumed (''proposal is '' @ proposal_status_value (tp_status p)
             @ '' and can no longer be '' @ lower (proposal_status_value target)))
           else bindE (assert_transition (tp_status p) target) (\<lambda>_.
             let db1 = set_proposal pid (terminated target actor reason now) db;
                 db2 = retire_approval_actions [pid] now db1;
                 db3 = (if target = proposal_status.REJECTED
                        then notify pid notification_event.PROPOSAL_REJECTED None db2 else db2);
                 db4 = add_audit actor_type.USER actor action ''trade_proposal'' (Some pid)
                   (JObj [(''reason'', JStr (take 1000 reason)),
                          (''previous_status'', JStr (proposal_status_value (tp_status p))),
                          (''new_status'', JStr (proposal_status_value target))]) db3
             in Inr (db4, find_proposal db4 pid)))"

definition reject :: "uuid \<Rightarrow> string \<Rightarrow> string option \<Rightarrow> instant \<Rightarrow> database \<Rightarrow> (database \<times> trade_proposal option) res" where
  "reject pid actor reason =
     terminate pid proposal_status.REJECTED actor (or_text (or_else reason []) ''rejected by operator'')
       ''proposal.rejected''"

definition cancel :: "uuid \<Rightarrow> string \<Rightarrow> string option \<Rightarrow> instant \<Rightarrow> database \<Rightarrow> (database \<times> trade_proposal option) res" where
  "cancel pid actor reason =
     terminate pid proposal_status.CANCELLED actor (or_text (or_else reason []) ''cancelled by operator'')
       ''proposal.cancelled''"

section \<open>Expiry\<close>

definition SWEEPABLE_STATUSES :: "proposal_status set" where
  "SWEEPABLE_STATUSES =
     {proposal_status.DRAFT, proposal_status.READY, proposal_status.NOTIFIED, proposal_status.APPROVAL_PENDING}"

definition overdue :: "instant \<Rightarrow> trade_proposal \<Rightarrow> bool" where
  "overdue now p = (tp_status p \<in> SWEEPABLE_STATUSES \<and> tp_expires_at p \<le> now)"

text \<open>The \<open>UPDATE\<close> writes the status itself, without \<open>assert_transition\<close>.\<close>

definition expired :: "instant \<Rightarrow> trade_proposal \<Rightarrow> trade_proposal" where
  "expired now p =
     (if overdue now p
      then p\<lparr>tp_status := proposal_status.EXPIRED,
             tp_status_reason := Some ''the proposal's time to live elapsed before authorization'',
             tp_updated_at := now, tp_version := tp_version p + 1\<rparr>
      else p)"

definition expire_proposals :: "instant \<Rightarrow> database \<Rightarrow> (database \<times> nat) res" where
  "expire_proposals now =
     transaction (\<lambda>db.
       let ids = map tp_id (filter (overdue now) (db_proposals db));
           db1 = retire_approval_actions ids now (db\<lparr>db_proposals := map (expired now) (db_proposals db)\<rparr>)
       in Inr (fold (\<lambda>pid. notify pid notification_event.PROPOSAL_EXPIRED None) ids db1, length ids))"

section \<open>Invalidation\<close>

definition invalidated :: "string \<Rightarrow> instant \<Rightarrow> trade_proposal \<Rightarrow> trade_proposal" where
  "invalidated reason now p =
     p\<lparr>tp_status := proposal_status.INVALIDATED, tp_status_reason := Some (take 1000 reason),
       tp_invalidated_at := Some now, tp_invalidation_reason := Some (take 1000 reason), tp_updated_at := now\<rparr>"

definition policy_failure :: "risk_config \<Rightarrow> trade_proposal \<Rightarrow> string option" where
  "policy_failure config p =
     (case rk_policy_version (tp_risk p) of
        None \<Rightarrow> None
      | Some v \<Rightarrow>
          if v \<noteq> rc_version config
          then Some (''the risk configuration changed after this proposal was generated (policy ''
            @ v @ '' -> '' @ rc_version config @ '')'')
          else None)"

definition position_failure :: "account_state option \<Rightarrow> trade_proposal \<Rightarrow> string option" where
  "position_failure account p =
     (case account of
        None \<Rightarrow> None
      | Some acct \<Rightarrow>
          let available = (case acct_position acct (tp_broker_ticker p) of
                None \<Rightarrow> ZERO | Some position \<Rightarrow> pos_quantity_available position)
          in if tp_side p = order_side.SELL \<and> available < tp_proposed_quantity p
             then Some (''the position backing this reduction fell to '' @ dec_str available
               @ '' share(s), below the proposed '' @ dec_str (tp_proposed_quantity p))
             else None)"

definition listing_failure :: "uuid set \<Rightarrow> broker_instrument option \<Rightarrow> trade_proposal \<Rightarrow> string option" where
  "listing_failure superseded listing p =
     (case listing of
        None \<Rightarrow> Some ''the broker listing this proposal references no longer exists''
      | Some instrument \<Rightarrow>
          if \<not> bi_is_active instrument
          then Some (bi_broker_ticker instrument @ '' is no longer an active broker listing'')
          else if bi_broker_ticker instrument \<noteq> tp_broker_ticker p
          then Some ''the broker listing's identity changed after this proposal was generated''
          else if tp_company_id p \<noteq> None \<and> bi_company_id instrument \<noteq> tp_company_id p
          then Some ''the listing is no longer attached to the company this proposal was about''
          else if (case tp_thesis_id p of None \<Rightarrow> False | Some t \<Rightarrow> t \<in> superseded) \<and> tp_side p = order_side.BUY
          then Some ''a newer thesis supersedes the one this proposal was built on''
          else None)"

definition precondition_failure ::
  "risk_config \<Rightarrow> uuid set \<Rightarrow> account_state option \<Rightarrow> database \<Rightarrow> trade_proposal \<Rightarrow> string option" where
  "precondition_failure config superseded account db p =
     (case policy_failure config p of
        Some reason \<Rightarrow> Some reason
      | None \<Rightarrow>
          (case listing_failure superseded
                  (case tp_broker_instrument_id p of None \<Rightarrow> None | Some i \<Rightarrow> find_instrument db i) p of
             Some reason \<Rightarrow> Some reason
           | None \<Rightarrow> position_failure account p))"

text \<open>One invalidation with its side effects, the body of both sweeps.\<close>

definition invalidate_proposal :: "uuid \<Rightarrow> string \<Rightarrow> (string \<times> json) list \<Rightarrow> instant \<Rightarrow> database \<Rightarrow> database" where
  "invalidate_proposal pid reason extra now db =
     add_audit actor_type.SYSTEM ''system:sweep'' ''proposal.invalidated'' ''trade_proposal'' (Some pid)
       (JObj ((''reason'', JStr (take 1000 reason)) # extra))
       (notify pid notification_event.PROPOSAL_INVALIDATED (Some reason)
         (retire_approval_actions [pid] now (set_proposal pid (invalidated reason now) db)))"

text \<open>The precondition sweep: the active rows, oldest first, in one transaction.\<close>

fun invalidate_stale ::
  "risk_config \<Rightarrow> uuid set \<Rightarrow> account_state option \<Rightarrow> instant \<Rightarrow> trade_proposal list \<Rightarrow> database \<Rightarrow> database \<times> nat" where
  "invalidate_stale config superseded account now [] db = (db, 0)"
| "invalidate_stale config superseded account now (p # ps) db =
     (case precondition_failure config superseded account db p of
        None \<Rightarrow> invalidate_stale config superseded account now ps db
      | Some reason \<Rightarrow>
          if \<not> can_transition (tp_status p) proposal_status.INVALIDATED
          then invalidate_stale config superseded account now ps db
          else let (db', n) = invalidate_stale config superseded account now ps
                       (invalidate_proposal (tp_id p) reason [] now db)
               in (db', n + 1))"

definition invalidate_stale_preconditions ::
  "risk_config \<Rightarrow> uuid set \<Rightarrow> account_state option \<Rightarrow> instant \<Rightarrow> database \<Rightarrow> (database \<times> nat) res" where
  "invalidate_stale_preconditions config superseded account now =
     transaction (\<lambda>db. Inr (invalidate_stale config superseded account now
       (sort_key tp_created_at (filter active (db_proposals db))) db))"

text \<open>
  The market sweep: a bounded batch is priced outside any transaction, \<open>judge\<close> being the answer of
  \<open>market_failure\<close> for a row, and each failure is recorded in a transaction of its own that
  re-reads the row.
\<close>

definition market_batch :: "int \<Rightarrow> database \<Rightarrow> trade_proposal list" where
  "market_batch limit db =
     take (nat limit) (sort_key tp_created_at (filter (\<lambda>p. tp_status p \<in> SWEEPABLE_STATUSES) (db_proposals db)))"

definition record_market_failure :: "uuid \<Rightarrow> string \<Rightarrow> instant \<Rightarrow> database \<Rightarrow> (database \<times> nat) res" where
  "record_market_failure pid reason now =
     transaction (\<lambda>db.
       case find_proposal db pid of
         None \<Rightarrow> Inr (db, 0)
       | Some p \<Rightarrow>
           if tp_status p \<notin> SWEEPABLE_STATUSES then Inr (db, 0)
           else bindE (assert_transition (tp_status p) proposal_status.INVALIDATED) (\<lambda>_.
             Inr (invalidate_proposal pid reason [(''cause'', JStr ''market'')] now db, 1)))"

fun revalidate_market ::
  "(trade_proposal \<Rightarrow> string option) \<Rightarrow> instant \<Rightarrow> trade_proposal list \<Rightarrow> database \<Rightarrow> (database \<times> nat) res" where
  "revalidate_market judge now [] db = Inr (db, 0)"
| "revalidate_market judge now (p # ps) db =
     (case judge p of
        None \<Rightarrow> revalidate_market judge now ps db
      | Some reason \<Rightarrow>
          bindE (record_market_failure (tp_id p) reason now db) (\<lambda>(db1, n).
          bindE (revalidate_market judge now ps db1) (\<lambda>(db2, m). Inr (db2, n + m))))"

section \<open>How rows evolve\<close>

text \<open>
  What no operation on proposals may change: the trade a row stands for. \<open>evolves\<close> says that every row
  stays, keeps its trade, moves along the transition table, and is the same row while its version is.
\<close>

definition trade_of ::
  "trade_proposal \<Rightarrow> uuid \<times> broker \<times> string \<times> string \<times> order_side \<times> order_type \<times> decimal" where
  "trade_of p = (tp_id p, tp_broker p, tp_broker_ticker p, tp_broker_environment p, tp_side p, tp_order_type p,
     tp_proposed_quantity p)"

definition moves :: "trade_proposal \<Rightarrow> trade_proposal \<Rightarrow> bool" where
  "moves p p' = (trade_of p' = trade_of p \<and> reachable (tp_status p) (tp_status p') \<and> tp_version p \<le> tp_version p'
     \<and> (tp_version p' = tp_version p \<longrightarrow> p' = p))"

definition evolves :: "database \<Rightarrow> database \<Rightarrow> bool" where
  "evolves db db' = (\<forall>pid p. find_proposal db pid = Some p \<longrightarrow> (\<exists>p'. find_proposal db' pid = Some p' \<and> moves p p'))"

lemma reachable_trans: "reachable s t \<Longrightarrow> reachable t u \<Longrightarrow> reachable s u"
  by (rotate_tac, induction rule: reachable.induct) (auto intro: reachable.step)

lemma moves_refl [simp]: "moves p p"
  by (simp add: moves_def reachable.refl)

lemma moves_trans: "moves p q \<Longrightarrow> moves q r \<Longrightarrow> moves p r"
  by (auto simp: moves_def intro: reachable_trans)

lemma evolves_same: "db_proposals db' = db_proposals db \<Longrightarrow> evolves db db'"
  by (simp add: evolves_def find_proposal_def)

lemma evolves_trans [trans]: "evolves a b \<Longrightarrow> evolves b c \<Longrightarrow> evolves a c"
  unfolding evolves_def by (meson moves_trans)

lemma evolvesD: "evolves db db' \<Longrightarrow> find_proposal db pid = Some p \<Longrightarrow> \<exists>p'. find_proposal db' pid = Some p' \<and> moves p p'"
  by (simp add: evolves_def)

lemma reachable_one: "can_transition s t \<Longrightarrow> reachable s t"
  using reachable.step[OF reachable.refl] by simp

lemma notify_frame [frame_simps]:
  "db_proposals (notify pid event detail db) = db_proposals db"
  "db_attempts (notify pid event detail db) = db_attempts db"
  "db_orders (notify pid event detail db) = db_orders db"
  "db_actions (notify pid event detail db) = db_actions db"
  "db_instruments (notify pid event detail db) = db_instruments db"
  "db_settings (notify pid event detail db) = db_settings db"
  "find_proposal (notify pid event detail db) k = find_proposal db k"
  "find_attempt (notify pid event detail db) aid = find_attempt db aid"
  by (simp_all add: notify_def frame_simps find_proposal_def find_attempt_def)

lemma retire_frame [frame_simps]:
  "db_proposals (retire_approval_actions pids now db) = db_proposals db"
  "db_attempts (retire_approval_actions pids now db) = db_attempts db"
  "db_orders (retire_approval_actions pids now db) = db_orders db"
  "db_jobs (retire_approval_actions pids now db) = db_jobs db"
  "db_instruments (retire_approval_actions pids now db) = db_instruments db"
  "db_settings (retire_approval_actions pids now db) = db_settings db"
  "find_proposal (retire_approval_actions pids now db) k = find_proposal db k"
  by (simp_all add: retire_approval_actions_def find_proposal_def)

definition no_open_actions :: "uuid \<Rightarrow> database \<Rightarrow> bool" where
  "no_open_actions pid db = list_all (\<lambda>a. aa_proposal_id a = pid \<longrightarrow> aa_consumed_at a \<noteq> None) (db_actions db)"

lemma retire_no_open: "pid \<in> set pids \<Longrightarrow> no_open_actions pid (retire_approval_actions pids now db)"
  by (auto simp: no_open_actions_def retire_approval_actions_def list_all_iff)

lemma trade_of_written [simp]: "trade_of (written old new) = trade_of new"
  by (simp add: trade_of_def written_def)

lemma evolves_set_proposal:
  assumes id: "\<And>p. tp_id p = pid \<Longrightarrow> tp_id (f p) = pid"
    and ok: "\<And>p. find_proposal db pid = Some p \<Longrightarrow> trade_of (f p) = trade_of p \<and> reachable (tp_status p) (tp_status (f p))"
  shows "evolves db (set_proposal pid f db)"
proof -
  have "moves p (written p (f p))" if "find_proposal db pid = Some p" for p
    using ok[OF that] by (auto simp: moves_def written_def trade_of_def reachable.refl)
  moreover have "find_proposal (set_proposal pid f db) k
      = map_option (\<lambda>p. if k = pid then written p (f p) else p) (find_proposal db k)" for k
    by (rule find_set_proposal[OF id])
  ultimately show ?thesis by (auto simp: evolves_def)
qed

lemma evolves_map:
  assumes "\<And>p. tp_id (f p) = tp_id p" "\<And>p. p \<in> set (db_proposals db) \<Longrightarrow> moves p (f p)"
  shows "evolves db (db\<lparr>db_proposals := map f (db_proposals db)\<rparr>)"
proof -
  have "find_row tp_id k (map f ps) = map_option f (find_row tp_id k ps)" for k ps
    by (induction ps) (auto simp: assms(1))
  then show ?thesis using assms(2) by (auto simp: evolves_def find_proposal_def dest: find_row_Some)
qed

lemma fold_notify_frame [frame_simps]:
  "db_proposals (fold (\<lambda>pid. notify pid event detail) ids db) = db_proposals db"
  "db_attempts (fold (\<lambda>pid. notify pid event detail) ids db) = db_attempts db"
  by (induction ids arbitrary: db) (simp_all add: frame_simps)

section \<open>What keeps the constraints\<close>

lemma distinct_filter_map:
  assumes "\<And>x. x \<in> set xs \<Longrightarrow> P (g x) \<Longrightarrow> P x \<and> k (g x) = k x"
  shows "(distinct (map k (filter P xs)) \<longrightarrow> distinct (map k (filter P (map g xs))))
    \<and> set (map k (filter P (map g xs))) \<subseteq> set (map k (filter P xs))"
  using assms
proof (induction xs)
  case (Cons a xs)
  have IH: "(distinct (map k (filter P xs)) \<longrightarrow> distinct (map k (filter P (map g xs))))
    \<and> set (map k (filter P (map g xs))) \<subseteq> set (map k (filter P xs))"
    using Cons.prems by (intro Cons.IH) simp
  show ?case
  proof (cases "P (g a)")
    case True
    then have "P a" "k (g a) = k a" using Cons.prems[of a] by simp_all
    then show ?thesis using IH True by (simp add: subset_iff) blast
  next
    case False
    then show ?thesis using IH by (cases "P a") auto
  qed
qed simp

lemma distinct_filter_upd:
  assumes "\<And>x. x \<in> set xs \<Longrightarrow> key x = c \<Longrightarrow> k (f x) = k x \<and> (P (f x) \<longrightarrow> P x)"
  shows "distinct (map k (filter P xs)) \<Longrightarrow> distinct (map k (filter P (upd_rows key c f xs)))"
proof -
  have "(distinct (map k (filter P xs)) \<longrightarrow> distinct (map k (filter P (map (\<lambda>r. if key r = c then f r else r) xs))))"
    using assms by (intro conjunct1[OF distinct_filter_map]) (auto split: if_splits)
  then show "distinct (map k (filter P xs)) \<Longrightarrow> ?thesis" by (simp add: upd_rows_def)
qed

definition same_keys :: "trade_proposal \<Rightarrow> trade_proposal \<Rightarrow> bool" where
  "same_keys p q =
     (tp_id q = tp_id p \<and> tp_broker q = tp_broker p \<and> tp_account_id q = tp_account_id p
      \<and> tp_broker_ticker q = tp_broker_ticker p \<and> tp_broker_environment q = tp_broker_environment p
      \<and> tp_thesis_id q = tp_thesis_id p \<and> tp_dedupe_key q = tp_dedupe_key p)"

lemma same_keys_written [simp]: "same_keys p (written r q) = same_keys p q"
  by (simp add: same_keys_def written_def)

lemma written_keys [simp]:
  "tp_thesis_id (written r q) = tp_thesis_id q" "tp_dedupe_key (written r q) = tp_dedupe_key q"
  by (simp_all add: written_def)

lemma active_written [simp]: "active (written r q) = active q"
  by (simp add: active_def)

lemma row_ok_written [simp]: "proposal_row_ok (written r q) = proposal_row_ok q"
  by (simp add: proposal_row_ok_def written_def)

lemma proposals_ok_upd:
  assumes ok: "proposals_table_ok ps" and p: "find_row tp_id pid ps = Some p"
    and g: "same_keys p (g p)" "proposal_row_ok (g p)" "active (g p) \<longrightarrow> active p"
  defines "qs \<equiv> upd_rows tp_id pid (\<lambda>q. written q (g q)) ps"
  shows "proposals_table_ok qs"
    and "map (\<lambda>q. (tp_id q, tp_broker_environment q)) qs = map (\<lambda>q. (tp_id q, tp_broker_environment q)) ps"
proof -
  have d: "distinct (map tp_id ps)" using ok by (simp add: proposals_table_ok_def)
  have only: "q = p" if "q \<in> set ps" "tp_id q = pid" for q
    using find_row_unique[OF d that(1)] p that(2) by simp
  have key: "map k qs = map k ps" if "\<And>q. same_keys p q \<Longrightarrow> k q = k p" for k :: "trade_proposal \<Rightarrow> 'k"
    using only that[of "written p (g p)"] g(1) unfolding qs_def upd_rows_def by auto
  show "map (\<lambda>q. (tp_id q, tp_broker_environment q)) qs = map (\<lambda>q. (tp_id q, tp_broker_environment q)) ps"
    by (rule key) (simp add: same_keys_def)
  have ids: "map tp_id qs = map tp_id ps" by (rule key) (simp add: same_keys_def)
  have dist: "distinct (map k (filter P qs))"
    if "distinct (map k (filter P ps))" "\<And>q. same_keys p q \<Longrightarrow> k q = k p"
      "P (written p (g p)) \<longrightarrow> P p" for k :: "trade_proposal \<Rightarrow> 'k" and P
    unfolding qs_def using that only g(1) by (intro distinct_filter_upd) auto
  have "list_all proposal_row_ok qs"
    using ok only g(2) by (auto simp: qs_def list_all_iff proposals_table_ok_def upd_rows_def)
  moreover have "distinct (map (\<lambda>p. (tp_broker p, tp_account_id p, tp_broker_ticker p)) (filter active qs))"
    using ok g(3) by (intro dist) (auto simp: proposals_table_ok_def same_keys_def)
  moreover have "distinct (map tp_thesis_id (filter (\<lambda>p. active p \<and> tp_thesis_id p \<noteq> None) qs))"
    using ok g by (intro dist) (auto simp: proposals_table_ok_def same_keys_def)
  moreover have "distinct (map tp_dedupe_key (filter (\<lambda>p. tp_dedupe_key p \<noteq> None) qs))"
    using ok g by (intro dist) (auto simp: proposals_table_ok_def same_keys_def)
  ultimately show "proposals_table_ok qs" using d ids by (simp add: proposals_table_ok_def)
qed

lemma set_proposal_ok:
  assumes ok: "database_ok db" and p: "find_proposal db pid = Some p"
    and g: "same_keys p (g p)" "proposal_row_ok (g p)" "active (g p) \<longrightarrow> active p"
  shows "database_ok (set_proposal pid g db)"
proof -
  have t: "proposals_table_ok (db_proposals db)" "attempts_table_ok (db_proposals db) (db_attempts db)"
    using ok by (simp_all add: database_ok_def)
  note P = proposals_ok_upd[where g = g and p = p, OF t(1) p[unfolded find_proposal_def] g]
  let ?ps = "upd_rows tp_id pid (\<lambda>q. written q (g q)) (db_proposals db)"
  have ids: "map tp_id ?ps = map tp_id (db_proposals db)" using arg_cong[OF P(2), of "map fst"] by (simp add: o_def)
  have "attempts_table_ok ?ps (db_attempts db)" using t(2) P(2) by (simp add: attempts_table_ok_def)
  moreover have "actions_table_ok ?ps (db_actions db)" using ok ids by (simp add: database_ok_def actions_table_ok_def)
  ultimately show ?thesis using ok P(1) by (simp add: database_ok_def set_proposal_def)
qed

lemma retire_actions_ok: "database_ok db \<Longrightarrow> database_ok (retire_approval_actions pids now db)"
proof -
  assume ok: "database_ok db"
  have same: "actions_table_ok ps (map f as) = actions_table_ok ps as"
    if "\<And>a. aa_id (f a) = aa_id a" "\<And>a. aa_opaque_token_hash (f a) = aa_opaque_token_hash a"
      "\<And>a. aa_proposal_id (f a) = aa_proposal_id a" for f ps as
    by (simp add: actions_table_ok_def o_def image_image that)
  have "actions_table_ok (db_proposals db) (db_actions (retire_approval_actions pids now db))"
    unfolding retire_approval_actions_def by (simp add: same) (use ok in \<open>simp add: database_ok_def\<close>)
  then show ?thesis using ok by (simp add: database_ok_def frame_simps)
qed

lemma add_audit_ok: "database_ok db \<Longrightarrow> database_ok (add_audit t who act ety eid d db)"
  by (simp add: database_ok_def frame_simps)

lemma enqueue_ok: "database_ok db \<Longrightarrow> database_ok (snd (enqueue name payload prio after n key db))"
  using enqueue_jobs_ok[of db] by (simp add: database_ok_def frame_simps)

lemma notify_ok: "database_ok db \<Longrightarrow> database_ok (notify pid event detail db)"
  by (simp add: notify_def enqueue_ok)

section \<open>What the transitions promise\<close>

lemma find_row_upd_same: "find_row key k rs = Some r \<Longrightarrow> key (f r) = key r \<Longrightarrow>
    find_row key k (upd_rows key k f rs) = Some (f r)"
  by (induction rs) (auto simp: upd_rows_def split: if_splits)

lemma terminated_fields [simp]:
  "tp_id (terminated target actor reason now p) = tp_id p"
  "trade_of (terminated target actor reason now p) = trade_of p"
  "tp_status (terminated target actor reason now p) = target"
  by (simp_all add: terminated_def trade_of_def Let_def)

lemma invalidated_fields [simp]:
  "tp_id (invalidated reason now p) = tp_id p" "trade_of (invalidated reason now p) = trade_of p"
  "tp_status (invalidated reason now p) = proposal_status.INVALIDATED"
  by (simp_all add: invalidated_def trade_of_def)

lemma terminate_cases:
  assumes "terminate pid target actor reason action now db = Inr (db', r)"
  obtains p where "find_proposal db pid = Some p" "can_transition (tp_status p) target"
    "db_proposals db' = db_proposals (set_proposal pid (terminated target actor reason now) db)"
    "db_actions db' = db_actions (retire_approval_actions [pid] now db)"
    "db_attempts db' = db_attempts db" "db_orders db' = db_orders db" "database_ok db'"
    "r = find_proposal db' pid"
  using assms
  by (auto simp: terminate_def transaction_Inr bindE_eq_Inr Let_def frame_simps retire_approval_actions_def
      split: option.splits if_splits)

lemma terminated_ok:
  assumes "proposal_row_ok p" "can_transition (tp_status p) target"
    and "target \<in> {proposal_status.REJECTED, proposal_status.CANCELLED}"
  shows "proposal_row_ok (terminated target actor reason now p)" "same_keys p (terminated target actor reason now p)"
    "\<not> active (terminated target actor reason now p)"
  using assms by (auto simp: terminated_def proposal_row_ok_def same_keys_def active_def status_set_defs Let_def)

text \<open>In a database that meets its constraints an allowed transition commits.\<close>

lemma terminate_succeeds:
  assumes ok: "database_ok db" and p: "find_proposal db pid = Some p" and can: "can_transition (tp_status p) target"
    and target: "target \<in> {proposal_status.REJECTED, proposal_status.CANCELLED}"
  shows "\<exists>db' r. terminate pid target actor reason action now db = Inr (db', r)"
proof -
  have "proposal_row_ok p"
    using ok p by (auto simp: database_ok_def proposals_table_ok_def list_all_iff find_proposal_def dest!: find_row_Some)
  note T = terminated_ok[OF this can target]
  have "database_ok (retire_approval_actions [pid] now (set_proposal pid (terminated target actor reason now) db))"
    using T by (intro retire_actions_ok set_proposal_ok[OF ok p]) auto
  then show ?thesis
    using p can by (auto simp: terminate_def transaction_def assert_transition_def Let_def intro: add_audit_ok notify_ok)
qed


definition pending_row :: "uuid \<Rightarrow> trade_proposal" where
  "pending_row pid = acme_proposal\<lparr>tp_id := pid, tp_status := proposal_status.READY, tp_approved_at := None,
     tp_approved_by := None, tp_approved_channel := None, tp_authorization_source := None\<rparr>"

definition one_pending :: database where
  "one_pending = empty_database\<lparr>db_proposals := [pending_row ''p1'']\<rparr>"


text \<open>
  C38: what the expiry sweep does and does not touch. Every row it changes was waiting for authorization
  and past its deadline, and becomes \<open>EXPIRED\<close>; an approved proposal is never expired by it, however
  old. The update does not consult the table: it agrees with it from every status except \<open>DRAFT\<close>,
  from which the table has no such edge.
\<close>

theorem expiry_and_the_table:
  "(expired now p \<noteq> p \<longrightarrow>
      tp_status p \<in> SWEEPABLE_STATUSES \<and> tp_expires_at p \<le> now
      \<and> tp_status (expired now p) = proposal_status.EXPIRED \<and> trade_of (expired now p) = trade_of p
      \<and> (can_transition (tp_status p) (tp_status (expired now p)) \<longleftrightarrow> tp_status p \<noteq> proposal_status.DRAFT))
    \<and> (tp_status p = proposal_status.APPROVED \<longrightarrow> expired now p = p)"
  by (cases "tp_status p")
    (auto simp: expired_def overdue_def SWEEPABLE_STATUSES_def can_transition_def INVALIDATION_TARGETS_def trade_of_def)

lemma expiry_and_the_table_witness:
  "expired 2000000000 (pending_row ''p1'') \<noteq> pending_row ''p1''
    \<and> can_transition proposal_status.READY (tp_status (expired 2000000000 (pending_row ''p1'')))"
proof -
  have s: "tp_status (pending_row ''p1'') = proposal_status.READY" by (simp add: pending_row_def)
  have "tp_status (expired 2000000000 (pending_row ''p1'')) = proposal_status.EXPIRED" by code_simp
  then have "expired 2000000000 (pending_row ''p1'') \<noteq> pending_row ''p1''" using s by auto
  then show ?thesis using expiry_and_the_table[of 2000000000 "pending_row ''p1''"]
    unfolding s by blast
qed

end
