(* ===== verification/Dec_Parse.thy ===== *)
theory Dec_Parse
  imports Canonical_Text
begin

text \<open>
  \<open>Decimal(text)\<close> on finite numerals: the grammar of the \<open>decimal\<close> module (surrounding blanks and
  underscores dropped, an optional sign, digits with an optional point, an optional exponent) and its
  round trip with \<open>str\<close>. \<open>None\<close> is \<open>InvalidOperation\<close>; infinities and NaN are not modelled.
\<close>

definition ascii_digit :: "char \<Rightarrow> bool" where
  "ascii_digit c = (c \<in> set digit_chars)"

definition signed_rest :: "string \<Rightarrow> bool \<times> string" where
  "signed_rest t =
     (case t of
        [] \<Rightarrow> (False, [])
      | c # r \<Rightarrow> if c = CHR ''-'' then (True, r) else if c = CHR ''+'' then (False, r) else (False, t))"

definition signed_int :: "bool \<Rightarrow> int \<Rightarrow> int" where
  "signed_int negative n = (if negative then - n else n)"

definition parse_exponent :: "string \<Rightarrow> int option" where
  "parse_exponent t =
     (case t of
        [] \<Rightarrow> Some 0
      | c # r \<Rightarrow>
          let (negative, ds) = signed_rest r
          in if (c = CHR ''E'' \<or> c = CHR ''e'') \<and> ds \<noteq> [] \<and> list_all ascii_digit ds
             then Some (signed_int negative (digits_val ds)) else None)"

definition parse_fraction :: "string \<Rightarrow> string \<times> string" where
  "parse_fraction t =
     (case t of
        [] \<Rightarrow> ([], [])
      | c # r \<Rightarrow> if c = CHR ''.'' then (takeWhile ascii_digit r, dropWhile ascii_digit r) else ([], t))"

definition parse_unsigned :: "bool \<Rightarrow> string \<Rightarrow> decimal option" where
  "parse_unsigned negative t =
     (let a = takeWhile ascii_digit t; (b, rest) = parse_fraction (dropWhile ascii_digit t)
      in if a @ b = [] then None
         else (case parse_exponent rest of
                 None \<Rightarrow> None
               | Some e \<Rightarrow> Some (Dec (signed_int negative (digits_val (a @ b))) (e - int (length b)))))"

definition parse_decimal :: "string \<Rightarrow> decimal option" where
  "parse_decimal s =
     (let (negative, t) = signed_rest (filter (\<lambda>c. c \<noteq> CHR ''_'') (strip s)) in parse_unsigned negative t)"

section \<open>Round trip\<close>

lemma digits_list_all: "set ds \<subseteq> set digit_chars \<Longrightarrow> list_all ascii_digit ds"
  by (auto simp: list_all_iff ascii_digit_def)

lemma take_digits:
  assumes "set ds \<subseteq> set digit_chars" "r = [] \<or> \<not> ascii_digit (hd r)"
  shows "takeWhile ascii_digit (ds @ r) = ds" "dropWhile ascii_digit (ds @ r) = r"
proof -
  have t: "takeWhile ascii_digit r = []" "dropWhile ascii_digit r = r" using assms(2) by (cases r; simp)+
  have "\<And>c. c \<in> set ds \<Longrightarrow> ascii_digit c" using assms(1) by (auto simp: ascii_digit_def)
  then show "takeWhile ascii_digit (ds @ r) = ds" "dropWhile ascii_digit (ds @ r) = r"
    using t by (simp_all add: takeWhile_append2 dropWhile_append2)
qed

lemma not_digits [simp]: "\<not> ascii_digit (CHR ''.'')" "\<not> ascii_digit (CHR ''E'')" "\<not> ascii_digit (CHR ''-'')"
    "\<not> ascii_digit (CHR ''+'')" "\<not> ascii_digit (CHR ''_'')" "\<not> ascii_digit (CHR '' '')"
  by (simp_all add: ascii_digit_def digit_chars_def)

definition exponent_text :: "int \<Rightarrow> string" where
  "exponent_text n = (if n = 0 then [] else ''E'' @ (if n < 0 then show_int n else ''+'' @ show_int n))"

lemma signed_rest_digits: "set ds \<subseteq> set digit_chars \<Longrightarrow> signed_rest ds = (False, ds)"
  using no_dot[of ds] by (auto simp: signed_rest_def digit_chars_def split: list.splits)

lemma parse_exponent_text: "parse_exponent (exponent_text n) = Some n"
proof -
  have s: "digits_val (show_uint \<bar>n\<bar>) = \<bar>n\<bar>" "set (show_uint \<bar>n\<bar>) \<subseteq> set digit_chars" "show_uint \<bar>n\<bar> \<noteq> []"
    using show_uint_val[of "\<bar>n\<bar>"] by auto
  then show ?thesis using digits_list_all[OF s(2)]
    by (auto simp: parse_exponent_def exponent_text_def show_int_def signed_rest_def signed_int_def)
qed

text \<open>A coefficient with its point, followed by an exponent.\<close>

lemma parse_placed:
  assumes ds: "set ds \<subseteq> set digit_chars" "ds \<noteq> []" and x: "x = [] \<or> hd x = CHR ''E''"
    and e: "parse_exponent x = Some e" and d: "dot \<le> int (length ds)"
  shows "parse_unsigned negative (place_dot ds dot @ x)
    = Some (Dec (signed_int negative (digits_val ds)) (e + dot - int (length ds)))"
proof -
  have x': "x = [] \<or> \<not> ascii_digit (hd x)" using x by auto
  have px: "parse_fraction x = ([], x)" using x by (cases x) (auto simp: parse_fraction_def)
  consider "dot \<le> 0" | "0 < dot" "dot = int (length ds)" | "0 < dot" "dot < int (length ds)" using d by linarith
  then show ?thesis
  proof cases
    case 1
    let ?b = "zeros (- dot) @ ds"
    have z: "set ''0'' \<subseteq> set digit_chars" "set ?b \<subseteq> set digit_chars"
      using ds by (auto simp: digit_chars_def zeros_def)
    have "place_dot ds dot @ x = ''0'' @ (CHR ''.'' # ?b @ x)" using 1 by (simp add: place_dot_def)
    moreover have "parse_fraction (CHR ''.'' # ?b @ x) = (?b, x)"
      using take_digits[OF z(2) x'] by (simp add: parse_fraction_def)
    moreover have "digits_val (''0'' @ ?b) = digits_val ds"
      by (simp only: digits_val_append) (simp add: zeros_def digits_val_append, simp add: digits_val_def)
    ultimately show ?thesis
      using 1 e take_digits[OF z(1), of "CHR ''.'' # ?b @ x"]
      by (simp add: parse_unsigned_def zeros_def)
  next
    case 2
    then have "place_dot ds dot @ x = ds @ x" by (simp add: place_dot_def zeros_def)
    then show ?thesis using 2 e ds px take_digits[OF ds(1) x'] by (simp add: parse_unsigned_def)
  next
    case 3
    let ?a = "take (nat dot) ds" and ?b = "drop (nat dot) ds"
    have z: "set ?a \<subseteq> set digit_chars" "set ?b \<subseteq> set digit_chars"
      using ds(1) set_take_subset[of "nat dot" ds] set_drop_subset[of "nat dot" ds] by auto
    have "place_dot ds dot @ x = ?a @ (CHR ''.'' # ?b @ x)" using 3 by (simp add: place_dot_def)
    moreover have "parse_fraction (CHR ''.'' # ?b @ x) = (?b, x)"
      using take_digits[OF z(2) x'] by (simp add: parse_fraction_def)
    ultimately show ?thesis
      using 3 e ds take_digits[OF z(1), of "CHR ''.'' # ?b @ x"]
      by (simp add: parse_unsigned_def)
  qed
qed

lemma dec_str_shape:
  defines "f \<equiv> \<lambda>d. int (length (show_uint \<bar>coeff d\<bar>))"
  shows "\<exists>dot x. dec_str d = (if coeff d < 0 then ''-'' else []) @ place_dot (show_uint \<bar>coeff d\<bar>) dot @ exponent_text x
     \<and> dot \<le> f d \<and> x + dot - f d = expo d"
proof -
  let ?ds = "show_uint \<bar>coeff d\<bar>"
  let ?left = "expo d + f d" 
  let ?dot = "if expo d \<le> 0 \<and> - 6 < ?left then ?left else 1"
  have "1 \<le> f d" using show_uint_val[of "\<bar>coeff d\<bar>"] by (simp add: f_def Suc_le_eq)
  then have "?dot \<le> f d" by simp
  moreover have "dec_str d = (if coeff d < 0 then ''-'' else []) @ place_dot ?ds ?dot @ exponent_text (?left - ?dot)"
    by (auto simp: dec_str_def exponent_text_def f_def Let_def)
  moreover have "?left - ?dot + ?dot - f d = expo d" by simp
  ultimately show ?thesis by blast
qed

definition numeral_chars :: string where
  "numeral_chars = digit_chars @ ''.E+-''"

lemma numeral_clean: "set s \<subseteq> set numeral_chars \<Longrightarrow> filter (\<lambda>c. c \<noteq> CHR ''_'') (strip s) = s"
proof -
  assume s: "set s \<subseteq> set numeral_chars"
  have sp: "\<not> is_space c" if "c \<in> set numeral_chars" for c
    using that by (auto simp: numeral_chars_def digit_chars_def is_space_def)
  have "dropWhile is_space t = t" if "set t \<subseteq> set numeral_chars" for t
    using that sp by (cases t) auto
  then have "strip s = s" using s by (simp add: strip_def lstrip_def rstrip_def)
  moreover have "filter (\<lambda>c. c \<noteq> CHR ''_'') s = s"
    using s by (auto simp: filter_id_conv numeral_chars_def digit_chars_def)
  ultimately show ?thesis by simp
qed

lemma place_dot_chars: "set ds \<subseteq> set digit_chars \<Longrightarrow> set (place_dot ds dot) \<subseteq> set numeral_chars"
proof -
  assume ds: "set ds \<subseteq> set digit_chars"
  have d: "set digit_chars \<subseteq> set numeral_chars" "set ''0.'' \<subseteq> set numeral_chars" "set ''.'' \<subseteq> set numeral_chars"
    by (simp_all add: numeral_chars_def digit_chars_def)
  have z: "set (zeros n) \<subseteq> set numeral_chars" for n by (auto simp: zeros_def numeral_chars_def digit_chars_def)
  have t: "set (take k ds) \<subseteq> set numeral_chars" "set (drop k ds) \<subseteq> set numeral_chars" for k
    using ds d(1) set_take_subset[of k ds] set_drop_subset[of k ds] by blast+
  have "set ds \<subseteq> set numeral_chars" using ds d(1) by blast
  then show ?thesis using t[of "nat dot"] z[of "- dot"] z[of "dot - int (length ds)"] d(2,3)
    unfolding place_dot_def by (simp only: set_append Un_subset_iff split: if_split) blast
qed

lemma exponent_text_chars: "set (exponent_text x) \<subseteq> set numeral_chars"
  using show_uint_val[of "\<bar>x\<bar>"] by (auto simp: exponent_text_def show_int_def numeral_chars_def)

lemma place_dot_hd:
  assumes "set ds \<subseteq> set digit_chars" "ds \<noteq> []"
  shows "place_dot ds dot \<noteq> [] \<and> hd (place_dot ds dot) \<in> set digit_chars"
proof (cases ds)
  case (Cons c cs)
  moreover have "c \<in> set digit_chars" using assms(1) Cons by auto
  moreover have "CHR ''0'' \<in> set digit_chars" by (simp add: digit_chars_def)
  ultimately show ?thesis by (simp add: place_dot_def take_Cons')
qed (use assms(2) in simp)

lemma parse_dec_str: "parse_decimal (dec_str d) = Some d"
proof -
  let ?ds = "show_uint \<bar>coeff d\<bar>"
  have ds: "set ?ds \<subseteq> set digit_chars" "?ds \<noteq> []" "digits_val ?ds = \<bar>coeff d\<bar>"
    using show_uint_val[of "\<bar>coeff d\<bar>"] by auto
  obtain dot x where sh: "dec_str d = (if coeff d < 0 then ''-'' else []) @ place_dot ?ds dot @ exponent_text x"
      "dot \<le> int (length ?ds)" "x + dot - int (length ?ds) = expo d"
    using dec_str_shape[of d] by blast
  have "set (dec_str d) \<subseteq> set numeral_chars"
    using sh(1) place_dot_chars[OF ds(1), of dot] exponent_text_chars[of x] by (auto simp: numeral_chars_def)
  then have p: "parse_decimal (dec_str d) = (let (negative, t) = signed_rest (dec_str d) in parse_unsigned negative t)"
    by (simp add: parse_decimal_def numeral_clean)
  have hd: "place_dot ?ds dot \<noteq> []" "hd (place_dot ?ds dot) \<noteq> CHR ''-''" "hd (place_dot ?ds dot) \<noteq> CHR ''+''"
    using place_dot_hd[OF ds(1,2), of dot] by (auto simp: digit_chars_def)
  have sr: "signed_rest (dec_str d) = (coeff d < 0, place_dot ?ds dot @ exponent_text x)"
    using hd by (cases "place_dot ?ds dot") (auto simp: sh(1) signed_rest_def)
  have "parse_unsigned (coeff d < 0) (place_dot ?ds dot @ exponent_text x)
      = Some (Dec (signed_int (coeff d < 0) \<bar>coeff d\<bar>) (expo d))"
    using parse_placed[OF ds(1,2) _ parse_exponent_text sh(2), of x "coeff d < 0"] ds(3) sh(3)
    by (simp add: exponent_text_def)
  then show ?thesis using p sr by (cases d) (simp add: signed_int_def)
qed

end
