(* ===== verification/Exec_Service.thy ===== *)
theory Exec_Service
  imports Preflight Lifecycle Dec_Parse
begin

text \<open>
  \<open>backend/stockbrain/execution/service.py\<close>: driving an authorized proposal to exactly one
  transmission. What the broker answers to the one \<open>submit\<close> arrives as a \<open>submit_reply\<close>; every
  operation is one transaction on the database and returns the database with its result, an
  exception leaving the database as it was. Metrics and log lines are not modelled.
\<close>

section \<open>Answers and results\<close>

record broker_rejection =
  rj_message :: string
  rj_status :: int
  rj_category :: string
  rj_detail :: "string option"
  rj_payload :: "(string \<times> json) list option"

datatype submit_reply =
    Acknowledged broker_acknowledgement
  | NotSent string
  | Rejected broker_rejection
  | Ambiguous string
  | Unexpected string

record execution_result =
  er_proposal_id :: uuid
  er_transmitted :: bool
  er_outcome :: "execution_outcome option"
  er_attempt_id :: "uuid option"
  er_broker_order_id :: "string option"
  er_status :: "proposal_status option"
  er_reason :: string
  er_failure :: "execution_failure option"
  er_reconcile_required :: bool

definition execution_result_of :: "uuid \<Rightarrow> string \<Rightarrow> execution_result" where
  "execution_result_of pid reason =
     \<lparr>er_proposal_id = pid, er_transmitted = False, er_outcome = None, er_attempt_id = None,
      er_broker_order_id = None, er_status = None, er_reason = reason, er_failure = None,
      er_reconcile_required = False\<rparr>"

text \<open>A transaction seen from outside: the database afterwards, and the value or the exception.\<close>

definition run_tx :: "(database \<Rightarrow> (database \<times> 'a) res) \<Rightarrow> database \<Rightarrow> database \<times> 'a res" where
  "run_tx block db = (case transaction block db of Inl e \<Rightarrow> (db, Inl e) | Inr (db', r) \<Rightarrow> (db', Inr r))"

section \<open>Pure helpers\<close>

definition command_from :: "trade_proposal \<Rightarrow> exec_settings \<Rightarrow> execution_command res" where
  "command_from p st = make_execution_command
     \<lparr>ec_proposal_id = tp_id p, ec_broker = tp_broker p, ec_broker_environment = tp_broker_environment p,
      ec_broker_ticker = tp_broker_ticker p, ec_side = tp_side p, ec_order_type = tp_order_type p,
      ec_quantity = tp_proposed_quantity p, ec_extended_hours = xs_order_extended_hours st\<rparr>"

definition FORBIDDEN_FRAGMENTS :: "string list" where
  "FORBIDDEN_FRAGMENTS =
     [''authorization'', ''token'', ''secret'', ''password'', ''api_key'', ''apikey'', ''cookie'']"

definition safe_payload :: "(string \<times> json) list \<Rightarrow> (string \<times> json) list" where
  "safe_payload payload =
     filter (\<lambda>(key, value). \<not> list_ex (\<lambda>fragment. contains fragment (lower key)) FORBIDDEN_FRAGMENTS) payload"

definition MAX_LEARNABLE_QUANTITY_PRECISION :: int where
  "MAX_LEARNABLE_QUANTITY_PRECISION = 8"

text \<open>\<open>re.search(r"precision (\d+)", detail)\<close>: the leftmost match, with all its digits.\<close>

fun search_precision :: "string \<Rightarrow> int option" where
  "search_precision [] = None"
| "search_precision (c # s) =
     (let digits = takeWhile ascii_digit (drop 10 (c # s))
      in if take 10 (c # s) = ''precision '' \<and> digits \<noteq> [] then Some (digits_val digits)
         else search_precision s)"

definition ends_with :: "string \<Rightarrow> string \<Rightarrow> bool" where
  "ends_with s suffix = (length suffix \<le> length s \<and> drop (length s - length suffix) s = suffix)"

definition quantity_precision_from :: "broker_rejection \<Rightarrow> int option" where
  "quantity_precision_from exc =
     (case map_of (or_else (rj_payload exc) []) ''type'' of
        Some (JStr payload_type) \<Rightarrow>
          if ends_with payload_type ''quantity-precision-mismatch''
          then (case search_precision (or_else (rj_detail exc) []) of
                  None \<Rightarrow> None
                | Some n \<Rightarrow> if 0 \<le> n \<and> n \<le> MAX_LEARNABLE_QUANTITY_PRECISION then Some n else None)
          else None
      | _ \<Rightarrow> None)"

definition ambiguous_category :: "string \<Rightarrow> execution_failure" where
  "ambiguous_category text =
     (case find (\<lambda>c. contains (execution_failure_value c) text)
         [execution_failure.UNREADABLE_SUCCESS, execution_failure.BROKER_TIMEOUT,
          execution_failure.BROKER_RATE_LIMITED, execution_failure.UNEXPECTED_STATUS] of
        Some c \<Rightarrow> c
      | None \<Rightarrow>
          if contains ''could not be parsed'' text then execution_failure.UNREADABLE_SUCCESS
          else execution_failure.TRANSPORT_AMBIGUOUS)"

definition jq :: "quote_snapshot \<Rightarrow> json" where
  "jq q = JObj
     [(''bid'', jopt jdec (q_bid q)), (''ask'', jopt jdec (q_ask q)), (''mid'', jopt jdec (q_mid q)),
      (''spread'', jopt jdec (sa_spread (q_spread q))),
      (''spread_bps'', jopt jdec (sa_spread_bps (q_spread q))),
      (''spread_status'', JStr (spread_status_value (sa_status (q_spread q)))),
      (''age_ms'', JInt (q_age_ms q)), (''provider_timestamp'', jtime (q_provider_timestamp q)),
      (''received_at'', jtime (q_received_at q)),
      (''price_source'', JStr (price_source_value (q_price_source q))),
      (''provider'', JStr (q_provider q)),
      (''market_session'', JStr (market_session_value (q_session q)))]"

definition execution_snapshot ::
  "trade_proposal \<Rightarrow> execution_command \<Rightarrow> revalidation \<Rightarrow> control_snapshot \<Rightarrow> exec_settings \<Rightarrow> string \<Rightarrow> instant
     \<Rightarrow> json" where
  "execution_snapshot p command rv control st provider_environment now =
     (let position = (case rv_account rv of None \<Rightarrow> None | Some a \<Rightarrow> acct_position a (tp_broker_ticker p))
      in JObj
     [(''captured_at'', jtime now),
      (''proposal_id'', JStr (tp_id p)),
      (''broker'', JStr (broker_value (tp_broker p))),
      (''broker_environment'', JStr (tp_broker_environment p)),
      (''provider_environment'', JStr provider_environment),
      (''configured_environment'', JStr (broker_environment_value (xs_env st))),
      (''broker_instrument_id'', jopt JStr (tp_broker_instrument_id p)),
      (''broker_ticker'', JStr (tp_broker_ticker p)),
      (''side'', JStr (order_side_value (tp_side p))),
      (''order_type'', JStr (order_type_value (tp_order_type p))),
      (''quantity'', jdec (tp_proposed_quantity p)),
      (''signed_quantity'', jdec (ec_signed_quantity command)),
      (''extended_hours'', JBool (ec_extended_hours command)),
      (''reference_price'', jdec (tp_reference_price p)),
      (''reference_currency'', JStr (tp_reference_currency p)),
      (''estimated_notional'', jdec (tp_estimated_notional p)),
      (''account_currency'', JStr (tp_account_currency p)),
      (''account_id'', JStr (tp_account_id p)),
      (''authorization_source'', jopt (\<lambda>s. JStr (authorization_source_value s)) (tp_authorization_source p)),
      (''authorized_at'', jopt jtime (tp_approved_at p)),
      (''authorized_by'', jopt JStr (tp_approved_by p)),
      (''execution_policy'', JStr (execution_policy_value (tp_execution_policy p))),
      (''risk_policy_version'', JStr (rd_policy_version (rv_decision rv))),
      (''risk_snapshot_hash'', JStr (rd_snapshot_hash (rv_decision rv))),
      (''preflight_at'', jtime now),
      (''quote'', jopt jq (rv_quote rv)),
      (''account'', jopt (\<lambda>a. JObj
         [(''account_id'', JStr (acct_account_id a)), (''currency'', JStr (acct_currency a)),
          (''total_value'', jdec (acct_total_value a)), (''cash_available'', jdec (acct_cash_available a)),
          (''captured_at'', jtime (acct_captured_at a)), (''cash_reserved'', jdec (acct_cash_reserved a)),
          (''invested_value'', jdec (acct_invested_value a))]) (rv_account rv)),
      (''position'', jopt (\<lambda>s. JObj
         [(''quantity'', jdec (pos_quantity s)),
          (''quantity_available'', jdec (pos_quantity_available s))]) position),
      (''control'', cn_as_dict control),
      (''transmission_gates'', JObj
         [(''order_transmission_permitted'', JBool (order_transmission_permitted st)),
          (''blockers'', JList (map JStr (order_transmission_blockers st))),
          (''live_execution_permitted'', JBool (live_execution_permitted st)),
          (''automated_trading_consent_confirmed'', JBool (xs_automated_consent_confirmed st)),
          (''execution_mode'', JStr (execution_mode_value (xs_execution_mode st)))]),
      (''request_fingerprint'', JStr (fingerprint_for command))])"

section \<open>Reads\<close>

definition sent_attempt :: "database \<Rightarrow> uuid \<Rightarrow> execution_attempt option" where
  "sent_attempt db pid = find (\<lambda>a. ea_proposal_id a = pid \<and> ea_sent_to_broker a) (db_attempts db)"

definition next_attempt_number :: "database \<Rightarrow> uuid \<Rightarrow> int" where
  "next_attempt_number db pid =
     (case map ea_attempt_number (filter (\<lambda>a. ea_proposal_id a = pid) (db_attempts db)) of
        [] \<Rightarrow> 1
      | n # ns \<Rightarrow> foldl max n ns + 1)"

definition UNRESOLVED_OUTCOMES :: "execution_outcome set" where
  "UNRESOLVED_OUTCOMES = {execution_outcome.PENDING, execution_outcome.AMBIGUOUS}"

definition unresolved_sent_for_ticker :: "exec_settings \<Rightarrow> string \<Rightarrow> database \<Rightarrow> int" where
  "unresolved_sent_for_ticker st ticker db =
     int (length (filter (\<lambda>a. ea_sent_to_broker a \<and> ea_outcome a \<in> UNRESOLVED_OUTCOMES
         \<and> ea_broker_environment a = broker_environment_value (xs_env st)
         \<and> (case find_proposal db (ea_proposal_id a) of None \<Rightarrow> False | Some p \<Rightarrow> tp_broker_ticker p = ticker))
       (db_attempts db)))"

definition pending_order_refusal ::
  "exec_settings \<Rightarrow> pending_order_count \<Rightarrow> database \<Rightarrow> execution_command \<Rightarrow> preflight_refusal option" where
  "pending_order_refusal st broker_count db command =
     (let limit = xs_max_pending_orders_per_ticker st;
          ceiling = max 0 (limit - xs_pending_order_headroom st);
          local_count = unresolved_sent_for_ticker st (ec_broker_ticker command) db;
          observed = max (pc_pending broker_count) local_count;
          refusal = (\<lambda>reason. Some \<lparr>pr_category = execution_failure.PENDING_ORDER_LIMIT,
            pr_reasons = [reason], pr_invalidates = False, pr_rule_ids = []\<rparr>)
      in if \<not> pc_read_ok broker_count
         then refusal (''the broker's pending-order list for '' @ ec_broker_ticker command
           @ '' could not be read ('' @ or_text (or_else (pc_error_category broker_count) []) ''unknown error''
           @ ''), so the '' @ show_int limit
           @ ''-per-ticker limit cannot be checked; the order was not transmitted'')
         else if ceiling < observed + 1
         then refusal (show_int observed @ '' order(s) are already pending for '' @ ec_broker_ticker command
           @ '' ('' @ show_int (pc_pending broker_count) @ '' at the broker, '' @ show_int local_count
           @ '' unresolved here); one more would pass the '' @ show_int ceiling
           @ '' ceiling StockBrain keeps below the broker's documented '' @ show_int limit
           @ ''-per-ticker limit'')
         else None)"

section \<open>The send transaction\<close>

definition attempt_of ::
  "uuid \<Rightarrow> uuid \<Rightarrow> int \<Rightarrow> instant \<Rightarrow> string \<Rightarrow> execution_command \<Rightarrow> json \<Rightarrow> execution_attempt" where
  "attempt_of aid pid number now environment command snapshot =
     \<lparr>ea_id = aid, ea_proposal_id = pid, ea_attempt_number = number, ea_started_at = now,
      ea_completed_at = None, ea_broker_environment = environment,
      ea_request_payload = JObj (ec_as_dict command), ea_request_fingerprint = fingerprint_for command,
      ea_sent_to_broker = True, ea_sent_at = Some now, ea_http_status = None, ea_response_payload = None,
      ea_broker_order_id = None, ea_outcome = execution_outcome.PENDING, ea_ambiguous = False,
      ea_error = None, ea_error_category = None, ea_actor_identifier = None, ea_rate_limit_headers = None,
      ea_execution_snapshot = snapshot, ea_preflight_at = Some now, ea_reconciled_at = None,
      ea_reconciliation_result = None, ea_reconciliation_attempts = 0, ea_reconciliation_detail = JObj []\<rparr>"

definition claimed_row :: "instant \<Rightarrow> trade_proposal \<Rightarrow> trade_proposal" where
  "claimed_row now p =
     p\<lparr>tp_status := proposal_status.EXECUTING,
       tp_status_reason := Some ''an order is being transmitted to the broker'', tp_updated_at := now\<rparr>"

text \<open>
  \<open>None\<close> is a lost claim. The flush that finds \<open>uq_execution_attempts_sent_once\<close> taken, or any other
  constraint broken, rolls back and is a lost claim too.
\<close>

definition claim_and_mark_sent ::
  "exec_settings \<Rightarrow> string \<Rightarrow> (string \<Rightarrow> instant option) \<Rightarrow> uuid \<Rightarrow> execution_command \<Rightarrow> revalidation \<Rightarrow> int
     \<Rightarrow> instant \<Rightarrow> database \<Rightarrow> database \<times> (uuid \<times> json) option res" where
  "claim_and_mark_sent st provider_environment fromiso pid command rv observed_version now db =
     (let lost = (db, Inr None); control = control_snapshot_of fromiso db
      in case find_proposal db pid of
           None \<Rightarrow> lost
         | Some locked \<Rightarrow>
             if tp_version locked \<noteq> observed_version then lost
             else if tp_status locked \<notin> EXECUTABLE_STATUSES \<or> tp_expires_at locked \<le> now then lost
             else if sent_attempt db pid \<noteq> None then lost
             else if trading_halted control then lost
             else
               let snapshot = execution_snapshot locked command rv control st provider_environment now;
                   (aid, db1) = uuid4 db;
                   attempt = (attempt_of aid pid (next_attempt_number db pid) now (tp_broker_environment locked)
                     command snapshot)\<lparr>ea_actor_identifier := tp_approved_by locked\<rparr>;
                   db2 = set_proposal pid (claimed_row now) (add_attempt attempt db1);
                   db3 = add_audit actor_type.SYSTEM ''system:execution'' ''execution.transmitting''
                     ''trade_proposal'' (Some pid)
                     (JObj [(''broker_environment'', JStr (tp_broker_environment locked)),
                            (''broker_ticker'', JStr (ec_broker_ticker command)),
                            (''side'', JStr (order_side_value (ec_side command))),
                            (''quantity'', jdec (ec_quantity command)),
                            (''request_fingerprint'', JStr (fingerprint_for command)),
                            (''authorization_source'',
                               jopt (\<lambda>s. JStr (authorization_source_value s)) (tp_authorization_source locked))]) db2
               in case assert_transition (tp_status locked) proposal_status.EXECUTING of
                    Inl e \<Rightarrow> (db, Inl e)
                  | Inr _ \<Rightarrow> if database_ok db3 then (db3, Inr (Some (aid, snapshot))) else lost)"

section \<open>Recording the outcome\<close>

definition enqueue_reconcile :: "uuid \<Rightarrow> database \<Rightarrow> database" where
  "enqueue_reconcile aid db =
     snd (enqueue (job_type_value job_type.RECONCILE_EXECUTION) (JObj [(''attempt_id'', JStr aid)])
       1 None 3 (Some (''reconcile:'' @ aid)) db)"

text \<open>\<open>_mirror_order\<close>, and \<open>_mirror\<close> of the reconciliation: the row is found by its key, or made.\<close>

definition fresh_order :: "bool \<Rightarrow> trade_proposal \<Rightarrow> uuid \<Rightarrow> broker_order_view \<Rightarrow> instant \<Rightarrow> broker_order" where
  "fresh_order discovered p aid ord now =
     \<lparr>bo_broker = tp_broker p, bo_broker_order_id = ov_broker_order_id ord, bo_proposal_id = None,
      bo_execution_attempt_id = None,
      bo_broker_ticker = or_text (or_else (ov_broker_ticker ord) []) (tp_broker_ticker p),
      bo_side = tp_side p, bo_order_type = order_type.MARKET,
      bo_quantity = (case ov_signed_quantity ord of None \<Rightarrow> tp_proposed_quantity p | Some q \<Rightarrow> \<bar>q\<bar>),
      bo_filled_quantity = None, bo_filled_value = None, bo_currency = None, bo_broker_status = None,
      bo_broker_environment = None, bo_initiated_from = None, bo_is_terminal = False,
      bo_discovered_by_reconciliation = discovered, bo_submitted_at = None, bo_last_synced_at = now, bo_raw = []\<rparr>"

definition synced_order :: "trade_proposal \<Rightarrow> uuid \<Rightarrow> broker_order_view \<Rightarrow> instant \<Rightarrow> broker_order \<Rightarrow> broker_order" where
  "synced_order p aid ord now row =
     row\<lparr>bo_proposal_id := Some (tp_id p), bo_execution_attempt_id := Some aid,
         bo_filled_quantity := ov_filled_quantity ord, bo_filled_value := ov_filled_value ord,
         bo_currency := ov_currency ord, bo_broker_status := ov_status ord,
         bo_broker_environment := Some (tp_broker_environment p), bo_initiated_from := ov_initiated_from ord,
         bo_is_terminal := ov_is_terminal ord, bo_submitted_at := Some (or_else (ov_created_at ord) now),
         bo_last_synced_at := now, bo_raw := safe_payload (ov_raw ord)\<rparr>"

definition order_key :: "broker_order \<Rightarrow> broker \<times> string" where
  "order_key r = (bo_broker r, bo_broker_order_id r)"

definition mirror_order ::
  "bool \<Rightarrow> trade_proposal \<Rightarrow> uuid \<Rightarrow> broker_order_view \<Rightarrow> instant \<Rightarrow> database \<Rightarrow> database" where
  "mirror_order discovered p aid ord now db =
     (let key = (tp_broker p, ov_broker_order_id ord); sync = synced_order p aid ord now
      in db\<lparr>db_orders :=
           (if find_row order_key key (db_orders db) = None
            then db_orders db @ [sync (fresh_order discovered p aid ord now)]
            else upd_rows order_key key sync (db_orders db))\<rparr>)"

text \<open>
  Every recorder locks the attempt and the proposal first and stops when one is gone. The frame of a
  recorder: \<open>body\<close> gets both rows.
\<close>

definition with_rows ::
  "uuid \<Rightarrow> uuid \<Rightarrow> (execution_attempt \<Rightarrow> trade_proposal \<Rightarrow> database \<Rightarrow> (database \<times> execution_result) res)
     \<Rightarrow> database \<Rightarrow> database \<times> execution_result res" where
  "with_rows aid pid body = run_tx (\<lambda>db.
     case (find_attempt db aid, find_proposal db pid) of
       (Some a, Some p) \<Rightarrow> body a p db
     | _ \<Rightarrow> Inr (db, execution_result_of pid ''attempt vanished''))"

definition status_after :: "uuid \<Rightarrow> database \<Rightarrow> proposal_status option" where
  "status_after pid db = map_option tp_status (find_proposal db pid)"

definition acknowledged_attempt :: "broker_acknowledgement \<Rightarrow> instant \<Rightarrow> execution_attempt \<Rightarrow> execution_attempt" where
  "acknowledged_attempt ack now a =
     a\<lparr>ea_outcome := execution_outcome.SUBMITTED, ea_ambiguous := False, ea_http_status := Some (ba_http_status ack),
       ea_broker_order_id := Some (ov_broker_order_id (ba_order ack)),
       ea_response_payload := Some (JObj (safe_payload (ba_payload ack))),
       ea_rate_limit_headers := Some (JObj (ba_rate_limit ack)), ea_completed_at := Some now,
       ea_error := None, ea_error_category := None\<rparr>"

definition status_row :: "proposal_status \<Rightarrow> string \<Rightarrow> instant \<Rightarrow> trade_proposal \<Rightarrow> trade_proposal" where
  "status_row target reason now p =
     p\<lparr>tp_status := target, tp_status_reason := Some reason, tp_updated_at := now\<rparr>"

text \<open>What the broker's word on the order does to the proposal.\<close>

definition acknowledged_row :: "broker_order_view \<Rightarrow> instant \<Rightarrow> trade_proposal \<Rightarrow> trade_proposal res" where
  "acknowledged_row ord now p =
     (let broker_status = ov_status_text ord
      in if broker_status = ''FILLED''
         then bindE (assert_transition (tp_status p) proposal_status.EXECUTED) (\<lambda>_.
           Inr ((status_row proposal_status.EXECUTED ''the broker reported the order filled'' now p)
             \<lparr>tp_executed_at := Some now\<rparr>))
         else if broker_status \<in> {''CANCELLED'', ''REJECTED''}
         then bindE (assert_transition (tp_status p) proposal_status.FAILED) (\<lambda>_.
           Inr (status_row proposal_status.FAILED (''the broker ended the order as '' @ broker_status) now p))
         else Inr (status_row (tp_status p)
           (''the broker accepted the order (status '' @ or_text broker_status ''unknown'' @ '')'') now p))"

definition record_success ::
  "uuid \<Rightarrow> uuid \<Rightarrow> broker_acknowledgement \<Rightarrow> instant \<Rightarrow> database \<Rightarrow> database \<times> execution_result res" where
  "record_success aid pid ack now = with_rows aid pid (\<lambda>a p db.
     let ord = ba_order ack; oid = ov_broker_order_id ord;
         finished = ov_status_text ord \<in> {''FILLED'', ''CANCELLED'', ''REJECTED''}
     in bindE (acknowledged_row ord now p) (\<lambda>p'.
       let db1 = mirror_order False p aid ord now (set_attempt aid (acknowledged_attempt ack now) db);
           db2 = set_proposal pid (\<lambda>_. p') db1;
           db3 = add_audit actor_type.BROKER oid ''execution.submitted'' ''trade_proposal'' (Some pid)
             (JObj [(''broker_order_id'', JStr oid), (''broker_status'', jopt JStr (ov_status ord)),
                    (''http_status'', JInt (ba_http_status ack)),
                    (''filled_quantity'', jdec (or_else (ov_filled_quantity ord) (dec_of_int 0))),
                    (''initiated_from'', jopt JStr (ov_initiated_from ord))]) db2;
           db4 = notify pid notification_event.EXECUTION_SUBMITTED None db3;
           db5 = (if finished then db4 else enqueue_reconcile aid db4)
       in Inr (db5,
            \<lparr>er_proposal_id = pid, er_transmitted = True, er_outcome = Some execution_outcome.SUBMITTED,
             er_attempt_id = Some aid, er_broker_order_id = Some oid, er_status = Some (tp_status p'),
             er_reason = ''the broker accepted the order'', er_failure = None,
             er_reconcile_required = (\<not> finished)\<rparr>)))"

text \<open>The em dash of the messages, in UTF-8.\<close>

definition dash :: string where
  "dash = '' '' @ [CHR 0xE2, CHR 0x80, CHR 0x94] @ '' ''"

definition with_detail :: "string \<Rightarrow> string option \<Rightarrow> string" where
  "with_detail text detail = (if or_else detail [] = [] then text else text @ dash @ or_else detail [])"

definition rejected_attempt :: "broker_rejection \<Rightarrow> instant \<Rightarrow> execution_attempt \<Rightarrow> execution_attempt" where
  "rejected_attempt exc now a =
     a\<lparr>ea_outcome := execution_outcome.REJECTED_BY_BROKER, ea_ambiguous := False,
       ea_http_status := Some (rj_status exc),
       ea_error := Some (take 1000 (with_detail (rj_message exc) (rj_detail exc))),
       ea_error_category := Some (rj_category exc),
       ea_response_payload := (case rj_payload exc of None \<Rightarrow> ea_response_payload a
          | Some kvs \<Rightarrow> Some (JObj (safe_payload kvs))),
       ea_completed_at := Some now\<rparr>"

text \<open>
  A refusal of the quantity's precision teaches the instrument its precision and frees the dedupe key, so the
  thesis may be proposed anew; the result is the research run to queue again.
\<close>

definition learn_precision :: "broker_rejection \<Rightarrow> trade_proposal \<Rightarrow> database \<Rightarrow> database \<times> uuid option" where
  "learn_precision exc p db =
     (case (quantity_precision_from exc, tp_broker_instrument_id p) of
        (Some n, Some iid) \<Rightarrow>
          if (case find_instrument db iid of None \<Rightarrow> None | Some i \<Rightarrow> bi_quantity_precision i) \<noteq> Some n
          then (set_proposal (tp_id p) (\<lambda>q. q\<lparr>tp_dedupe_key := None,
                  tp_status_reason := Some (''the broker requires '' @ show_int n
                    @ '' decimal places on quantity; re-sizing'')\<rparr>)
                (db\<lparr>db_instruments := upd_rows bi_id iid (\<lambda>i. i\<lparr>bi_quantity_precision := Some n\<rparr>) (db_instruments db)\<rparr>),
                tp_research_run_id p)
          else (db, None)
      | _ \<Rightarrow> (db, None))"

definition rejection_result :: "uuid \<Rightarrow> uuid \<Rightarrow> broker_rejection \<Rightarrow> execution_result res" where
  "rejection_result aid pid exc =
     bindE (execution_failure_of (rj_category exc)) (\<lambda>failure. Inr
       \<lparr>er_proposal_id = pid, er_transmitted = True, er_outcome = Some execution_outcome.REJECTED_BY_BROKER,
        er_attempt_id = Some aid, er_broker_order_id = None, er_status = Some proposal_status.FAILED,
        er_reason = ''the broker refused the order (HTTP '' @ show_int (rj_status exc) @ '')'',
        er_failure = Some failure, er_reconcile_required = False\<rparr>)"

definition rejection_writes :: "uuid \<Rightarrow> uuid \<Rightarrow> broker_rejection \<Rightarrow> instant \<Rightarrow> database \<Rightarrow> database" where
  "rejection_writes aid pid exc now db =
     (let db1 = set_attempt aid (rejected_attempt exc now) db;
          db2 = set_proposal pid (status_row proposal_status.FAILED
            (''the broker refused the order (HTTP '' @ show_int (rj_status exc) @ '')'') now) db1;
          db3 = add_audit actor_type.BROKER ''trading212'' ''execution.rejected'' ''trade_proposal'' (Some pid)
            (JObj ([(''http_status'', JInt (rj_status exc)), (''category'', JStr (rj_category exc))]
              @ (if or_else (rj_detail exc) [] = [] then []
                 else [(''detail'', JStr (or_else (rj_detail exc) []))]))) db2
      in notify pid notification_event.EXECUTION_REJECTED
           (Some (with_detail (''HTTP '' @ show_int (rj_status exc) @ '' ('' @ rj_category exc @ '')'') (rj_detail exc)))
           db3)"

definition record_rejection_tx ::
  "uuid \<Rightarrow> uuid \<Rightarrow> broker_rejection \<Rightarrow> instant \<Rightarrow> database \<Rightarrow> (database \<times> uuid option option) res" where
  "record_rejection_tx aid pid exc now = transaction (\<lambda>db.
     case (find_attempt db aid, find_proposal db pid) of
       (Some a, Some p) \<Rightarrow>
         bindE (assert_transition (tp_status p) proposal_status.FAILED) (\<lambda>_.
           let (db', retry) = learn_precision exc p (rejection_writes aid pid exc now db)
           in Inr (db', Some retry))
     | _ \<Rightarrow> Inr (db, None))"

definition record_rejection ::
  "(uuid \<Rightarrow> uuid option) \<Rightarrow> uuid \<Rightarrow> uuid \<Rightarrow> broker_rejection \<Rightarrow> instant \<Rightarrow> database \<Rightarrow> database \<times> execution_result res" where
  "record_rejection thesis_of aid pid exc now db =
     (case record_rejection_tx aid pid exc now db of
        Inl e \<Rightarrow> (db, Inl e)
      | Inr (db', None) \<Rightarrow> (db', Inr (execution_result_of pid ''attempt vanished''))
      | Inr (db', Some retry) \<Rightarrow>
          ((case retry of None \<Rightarrow> db' | Some run_id \<Rightarrow> snd (enqueue_for_run thesis_of run_id db')),
           rejection_result aid pid exc))"

definition retracted_attempt :: "string \<Rightarrow> instant \<Rightarrow> execution_attempt \<Rightarrow> execution_attempt" where
  "retracted_attempt text now a =
     a\<lparr>ea_sent_to_broker := False, ea_sent_at := None, ea_outcome := execution_outcome.FAILED_BEFORE_SEND,
       ea_ambiguous := False, ea_error := Some (take 1000 text),
       ea_error_category := Some (execution_failure_value execution_failure.CONNECT_FAILED),
       ea_completed_at := Some now\<rparr>"

definition retract_unsent :: "uuid \<Rightarrow> uuid \<Rightarrow> string \<Rightarrow> instant \<Rightarrow> database \<Rightarrow> database \<times> execution_result res" where
  "retract_unsent aid pid text now = with_rows aid pid (\<lambda>a p db.
     bindE (assert_transition (tp_status p) PRESEND_RECOVERY_TARGET) (\<lambda>_.
       let db1 = set_attempt aid (retracted_attempt text now) db;
           db2 = set_proposal pid (status_row PRESEND_RECOVERY_TARGET
             ''the order was provably not transmitted; the authorization still stands'' now) db1;
           db3 = add_audit actor_type.SYSTEM ''system:execution'' ''execution.retracted_unsent'' ''trade_proposal''
             (Some pid)
             (JObj [(''category'', JStr (execution_failure_value execution_failure.CONNECT_FAILED)),
                    (''sent_to_broker_retracted'', JBool True),
                    (''proof'', JStr ''the transport failed before a request line was written'')]) db2;
           db4 = notify pid notification_event.EXECUTION_FAILED
             (Some ''the order was not transmitted; the proposal is still authorized'') db3
       in Inr (db4,
            \<lparr>er_proposal_id = pid, er_transmitted = False, er_outcome = Some execution_outcome.FAILED_BEFORE_SEND,
             er_attempt_id = Some aid, er_broker_order_id = None, er_status = Some PRESEND_RECOVERY_TARGET,
             er_reason = ''the order was provably not transmitted'',
             er_failure = Some execution_failure.CONNECT_FAILED, er_reconcile_required = False\<rparr>)))"

definition ambiguous_attempt :: "execution_failure \<Rightarrow> string \<Rightarrow> instant \<Rightarrow> execution_attempt \<Rightarrow> execution_attempt" where
  "ambiguous_attempt category detail now a =
     a\<lparr>ea_outcome := execution_outcome.AMBIGUOUS, ea_ambiguous := True, ea_error := Some (take 1000 detail),
       ea_error_category := Some (execution_failure_value category), ea_completed_at := Some now\<rparr>"

definition record_ambiguous ::
  "uuid \<Rightarrow> uuid \<Rightarrow> execution_failure \<Rightarrow> string \<Rightarrow> instant \<Rightarrow> database \<Rightarrow> database \<times> execution_result res" where
  "record_ambiguous aid pid category detail now = with_rows aid pid (\<lambda>a p db.
     bindE (if tp_status p = proposal_status.EXECUTION_AMBIGUOUS then Inr ()
            else assert_transition (tp_status p) proposal_status.EXECUTION_AMBIGUOUS) (\<lambda>_.
       let db1 = set_attempt aid (ambiguous_attempt category detail now) db;
           db2 = set_proposal pid (status_row proposal_status.EXECUTION_AMBIGUOUS
             ''the order may or may not have reached the broker; reconciliation required'' now) db1;
           db3 = add_audit actor_type.SYSTEM ''system:execution'' ''execution.ambiguous'' ''trade_proposal'' (Some pid)
             (JObj [(''category'', JStr (execution_failure_value category)), (''resend_permitted'', JBool False),
                    (''reconciliation_required'', JBool True)]) db2;
           db4 = notify pid notification_event.EXECUTION_AMBIGUOUS
             (Some (execution_failure_value category @ '': do not resend, reconciliation required''))
             (enqueue_reconcile aid db3)
       in Inr (db4,
            \<lparr>er_proposal_id = pid, er_transmitted = True, er_outcome = Some execution_outcome.AMBIGUOUS,
             er_attempt_id = Some aid, er_broker_order_id = None,
             er_status = Some proposal_status.EXECUTION_AMBIGUOUS,
             er_reason = ''the order may or may not have reached the broker'', er_failure = Some category,
             er_reconcile_required = True\<rparr>)))"

section \<open>Refusals\<close>

text \<open>The attempt row that records what was declined, and why.\<close>

definition refused_attempt ::
  "uuid \<Rightarrow> trade_proposal \<Rightarrow> int \<Rightarrow> execution_command \<Rightarrow> preflight_refusal \<Rightarrow> instant \<Rightarrow> execution_attempt" where
  "refused_attempt aid p number command refusal now =
     \<lparr>ea_id = aid, ea_proposal_id = tp_id p, ea_attempt_number = number, ea_started_at = now,
      ea_completed_at = Some now, ea_broker_environment = tp_broker_environment p,
      ea_request_payload = JObj (ec_as_dict command), ea_request_fingerprint = fingerprint_for command,
      ea_sent_to_broker = False, ea_sent_at = None, ea_http_status = None, ea_response_payload = None,
      ea_broker_order_id = None, ea_outcome = execution_outcome.FAILED_BEFORE_SEND, ea_ambiguous = False,
      ea_error = Some (take 1000 (pr_detail refusal)),
      ea_error_category = Some (execution_failure_value (pr_category refusal)), ea_actor_identifier = None,
      ea_rate_limit_headers = None,
      ea_execution_snapshot = JObj
        [(''refused'', JBool True), (''category'', JStr (execution_failure_value (pr_category refusal))),
         (''reasons'', JList (map JStr (pr_reasons refusal))), (''rule_ids'', JList (map JStr (pr_rule_ids refusal))),
         (''preflight_at'', jtime now)],
      ea_preflight_at = Some now, ea_reconciled_at = None, ea_reconciliation_result = None,
      ea_reconciliation_attempts = 0, ea_reconciliation_detail = JObj []\<rparr>"

definition refused_row :: "preflight_refusal \<Rightarrow> instant \<Rightarrow> trade_proposal \<Rightarrow> trade_proposal" where
  "refused_row refusal now p =
     (if pr_invalidates refusal \<and> tp_status p \<in> EXECUTABLE_STATUSES
      then invalidated (pr_detail refusal) now p else p)"

text \<open>
  The attempt's key is drawn when its row is flushed. A notification flushes (the queue opens a
  savepoint); without one nothing has been flushed when the result reads \<open>attempt.id\<close>, sessions having
  \<open>autoflush=False\<close>, and it is still \<open>None\<close>.
\<close>

definition record_refusal ::
  "uuid \<Rightarrow> execution_command \<Rightarrow> preflight_refusal \<Rightarrow> instant \<Rightarrow> database \<Rightarrow> database \<times> execution_result res" where
  "record_refusal pid command refusal now = run_tx (\<lambda>db.
     case find_proposal db pid of
       None \<Rightarrow> Inr (db, execution_result_of pid ''proposal vanished'')
     | Some p \<Rightarrow>
         bindE (if pr_invalidates refusal \<and> tp_status p \<in> EXECUTABLE_STATUSES
                then assert_transition (tp_status p) proposal_status.INVALIDATED else Inr ()) (\<lambda>_.
           let (aid, db0) = uuid4 db;
               db1 = add_attempt (refused_attempt aid p (next_attempt_number db pid) command refusal now) db0;
               db2 = set_proposal pid (refused_row refusal now) db1;
               db3 = add_audit actor_type.SYSTEM ''system:execution'' ''execution.refused'' ''trade_proposal'' (Some pid)
                 (JObj [(''category'', JStr (execution_failure_value (pr_category refusal))),
                        (''reasons'', JList (map JStr (take 10 (map (take 300) (pr_reasons refusal))))),
                        (''invalidated'', JBool (pr_invalidates refusal)), (''transmitted'', JBool False)]) db2;
               db4 = (if pr_invalidates refusal
                      then notify pid notification_event.PROPOSAL_INVALIDATED (Some (pr_detail refusal)) db3 else db3)
           in Inr (db4,
                \<lparr>er_proposal_id = pid, er_transmitted = False,
                 er_outcome = Some execution_outcome.FAILED_BEFORE_SEND,
                 er_attempt_id = (if pr_invalidates refusal then Some aid else None), er_broker_order_id = None,
                 er_status = Some (tp_status (refused_row refusal now p)), er_reason = pr_detail refusal,
                 er_failure = Some (pr_category refusal), er_reconcile_required = False\<rparr>)))"

section \<open>Crash recovery\<close>

definition recover_sent_attempt :: "uuid \<Rightarrow> uuid \<Rightarrow> instant \<Rightarrow> database \<Rightarrow> database \<times> execution_result res" where
  "recover_sent_attempt aid pid now db =
     (case find_attempt db aid of
        None \<Rightarrow> (db, Inr (execution_result_of pid ''attempt vanished''))
      | Some a \<Rightarrow>
          if ea_outcome a \<noteq> execution_outcome.PENDING
          then (db, Inr
            \<lparr>er_proposal_id = pid, er_transmitted = True, er_outcome = Some (ea_outcome a),
             er_attempt_id = Some aid, er_broker_order_id = ea_broker_order_id a, er_status = None,
             er_reason = ''an execution attempt has already been transmitted for this proposal'',
             er_failure = None, er_reconcile_required = (\<not> outcome_is_terminal (ea_outcome a))\<rparr>)
          else record_ambiguous aid pid execution_failure.CRASH_RECOVERY
            (''a transmitted attempt was found with no recorded result; the process ''
             @ ''stopped between recording the send and recording the outcome'') now db)"

definition stranded :: "exec_settings \<Rightarrow> instant \<Rightarrow> execution_attempt \<Rightarrow> bool" where
  "stranded st now a =
     (ea_sent_to_broker a \<and> ea_outcome a = execution_outcome.PENDING
      \<and> (case ea_sent_at a of None \<Rightarrow> False | Some t \<Rightarrow> t < now - xs_order_timeout st * 2))"

text \<open>The loop of \<open>recover_incomplete\<close>: an exception ends it, what came before stays recorded.\<close>

fun mark_stranded :: "instant \<Rightarrow> (uuid \<times> uuid) list \<Rightarrow> database \<Rightarrow> database \<times> unit res" where
  "mark_stranded now [] db = (db, Inr ())"
| "mark_stranded now ((aid, pid) # rest) db =
     (case record_ambiguous aid pid execution_failure.CRASH_RECOVERY
          ''a transmitted attempt had no recorded result after a restart'' now db of
        (db', Inl e) \<Rightarrow> (db', Inl e)
      | (db', Inr _) \<Rightarrow> mark_stranded now rest db')"

definition recover_incomplete :: "exec_settings \<Rightarrow> instant \<Rightarrow> database \<Rightarrow> database \<times> nat res" where
  "recover_incomplete st now db =
     (let found = map (\<lambda>a. (ea_id a, ea_proposal_id a)) (filter (stranded st now) (db_attempts db))
      in case mark_stranded now found db of
           (db', Inl e) \<Rightarrow> (db', Inl e)
         | (db', Inr _) \<Rightarrow> (db', Inr (length found)))"

section \<open>Scheduling\<close>

definition ready_to_send :: "exec_settings \<Rightarrow> broker \<Rightarrow> instant \<Rightarrow> database \<Rightarrow> trade_proposal \<Rightarrow> bool" where
  "ready_to_send st b now db p =
     (tp_status p \<in> EXECUTABLE_STATUSES \<and> tp_broker p = b
      \<and> tp_broker_environment p = broker_environment_value (xs_env st)
      \<and> now < tp_expires_at p \<and> sent_attempt db (tp_id p) = None)"

text \<open>\<open>ORDER BY approved_at\<close> puts \<open>NULL\<close> last.\<close>

definition by_approval :: "trade_proposal list \<Rightarrow> trade_proposal list" where
  "by_approval ps = sort_key (\<lambda>p. or_else (tp_approved_at p) 0) (filter (\<lambda>p. tp_approved_at p \<noteq> None) ps)
     @ filter (\<lambda>p. tp_approved_at p = None) ps"

fun enqueue_executions :: "uuid list \<Rightarrow> database \<Rightarrow> database \<times> nat" where
  "enqueue_executions [] db = (db, 0)"
| "enqueue_executions (pid # pids) db =
     (let (job_id, db1) = enqueue (job_type_value job_type.EXECUTE_PROPOSAL) (JObj [(''proposal_id'', JStr pid)])
            5 None 3 (Some (''execute:'' @ pid)) db;
          (db2, n) = enqueue_executions pids db1
      in (db2, if job_id = None then n else n + 1))"

definition enqueue_ready ::
  "exec_settings \<Rightarrow> broker \<Rightarrow> (string \<Rightarrow> instant option) \<Rightarrow> nat \<Rightarrow> instant \<Rightarrow> database \<Rightarrow> (database \<times> nat) res" where
  "enqueue_ready st b fromiso limit now db =
     (if order_transmission_blockers st \<noteq> [] then Inr (db, 0)
      else if trading_halted (control_snapshot_of fromiso db) then Inr (db, 0)
      else transaction (\<lambda>db. Inr (enqueue_executions
             (map tp_id (take limit (by_approval (filter (ready_to_send st b now db) (db_proposals db))))) db)) db)"

section \<open>The whole execution\<close>

text \<open>What the checks before the send transaction decide.\<close>

datatype execution_plan =
    Stop execution_result
  | Recover uuid
  | Decline execution_command preflight_refusal
  | Send execution_command revalidation int
  | Raise py_error

definition no_token :: preflight_refusal where
  "no_token =
     \<lparr>pr_category = execution_failure.RATE_LIMITED_LOCALLY,
      pr_reasons = [''the local Trading 212 order rate limiter had no token available; ''
        @ ''the order was not transmitted and will be retried''],
      pr_invalidates = False, pr_rule_ids = []\<rparr>"

text \<open>The first session: is there anything to do?\<close>

definition first_look :: "uuid \<Rightarrow> database \<Rightarrow> execution_plan option" where
  "first_look pid db =
     (case find_proposal db pid of
        None \<Rightarrow> Some (Stop (execution_result_of pid ''proposal not found''))
      | Some p \<Rightarrow>
          (case sent_attempt db pid of
             Some a \<Rightarrow> Some (Recover (ea_id a))
           | None \<Rightarrow>
               if tp_status p \<notin> EXECUTABLE_STATUSES
               then Some (Stop ((execution_result_of pid (''the proposal is ''
                 @ proposal_status_value (tp_status p) @ '' and is not executable''))
                 \<lparr>er_status := Some (tp_status p)\<rparr>))
               else None))"

text \<open>
  The second session, the pending-order count and the rate-limit slot. \<open>revalidate\<close> is
  \<open>ProposalService.revalidate\<close> and \<open>slot\<close> the answer of \<open>reserve_slot\<close>.
\<close>

definition second_look ::
  "exec_settings \<Rightarrow> string \<Rightarrow> control_snapshot \<Rightarrow> (trade_proposal \<Rightarrow> revalidation option res) \<Rightarrow> pending_order_count
     \<Rightarrow> bool \<Rightarrow> uuid \<Rightarrow> instant \<Rightarrow> database \<Rightarrow> execution_plan" where
  "second_look st provider_environment control revalidate pending slot pid now db =
     (case find_proposal db pid of
        None \<Rightarrow> Raise AssertionError
      | Some p \<Rightarrow>
          (case bindE (preflight_run st provider_environment control (revalidate p) p now False) (\<lambda>out.
                bindE (command_from p st) (\<lambda>command. Inr (out, command))) of
             Inl e \<Rightarrow> Raise e
           | Inr (out, command) \<Rightarrow>
               (case po_refusal out of
                  Some refusal \<Rightarrow> Decline command refusal
                | None \<Rightarrow>
                    (case pending_order_refusal st pending db command of
                       Some refusal \<Rightarrow> Decline command refusal
                     | None \<Rightarrow>
                         if \<not> slot then Decline command no_token
                         else (case po_revalidation out of
                                 None \<Rightarrow> Raise AssertionError
                               | Some rv \<Rightarrow> Send command rv (tp_version p))))))"

definition record_reply ::
  "(uuid \<Rightarrow> uuid option) \<Rightarrow> uuid \<Rightarrow> uuid \<Rightarrow> submit_reply \<Rightarrow> instant \<Rightarrow> database \<Rightarrow> database \<times> execution_result res" where
  "record_reply thesis_of aid pid reply now db =
     (case reply of
        Acknowledged ack \<Rightarrow> record_success aid pid ack now db
      | NotSent text \<Rightarrow> retract_unsent aid pid text now db
      | Rejected exc \<Rightarrow> record_rejection thesis_of aid pid exc now db
      | Ambiguous text \<Rightarrow> record_ambiguous aid pid (ambiguous_category text) text now db
      | Unexpected error_type \<Rightarrow> record_ambiguous aid pid execution_failure.TRANSPORT_AMBIGUOUS
          (''unexpected '' @ error_type @ '' during transmission'') now db)"

text \<open>
  \<open>execute\<close> is a sequence of transactions; \<open>others n\<close> is what other workers commit between the
  \<open>n\<close>th and the next. The third component is what was handed to \<open>provider.submit\<close>.
\<close>

definition execute ::
  "exec_settings \<Rightarrow> string \<Rightarrow> (string \<Rightarrow> instant option) \<Rightarrow> (uuid \<Rightarrow> uuid option)
     \<Rightarrow> (database \<Rightarrow> trade_proposal \<Rightarrow> revalidation option res) \<Rightarrow> pending_order_count \<Rightarrow> bool
     \<Rightarrow> (execution_command \<Rightarrow> submit_reply) \<Rightarrow> (nat \<Rightarrow> database \<Rightarrow> database) \<Rightarrow> uuid \<Rightarrow> instant \<Rightarrow> database
     \<Rightarrow> database \<times> execution_result res \<times> execution_command list" where
  "execute st provider_environment fromiso thesis_of revalidate pending slot submit others pid now db0 =
     (let db1 = others 0 db0;
          plan = (case first_look pid db0 of
            Some early \<Rightarrow> early
          | None \<Rightarrow> second_look st provider_environment (control_snapshot_of fromiso db1) (revalidate db1)
              pending slot pid now db1);
          db2 = others 1 db1
      in case plan of
           Stop r \<Rightarrow> (db2, Inr r, [])
         | Raise e \<Rightarrow> (db2, Inl e, [])
         | Recover aid \<Rightarrow> (let (db3, r) = recover_sent_attempt aid pid now db2 in (db3, r, []))
         | Decline command refusal \<Rightarrow> (let (db3, r) = record_refusal pid command refusal now db2 in (db3, r, []))
         | Send command rv version \<Rightarrow>
             (case claim_and_mark_sent st provider_environment fromiso pid command rv version now db2 of
                (db3, Inl e) \<Rightarrow> (db3, Inl e, [])
              | (db3, Inr None) \<Rightarrow> (db3, Inr (execution_result_of pid
                  ''another actor changed or claimed this proposal before transmission''), [])
              | (db3, Inr (Some (aid, snapshot))) \<Rightarrow>
                  (let (db4, r) = record_reply thesis_of aid pid (submit command) now (others 2 db3)
                   in (db4, r, [command]))))"

end
