(* ===== verification/Http_Client.thy ===== *)
theory Http_Client
  imports Fx_Service
begin

text \<open>
  \<open>backend/stockbrain/httpclient.py\<close>: the token bucket, the reading of rate-limit headers, the
  classification of a failed response and the bounded retry loop. The transport is the parameter
  \<open>answer\<close>: what the \<open>n\<close>th request of one call gets, an \<open>httpx\<close> exception or a response. Python's
  \<open>float\<close> of a text is the parameter \<open>float_of\<close>, \<open>None\<close> where it raises \<open>ValueError\<close>. The arithmetic of
  the bucket is rounded by the parameter \<open>rnd\<close> at every operation.
\<close>

section \<open>What the transport answers\<close>

datatype httpx_error =
    ConnectError
  | ConnectTimeout
  | PoolTimeout
  | ProxyError
  | LocalProtocolError
  | UnsupportedProtocol
  | InvalidURL
  | ReadTimeout
  | WriteTimeout
  | ReadError
  | WriteError
  | CloseError
  | RemoteProtocolError
  | DecodingError
  | TooManyRedirects

fun httpx_error_name :: "httpx_error \<Rightarrow> string" where
  "httpx_error_name ConnectError = ''ConnectError''"
| "httpx_error_name ConnectTimeout = ''ConnectTimeout''"
| "httpx_error_name PoolTimeout = ''PoolTimeout''"
| "httpx_error_name ProxyError = ''ProxyError''"
| "httpx_error_name LocalProtocolError = ''LocalProtocolError''"
| "httpx_error_name UnsupportedProtocol = ''UnsupportedProtocol''"
| "httpx_error_name InvalidURL = ''InvalidURL''"
| "httpx_error_name ReadTimeout = ''ReadTimeout''"
| "httpx_error_name WriteTimeout = ''WriteTimeout''"
| "httpx_error_name ReadError = ''ReadError''"
| "httpx_error_name WriteError = ''WriteError''"
| "httpx_error_name CloseError = ''CloseError''"
| "httpx_error_name RemoteProtocolError = ''RemoteProtocolError''"
| "httpx_error_name DecodingError = ''DecodingError''"
| "httpx_error_name TooManyRedirects = ''TooManyRedirects''"

text \<open>What \<open>except httpx.HTTPError\<close> catches.\<close>

definition is_http_error :: "httpx_error \<Rightarrow> bool" where
  "is_http_error e = (e \<noteq> InvalidURL)"

text \<open>
  What \<open>httpx\<close> documents of its exceptions: these are raised while the request is checked, while a connection is
  taken from the pool or opened, directly or through a proxy; the others once a request is being exchanged.
\<close>

fun before_request :: "httpx_error \<Rightarrow> bool" where
  "before_request ConnectError = True"
| "before_request ConnectTimeout = True"
| "before_request PoolTimeout = True"
| "before_request ProxyError = True"
| "before_request LocalProtocolError = True"
| "before_request UnsupportedProtocol = True"
| "before_request InvalidURL = True"
| "before_request ReadTimeout = False"
| "before_request WriteTimeout = False"
| "before_request ReadError = False"
| "before_request WriteError = False"
| "before_request CloseError = False"
| "before_request RemoteProtocolError = False"
| "before_request DecodingError = False"
| "before_request TooManyRedirects = False"

section \<open>Floats of a text\<close>

datatype py_float = Fin rat | PInf | NInf | NaN

text \<open>\<open>int(float(value))\<close> in the \<open>try\<close> that catches \<open>ValueError\<close>: the integer of an infinity is an \<open>OverflowError\<close>.\<close>

definition trunc :: "rat \<Rightarrow> int" where
  "trunc q = (if q < 0 then - \<lfloor>- q\<rfloor> else \<lfloor>q\<rfloor>)"

fun int_of_float :: "py_float option \<Rightarrow> int option res" where
  "int_of_float None = Inr None"
| "int_of_float (Some (Fin q)) = Inr (Some (trunc q))"
| "int_of_float (Some NaN) = Inr None"
| "int_of_float (Some PInf) = Inl OverflowError"
| "int_of_float (Some NInf) = Inl OverflowError"

text \<open>\<open>min(h, m)\<close> of a finite \<open>m\<close>: the first argument unless the second is smaller.\<close>

fun float_min :: "py_float \<Rightarrow> rat \<Rightarrow> py_float" where
  "float_min (Fin h) m = Fin (if m < h then m else h)"
| "float_min PInf m = Fin m"
| "float_min NInf m = NInf"
| "float_min NaN m = NaN"

section \<open>Responses\<close>

text \<open>A decoded body is \<open>None\<close> when it is not JSON; a number that is no integer is kept by its text.\<close>

record http_response =
  hs_status :: int
  hs_headers :: "(string \<times> string) list"
  hs_text :: string
  hs_json :: "json option"

definition is_success :: "http_response \<Rightarrow> bool" where
  "is_success r = (200 \<le> hs_status r \<and> hs_status r < 300)"

section \<open>Rate-limit headers\<close>

record rate_limit_snapshot =
  rl_limit :: "int option"
  rl_remaining :: "int option"
  rl_used :: "int option"
  rl_reset :: "int option"
  rl_period :: "string option"
  rl_raw :: "(string \<times> string) list"

definition header :: "(string \<times> string) list \<Rightarrow> string \<Rightarrow> string option" where
  "header headers name = map_of (rev (map (\<lambda>(k, v). (lower k, v)) headers)) name"

text \<open>The dictionary of lowered keys: a key keeps its first place and its last value.\<close>

definition lowered :: "(string \<times> string) list \<Rightarrow> (string \<times> string) list" where
  "lowered headers = map (\<lambda>k. (k, or_else (header headers k) []))
     (rev (remdups (rev (map (\<lambda>(k, v). lower k) headers))))"

definition from_headers :: "(string \<Rightarrow> py_float option) \<Rightarrow> (string \<times> string) list \<Rightarrow> rate_limit_snapshot res" where
  "from_headers float_of headers =
     (let as_int = (\<lambda>name. int_of_float (Option.bind (header headers name) float_of))
      in bindE (as_int ''x-ratelimit-limit'') (\<lambda>limit.
         bindE (as_int ''x-ratelimit-remaining'') (\<lambda>remaining.
         bindE (as_int ''x-ratelimit-used'') (\<lambda>used.
         bindE (as_int ''x-ratelimit-reset'') (\<lambda>reset. Inr
           \<lparr>rl_limit = limit, rl_remaining = remaining, rl_used = used, rl_reset = reset,
            rl_period = header headers ''x-ratelimit-period'',
            rl_raw = filter (\<lambda>(k, v). take 11 k = ''x-ratelimit'') (lowered headers)\<rparr>)))))"

definition rl_as_dict :: "rate_limit_snapshot \<Rightarrow> (string \<times> json) list" where
  "rl_as_dict s =
     [(''limit'', jopt JInt (rl_limit s)), (''remaining'', jopt JInt (rl_remaining s)),
      (''used'', jopt JInt (rl_used s)), (''reset'', jopt JInt (rl_reset s)),
      (''period'', jopt JStr (rl_period s))]"

section \<open>Token bucket\<close>

record token_bucket =
  tb_rate :: rat
  tb_capacity :: rat
  tb_tokens :: rat
  tb_updated :: rat

definition make_bucket :: "(rat \<Rightarrow> rat) \<Rightarrow> rat \<Rightarrow> int option \<Rightarrow> rat \<Rightarrow> token_bucket res" where
  "make_bucket rnd rate burst now =
     (if rate \<le> 0 then Inl (ValueError ''rate_per_second must be positive'')
      else let capacity = (case burst of None \<Rightarrow> max 1 rate | Some n \<Rightarrow> rnd (of_int n))
           in Inr \<lparr>tb_rate = rate, tb_capacity = capacity, tb_tokens = capacity, tb_updated = now\<rparr>)"

definition refill :: "(rat \<Rightarrow> rat) \<Rightarrow> rat \<Rightarrow> token_bucket \<Rightarrow> token_bucket" where
  "refill rnd now b =
     b\<lparr>tb_tokens := min (tb_capacity b) (rnd (tb_tokens b + rnd (rnd (now - tb_updated b) * tb_rate b))),
       tb_updated := now\<rparr>"

text \<open>\<open>try_acquire\<close> at the clock reading \<open>now\<close>.\<close>

definition try_acquire :: "(rat \<Rightarrow> rat) \<Rightarrow> rat \<Rightarrow> token_bucket \<Rightarrow> bool \<times> token_bucket" where
  "try_acquire rnd now b =
     (let b' = refill rnd now b
      in if 1 \<le> tb_tokens b' then (True, b'\<lparr>tb_tokens := rnd (tb_tokens b' - 1)\<rparr>) else (False, b'))"

text \<open>
  \<open>acquire\<close>: the readings of the clock, one per turn of the loop; between two turns it sleeps
  \<open>wait_time\<close>. The result counts the turns that found no token; \<open>None\<close> while still waiting.
\<close>

definition wait_time :: "(rat \<Rightarrow> rat) \<Rightarrow> token_bucket \<Rightarrow> rat" where
  "wait_time rnd b = rnd (rnd (1 - tb_tokens b) / tb_rate b)"

fun acquire :: "(rat \<Rightarrow> rat) \<Rightarrow> rat list \<Rightarrow> token_bucket \<Rightarrow> nat option \<times> token_bucket" where
  "acquire rnd [] b = (None, b)"
| "acquire rnd (now # later) b =
     (let (granted, b') = try_acquire rnd now b
      in if granted then (Some 0, b')
         else let (turns, b'') = acquire rnd later b' in (map_option Suc turns, b''))"

section \<open>Classification\<close>

definition RETRYABLE_STATUS :: "int set" where
  "RETRYABLE_STATUS = {408, 425, 429, 500, 502, 503, 504}"

record http_client =
  hc_provider :: string
  hc_max_attempts :: int
  hc_backoff_base :: rat
  hc_backoff_max :: rat
  hc_refine_error :: "(http_response \<Rightarrow> provider_failure \<Rightarrow> provider_failure option) option"

definition http_text :: "http_client \<Rightarrow> string \<Rightarrow> int \<Rightarrow> string \<Rightarrow> string" where
  "http_text c before status rest = hc_provider c @ before @ show_int status @ rest"

text \<open>The error of a status, and the hint \<open>retry_after_seconds\<close> that \<open>ProviderRateLimited\<close> carries.\<close>

definition classify_by_status :: "http_client \<Rightarrow> http_response \<Rightarrow> provider_failure" where
  "classify_by_status c r =
     (let status = hs_status r
      in if status = 401 \<or> status = 403
         then AuthFailure (http_text c '': authentication rejected (HTTP '' status '')'')
         else if status = 402
         then EntitlementFailure (hc_provider c @ '': subscription does not cover this resource (HTTP 402)'')
         else if status = 429
         then OtherFailure ''ProviderRateLimited'' (hc_provider c @ '': rate limited (HTTP 429)'')
         else if status \<in> RETRYABLE_STATUS \<or> 500 \<le> status
         then OtherFailure ''ProviderUnavailable'' (http_text c '': HTTP '' status [])
         else OtherFailure ''ProviderResponseError'' (http_text c '': HTTP '' status ('': '' @ take 300 (hs_text r))))"

definition retry_hint :: "(string \<Rightarrow> py_float option) \<Rightarrow> http_response \<Rightarrow> provider_failure \<Rightarrow> py_float option" where
  "retry_hint float_of r error =
     (if hs_status r = 429 \<and> failure_type error = ''ProviderRateLimited'' then (case header (hs_headers r) ''retry-after'' of
         None \<Rightarrow> None | Some v \<Rightarrow> if v = [] then None else float_of v) else None)"

text \<open>A refinement that raises is ignored.\<close>

definition classify :: "http_client \<Rightarrow> http_response \<Rightarrow> provider_failure" where
  "classify c r =
     (let e = classify_by_status c r
      in case hc_refine_error c of None \<Rightarrow> e | Some refine \<Rightarrow> or_else (refine r e) e)"

definition retryable :: "provider_failure \<Rightarrow> bool" where
  "retryable e = (failure_type e \<in> {''ProviderRateLimited'', ''ProviderUnavailable''})"

definition decode :: "http_client \<Rightarrow> http_response \<Rightarrow> provider_failure + json" where
  "decode c r =
     (case hs_json r of
        Some v \<Rightarrow> Inr v
      | None \<Rightarrow> response_error (http_text c '': response was not valid JSON (status '' (hs_status r)
          ('', content-type '' @ repr_str (or_else (header (hs_headers r) ''content-type'') ''unknown'') @ '')'')))"

section \<open>One call\<close>

text \<open>
  The upper end of the random sleep before the next attempt. A sleep of a negative length or of \<open>NaN\<close> seconds
  returns at once.
\<close>

definition backoff_delay :: "http_client \<Rightarrow> nat \<Rightarrow> py_float option \<Rightarrow> py_float" where
  "backoff_delay c attempt hint =
     (case hint of
        Some h \<Rightarrow> float_min h (hc_backoff_max c)
      | None \<Rightarrow> float_min (Fin (hc_backoff_base c * 2 ^ (attempt - 1))) (hc_backoff_max c))"

text \<open>
  The loop from attempt \<open>attempt\<close> on, with \<open>left\<close> attempts after it: the delays slept, and an exception that is
  no provider error or the result. Each turn waits for the rate limiter and makes exactly one request. An
  \<open>InvalidURL\<close> and the \<open>OverflowError\<close> of an unreadable rate-limit header leave the call at once.
\<close>

fun request_loop ::
  "http_client \<Rightarrow> (string \<Rightarrow> py_float option) \<Rightarrow> (nat \<Rightarrow> httpx_error + http_response) \<Rightarrow> nat \<Rightarrow> nat
     \<Rightarrow> py_float list \<times> (provider_failure + json) res" where
  "request_loop c float_of answer attempt left =
     (case answer attempt of
        Inl exc \<Rightarrow>
          if \<not> is_http_error exc then ([], Inl InvalidURLError)
          else (case left of
             0 \<Rightarrow> ([], Inr (Inl (OtherFailure ''ProviderUnavailable''
               (hc_provider c @ '': transport failure ('' @ httpx_error_name exc @ '')''))))
           | Suc n \<Rightarrow>
               let (delays, r) = request_loop c float_of answer (attempt + 1) n
               in (backoff_delay c attempt None # delays, r))
      | Inr response \<Rightarrow>
          (case from_headers float_of (hs_headers response) of
             Inl e \<Rightarrow> ([], Inl e)
           | Inr _ \<Rightarrow>
               if is_success response then ([], Inr (decode c response))
               else
                 let error = classify c response
                 in case left of
                      0 \<Rightarrow> ([], Inr (Inl error))
                    | Suc n \<Rightarrow>
                        if retryable error
                        then let (delays, r) = request_loop c float_of answer (attempt + 1) n
                             in (backoff_delay c attempt (retry_hint float_of response error) # delays, r)
                        else ([], Inr (Inl error))))"

declare request_loop.simps [simp del]

definition request_json ::
  "http_client \<Rightarrow> (string \<Rightarrow> py_float option) \<Rightarrow> (nat \<Rightarrow> httpx_error + http_response) \<Rightarrow> bool \<Rightarrow> int option
     \<Rightarrow> (py_float list \<times> (provider_failure + json) res) res" where
  "request_json c float_of answer retry_safe max_attempts =
     (let attempts = (if retry_safe then or_else max_attempts (hc_max_attempts c) else 1)
      in if attempts \<le> 0 then Inl AssertionError
         else Inr (request_loop c float_of answer 1 (nat attempts - 1)))"

definition get_json ::
  "http_client \<Rightarrow> (string \<Rightarrow> py_float option) \<Rightarrow> (nat \<Rightarrow> httpx_error + http_response) \<Rightarrow> int option
     \<Rightarrow> (py_float list \<times> (provider_failure + json) res) res" where
  "get_json c float_of answer max_attempts = request_json c float_of answer True max_attempts"

section \<open>What a call costs and returns\<close>

text \<open>An answer that earns another attempt: a transport failure, or a readable failed response of a transient kind.\<close>

definition transient :: "http_client \<Rightarrow> (string \<Rightarrow> py_float option) \<Rightarrow> httpx_error + http_response \<Rightarrow> bool" where
  "transient c float_of a =
     (case a of
        Inl exc \<Rightarrow> is_http_error exc
      | Inr r \<Rightarrow> okE (from_headers float_of (hs_headers r)) \<and> \<not> is_success r \<and> retryable (classify c r))"

text \<open>No pause is longer than the ceiling.\<close>

fun pause_within :: "rat \<Rightarrow> py_float \<Rightarrow> bool" where
  "pause_within m (Fin d) = (d \<le> m)"
| "pause_within m PInf = False"
| "pause_within m _ = True"

lemma backoff_delay_le: "pause_within (hc_backoff_max c) (backoff_delay c attempt hint)"
proof -
  have "pause_within m (float_min h m)" for h m by (cases h) auto
  then show ?thesis by (simp add: backoff_delay_def del: float_min.simps split: option.split)
qed

lemma request_loop_shape:
  "request_loop c f answer attempt left = (delays, r) \<Longrightarrow>
     length delays \<le> left \<and> (\<forall>d \<in> set delays. pause_within (hc_backoff_max c) d)
     \<and> (\<forall>k < length delays. transient c f (answer (attempt + k)))
     \<and> (\<forall>body. r = Inr (Inr body) \<longrightarrow> (\<exists>response. answer (attempt + length delays) = Inr response
            \<and> is_success response \<and> hs_json response = Some body))
     \<and> (transient c f (answer (attempt + length delays)) \<longrightarrow> length delays = left)
     \<and> (\<forall>e. r = Inl e \<longrightarrow> answer (attempt + length delays) = Inl httpx_error.InvalidURL
          \<or> (\<exists>response. answer (attempt + length delays) = Inr response
               \<and> from_headers f (hs_headers response) = Inl e))"
proof (induction left arbitrary: attempt delays)
  case 0
  then show ?case
    by (subst (asm) request_loop.simps)
      (auto simp: decode_def response_error_def transient_def is_http_error_def split: sum.splits option.splits if_splits)
next
  case (Suc n)
  show ?case
  proof (cases "transient c f (answer attempt)")
    case True
    then obtain d ds where d: "delays = d # ds" "pause_within (hc_backoff_max c) d"
        "request_loop c f answer (attempt + 1) n = (ds, r)"
      using Suc.prems by (subst (asm) request_loop.simps)
        (auto simp: transient_def Let_def backoff_delay_le split: sum.splits if_splits prod.splits)
    have "\<forall>k < length delays. transient c f (answer (attempt + k))"
    proof (intro allI impI)
      fix k assume "k < length delays"
      then show "transient c f (answer (attempt + k))"
        using True Suc.IH[OF d(3)] d(1) by (cases k) auto
    qed
    then show ?thesis using Suc.IH[OF d(3)] d(1,2) by auto
  next
    case False
    then show ?thesis using Suc.prems by (subst (asm) request_loop.simps)
        (auto simp: transient_def Let_def decode_def response_error_def is_http_error_def
          split: sum.splits option.splits if_splits)
  qed
qed


definition sample_client :: http_client where
  "sample_client = \<lparr>hc_provider = ''t212'', hc_max_attempts = 3, hc_backoff_base = 1, hc_backoff_max = 8,
     hc_refine_error = None\<rparr>"


section \<open>What a bucket admits\<close>

definition bucket_ok :: "token_bucket \<Rightarrow> bool" where
  "bucket_ok b = (0 < tb_rate b \<and> 0 \<le> tb_tokens b \<and> tb_tokens b \<le> tb_capacity b)"

text \<open>Whatever the rounding, as long as it keeps zero and the order, the bucket stays between empty and full.\<close>

lemma try_acquire_ok:
  assumes rnd: "mono rnd" "rnd 0 = 0" and b: "bucket_ok b" "tb_updated b \<le> now" "try_acquire rnd now b = (granted, b')"
    and cap: "rnd (tb_capacity b - 1) \<le> tb_capacity b"
  shows "bucket_ok b'" "tb_updated b' = now" "tb_rate b' = tb_rate b" "tb_capacity b' = tb_capacity b"
proof -
  have nonneg: "0 \<le> x \<Longrightarrow> 0 \<le> rnd x" for x using monoD[OF rnd(1), of 0 x] rnd(2) by simp
  define x where "x = rnd (tb_tokens b + rnd (rnd (now - tb_updated b) * tb_rate b))"
  have "0 \<le> x" using b(1,2) unfolding x_def bucket_ok_def by (intro nonneg add_nonneg_nonneg mult_nonneg_nonneg) auto
  moreover have "1 \<le> min (tb_capacity b) x \<Longrightarrow> 0 \<le> rnd (min (tb_capacity b) x - 1)
      \<and> rnd (min (tb_capacity b) x - 1) \<le> tb_capacity b"
    using nonneg[of "min (tb_capacity b) x - 1"] monoD[OF rnd(1), of "min (tb_capacity b) x - 1" "tb_capacity b - 1"] cap
    by auto
  ultimately show "bucket_ok b'" "tb_updated b' = now" "tb_rate b' = tb_rate b" "tb_capacity b' = tb_capacity b"
    using b(1,3) by (auto simp: try_acquire_def refill_def Let_def bucket_ok_def x_def[symmetric] split: if_splits)
qed

text \<open>How many of the tries at the readings \<open>ts\<close> got a token.\<close>

fun grants :: "(rat \<Rightarrow> rat) \<Rightarrow> rat list \<Rightarrow> token_bucket \<Rightarrow> nat \<times> token_bucket" where
  "grants rnd [] b = (0, b)"
| "grants rnd (now # ts) b =
     (let (granted, b') = try_acquire rnd now b; (n, b'') = grants rnd ts b'
      in (if granted then n + 1 else n, b''))"

text \<open>
  In exact arithmetic, without rounding: over any run of tries at clock readings that do not go back, the tokens
  handed out never exceed the burst capacity plus the rate times the time that passed.
\<close>

lemma exact_bucket_bounds:
  assumes "bucket_ok b" "sorted (tb_updated b # ts)" "grants (\<lambda>x. x) ts b = (n, b')"
  shows "of_nat n \<le> tb_capacity b + tb_rate b * (last (tb_updated b # ts) - tb_updated b)"
proof -
  have "bucket_ok b' \<and> of_nat n + tb_tokens b' \<le> tb_tokens b + tb_rate b * (last (tb_updated b # ts) - tb_updated b)"
    using assms
  proof (induction ts arbitrary: b n)
    case (Cons now ts)
    obtain granted c where c: "try_acquire (\<lambda>x. x) now b = (granted, c)" by (cases "try_acquire (\<lambda>x. x) now b") auto
    obtain k where k: "grants (\<lambda>x. x) ts c = (k, b')" "n = (if granted then k + 1 else k)"
      using Cons.prems(3) c by (auto split: prod.splits)
    have now: "tb_updated b \<le> now" using Cons.prems(2) by simp
    note S = try_acquire_ok[of "\<lambda>x. x", OF _ _ Cons.prems(1) now c, simplified mono_def, simplified]
    have step: "(if granted then 1 else 0) + tb_tokens c \<le> tb_tokens b + tb_rate b * (now - tb_updated b)"
      using c by (auto simp: try_acquire_def refill_def Let_def mult.commute split: if_splits)
    have IH: "bucket_ok b' \<and> of_nat k + tb_tokens b' \<le> tb_tokens c + tb_rate b * (last (now # ts) - now)"
      using Cons.IH[OF S(1) _ k(1)] S(2,3) Cons.prems(2) by simp
    have "tb_rate b * (last (now # ts) - tb_updated b)
        = tb_rate b * (now - tb_updated b) + tb_rate b * (last (now # ts) - now)" by (simp add: algebra_simps)
    then show ?case using IH step k(2) by (auto split: if_splits)
  qed simp
  then show ?thesis using assms(1) by (auto simp: bucket_ok_def)
qed

end
