(* ===== verification/Broker_Orders.thy ===== *)
theory Broker_Orders
  imports Exec_Service Http_Client
begin

text \<open>
  \<open>backend/stockbrain/broker/trading212_orders.py\<close>, the client that can place an order, and the
  adapter of \<open>execution/base.py\<close> over it. The transport is the parameter \<open>post\<close>, the HTTP reads are
  \<open>get\<close>; \<open>validate\<close> and \<open>dump\<close> are the schema library on a \<open>T212Order\<close> (\<open>Inl\<close> the number of
  its errors), \<open>float_of\<close> is Python's \<open>float\<close> of a header's text. What leaves the process is kept: a submission returns the bodies it handed to the transport.
  A \<open>detail\<close> of a refusal that is no text is read as its \<open>title\<close>, or the body's text.
\<close>

section \<open>Orders as the broker reports them\<close>

record t212_order =
  to_id :: int
  to_ticker :: "string option"
  to_quantity :: "decimal option"
  to_filled_quantity :: "decimal option"
  to_filled_value :: "decimal option"
  to_side :: "string option"
  to_status :: "string option"
  to_type :: "string option"
  to_currency :: "string option"
  to_created_at :: "instant option"
  to_initiated_from :: "string option"
  to_instrument_ticker :: "string option"

definition to_broker_ticker :: "t212_order \<Rightarrow> string option" where
  "to_broker_ticker r = (if or_else (to_ticker r) [] \<noteq> [] then to_ticker r else to_instrument_ticker r)"

definition to_placed_by_api :: "t212_order \<Rightarrow> bool" where
  "to_placed_by_api r = (to_initiated_from r = Some ''API'')"

definition order_view :: "(t212_order \<Rightarrow> (string \<times> json) list) \<Rightarrow> t212_order \<Rightarrow> broker_order_view" where
  "order_view dump r =
     \<lparr>ov_broker_order_id = show_int (to_id r), ov_broker_ticker = to_broker_ticker r,
      ov_signed_quantity = to_quantity r, ov_filled_quantity = to_filled_quantity r,
      ov_filled_value = to_filled_value r, ov_status = to_status r, ov_order_type = to_type r,
      ov_side = to_side r, ov_currency = to_currency r, ov_created_at = to_created_at r,
      ov_initiated_from = to_initiated_from r, ov_raw = dump r\<rparr>"

section \<open>The one mutation\<close>

definition PRE_SEND_EXCEPTIONS :: "httpx_error set" where
  "PRE_SEND_EXCEPTIONS =
     {httpx_error.ConnectError, httpx_error.ConnectTimeout, httpx_error.PoolTimeout, httpx_error.ProxyError,
      httpx_error.LocalProtocolError, httpx_error.UnsupportedProtocol, httpx_error.InvalidURL}"

definition DEFINITE_REJECTION_STATUSES :: "(int \<times> execution_failure) list" where
  "DEFINITE_REJECTION_STATUSES =
     [(400, execution_failure.BROKER_REJECTED), (401, execution_failure.BROKER_AUTH_REJECTED),
      (403, execution_failure.BROKER_AUTH_REJECTED), (404, execution_failure.BROKER_REJECTED),
      (422, execution_failure.BROKER_REJECTED)]"

definition AMBIGUOUS_STATUSES :: "(int \<times> execution_failure) list" where
  "AMBIGUOUS_STATUSES = [(408, execution_failure.BROKER_TIMEOUT), (429, execution_failure.BROKER_RATE_LIMITED)]"

definition market_order_body :: "string \<Rightarrow> decimal \<Rightarrow> bool \<Rightarrow> string" where
  "market_order_body ticker signed_quantity extended_hours =
     ''{'' @ quoted ''ticker'' @ '': '' @ quoted ticker @ '', '' @ quoted ''quantity'' @ '': ''
       @ fixed_str signed_quantity @ '', '' @ quoted ''extendedHours'' @ '': ''
       @ (if extended_hours then ''true'' else ''false'') @ ''}''"

definition text_field :: "string \<Rightarrow> (string \<times> json) list \<Rightarrow> string" where
  "text_field k kvs = (case map_of kvs k of Some (JStr s) \<Rightarrow> s | _ \<Rightarrow> [])"

definition rejection_of :: "http_response \<Rightarrow> execution_failure \<Rightarrow> broker_rejection" where
  "rejection_of r category =
     (let payload = (case hs_json r of Some (JObj kvs) \<Rightarrow> Some kvs | _ \<Rightarrow> None);
          said = or_text (text_field ''detail'' (or_else payload [])) (text_field ''title'' (or_else payload []));
          detail = or_text said (take 200 (hs_text r))
      in \<lparr>rj_message = ''trading212: the broker refused the order (HTTP '' @ show_int (hs_status r) @ '')'',
          rj_status = hs_status r, rj_category = execution_failure_value category,
          rj_detail = (if detail = [] then None else Some detail), rj_payload = payload\<rparr>)"

definition unreadable :: "string \<Rightarrow> submit_reply" where
  "unreadable error_type = Ambiguous (''trading212: the order was accepted but the response could not be ''
     @ ''parsed ('' @ error_type @ ''); the order id is unknown'')"

text \<open>
  What a complete response says. Its rate-limit headers are read first; an infinite one raises \<open>OverflowError\<close>, which
  is none of the broker errors, so the caller of \<open>submit\<close> sees it as unexpected although the order was posted.
\<close>

definition reply_of ::
  "((string \<times> json) list \<Rightarrow> int + t212_order) \<Rightarrow> (t212_order \<Rightarrow> (string \<times> json) list) \<Rightarrow> (string \<Rightarrow> py_float option)
     \<Rightarrow> http_response \<Rightarrow> submit_reply" where
  "reply_of validate dump float_of r =
     (case from_headers float_of (hs_headers r) of
        Inl e \<Rightarrow> Unexpected ''OverflowError''
      | Inr rate_limit \<Rightarrow>
     (case map_of DEFINITE_REJECTION_STATUSES (hs_status r) of
        Some category \<Rightarrow> Rejected (rejection_of r category)
      | None \<Rightarrow>
          if \<not> is_success r
          then Ambiguous (''trading212: HTTP '' @ show_int (hs_status r)
            @ '' says nothing about whether the order was created (''
            @ execution_failure_value (or_else (map_of AMBIGUOUS_STATUSES (hs_status r))
                execution_failure.UNEXPECTED_STATUS) @ '')'')
          else (case hs_json r of
                  None \<Rightarrow> unreadable ''JSONDecodeError''
                | Some (JObj kvs) \<Rightarrow>
                    (case validate kvs of
                       Inl _ \<Rightarrow> unreadable ''ValidationError''
                     | Inr r' \<Rightarrow> Acknowledged
                         \<lparr>ba_order = order_view dump r', ba_http_status = hs_status r, ba_payload = kvs,
                          ba_rate_limit = rl_as_dict rate_limit\<rparr>)
                | Some _ \<Rightarrow> unreadable ''ValueError'')))"

text \<open>
  \<open>submit_market_order\<close> through the adapter's \<open>submit\<close>, with the bodies that were posted. The refusal
  \<open>ExecutionNotPermitted\<close> is none of the three broker errors, so the caller sees it as unexpected.
\<close>

definition submit_market_order ::
  "((string \<times> json) list \<Rightarrow> int + t212_order) \<Rightarrow> (t212_order \<Rightarrow> (string \<times> json) list) \<Rightarrow> (string \<Rightarrow> py_float option)
     \<Rightarrow> string \<Rightarrow> (string \<Rightarrow> httpx_error + http_response) \<Rightarrow> string \<Rightarrow> decimal \<Rightarrow> bool \<Rightarrow> string
     \<Rightarrow> submit_reply \<times> string list" where
  "submit_market_order validate dump float_of environment post ticker signed_quantity extended_hours
       proposal_environment =
     (if proposal_environment \<noteq> environment then (Unexpected ''ExecutionNotPermitted'', [])
      else if dec_eq signed_quantity 0 then (NotSent ''refusing to transmit a zero-quantity order'', [])
      else
        let body = market_order_body ticker signed_quantity extended_hours
        in (case post body of
              Inl exc \<Rightarrow>
                if exc \<in> PRE_SEND_EXCEPTIONS
                then NotSent (''trading212: the order was not transmitted ('' @ httpx_error_name exc @ '')'')
                else Ambiguous (''trading212: the order may have been transmitted ('' @ httpx_error_name exc @ '')'')
            | Inr r \<Rightarrow> reply_of validate dump float_of r, [body]))"

definition adapter_submit ::
  "((string \<times> json) list \<Rightarrow> int + t212_order) \<Rightarrow> (t212_order \<Rightarrow> (string \<times> json) list) \<Rightarrow> (string \<Rightarrow> py_float option)
     \<Rightarrow> string \<Rightarrow> (string \<Rightarrow> httpx_error + http_response) \<Rightarrow> execution_command \<Rightarrow> submit_reply \<times> string list" where
  "adapter_submit validate dump float_of environment post c =
     submit_market_order validate dump float_of environment post (ec_broker_ticker c) (ec_signed_quantity c)
       (ec_extended_hours c) (ec_broker_environment c)"

section \<open>Reads for reconciliation\<close>

text \<open>
  \<open>get\<close> is what the read client returned or the provider error it raised; a read that ends with another exception, of
  an invalid URL or an unreadable header, leaves the pass and has no value here.
\<close>

definition schema_error :: "int \<Rightarrow> provider_failure" where
  "schema_error n = OtherFailure ''ProviderResponseError''
     (''trading212: an order payload did not match the documented schema (''
      @ show_int n @ '' validation error(s))'')"

definition parse_order ::
  "((string \<times> json) list \<Rightarrow> int + t212_order) \<Rightarrow> (string \<times> json) list \<Rightarrow> provider_failure + t212_order" where
  "parse_order validate kvs = (case validate kvs of Inl n \<Rightarrow> Inl (schema_error n) | Inr r \<Rightarrow> Inr r)"

text \<open>The first order that does not parse ends the comprehension.\<close>

fun parse_orders ::
  "((string \<times> json) list \<Rightarrow> int + t212_order) \<Rightarrow> (string \<times> json) list list \<Rightarrow> provider_failure + t212_order list" where
  "parse_orders validate [] = Inr []"
| "parse_orders validate (kvs # rest) =
     (case parse_order validate kvs of
        Inl e \<Rightarrow> Inl e
      | Inr r \<Rightarrow> (case parse_orders validate rest of Inl e \<Rightarrow> Inl e | Inr rs \<Rightarrow> Inr (r # rs)))"

fun json_kind :: "json \<Rightarrow> string" where
  "json_kind JNull = ''NoneType''"
| "json_kind (JBool _) = ''bool''"
| "json_kind (JInt _) = ''int''"
| "json_kind (JStr _) = ''str''"
| "json_kind (JList _) = ''list''"
| "json_kind (JObj _) = ''dict''"

definition objects :: "json list \<Rightarrow> (string \<times> json) list list" where
  "objects items = concat (map (\<lambda>item. case item of JObj kvs \<Rightarrow> [kvs] | _ \<Rightarrow> []) items)"

definition fetch_pending_orders ::
  "((string \<times> json) list \<Rightarrow> int + t212_order) \<Rightarrow> (provider_failure + json) \<Rightarrow> provider_failure + t212_order list" where
  "fetch_pending_orders validate answered =
     (case answered of
        Inl e \<Rightarrow> Inl e
      | Inr (JList items) \<Rightarrow> parse_orders validate (objects items)
      | Inr other \<Rightarrow> response_error (''trading212: /equity/orders returned '' @ json_kind other
          @ '', expected an array''))"

text \<open>\<open>ProviderResponseError\<close> of the read, which a 404 is, means no such order; one of the schema does not.\<close>

definition fetch_order ::
  "((string \<times> json) list \<Rightarrow> int + t212_order) \<Rightarrow> (string \<Rightarrow> provider_failure + json) \<Rightarrow> string
     \<Rightarrow> provider_failure + t212_order option" where
  "fetch_order validate get oid =
     (case get (''/equity/orders/'' @ oid) of
        Inl e \<Rightarrow> if failure_type e = ''ProviderResponseError'' then Inr None else Inl e
      | Inr (JObj kvs) \<Rightarrow> (case parse_order validate kvs of Inl e \<Rightarrow> Inl e | Inr r \<Rightarrow> Inr (Some r))
      | Inr _ \<Rightarrow> Inr None)"

definition history_item :: "(string \<times> json) list \<Rightarrow> (string \<times> json) list" where
  "history_item kvs = (case map_of kvs ''order'' of Some (JObj inner) \<Rightarrow> inner | _ \<Rightarrow> kvs)"

definition fetch_order_history ::
  "((string \<times> json) list \<Rightarrow> int + t212_order) \<Rightarrow> (provider_failure + json) \<Rightarrow> provider_failure + t212_order list" where
  "fetch_order_history validate answered =
     (case answered of
        Inl e \<Rightarrow> Inl e
      | Inr (JObj kvs) \<Rightarrow>
          (case map_of kvs ''items'' of
             Some (JList items) \<Rightarrow> parse_orders validate (map history_item (objects items))
           | _ \<Rightarrow> response_error ''trading212: /equity/history/orders returned no 'items' array'')
      | Inr other \<Rightarrow> response_error (''trading212: /equity/history/orders returned '' @ json_kind other
          @ '', expected an object''))"

section \<open>The adapter's reads\<close>

definition count_pending :: "(provider_failure + t212_order list) \<Rightarrow> string \<Rightarrow> pending_order_count" where
  "count_pending answered ticker =
     (case answered of
        Inl e \<Rightarrow>
          \<lparr>pc_broker_ticker = ticker, pc_pending = 0, pc_read_ok = False, pc_api_initiated = 0,
           pc_error_category = Some (failure_type e)\<rparr>
      | Inr rs \<Rightarrow>
          let matching = filter (\<lambda>r. to_broker_ticker r = Some ticker) rs
          in \<lparr>pc_broker_ticker = ticker, pc_pending = int (length matching), pc_read_ok = True,
              pc_api_initiated = int (length (filter to_placed_by_api matching)), pc_error_category = None\<rparr>)"

text \<open>
  \<open>found\<close> is a dictionary from order ids: a later pending order of an id takes the place of the earlier, one of
  the history only fills a place that is empty.
\<close>

definition put_view :: "broker_order_view list \<Rightarrow> broker_order_view \<Rightarrow> broker_order_view list" where
  "put_view found v =
     (if find_row ov_broker_order_id (ov_broker_order_id v) found = None then found @ [v]
      else upd_rows ov_broker_order_id (ov_broker_order_id v) (\<lambda>_. v) found)"

definition setdefault_view :: "broker_order_view list \<Rightarrow> broker_order_view \<Rightarrow> broker_order_view list" where
  "setdefault_view found v =
     (if find_row ov_broker_order_id (ov_broker_order_id v) found = None then found @ [v] else found)"

definition found_views ::
  "(provider_failure + broker_order_view list) \<Rightarrow> (provider_failure + broker_order_view list)
     \<Rightarrow> broker_order_view list" where
  "found_views pending history =
     (let found = (case pending of Inl _ \<Rightarrow> [] | Inr vs \<Rightarrow> foldl put_view [] vs)
      in case history of Inl _ \<Rightarrow> found | Inr vs \<Rightarrow> foldl setdefault_view found vs)"

definition in_window :: "string \<Rightarrow> instant \<Rightarrow> instant \<Rightarrow> broker_order_view \<Rightarrow> bool" where
  "in_window ticker since until v =
     (ov_broker_ticker v = Some ticker
      \<and> (case ov_created_at v of None \<Rightarrow> False | Some t \<Rightarrow> since \<le> t \<and> t \<le> until))"

definition find_candidates ::
  "(provider_failure + broker_order_view list) \<Rightarrow> (provider_failure + broker_order_view list)
     \<Rightarrow> string \<Rightarrow> instant \<Rightarrow> instant \<Rightarrow> candidate_search" where
  "find_candidates pending history ticker since until =
     (let found = found_views pending history
      in \<lparr>cs_candidates = filter (in_window ticker since until) found,
          cs_pending_ok = (case pending of Inl _ \<Rightarrow> False | Inr _ \<Rightarrow> True),
          cs_history_ok = (case history of Inl _ \<Rightarrow> False | Inr _ \<Rightarrow> True),
          cs_scanned = int (length found),
          cs_error_category = (case history of
             Inl e \<Rightarrow> Some (failure_type e)
           | Inr _ \<Rightarrow> (case pending of Inl e \<Rightarrow> Some (failure_type e) | Inr _ \<Rightarrow> None))\<rparr>)"

section \<open>What a reply proves\<close>

lemma reply_of_cases:
  "reply_of validate dump float_of r = Rejected x \<Longrightarrow> rj_status x = hs_status r \<and> \<not> is_success r"
  "reply_of validate dump float_of r = Acknowledged a \<Longrightarrow> is_success r"
  "reply_of validate dump float_of r \<noteq> NotSent t"
  "(\<exists>t. reply_of validate dump float_of r = Unexpected t) \<longleftrightarrow> \<not> okE (from_headers float_of (hs_headers r))"
  by (auto simp: reply_of_def unreadable_def rejection_of_def is_success_def DEFINITE_REJECTION_STATUSES_def Let_def
      split: option.splits json.splits sum.splits if_splits)

lemma pre_send_before_request: "exc \<in> PRE_SEND_EXCEPTIONS \<longleftrightarrow> before_request exc"
  by (cases exc) (simp_all add: PRE_SEND_EXCEPTIONS_def)

text \<open>
  C30: the reply tells the truth about the wire. A submission posts at most one body, and only to the environment the
  proposal is bound to. It reports "not sent" exactly when it declined to post a zero quantity or the transport raised an
  exception of the kind raised before a request is exchanged, and a failure of any other kind as ambiguous. It reports
  "rejected" and "accepted" only on a complete response of such a status, and it ends with any other exception
  exactly when the environments differ, with nothing posted, or when the headers of the answer cannot be read.
\<close>

theorem submission_truth:
  assumes "submit_market_order validate dump float_of environment post ticker q hours proposal_environment = (reply, bodies)"
  shows "length bodies \<le> 1 \<and> (bodies \<noteq> [] \<longleftrightarrow> proposal_environment = environment \<and> \<not> dec_eq q 0)
    \<and> ((\<exists>text. reply = NotSent text) \<longleftrightarrow> proposal_environment = environment
         \<and> (bodies = [] \<or> (\<exists>b exc. bodies = [b] \<and> post b = Inl exc \<and> before_request exc)))
    \<and> (\<forall>b exc. bodies = [b] \<and> post b = Inl exc \<and> \<not> before_request exc \<longrightarrow> (\<exists>text. reply = Ambiguous text))
    \<and> (\<forall>x. reply = Rejected x \<longrightarrow>
          (\<exists>b r. bodies = [b] \<and> post b = Inr r \<and> rj_status x = hs_status r \<and> \<not> is_success r))
    \<and> (\<forall>a. reply = Acknowledged a \<longrightarrow> (\<exists>b r. bodies = [b] \<and> post b = Inr r \<and> is_success r))
    \<and> ((\<exists>text. reply = Unexpected text) \<longleftrightarrow> proposal_environment \<noteq> environment
         \<or> (\<exists>b r. bodies = [b] \<and> post b = Inr r \<and> \<not> okE (from_headers float_of (hs_headers r))))"
proof (cases "proposal_environment = environment \<and> \<not> dec_eq q 0")
  case False
  then show ?thesis using assms by (auto simp: submit_market_order_def split: if_splits)
next
  case True
  define body where "body = market_order_body ticker q hours"
  show ?thesis
  proof (cases "post body")
    case (Inl exc)
    then show ?thesis using assms True
      by (auto simp: submit_market_order_def Let_def body_def[symmetric] pre_send_before_request split: if_splits)
  next
    case (Inr r)
    then have b: "bodies = [body]" "reply = reply_of validate dump float_of r"
      using assms True by (auto simp: submit_market_order_def Let_def body_def[symmetric])
    show ?thesis unfolding b using True Inr reply_of_cases(3,4) by (auto dest: reply_of_cases(1,2))
  qed
qed

definition infinite_answer :: http_response where
  "infinite_answer = \<lparr>hs_status = 200, hs_headers = [(''X-RateLimit-Limit'', ''inf'')], hs_text = [], hs_json = None\<rparr>"

lemma submission_truth_witness:
  "\<exists>text body. submit_market_order (\<lambda>_. Inl 1) (\<lambda>_. []) (\<lambda>_. Some PInf) ''demo'' (\<lambda>_. Inr infinite_answer)
       ''ACME_US_EQ'' (Dec 3 0) False ''demo'' = (Unexpected text, [body])"
proof -
  let ?s = "submit_market_order (\<lambda>_. Inl 1) (\<lambda>_. []) (\<lambda>_. Some PInf) ''demo'' (\<lambda>_. Inr infinite_answer)
       ''ACME_US_EQ'' (Dec 3 0) False ''demo''"
  have "snd ?s \<noteq> []" by code_simp
  moreover have "\<not> okE (from_headers (\<lambda>_. Some PInf) (hs_headers infinite_answer))" by code_simp
  moreover obtain reply bodies where s: "?s = (reply, bodies)" by (cases ?s)
  moreover note T = submission_truth[OF s]
  ultimately show ?thesis by (auto simp: neq_Nil_conv)
qed

section \<open>What is posted\<close>

lemma fixed_str_chars: "CHR '','' \<notin> set (fixed_str d)"
proof -
  have c: "CHR '','' \<notin> set (show_uint \<bar>n\<bar>)" for n
    using show_uint_val[of "\<bar>n\<bar>"] by (auto simp: digit_chars_def)
  have "CHR '','' \<notin> set (place_dot (show_uint \<bar>n\<bar>) dot)" for n dot
    using c[of n] by (auto simp: place_dot_def zeros_def dest: in_set_takeD in_set_dropD)
  then show ?thesis by (simp add: fixed_str_def Let_def)
qed

lemma until_comma: "CHR '','' \<notin> set a \<Longrightarrow> takeWhile (\<lambda>c. c \<noteq> CHR '','') (a @ CHR '','' # x) = a"
  by (induction a) auto

lemma upto_comma:
  assumes "CHR '','' \<notin> set a" "CHR '','' \<notin> set b" "a @ CHR '','' # x = b @ CHR '','' # y"
  shows "a = b" "x = y"
proof -
  show "a = b" using until_comma[OF assms(1), of x] until_comma[OF assms(2), of y] assms(3) by simp
  then show "x = y" using assms(3) by simp
qed

text \<open>
  C31: the body is the order. From the text that is posted the listing, the session flag and the exact value of the
  signed quantity can be read back, and that quantity is written with the same digits the fingerprint digests.
\<close>

theorem body_is_the_order:
  "(market_order_body t q h = market_order_body t' q' h' \<longrightarrow> t = t' \<and> h = h' \<and> dval q = dval q')
    \<and> (\<exists>before after. market_order_body (ec_broker_ticker c) (ec_signed_quantity c) (ec_extended_hours c)
         = before @ fixed_str (ec_signed_quantity c) @ after)
    \<and> jfield ''signed_quantity'' (fingerprint_payload c) = Some (JStr (fixed_str (ec_signed_quantity c)))"
proof (intro conjI impI)
  assume eq: "market_order_body t q h = market_order_body t' q' h'"
  let ?rest = "\<lambda>q h. '', '' @ quoted ''quantity'' @ '': '' @ fixed_str q @ '', '' @ quoted ''extendedHours'' @ '': ''
       @ (if h then ''true'' else ''false'') @ ''}''"
  have "quoted t @ ?rest q h = quoted t' @ ?rest q' h'"
    using eq by (simp add: market_order_body_def)
  note Q = quoted_prefix[OF this]
  then show "t = t'" by simp
  let ?tail = "\<lambda>h. '' '' @ quoted ''extendedHours'' @ '': '' @ (if h then ''true'' else ''false'') @ ''}''"
  have "fixed_str q @ CHR '','' # ?tail h = fixed_str q' @ CHR '','' # ?tail h'"
    using Q by simp
  note U = upto_comma[OF fixed_str_chars fixed_str_chars this]
  show "dval q = dval q'" by (rule fixed_str_dval[OF U(1)])
  show "h = h'" using U(2) by (auto split: if_splits)
next
  show "\<exists>before after. market_order_body (ec_broker_ticker c) (ec_signed_quantity c) (ec_extended_hours c)
         = before @ fixed_str (ec_signed_quantity c) @ after"
    by (rule exI[of _ "''{'' @ quoted ''ticker'' @ '': '' @ quoted (ec_broker_ticker c) @ '', '' @ quoted ''quantity'' @ '': ''"])
      (simp add: market_order_body_def)
qed (simp add: fingerprint_payload_def)

lemma body_is_the_order_witness:
  "dval (Dec 100 0) = dval (Dec 1 2)"
proof -
  have "market_order_body ''A'' (Dec 100 0) True = market_order_body ''A'' (Dec 1 2) True" by code_simp
  then show ?thesis using body_is_the_order[of "''A''" "Dec 100 0" True "''A''" "Dec 1 2" True] by blast
qed

section \<open>What a search reports\<close>

definition ids_of :: "broker_order_view list \<Rightarrow> string list" where
  "ids_of = map ov_broker_order_id"

lemma ids_upd: "ids_of (upd_rows ov_broker_order_id (ov_broker_order_id v) (\<lambda>_. v) found) = ids_of found"
  by (induction found) (auto simp: upd_rows_def ids_of_def)

lemma put_view_ids:
  "distinct (ids_of found) \<Longrightarrow> distinct (ids_of (put_view found v))"
  "set (ids_of (put_view found v)) = insert (ov_broker_order_id v) (set (ids_of found))"
  "set (put_view found v) \<subseteq> insert v (set found)"
  using ids_upd[of v found]
  by (auto simp: put_view_def find_row_None dest!: set_upd_rows, auto simp: ids_of_def dest!: find_row_Some)

lemma setdefault_view_ids:
  "distinct (ids_of found) \<Longrightarrow> distinct (ids_of (setdefault_view found v))"
  "set (ids_of (setdefault_view found v)) = insert (ov_broker_order_id v) (set (ids_of found))"
  "set (setdefault_view found v) \<subseteq> insert v (set found)"
  by (auto simp: setdefault_view_def find_row_None ids_of_def dest!: find_row_Some)

text \<open>Both kinds of step add the id of their order and nothing else.\<close>

definition adds_id :: "(broker_order_view list \<Rightarrow> broker_order_view \<Rightarrow> broker_order_view list) \<Rightarrow> bool" where
  "adds_id step = (\<forall>found v.
     (distinct (ids_of found) \<longrightarrow> distinct (ids_of (step found v)))
     \<and> set (ids_of (step found v)) = insert (ov_broker_order_id v) (set (ids_of found))
     \<and> set (step found v) \<subseteq> insert v (set found))"

lemma adds_id: "adds_id put_view" "adds_id setdefault_view"
  using put_view_ids setdefault_view_ids by (simp_all add: adds_id_def)

lemma fold_views:
  assumes "adds_id step"
  shows "distinct (ids_of found) \<Longrightarrow> distinct (ids_of (foldl step found vs))"
    "set (ids_of (foldl step found vs)) = set (ids_of found) \<union> set (ids_of vs)"
    "set (foldl step found vs) \<subseteq> set found \<union> set vs"
proof -
  note S = assms[unfolded adds_id_def, rule_format]
  show "distinct (ids_of found) \<Longrightarrow> distinct (ids_of (foldl step found vs))"
    using S by (induction vs arbitrary: found) simp_all
  show "set (ids_of (foldl step found vs)) = set (ids_of found) \<union> set (ids_of vs)"
  proof (induction vs arbitrary: found)
    case (Cons v vs)
    have "set (ids_of (v # vs)) = insert (ov_broker_order_id v) (set (ids_of vs))" by (simp add: ids_of_def)
    then show ?case using Cons.IH[of "step found v"] S[of found v] by auto
  qed (simp add: ids_of_def)
  show "set (foldl step found vs) \<subseteq> set found \<union> set vs"
  proof (induction vs arbitrary: found)
    case (Cons v vs)
    have "set (foldl step (step found v) vs) \<subseteq> insert v (set found) \<union> set vs"
      using Cons.IH[of "step found v"] S[of found v] by blast
    then show ?case by auto
  qed simp
qed

definition answered_views :: "provider_failure + broker_order_view list \<Rightarrow> broker_order_view list" where
  "answered_views r = (case r of Inl _ \<Rightarrow> [] | Inr vs \<Rightarrow> vs)"

lemma found_views_props:
  "distinct (ids_of (found_views pending history))
   \<and> set (ids_of (found_views pending history)) = set (ids_of (answered_views pending @ answered_views history))
   \<and> set (found_views pending history) \<subseteq> set (answered_views pending @ answered_views history)"
proof -
  have n: "ids_of [] = []" "\<And>a b. ids_of (a @ b) = ids_of a @ ids_of b" by (simp_all add: ids_of_def)
  have f: "found_views pending history = foldl setdefault_view (foldl put_view [] (answered_views pending)) (answered_views history)"
    by (simp add: found_views_def answered_views_def Let_def split: sum.split)
  let ?p = "foldl put_view [] (answered_views pending)"
  note P = fold_views[OF adds_id(1), of "[]" "answered_views pending"]
  note H = fold_views[OF adds_id(2), of ?p "answered_views history"]
  show ?thesis using P H by (auto simp: f n)
qed

text \<open>
  C32: what a search may conclude from. It names each order id once, counts every id either read path
  returned, and its candidates are the ones of the listing inside the window, as one of the paths reported them. It is
  complete exactly when both paths answered, so a failed read can never look like absence.
\<close>

theorem search_reports:
  "let s = find_candidates pending history ticker since until
   in distinct (ids_of (cs_candidates s))
    \<and> cs_scanned s = int (card (set (ids_of (answered_views pending @ answered_views history))))
    \<and> set (cs_candidates s) = {v \<in> set (found_views pending history). in_window ticker since until v}
    \<and> set (cs_candidates s) \<subseteq> set (answered_views pending @ answered_views history)
    \<and> (cs_complete s \<longleftrightarrow> (\<exists>ps hs. pending = Inr ps \<and> history = Inr hs))"
proof -
  note F = found_views_props[of pending history]
  have "distinct (map ov_broker_order_id (filter P vs))" if "distinct (map ov_broker_order_id vs)" for P vs
    using that by (induction vs) auto
  moreover have "length (found_views pending history) = card (set (ids_of (found_views pending history)))"
    using F distinct_card[of "ids_of (found_views pending history)"] by (simp add: ids_of_def)
  ultimately show ?thesis using F
    by (auto simp: find_candidates_def Let_def ids_of_def cs_complete_def split: sum.splits)
qed

end
