(* ===== verification/Reconciliation.thy ===== *)
theory Reconciliation
  imports Broker_Orders
begin

text \<open>
  \<open>backend/stockbrain/execution/reconciliation.py\<close>: resolving an attempt by reading the broker. The two reads
  arrive as \<open>fetch\<close> and \<open>search\<close>; an answer \<open>Inl\<close> is a \<open>ProviderError\<close>. The clock is read once
  per call, as \<open>now\<close>.
\<close>

section \<open>Facts\<close>

record reconciliation_outcome =
  ro_attempt_id :: uuid
  ro_result :: reconciliation_result
  ro_broker_order_id :: "string option"
  ro_proposal_status :: "proposal_status option"
  ro_candidates :: nat
  ro_detail :: string

definition reconciliation_outcome_of :: "uuid \<Rightarrow> reconciliation_result \<Rightarrow> string \<Rightarrow> reconciliation_outcome" where
  "reconciliation_outcome_of aid result detail =
     \<lparr>ro_attempt_id = aid, ro_result = result, ro_broker_order_id = None, ro_proposal_status = None,
      ro_candidates = 0, ro_detail = detail\<rparr>"

definition ro_resolved :: "reconciliation_outcome \<Rightarrow> bool" where
  "ro_resolved r =
     (ro_result r \<in> {reconciliation_result.ORDER_FOUND, reconciliation_result.ORDER_NOT_PLACED})"

record attempt_facts =
  af_attempt_id :: uuid
  af_proposal_id :: uuid
  af_outcome :: execution_outcome
  af_broker_order_id :: "string option"
  af_broker_environment :: string
  af_broker_ticker :: string
  af_signed_quantity :: decimal
  af_sent_at :: "instant option"

text \<open>\<open>Decimal(str(raw))\<close> of what the request payload holds; the payload is the one \<open>ec_as_dict\<close> wrote.\<close>

definition stored_quantity :: "json option \<Rightarrow> decimal res" where
  "stored_quantity raw =
     (case raw of
        None \<Rightarrow> Inr 0
      | Some JNull \<Rightarrow> Inr 0
      | Some (JStr s) \<Rightarrow> (case parse_decimal s of None \<Rightarrow> Inl InvalidOperation | Some d \<Rightarrow> Inr d)
      | Some (JInt n) \<Rightarrow> Inr (Dec n 0)
      | Some _ \<Rightarrow> Inl InvalidOperation)"

definition facts_of :: "execution_attempt \<Rightarrow> trade_proposal \<Rightarrow> attempt_facts res" where
  "facts_of a p =
     bindE (stored_quantity (jfield ''signed_quantity'' (ea_request_payload a))) (\<lambda>signed. Inr
       \<lparr>af_attempt_id = ea_id a, af_proposal_id = ea_proposal_id a, af_outcome = ea_outcome a,
        af_broker_order_id = ea_broker_order_id a, af_broker_environment = ea_broker_environment a,
        af_broker_ticker = (case jfield ''broker_ticker'' (ea_request_payload a) of
           Some (JStr t) \<Rightarrow> or_text t (tp_broker_ticker p) | _ \<Rightarrow> tp_broker_ticker p),
        af_signed_quantity = signed, af_sent_at = ea_sent_at a\<rparr>)"

definition needs_reconciliation :: "attempt_facts \<Rightarrow> bool" where
  "needs_reconciliation facts =
     (af_outcome facts \<in> {execution_outcome.PENDING, execution_outcome.AMBIGUOUS, execution_outcome.SUBMITTED})"

definition window_start :: "exec_settings \<Rightarrow> instant \<Rightarrow> attempt_facts \<Rightarrow> instant" where
  "window_start st now facts = or_else (af_sent_at facts) now - xs_reconcile_window st"

definition window_end :: "exec_settings \<Rightarrow> instant \<Rightarrow> attempt_facts \<Rightarrow> instant" where
  "window_end st now facts = or_else (af_sent_at facts) now + xs_reconcile_window st"

definition matches :: "broker_order_view \<Rightarrow> attempt_facts \<Rightarrow> bool" where
  "matches ord facts =
     (if \<not> ov_placed_by_api ord then False
      else if ov_broker_ticker ord \<noteq> Some (af_broker_ticker facts) then False
      else if upper (or_else (ov_order_type ord) []) \<noteq> order_type_value order_type.MARKET then False
      else (case ov_signed_quantity ord of None \<Rightarrow> False | Some q \<Rightarrow> dec_eq q (af_signed_quantity facts)))"

definition claimed_order_ids :: "broker \<Rightarrow> uuid \<Rightarrow> database \<Rightarrow> string set" where
  "claimed_order_ids b exclude_attempt db =
     set (map bo_broker_order_id
       (filter (\<lambda>r. bo_broker r = b \<and> bo_execution_attempt_id r \<noteq> Some exclude_attempt) (db_orders db)))"

section \<open>Recording a conclusion\<close>

definition advanced_row :: "broker_order_view \<Rightarrow> instant \<Rightarrow> trade_proposal \<Rightarrow> trade_proposal" where
  "advanced_row ord now p =
     (let status = ov_status_text ord
      in if status = ''FILLED'' \<and> can_transition (tp_status p) proposal_status.EXECUTED
         then (status_row proposal_status.EXECUTED ''the broker reports the order filled'' now p)
                \<lparr>tp_executed_at := Some (or_else (ov_created_at ord) now)\<rparr>
         else if status \<in> {''CANCELLED'', ''REJECTED''} \<and> can_transition (tp_status p) proposal_status.FAILED
         then status_row proposal_status.FAILED (''the broker ended the order as '' @ status) now p
         else status_row (tp_status p)
           (''a broker order exists (status '' @ or_text status ''unknown'' @ '')'') now p)"

definition reconciled_attempt ::
  "attempt_facts \<Rightarrow> reconciliation_result \<Rightarrow> instant \<Rightarrow> nat \<Rightarrow> string \<Rightarrow> execution_attempt \<Rightarrow> execution_attempt" where
  "reconciled_attempt facts result now candidates detail a =
     a\<lparr>ea_reconciled_at := Some now, ea_reconciliation_result := Some (reconciliation_result_value result),
       ea_reconciliation_attempts := ea_reconciliation_attempts a + 1,
       ea_reconciliation_detail := JObj
         [(''result'', JStr (reconciliation_result_value result)), (''detail'', JStr detail),
          (''candidates'', JInt (int candidates)), (''checked_at'', jtime now),
          (''broker_environment'', JStr (af_broker_environment facts))]\<rparr>"

definition found_attempt :: "broker_order_view \<Rightarrow> execution_attempt \<Rightarrow> execution_attempt" where
  "found_attempt ord a =
     a\<lparr>ea_broker_order_id := Some (ov_broker_order_id ord),
       ea_outcome := (if ov_status_text ord = ''FILLED'' then execution_outcome.RECONCILED_FILLED
                      else execution_outcome.SUBMITTED),
       ea_ambiguous := False\<rparr>"

definition absent_attempt :: "execution_attempt \<Rightarrow> execution_attempt" where
  "absent_attempt a = a\<lparr>ea_outcome := execution_outcome.RECONCILED_NOT_PLACED, ea_ambiguous := False\<rparr>"

definition absent_row :: "instant \<Rightarrow> trade_proposal \<Rightarrow> trade_proposal" where
  "absent_row now p =
     (if can_transition (tp_status p) proposal_status.FAILED
      then status_row proposal_status.FAILED ''reconciliation proved the order never reached the broker'' now p
      else p)"

text \<open>The attempt and the proposal as the conclusion leaves them.\<close>

definition concluded_attempt ::
  "attempt_facts \<Rightarrow> reconciliation_result \<Rightarrow> instant \<Rightarrow> broker_order_view option \<Rightarrow> nat \<Rightarrow> string
     \<Rightarrow> execution_attempt \<Rightarrow> execution_attempt" where
  "concluded_attempt facts result now ord candidates detail a =
     (let a' = reconciled_attempt facts result now candidates detail a
      in case (result, ord) of
           (reconciliation_result.ORDER_FOUND, Some found) \<Rightarrow> found_attempt found a'
         | (reconciliation_result.ORDER_NOT_PLACED, _) \<Rightarrow> absent_attempt a'
         | _ \<Rightarrow> a')"

definition concluded_row ::
  "reconciliation_result \<Rightarrow> instant \<Rightarrow> broker_order_view option \<Rightarrow> trade_proposal \<Rightarrow> trade_proposal" where
  "concluded_row result now ord p =
     (case (result, ord) of
        (reconciliation_result.ORDER_FOUND, Some found) \<Rightarrow> advanced_row found now p
      | (reconciliation_result.ORDER_NOT_PLACED, _) \<Rightarrow> absent_row now p
      | _ \<Rightarrow> p)"

definition record_conclusion ::
  "attempt_facts \<Rightarrow> reconciliation_result \<Rightarrow> instant \<Rightarrow> broker_order_view option \<Rightarrow> nat \<Rightarrow> string \<Rightarrow> database
     \<Rightarrow> database \<times> reconciliation_outcome res" where
  "record_conclusion facts result now ord candidates detail = run_tx (\<lambda>db.
     case find_attempt db (af_attempt_id facts) of
       None \<Rightarrow> Inr (db, reconciliation_outcome_of (af_attempt_id facts) reconciliation_result.INCONCLUSIVE
         ''the attempt vanished'')
     | Some a \<Rightarrow>
         (case find_proposal db (af_proposal_id facts) of
            None \<Rightarrow> Inr (db, reconciliation_outcome_of (af_attempt_id facts) reconciliation_result.INCONCLUSIVE
              ''the proposal vanished'')
          | Some p \<Rightarrow>
              let aid = af_attempt_id facts; pid = af_proposal_id facts;
                  a' = concluded_attempt facts result now ord candidates detail a;
                  p' = concluded_row result now ord p;
                  db1 = set_attempt aid (\<lambda>_. a') db;
                  db2 = (case (result, ord) of
                    (reconciliation_result.ORDER_FOUND, Some found) \<Rightarrow> mirror_order True p aid found now db1
                  | _ \<Rightarrow> db1);
                  db3 = add_audit actor_type.SYSTEM ''system:reconciliation'' ''execution.reconciled''
                    ''execution_attempt'' (Some aid)
                    (JObj [(''result'', JStr (reconciliation_result_value result)),
                           (''candidates'', JInt (int candidates)),
                           (''broker_order_id'', jopt JStr (ea_broker_order_id a')),
                           (''detail'', JStr (take 500 detail)), (''order_resent'', JBool False)])
                    (set_proposal pid (\<lambda>_. p') db2);
                  db4 = (if result \<in> {reconciliation_result.ORDER_FOUND, reconciliation_result.ORDER_NOT_PLACED}
                         then notify pid notification_event.EXECUTION_RECONCILED
                           (Some (take 400 (reconciliation_result_value result @ '': '' @ detail))) db3 else db3);
                  db5 = (if tp_status p' = proposal_status.EXECUTED
                         then notify pid notification_event.EXECUTION_CONFIRMED None db4 else db4)
              in Inr (db5,
                   \<lparr>ro_attempt_id = aid, ro_result = result,
                    ro_broker_order_id = (case ord of Some found \<Rightarrow> Some (ov_broker_order_id found)
                      | None \<Rightarrow> af_broker_order_id facts),
                    ro_proposal_status = Some (tp_status p'), ro_candidates = candidates, ro_detail = detail\<rparr>)))"

section \<open>Reading the broker\<close>

definition unreadable_broker :: "provider_failure \<Rightarrow> string" where
  "unreadable_broker e = ''the broker could not be read ('' @ failure_type e @ '')''"

text \<open>What a pass concludes: result, order, number of candidates and detail.\<close>

type_synonym conclusion = "reconciliation_result \<times> broker_order_view option \<times> nat \<times> string"

definition known_order ::
  "(string \<Rightarrow> provider_failure + broker_order_view option) \<Rightarrow> (string \<Rightarrow> instant \<Rightarrow> instant \<Rightarrow> candidate_search)
     \<Rightarrow> exec_settings \<Rightarrow> attempt_facts \<Rightarrow> string \<Rightarrow> instant \<Rightarrow> conclusion" where
  "known_order fetch search st facts oid now =
     (case fetch oid of
        Inl e \<Rightarrow> (reconciliation_result.BROKER_UNAVAILABLE, None, 0, unreadable_broker e)
      | Inr found \<Rightarrow>
          (case (case found of
                   Some ord \<Rightarrow> Some ord
                 | None \<Rightarrow> find (\<lambda>c. ov_broker_order_id c = oid) (cs_candidates
                     (search (af_broker_ticker facts) (window_start st now facts) (window_end st now facts)))) of
             None \<Rightarrow> (reconciliation_result.INCONCLUSIVE, None, 0,
               ''the broker order id is known but the broker returned no such order; ''
               @ ''not concluding absence from a single read'')
           | Some ord \<Rightarrow> (reconciliation_result.ORDER_FOUND, Some ord, 1, [])))"

definition concluded_search :: "exec_settings \<Rightarrow> attempt_facts \<Rightarrow> string set \<Rightarrow> candidate_search \<Rightarrow> instant \<Rightarrow> conclusion" where
  "concluded_search st facts claimed search now =
     (let found = filter (\<lambda>ord. matches ord facts \<and> ov_broker_order_id ord \<notin> claimed) (cs_candidates search)
      in if length found = 1
         then (reconciliation_result.ORDER_FOUND, Some (hd found), 1,
               ''one API-initiated order matched the attempt exactly'')
         else if 1 < length found
         then (reconciliation_result.MULTIPLE_CANDIDATES, None, length found,
               show_int (int (length found)) @ '' API-initiated orders match this attempt; the broker ''
               @ ''supports no client reference that could tell them apart'')
         else if \<not> cs_complete search
         then (reconciliation_result.BROKER_UNAVAILABLE, None, 0,
               ''absence is not evidence unless both the pending list and the history ''
               @ ''answered (pending='' @ (if cs_pending_ok search then ''True'' else ''False'')
               @ '', history='' @ (if cs_history_ok search then ''True'' else ''False'') @ '')'')
         else if (case af_sent_at facts of None \<Rightarrow> False | Some sent \<Rightarrow> now - sent < xs_reconcile_min_age st)
         then (reconciliation_result.INCONCLUSIVE, None, 0,
               ''no matching order yet, and the attempt is younger than the '' @ xs_reconcile_min_age_text st
               @ ''s settle window; a new order may not be visible yet'')
         else (reconciliation_result.ORDER_NOT_PLACED, None, 0,
               ''both broker read paths answered and no API-initiated order matches this ''
               @ ''attempt ('' @ show_int (cs_scanned search) @ '' order(s) scanned)''))"

text \<open>\<open>others\<close> is what other workers commit between the reads and the write.\<close>

definition reconcile ::
  "exec_settings \<Rightarrow> string \<Rightarrow> broker \<Rightarrow> (string \<Rightarrow> provider_failure + broker_order_view option)
     \<Rightarrow> (string \<Rightarrow> instant \<Rightarrow> instant \<Rightarrow> candidate_search) \<Rightarrow> (database \<Rightarrow> database) \<Rightarrow> uuid \<Rightarrow> instant
     \<Rightarrow> database \<Rightarrow> database \<times> reconciliation_outcome res" where
  "reconcile st environment b fetch search others aid now db =
     (case find_attempt db aid of
        None \<Rightarrow> (db, Inr (reconciliation_outcome_of aid reconciliation_result.INCONCLUSIVE
          ''the attempt no longer exists''))
      | Some a \<Rightarrow>
          (case find_proposal db (ea_proposal_id a) of
             None \<Rightarrow> (db, Inr (reconciliation_outcome_of aid reconciliation_result.INCONCLUSIVE
               ''the proposal no longer exists''))
           | Some p \<Rightarrow>
               (case facts_of a p of
                  Inl e \<Rightarrow> (db, Inl e)
                | Inr facts \<Rightarrow>
                    if \<not> needs_reconciliation facts
                    then (db, Inr ((reconciliation_outcome_of aid
                        (if or_else (af_broker_order_id facts) [] \<noteq> [] then reconciliation_result.ORDER_FOUND
                         else reconciliation_result.INCONCLUSIVE)
                        (''the attempt is already '' @ execution_outcome_value (af_outcome facts)))
                        \<lparr>ro_broker_order_id := af_broker_order_id facts\<rparr>))
                    else if af_broker_environment facts \<noteq> environment
                    then (db, Inr (reconciliation_outcome_of aid reconciliation_result.INCONCLUSIVE
                        (''the attempt belongs to the '' @ repr_str (af_broker_environment facts)
                         @ '' environment and this process is configured for '' @ repr_str environment)))
                    else
                      let (result, ord, candidates, detail) =
                            (case af_broker_order_id facts of
                               Some (c # cs) \<Rightarrow> known_order fetch search st facts (c # cs) now
                             | _ \<Rightarrow> concluded_search st facts (claimed_order_ids b aid (others db))
                                 (search (af_broker_ticker facts) (window_start st now facts)
                                    (window_end st now facts)) now)
                      in record_conclusion facts result now ord candidates detail (others db))))"

section \<open>The sweep\<close>

definition unresolved :: "exec_settings \<Rightarrow> string \<Rightarrow> execution_attempt \<Rightarrow> bool" where
  "unresolved st environment a =
     (ea_sent_to_broker a \<and> ea_outcome a \<in> {execution_outcome.AMBIGUOUS, execution_outcome.SUBMITTED}
      \<and> ea_broker_environment a = environment \<and> ea_reconciliation_attempts a < xs_reconcile_max_attempts st)"

text \<open>The loop over the batch: attempts checked and resolved; an exception ends it.\<close>

fun reconcile_batch ::
  "(uuid \<Rightarrow> database \<Rightarrow> database \<times> reconciliation_outcome res) \<Rightarrow> uuid list \<Rightarrow> database \<Rightarrow> database \<times> nat res" where
  "reconcile_batch one [] db = (db, Inr 0)"
| "reconcile_batch one (aid # aids) db =
     (case one aid db of
        (db', Inl e) \<Rightarrow> (db', Inl e)
      | (db', Inr outcome) \<Rightarrow>
          (case reconcile_batch one aids db' of
             (db'', Inl e) \<Rightarrow> (db'', Inl e)
           | (db'', Inr n) \<Rightarrow> (db'', Inr (if ro_resolved outcome then n + 1 else n))))"

definition sweep_batch :: "exec_settings \<Rightarrow> string \<Rightarrow> nat \<Rightarrow> database \<Rightarrow> uuid list" where
  "sweep_batch st environment limit db =
     map ea_id (take limit (sort_key (\<lambda>a. or_else (ea_sent_at a) 0) (filter (unresolved st environment) (db_attempts db))))"

definition reconcile_sweep ::
  "exec_settings \<Rightarrow> string \<Rightarrow> (uuid \<Rightarrow> database \<Rightarrow> database \<times> reconciliation_outcome res) \<Rightarrow> nat \<Rightarrow> database
     \<Rightarrow> database \<times> (nat \<times> nat) res" where
  "reconcile_sweep st environment one limit db =
     (if \<not> broker_credentials_present st then (db, Inr (0, 0))
      else let batch = sweep_batch st environment limit db
           in case reconcile_batch one batch db of
                (db', Inl e) \<Rightarrow> (db', Inl e)
              | (db', Inr n) \<Rightarrow> (db', Inr (length batch, n)))"

end
