(* ===== verification/Exec_Steps.thy ===== *)
theory Exec_Steps
  imports Reconciliation
begin

text \<open>
  What every transaction of the execution and the reconciliation leaves as it was: the attempts stay with
  their proposal, one recorded as sent stays sent unless it is retracted, and the proposals evolve.
\<close>

section \<open>Keeping what was recorded\<close>

definition sent_row :: "database \<Rightarrow> uuid \<Rightarrow> uuid \<Rightarrow> bool" where
  "sent_row db aid pid =
     (case find_attempt db aid of None \<Rightarrow> False | Some a \<Rightarrow> ea_proposal_id a = pid \<and> ea_sent_to_broker a)"

text \<open>\<open>X\<close> holds the attempts that may be retracted.\<close>

definition keeps :: "uuid set \<Rightarrow> database \<Rightarrow> database \<Rightarrow> bool" where
  "keeps X db db' = (evolves db db' \<and> (\<forall>aid a. find_attempt db aid = Some a \<longrightarrow>
     (\<exists>a'. find_attempt db' aid = Some a' \<and> ea_proposal_id a' = ea_proposal_id a
        \<and> (ea_sent_to_broker a \<and> aid \<notin> X \<longrightarrow> ea_sent_to_broker a'))))"

lemma keeps_same: "db_attempts db' = db_attempts db \<Longrightarrow> db_proposals db' = db_proposals db \<Longrightarrow> keeps X db db'"
  by (simp add: keeps_def evolves_same find_attempt_def)

lemma keeps_refl [simp]: "keeps X db db"
  by (simp add: keeps_same)

lemma keeps_trans: 
  assumes "keeps X a b" "keeps X b c"
  shows "keeps X a c"
  unfolding keeps_def
proof (intro conjI allI impI)
  show "evolves a c" using assms evolves_trans by (auto simp: keeps_def)
  fix aid r assume r: "find_attempt a aid = Some r"
  then obtain s where s: "find_attempt b aid = Some s" "ea_proposal_id s = ea_proposal_id r"
      "ea_sent_to_broker r \<and> aid \<notin> X \<longrightarrow> ea_sent_to_broker s"
    using assms(1) unfolding keeps_def by blast
  then show "\<exists>t. find_attempt c aid = Some t \<and> ea_proposal_id t = ea_proposal_id r
      \<and> (ea_sent_to_broker r \<and> aid \<notin> X \<longrightarrow> ea_sent_to_broker t)"
    using assms(2) unfolding keeps_def by fastforce
qed

lemma keeps_weaken: "keeps {} a b \<Longrightarrow> keeps X a b"
  unfolding keeps_def by fastforce

lemma keeps_attempt: "keeps X db db' \<Longrightarrow> find_attempt db aid = Some a \<Longrightarrow>
    \<exists>a'. find_attempt db' aid = Some a' \<and> ea_proposal_id a' = ea_proposal_id a"
  unfolding keeps_def by blast

lemma keeps_sent: "keeps X db db' \<Longrightarrow> sent_row db aid pid \<Longrightarrow> aid \<notin> X \<Longrightarrow> sent_row db' aid pid"
  unfolding keeps_def sent_row_def by (fastforce split: option.splits)

lemma keeps_rows:
  assumes att: "db_attempts db' = db_attempts (set_attempt aid f db)"
    and props: "db_proposals db' = db_proposals (set_proposal pid g db)"
    and a: "\<And>a. ea_id a = aid \<Longrightarrow> ea_id (f a) = aid"
      "\<And>a. find_attempt db aid = Some a \<Longrightarrow> ea_proposal_id (f a) = ea_proposal_id a
         \<and> (ea_sent_to_broker a \<and> aid \<notin> X \<longrightarrow> ea_sent_to_broker (f a))"
    and p: "\<And>p. tp_id p = pid \<Longrightarrow> tp_id (g p) = pid"
      "\<And>p. find_proposal db pid = Some p \<Longrightarrow> trade_of (g p) = trade_of p \<and> reachable (tp_status p) (tp_status (g p))"
  shows "keeps X db db'"
proof -
  have "evolves db db'"
    using evolves_set_proposal[OF p] props by (simp add: evolves_def find_proposal_def)
  moreover have "find_attempt db' k = map_option (\<lambda>a. if k = aid then f a else a) (find_attempt db k)" for k
    using find_set_attempt[where g = f and aid = aid and db = db and k = k, OF a(1)] att by (simp add: find_attempt_def)
  ultimately show ?thesis using a(2) by (auto simp: keeps_def)
qed

section \<open>Frames\<close>

lemma enqueue_reconcile_frame [frame_simps]:
  "db_proposals (enqueue_reconcile aid db) = db_proposals db"
  "db_attempts (enqueue_reconcile aid db) = db_attempts db"
  "db_orders (enqueue_reconcile aid db) = db_orders db"
  "db_actions (enqueue_reconcile aid db) = db_actions db"
  by (simp_all add: enqueue_reconcile_def frame_simps)

lemma mirror_order_frame [frame_simps]:
  "db_proposals (mirror_order d p aid ord now db) = db_proposals db"
  "db_attempts (mirror_order d p aid ord now db) = db_attempts db"
  "db_jobs (mirror_order d p aid ord now db) = db_jobs db"
  "db_actions (mirror_order d p aid ord now db) = db_actions db"
  by (simp_all add: mirror_order_def Let_def)

lemma run_tx_cases:
  assumes "run_tx block db = (db', r)"
  obtains "db' = db" "\<exists>e. r = Inl e" | v where "block db = Inr (db', v)" "database_ok db'" "r = Inr v"
proof (cases "transaction block db")
  case (Inl e)
  then show thesis using assms by (intro that(1)) (auto simp: run_tx_def)
next
  case (Inr x)
  obtain d v where x: "x = (d, v)" by (cases x)
  then show thesis using assms Inr that(2)[of v] by (auto simp: run_tx_def transaction_Inr)
qed

lemma run_tx_ok: "database_ok db \<Longrightarrow> run_tx block db = (db', r) \<Longrightarrow> database_ok db'"
  by (metis run_tx_cases)

lemma with_rows_cases:
  assumes "with_rows aid pid body db = (db', r)"
  obtains "db' = db" | a p v where "find_attempt db aid = Some a" "find_proposal db pid = Some p"
      "body a p db = Inr (db', v)" "database_ok db'" "r = Inr v"
  using assms unfolding with_rows_def
  by (rule run_tx_cases) (auto split: option.splits)

lemma status_row_fields [simp]:
  "tp_id (status_row s reason now p) = tp_id p" "trade_of (status_row s reason now p) = trade_of p"
  "tp_status (status_row s reason now p) = s"
  by (simp_all add: status_row_def trade_of_def)

lemma attempt_fields [simp]:
  "ea_id (acknowledged_attempt ack now a) = ea_id a" "ea_proposal_id (acknowledged_attempt ack now a) = ea_proposal_id a"
  "ea_sent_to_broker (acknowledged_attempt ack now a) = ea_sent_to_broker a"
  "ea_id (rejected_attempt exc now a) = ea_id a" "ea_proposal_id (rejected_attempt exc now a) = ea_proposal_id a"
  "ea_sent_to_broker (rejected_attempt exc now a) = ea_sent_to_broker a"
  "ea_id (retracted_attempt text now a) = ea_id a" "ea_proposal_id (retracted_attempt text now a) = ea_proposal_id a"
  "ea_id (ambiguous_attempt c text now a) = ea_id a" "ea_proposal_id (ambiguous_attempt c text now a) = ea_proposal_id a"
  "ea_sent_to_broker (ambiguous_attempt c text now a) = ea_sent_to_broker a"
  by (simp_all add: acknowledged_attempt_def rejected_attempt_def retracted_attempt_def ambiguous_attempt_def)

lemma concluded_attempt_fields [simp]:
  "ea_id (concluded_attempt facts result now ord n detail a) = ea_id a"
  "ea_proposal_id (concluded_attempt facts result now ord n detail a) = ea_proposal_id a"
  "ea_sent_to_broker (concluded_attempt facts result now ord n detail a) = ea_sent_to_broker a"
  by (auto simp: concluded_attempt_def reconciled_attempt_def found_attempt_def absent_attempt_def Let_def
      split: reconciliation_result.splits option.splits)

lemma guarded_rows:
  assumes "(if A then bindE (assert_transition s t) (\<lambda>_. Inr x) else if B then bindE (assert_transition s u) (\<lambda>_. Inr y)
      else Inr z) = Inr p'"
  shows "can_transition s t \<and> p' = x \<or> can_transition s u \<and> p' = y \<or> p' = z"
  using assms by (auto simp: bindE_eq_Inr assert_transition_Inr split: if_splits)

lemma acknowledged_row_moves:
  assumes "acknowledged_row ord now p = Inr p'"
  shows "tp_id p' = tp_id p \<and> trade_of p' = trade_of p \<and> reachable (tp_status p) (tp_status p')"
  using guarded_rows[OF assms[unfolded acknowledged_row_def Let_def]]
  by (elim disjE conjE) (simp_all add: trade_of_def status_row_def reachable_one reachable.refl)

lemma advanced_row_moves:
  "tp_id (advanced_row ord now p) = tp_id p \<and> trade_of (advanced_row ord now p) = trade_of p
   \<and> reachable (tp_status p) (tp_status (advanced_row ord now p))"
  unfolding advanced_row_def Let_def
  by (simp add: trade_of_def status_row_def reachable_one reachable.refl split: if_split)

lemma absent_row_moves:
  "tp_id (absent_row now p) = tp_id p \<and> trade_of (absent_row now p) = trade_of p
   \<and> reachable (tp_status p) (tp_status (absent_row now p))"
  by (simp add: absent_row_def reachable_one reachable.refl)

lemma concluded_row_moves:
  "tp_id (concluded_row result now ord p) = tp_id p" "trade_of (concluded_row result now ord p) = trade_of p"
  "reachable (tp_status p) (tp_status (concluded_row result now ord p))"
  by (cases result; cases ord; simp add: concluded_row_def reachable.refl advanced_row_moves absent_row_moves)+

section \<open>The recorders\<close>

text \<open>A recorder whose writes to the two tables are one row each.\<close>

lemma recorder_keeps:
  assumes "db_attempts db' = db_attempts (set_attempt aid f db)" "db_proposals db' = db_proposals (set_proposal pid g db)"
    and "find_proposal db pid = Some p"
    and "\<And>a. ea_id (f a) = ea_id a" "\<And>a. ea_proposal_id (f a) = ea_proposal_id a"
    and "\<And>a. ea_sent_to_broker (f a) = ea_sent_to_broker a \<or> aid \<in> X"
    and "\<And>q. tp_id q = pid \<Longrightarrow> tp_id (g q) = pid" "trade_of (g p) = trade_of p"
    and "reachable (tp_status p) (tp_status (g p))"
  shows "keeps X db db'"
  using assms by (intro keeps_rows[OF assms(1,2)]) auto

lemma row_id: "find_proposal db pid = Some p \<Longrightarrow> tp_id p = pid"
  by (auto simp: find_proposal_def dest: find_row_Some)

lemma record_success_keeps:
  assumes "record_success aid pid ack now db = (db', r)"
  shows "keeps {} db db'"
proof (cases rule: with_rows_cases[OF assms[unfolded record_success_def]])
  case (2 a p v)
  obtain p' where p': "acknowledged_row (ba_order ack) now p = Inr p'"
    and f: "db_attempts db' = db_attempts (set_attempt aid (acknowledged_attempt ack now) db)"
      "db_proposals db' = db_proposals (set_proposal pid (\<lambda>_. p') db)"
    using 2(3) by (auto simp: Let_def bindE_eq_Inr frame_simps set_proposal_def split: if_splits)
  then show ?thesis using acknowledged_row_moves[OF p'] row_id[OF 2(2)]
    by (intro recorder_keeps[OF f 2(2)]) (auto intro: reachable.refl)
qed simp

lemma retract_unsent_keeps:
  assumes "retract_unsent aid pid text now db = (db', r)"
  shows "keeps {aid} db db'"
proof (cases rule: with_rows_cases[OF assms[unfolded retract_unsent_def]])
  case (2 a p v)
  have "can_transition (tp_status p) PRESEND_RECOVERY_TARGET"
    and f: "db_attempts db' = db_attempts (set_attempt aid (retracted_attempt text now) db)"
      "db_proposals db' = db_proposals (set_proposal pid (status_row PRESEND_RECOVERY_TARGET
             ''the order was provably not transmitted; the authorization still stands'' now) db)"
    using 2(3) by (auto simp: Let_def bindE_eq_Inr assert_transition_Inr frame_simps set_proposal_def)
  then show ?thesis by (intro recorder_keeps[OF f 2(2)]) (auto intro: reachable_one)
qed simp

lemma record_ambiguous_keeps:
  assumes "record_ambiguous aid pid category detail now db = (db', r)"
  shows "keeps {} db db'"
proof (cases rule: with_rows_cases[OF assms[unfolded record_ambiguous_def]])
  case (2 a p v)
  have "reachable (tp_status p) proposal_status.EXECUTION_AMBIGUOUS"
    using 2(3) by (auto simp: bindE_eq_Inr assert_transition_Inr intro: reachable_one reachable.refl split: if_splits)
  moreover have f: "db_attempts db' = db_attempts (set_attempt aid (ambiguous_attempt category detail now) db)"
      "db_proposals db' = db_proposals (set_proposal pid (status_row proposal_status.EXECUTION_AMBIGUOUS
             ''the order may or may not have reached the broker; reconciliation required'' now) db)"
    using 2(3) by (auto simp: Let_def bindE_eq_Inr frame_simps set_proposal_def split: if_splits)
  ultimately show ?thesis by (intro recorder_keeps[OF f 2(2)]) auto
qed simp

lemma learn_precision_keeps:
  "learn_precision exc p db = (db', retry) \<Longrightarrow> keeps X db db'"
proof -
  assume l: "learn_precision exc p db = (db', retry)"
  have "evolves db (set_proposal (tp_id p) (\<lambda>q. q\<lparr>tp_dedupe_key := None, tp_status_reason := Some t\<rparr>) db)" for t
    by (rule evolves_set_proposal) (simp_all add: trade_of_def reachable.refl)
  then show ?thesis
    using l by (auto simp: learn_precision_def keeps_def evolves_def find_proposal_def find_attempt_def set_proposal_def
        Let_def intro: reachable.refl split: option.splits if_splits)
qed

lemma enqueue_keeps: "keeps X db (snd (enqueue name payload prio after n key db))"
  by (rule keeps_same) (simp_all add: frame_simps)

lemma enqueue_for_run_keeps: "keeps X db (snd (enqueue_for_run thesis_of run_id db))"
  using enqueue_keeps[of X db]
  by (auto simp: enqueue_for_run_def enqueue_for_thesis_def split: option.split prod.split) (metis snd_conv)

lemma record_rejection_keeps:
  assumes "record_rejection thesis_of aid pid exc now db = (db', r)"
  shows "keeps {} db db'"
proof (cases "record_rejection_tx aid pid exc now db")
  case (Inr x)
  obtain d retry where x: "x = (d, retry)" by (cases x)
  have "keeps {} db d"
  proof (cases "find_attempt db aid = None \<or> find_proposal db pid = None")
    case True
    then show ?thesis using Inr x by (auto simp: record_rejection_tx_def transaction_Inr split: option.splits)
  next
    case False
    then obtain a p where rows: "find_attempt db aid = Some a" "find_proposal db pid = Some p" by auto
    let ?d = "rejection_writes aid pid exc now db"
    have t: "can_transition (tp_status p) proposal_status.FAILED"
      and l: "\<exists>retry. learn_precision exc p ?d = (d, retry)"
      using Inr rows unfolding x record_rejection_tx_def
      by (auto simp: transaction_Inr bindE_eq_Inr assert_transition_Inr split: prod.splits)
    have f: "db_attempts ?d = db_attempts (set_attempt aid (rejected_attempt exc now) db)"
        "db_proposals ?d = db_proposals (set_proposal pid (status_row proposal_status.FAILED
                 (''the broker refused the order (HTTP '' @ show_int (rj_status exc) @ '')'') now) db)"
      by (simp_all add: rejection_writes_def Let_def frame_simps set_proposal_def)
    have "keeps {} db ?d" using t by (intro recorder_keeps[OF f rows(2)]) (auto intro: reachable_one)
    then show ?thesis using l learn_precision_keeps keeps_trans by blast
  qed
  then show ?thesis
    using assms Inr x enqueue_for_run_keeps[of "{}" d thesis_of] keeps_trans[of "{}" db d]
    by (auto simp: record_rejection_def split: option.splits)
qed (use assms in \<open>simp add: record_rejection_def\<close>)

lemma record_refusal_keeps:
  assumes "record_refusal pid command refusal now db = (db', r)"
  shows "keeps {} db db'"
proof (cases rule: run_tx_cases[OF assms[unfolded record_refusal_def]])
  case (2 v)
  show ?thesis
  proof (cases "find_proposal db pid")
    case (Some p)
    let ?aid = "fst (uuid4 db)"
    have t: "pr_invalidates refusal \<and> tp_status p \<in> EXECUTABLE_STATUSES \<Longrightarrow> can_transition (tp_status p) proposal_status.INVALIDATED"
      and f: "db_attempts db' = db_attempts db @ [refused_attempt ?aid p (next_attempt_number db pid) command refusal now]"
        "db_proposals db' = db_proposals (set_proposal pid (refused_row refusal now) db)"
      using 2(1) Some by (auto simp: Let_def bindE_eq_Inr assert_transition_Inr frame_simps set_proposal_def uuid4_def
          split: if_splits)
    have "evolves db (set_proposal pid (refused_row refusal now) db)"
      using Some t by (intro evolves_set_proposal) (auto simp: refused_row_def intro: reachable_one reachable.refl)
    then have "evolves db db'" using f(2) by (simp add: evolves_def find_proposal_def)
    moreover have "find_attempt db k = Some a \<Longrightarrow> find_attempt db' k = Some a" for k a
      using f(1) by (simp add: find_attempt_def find_row_append)
    ultimately show ?thesis by (auto simp: keeps_def)
  qed (use 2(1) in simp)
qed simp

lemma record_conclusion_keeps:
  assumes "record_conclusion facts result now ord n detail db = (db', r)"
  shows "keeps {} db db'"
proof (cases rule: run_tx_cases[OF assms[unfolded record_conclusion_def]])
  case (2 v)
  let ?aid = "af_attempt_id facts" and ?pid = "af_proposal_id facts"
  show ?thesis
  proof (cases "find_attempt db ?aid = None \<or> find_proposal db ?pid = None")
    case True
    then show ?thesis using 2(1) by (auto split: option.splits)
  next
    case False
    then obtain a p where rows: "find_attempt db ?aid = Some a" "find_proposal db ?pid = Some p" by auto
    let ?p = "concluded_row result now ord p"
    have f: "db_attempts db' = db_attempts (set_attempt ?aid (\<lambda>_. concluded_attempt facts result now ord n detail a) db)"
        "db_proposals db' = db_proposals (set_proposal ?pid (\<lambda>_. ?p) db)"
      using 2(1) rows by (auto simp: Let_def frame_simps set_proposal_def
          split: if_splits reconciliation_result.splits option.splits)
    have "ea_id a = ?aid" using rows(1) by (auto simp: find_attempt_def dest: find_row_Some)
    then show ?thesis using rows row_id[OF rows(2)] concluded_row_moves
      by (intro keeps_rows[OF f]) auto
  qed
qed simp

lemma record_reply_keeps:
  assumes "record_reply thesis_of aid pid reply now db = (db', r)"
  shows "keeps (case reply of NotSent _ \<Rightarrow> {aid} | _ \<Rightarrow> {}) db db'"
  using assms record_success_keeps retract_unsent_keeps record_rejection_keeps record_ambiguous_keeps
  by (cases reply) (fastforce simp: record_reply_def)+

section \<open>Constraints after a change of status\<close>

lemma attempts_ok_upd:
  assumes ok: "attempts_table_ok ps as" and a: "find_row ea_id aid as = Some a"
    and f: "ea_id (f a) = ea_id a" "ea_proposal_id (f a) = ea_proposal_id a"
      "ea_attempt_number (f a) = ea_attempt_number a" "ea_broker_environment (f a) = ea_broker_environment a"
      "ea_sent_to_broker (f a) \<longrightarrow> ea_sent_to_broker a" "attempt_row_ok (f a)"
  shows "attempts_table_ok ps (upd_rows ea_id aid f as)"
proof -
  let ?bs = "upd_rows ea_id aid f as"
  have d: "distinct (map ea_id as)" using ok by (simp add: attempts_table_ok_def)
  have only: "b = a" if "b \<in> set as" "ea_id b = aid" for b
    using find_row_unique[OF d that(1)] a that(2) by simp
  have key: "map k ?bs = map k as" if "k (f a) = k a" for k :: "execution_attempt \<Rightarrow> 'k"
    using only that unfolding upd_rows_def by auto
  have "sent_once ?bs"
    using ok only f(2,5) unfolding attempts_table_ok_def sent_once_def by (intro distinct_filter_upd) auto
  moreover have "map ea_id ?bs = map ea_id as" using f(1) by (rule key)
  moreover have "map (\<lambda>a. (ea_proposal_id a, ea_attempt_number a)) ?bs = map (\<lambda>a. (ea_proposal_id a, ea_attempt_number a)) as"
    using f by (intro key) simp
  moreover have "list_all attempt_row_ok ?bs"
    using ok only f(6) by (auto simp: list_all_iff attempts_table_ok_def upd_rows_def)
  moreover have "list_all (\<lambda>a. (ea_proposal_id a, ea_broker_environment a)
            \<in> set (map (\<lambda>p. (tp_id p, tp_broker_environment p)) ps)) ?bs"
    using ok only f(2,4) unfolding list_all_iff attempts_table_ok_def upd_rows_def by auto
  ultimately show ?thesis using ok by (simp add: attempts_table_ok_def)
qed

section \<open>The claim\<close>

definition claimable :: "(string \<Rightarrow> instant option) \<Rightarrow> int \<Rightarrow> instant \<Rightarrow> database \<Rightarrow> trade_proposal \<Rightarrow> bool" where
  "claimable fromiso version now db p =
     (tp_version p = version \<and> tp_status p = proposal_status.APPROVED \<and> now < tp_expires_at p
      \<and> sent_attempt db (tp_id p) = None \<and> \<not> trading_halted (control_snapshot_of fromiso db))"

lemma claimed_row_fields [simp]:
  "tp_id (claimed_row now p) = tp_id p" "trade_of (claimed_row now p) = trade_of p"
  "tp_status (claimed_row now p) = proposal_status.EXECUTING"
  by (simp_all add: claimed_row_def trade_of_def)

lemma find_append: "find P (xs @ ys) = (case find P xs of None \<Rightarrow> find P ys | Some x \<Rightarrow> Some x)"
  by (induction xs) auto

lemma approved_executing: "assert_transition proposal_status.APPROVED proposal_status.EXECUTING = Inr ()"
  by (simp add: assert_transition_Inr only_approved_executes)

lemma claim_cases:
  assumes "claim_and_mark_sent st env fromiso pid command rv version now db = (db', r)"
  obtains "db' = db" "r = Inr None"
  | p aid snapshot attempt where "find_proposal db pid = Some p" "claimable fromiso version now db p" "r = Inr (Some (aid, snapshot))"
      "database_ok db'" "db_attempts db' = db_attempts db @ [attempt]"
      "db_proposals db' = db_proposals (set_proposal pid (claimed_row now) db)" "db_orders db' = db_orders db"
      "ea_id attempt = aid" "ea_proposal_id attempt = pid" "ea_sent_to_broker attempt"
      "ea_outcome attempt = execution_outcome.PENDING"
      "ea_request_payload attempt = JObj (ec_as_dict command)"
      "ea_broker_environment attempt = tp_broker_environment p"
      "ea_broker_order_id attempt = None" "ea_sent_at attempt = Some now"
proof (cases "\<exists>p. find_proposal db pid = Some p \<and> claimable fromiso version now db p")
  case False
  then show thesis using assms row_id[of db pid]
    by (intro that(1)) (auto simp: claim_and_mark_sent_def claimable_def EXECUTABLE_STATUSES_def Let_def
        split: option.splits if_splits)
next
  case True
  then obtain p where p: "find_proposal db pid = Some p" "claimable fromiso version now db p" by blast
  let ?snapshot = "execution_snapshot p command rv (control_snapshot_of fromiso db) st env now"
  let ?aid = "fst (uuid4 db)"
  let ?attempt = "(attempt_of ?aid pid (next_attempt_number db pid) now (tp_broker_environment p) command ?snapshot)
     \<lparr>ea_actor_identifier := tp_approved_by p\<rparr>"
  let ?db = "add_audit actor_type.SYSTEM ''system:execution'' ''execution.transmitting'' ''trade_proposal'' (Some pid)
                     (JObj [(''broker_environment'', JStr (tp_broker_environment p)),
                            (''broker_ticker'', JStr (ec_broker_ticker command)),
                            (''side'', JStr (order_side_value (ec_side command))),
                            (''quantity'', jdec (ec_quantity command)),
                            (''request_fingerprint'', JStr (fingerprint_for command)),
                            (''authorization_source'',
                               jopt (\<lambda>s. JStr (authorization_source_value s)) (tp_authorization_source p))])
       (set_proposal pid (claimed_row now) (add_attempt ?attempt (snd (uuid4 db))))"
  have e: "(if database_ok ?db then (?db, Inr (Some (?aid, ?snapshot))) else (db, Inr None)) = (db', r)"
    using assms p row_id[OF p(1)] unfolding claim_and_mark_sent_def Let_def
    by (simp add: claimable_def EXECUTABLE_STATUSES_def case_prod_beta approved_executing)
  show thesis
  proof (cases "database_ok ?db")
    case False
    then show thesis using e by (intro that(1)) simp_all
  next
    case ok: True
    then have "db' = ?db" "r = Inr (Some (?aid, ?snapshot))" using e by simp_all
    then show thesis using ok
      by (intro that(2)[OF p, of ?aid ?snapshot ?attempt])
        (simp_all add: frame_simps set_proposal_def uuid4_def attempt_of_def)
  qed
qed

lemma claim_ok: "database_ok db \<Longrightarrow> claim_and_mark_sent st env fromiso pid command rv version now db = (db', r) \<Longrightarrow> database_ok db'"
  by (metis claim_cases)

lemma claim_keeps:
  assumes "claim_and_mark_sent st env fromiso pid command rv version now db = (db', r)"
  shows "keeps {} db db'"
proof (cases rule: claim_cases[OF assms])
  case (2 p aid snapshot attempt)
  have "evolves db (set_proposal pid (claimed_row now) db)"
    using 2(1,2) by (intro evolves_set_proposal)
      (auto simp: claimable_def only_approved_executes intro!: reachable_one)
  then have "evolves db db'" using 2(6) by (simp add: evolves_def find_proposal_def)
  moreover have "find_attempt db k = Some a \<Longrightarrow> find_attempt db' k = Some a" for k a
    using 2(5) by (simp add: find_attempt_def find_row_append)
  ultimately show ?thesis by (auto simp: keeps_def)
qed simp

lemma claim_fresh:
  assumes "claim_and_mark_sent st env fromiso pid command rv version now db = (db', Inr (Some (aid, snapshot)))"
  shows "find_attempt db aid = None" "sent_row db' aid pid"
proof -
  obtain p attempt where c: "database_ok db'" "db_attempts db' = db_attempts db @ [attempt]" "ea_id attempt = aid"
      "ea_proposal_id attempt = pid" "ea_sent_to_broker attempt"
    using assms by (cases rule: claim_cases) auto
  have "aid \<notin> set (map ea_id (db_attempts db))"
    using c by (auto simp: database_ok_def attempts_table_ok_def)
  then show "find_attempt db aid = None" by (simp add: find_attempt_def find_row_None)
  then show "sent_row db' aid pid" using c(2-5) by (simp add: sent_row_def find_attempt_def find_row_append)
qed

lemma foldl_max: "x \<in> set (n # ns) \<Longrightarrow> x \<le> foldl max n (ns :: int list)"
proof (induction ns arbitrary: n x)
  case (Cons m ns)
  show ?case
  proof (cases "x \<in> set ns")
    case True
    then show ?thesis using Cons.IH[of x "max n m"] by simp
  next
    case False
    then have "x \<le> max n m" using Cons.prems by auto
    moreover have "max n m \<le> foldl max (max n m) ns" using Cons.IH[of "max n m" "max n m"] by simp
    ultimately have "x \<le> foldl max (max n m) ns" by (rule order_trans)
    then show ?thesis by simp
  qed
qed simp

lemma next_number_fresh:
  assumes "a \<in> set (db_attempts db)" "ea_proposal_id a = pid"
  shows "ea_attempt_number a < next_attempt_number db pid"
proof -
  let ?ns = "map ea_attempt_number (filter (\<lambda>a. ea_proposal_id a = pid) (db_attempts db))"
  have "ea_attempt_number a \<in> set ?ns" using assms by simp
  then obtain n ns where ns: "?ns = n # ns" by (cases ?ns) auto
  then have "ea_attempt_number a \<le> foldl max n ns" using \<open>ea_attempt_number a \<in> set ?ns\<close> by (intro foldl_max) metis
  then show ?thesis using ns by (simp add: next_attempt_number_def)
qed

lemma attempts_ok_add:
  assumes ok: "attempts_table_ok ps as" and id: "ea_id a \<notin> set (map ea_id as)" and r: "attempt_row_ok a"
    and n: "\<And>b. b \<in> set as \<Longrightarrow> ea_proposal_id b = ea_proposal_id a \<Longrightarrow> ea_attempt_number b < ea_attempt_number a"
    and s: "ea_sent_to_broker a \<Longrightarrow> find (\<lambda>b. ea_proposal_id b = ea_proposal_id a \<and> ea_sent_to_broker b) as = None"
    and fk: "(ea_proposal_id a, ea_broker_environment a) \<in> set (map (\<lambda>p. (tp_id p, tp_broker_environment p)) ps)"
  shows "attempts_table_ok ps (as @ [a])"
proof -
  have "sent_once (as @ [a])"
    using ok s by (auto simp: attempts_table_ok_def sent_once_def find_None_iff)
  moreover have "(ea_proposal_id a, ea_attempt_number a) \<notin> set (map (\<lambda>a. (ea_proposal_id a, ea_attempt_number a)) as)"
    using n by fastforce
  ultimately show ?thesis using ok id r fk by (simp add: attempts_table_ok_def)
qed

lemma claim_succeeds:
  assumes ok: "database_ok db" and p: "find_proposal db pid = Some p" "claimable fromiso version now db p"
    and fresh: "fst (uuid4 db) \<notin> set (map ea_id (db_attempts db))"
  shows "\<exists>db' aid snapshot. claim_and_mark_sent st env fromiso pid command rv version now db = (db', Inr (Some (aid, snapshot)))"
proof -
  let ?aid = "fst (uuid4 db)"
  let ?snapshot = "execution_snapshot p command rv (control_snapshot_of fromiso db) st env now"
  let ?a = "(attempt_of ?aid pid (next_attempt_number db pid) now (tp_broker_environment p) command ?snapshot)
     \<lparr>ea_actor_identifier := tp_approved_by p\<rparr>"
  have f: "ea_id ?a = ?aid" "ea_proposal_id ?a = pid" "ea_attempt_number ?a = next_attempt_number db pid"
      "ea_broker_environment ?a = tp_broker_environment p" "ea_sent_to_broker ?a" "attempt_row_ok ?a"
    by (simp_all add: attempt_of_def attempt_row_ok_def)
  have pt: "proposals_table_ok (db_proposals db)" "attempts_table_ok (db_proposals db) (db_attempts db)"
    using ok by (simp_all add: database_ok_def)
  have pr: "proposal_row_ok p" using pt(1) p(1)
    by (auto simp: proposals_table_ok_def list_all_iff find_proposal_def dest: find_row_Some)
  let ?ps = "upd_rows tp_id pid (\<lambda>q. written q (claimed_row now q)) (db_proposals db)"
  have g: "same_keys p (claimed_row now p)" "proposal_row_ok (claimed_row now p)" "active (claimed_row now p) \<longrightarrow> active p"
    using pr p(2) by (auto simp: same_keys_def claimed_row_def proposal_row_ok_def claimable_def active_def status_set_defs)
  note U = proposals_ok_upd[where g = "claimed_row now" and p = p, OF pt(1) p(1)[unfolded find_proposal_def] g]
  have "p \<in> set (db_proposals db)" "tp_id p = pid" using p(1) by (auto simp: find_proposal_def dest: find_row_Some)
  then have "(pid, tp_broker_environment p) \<in> set (map (\<lambda>q. (tp_id q, tp_broker_environment q)) (db_proposals db))" by force
  then have at: "attempts_table_ok (db_proposals db) (db_attempts db @ [?a])"
    using fresh f p(2) \<open>tp_id p = pid\<close> next_number_fresh
    by (intro attempts_ok_add[OF pt(2)]) (auto simp: claimable_def sent_attempt_def)
  have at': "attempts_table_ok ?ps (db_attempts db @ [?a])" using at U(2) by (simp add: attempts_table_ok_def)
  have ids: "map tp_id ?ps = map tp_id (db_proposals db)" using arg_cong[OF U(2), of "map fst"] by simp
  have "set (map tp_id ?ps) = set (map tp_id (db_proposals db))" using ids by metis
  then have "database_ok (add_audit actor_type.SYSTEM who act ety eid d
       (set_proposal pid (claimed_row now) (add_attempt ?a (snd (uuid4 db)))))" for who act ety eid d
    using ok U(1) at' unfolding database_ok_def actions_table_ok_def
    by (simp add: frame_simps set_proposal_def add_audit_def add_attempt_def uuid4_def)
  then show ?thesis
    using p \<open>tp_id p = pid\<close> unfolding claim_and_mark_sent_def Let_def
    by (simp add: claimable_def EXECUTABLE_STATUSES_def case_prod_beta approved_executing)
qed

text \<open>
  C29: the claim is the gate. It succeeds exactly for a proposal that is \<open>APPROVED\<close>, unexpired, at the
  version the worker checked, without a sent attempt, while nothing is paused; then one commit marks it
  \<open>EXECUTING\<close> and records a new attempt as sent, with the command that will go out. Otherwise nothing changes.
\<close>

theorem claim_outcome:
  assumes "claim_and_mark_sent st env fromiso pid command rv version now db = (db', r)"
    and "database_ok db" "fst (uuid4 db) \<notin> set (map ea_id (db_attempts db))"
  shows "if \<exists>p. find_proposal db pid = Some p \<and> claimable fromiso version now db p
    then \<exists>p' aid snapshot a. r = Inr (Some (aid, snapshot)) \<and> database_ok db'
      \<and> find_proposal db' pid = Some p' \<and> tp_status p' = proposal_status.EXECUTING
      \<and> map_option trade_of (find_proposal db pid) = Some (trade_of p')
      \<and> find_attempt db aid = None \<and> find_attempt db' aid = Some a \<and> ea_proposal_id a = pid
      \<and> ea_outcome a = execution_outcome.PENDING \<and> ea_request_payload a = JObj (ec_as_dict command)
      \<and> sent_attempt db' pid = Some a
    else r = Inr None \<and> db' = db"
proof (cases "\<exists>p. find_proposal db pid = Some p \<and> claimable fromiso version now db p")
  case True
  then have "\<exists>aid snapshot. r = Inr (Some (aid, snapshot))"
    using claim_succeeds[OF assms(2) _ _ assms(3)] assms(1) by (metis prod.inject)
  then obtain p aid snapshot a where c: "find_proposal db pid = Some p" "claimable fromiso version now db p"
      "r = Inr (Some (aid, snapshot))" "database_ok db'" "db_attempts db' = db_attempts db @ [a]"
      "db_proposals db' = db_proposals (set_proposal pid (claimed_row now) db)"
      "ea_id a = aid" "ea_proposal_id a = pid" "ea_sent_to_broker a" "ea_outcome a = execution_outcome.PENDING"
      "ea_request_payload a = JObj (ec_as_dict command)"
    by (cases rule: claim_cases[OF assms(1)]) auto
  note f = claim_fresh[OF assms(1)[unfolded c(3)]]
  have "find_attempt db' aid = Some a" using f(1) c(5,7) by (simp add: find_attempt_def find_row_append)
  moreover have "find_proposal db' pid = Some (written p (claimed_row now p))"
    using c(1,6) find_set_proposal[where f = "claimed_row now" and pid = pid and db = db and k = pid]
    by (simp add: find_proposal_def)
  moreover have "sent_attempt db' pid = Some a"
    using c row_id[OF c(1)] by (auto simp: sent_attempt_def claimable_def find_append split: option.split)
  ultimately show ?thesis using True c f(1) by simp
next
  case False
  then show ?thesis by (cases rule: claim_cases[OF assms(1)]) auto
qed

definition approved_database :: database where
  "approved_database = empty_database\<lparr>db_proposals := [acme_proposal]\<rparr>"

lemma approved_database_claimable:
  "database_ok approved_database" "find_proposal approved_database ''p1'' = Some acme_proposal"
  "claimable (\<lambda>_. None) (tp_version acme_proposal) 2000000 approved_database acme_proposal"
  "fst (uuid4 approved_database) \<notin> set (map ea_id (db_attempts approved_database))"
  by code_simp+

lemma claim_outcome_witness:
  "\<forall>rv. \<exists>db' aid snapshot. claim_and_mark_sent demo_settings ''demo'' (\<lambda>_. None) ''p1'' (sample_command (Dec 1 0)) rv
      (tp_version acme_proposal) 2000000 approved_database = (db', Inr (Some (aid, snapshot)))"
proof
  fix rv
  let ?c = "claim_and_mark_sent demo_settings ''demo'' (\<lambda>_. None) ''p1'' (sample_command (Dec 1 0)) rv
      (tp_version acme_proposal) 2000000 approved_database"
  obtain db' r where c: "?c = (db', r)" by (cases ?c)
  have "\<exists>p. find_proposal approved_database ''p1'' = Some p \<and> claimable (\<lambda>_. None) (tp_version acme_proposal) 2000000 approved_database p"
    using approved_database_claimable by blast
  then show "\<exists>db' aid snapshot. ?c = (db', Inr (Some (aid, snapshot)))"
    using claim_outcome[OF c approved_database_claimable(1,4)] c by (simp only: if_True) blast
qed

end
