(* ===== verification/Exec_Protocol.thy ===== *)
theory Exec_Protocol
  imports Exec_Steps
begin

text \<open>
  The execution service as a whole: any number of workers running \<open>execute\<close> in steps, crashing anywhere,
  next to crash recovery, reconciliation and every other writer. What the workers handed to the broker is
  the log \<open>w_wire\<close>. The theorems speak about every reachable world.
\<close>

section \<open>Workers and the wire\<close>

text \<open>Where a run of \<open>execute\<close> stands: after its checks, after its claim, after the broker's answer.\<close>

datatype worker =
    Idle
  | Checked uuid execution_command revalidation int
  | Holding uuid uuid execution_command
  | Answered uuid uuid submit_reply

record posting =
  ps_attempt :: uuid
  ps_proposal :: uuid
  ps_command :: execution_command
  ps_reply :: submit_reply

record world =
  w_db :: database
  w_workers :: "nat \<Rightarrow> worker"
  w_wire :: "posting list"

definition set_worker :: "nat \<Rightarrow> worker \<Rightarrow> world \<Rightarrow> world" where
  "set_worker n x w = w\<lparr>w_workers := (w_workers w)(n := x)\<rparr>"

text \<open>
  What every other writer of the database may do: proposals evolve, the attempts stay, no constraint is
  broken, and a proposal in the middle of a transmission is left alone.
\<close>

definition outside :: "database \<Rightarrow> database \<Rightarrow> bool" where
  "outside db db' =
     (evolves db db' \<and> db_attempts db' = db_attempts db \<and> database_ok db'
      \<and> (\<forall>pid p. find_proposal db pid = Some p \<and> tp_status p = proposal_status.EXECUTING
            \<longrightarrow> find_proposal db' pid = Some p))"

inductive exec_step ::
  "exec_settings \<Rightarrow> string \<Rightarrow> (string \<Rightarrow> instant option) \<Rightarrow> (uuid \<Rightarrow> uuid option) \<Rightarrow> world \<Rightarrow> world \<Rightarrow> bool"
  for st env fromiso thesis_of where
  check: "w_workers w n = Idle \<Longrightarrow>
    second_look st env control revalidate pending slot pid now (w_db w) = Send command rv version \<Longrightarrow>
    exec_step st env fromiso thesis_of w (set_worker n (Checked pid command rv version) w)"
| claim: "w_workers w n = Checked pid command rv version \<Longrightarrow>
    claim_and_mark_sent st env fromiso pid command rv version now (w_db w) = (db', Inr (Some (aid, snapshot))) \<Longrightarrow>
    exec_step st env fromiso thesis_of w (set_worker n (Holding aid pid command) (w\<lparr>w_db := db'\<rparr>))"
| lose: "w_workers w n = Checked pid command rv version \<Longrightarrow>
    claim_and_mark_sent st env fromiso pid command rv version now (w_db w) = (db', r) \<Longrightarrow>
    \<forall>x. r \<noteq> Inr (Some x) \<Longrightarrow>
    exec_step st env fromiso thesis_of w (set_worker n Idle (w\<lparr>w_db := db'\<rparr>))"
| post: "w_workers w n = Holding aid pid command \<Longrightarrow>
    exec_step st env fromiso thesis_of w (set_worker n (Answered aid pid reply)
      (w\<lparr>w_wire := w_wire w @ [\<lparr>ps_attempt = aid, ps_proposal = pid, ps_command = command, ps_reply = reply\<rparr>]\<rparr>))"
| recorded: "w_workers w n = Answered aid pid reply \<Longrightarrow>
    record_reply thesis_of aid pid reply now (w_db w) = (db', r) \<Longrightarrow>
    exec_step st env fromiso thesis_of w (set_worker n Idle (w\<lparr>w_db := db'\<rparr>))"
| crash: "exec_step st env fromiso thesis_of w (set_worker n Idle w)"
| recover: "recover_sent_attempt aid pid now (w_db w) = (db', r) \<Longrightarrow>
    exec_step st env fromiso thesis_of w (w\<lparr>w_db := db'\<rparr>)"
| recover_sweep: "recover_incomplete st now (w_db w) = (db', r') \<Longrightarrow>
    exec_step st env fromiso thesis_of w (w\<lparr>w_db := db'\<rparr>)"
| refuse: "record_refusal pid command refusal now (w_db w) = (db', r) \<Longrightarrow>
    exec_step st env fromiso thesis_of w (w\<lparr>w_db := db'\<rparr>)"
| reconcile: "record_conclusion facts result now ord candidates detail (w_db w) = (db', r'') \<Longrightarrow>
    exec_step st env fromiso thesis_of w (w\<lparr>w_db := db'\<rparr>)"
| other: "outside (w_db w) db' \<Longrightarrow> exec_step st env fromiso thesis_of w (w\<lparr>w_db := db'\<rparr>)"

definition exec_start :: "world \<Rightarrow> bool" where
  "exec_start w = (database_ok (w_db w) \<and> (\<forall>n. w_workers w n = Idle) \<and> w_wire w = [])"

section \<open>The invariant\<close>

text \<open>The command is the one the stored proposal stands for.\<close>

definition carries :: "exec_settings \<Rightarrow> database \<Rightarrow> uuid \<Rightarrow> execution_command \<Rightarrow> bool" where
  "carries st db pid command =
     (case find_proposal db pid of None \<Rightarrow> False | Some p \<Rightarrow> command_from p st = Inr command)"

definition may_have_left :: "posting \<Rightarrow> bool" where
  "may_have_left e = (case ps_reply e of NotSent _ \<Rightarrow> False | _ \<Rightarrow> True)"

fun no_resend :: "posting list \<Rightarrow> bool" where
  "no_resend [] = True"
| "no_resend (e # es) =
     ((may_have_left e \<longrightarrow> list_all (\<lambda>e'. ps_proposal e' \<noteq> ps_proposal e) es) \<and> no_resend es)"

definition worker_ok :: "exec_settings \<Rightarrow> world \<Rightarrow> worker \<Rightarrow> bool" where
  "worker_ok st w x =
     (case x of
        Idle \<Rightarrow> True
      | Checked pid command rv version \<Rightarrow> carries st (w_db w) pid command
      | Holding aid pid command \<Rightarrow> sent_row (w_db w) aid pid \<and> carries st (w_db w) pid command
          \<and> aid \<notin> ps_attempt ` set (w_wire w)
      | Answered aid pid reply \<Rightarrow> \<exists>e \<in> set (w_wire w). ps_attempt e = aid \<and> ps_proposal e = pid \<and> ps_reply e = reply)"

definition posting_ok :: "exec_settings \<Rightarrow> database \<Rightarrow> posting \<Rightarrow> bool" where
  "posting_ok st db e =
     (carries st db (ps_proposal e) (ps_command e) \<and> find_attempt db (ps_attempt e) \<noteq> None
      \<and> (may_have_left e \<longrightarrow> sent_row db (ps_attempt e) (ps_proposal e)))"

definition exec_inv :: "exec_settings \<Rightarrow> world \<Rightarrow> bool" where
  "exec_inv st w =
     (database_ok (w_db w) \<and> (\<forall>n. worker_ok st w (w_workers w n))
      \<and> (\<forall>m n aid pid c pid' c'. w_workers w m = Holding aid pid c \<and> w_workers w n = Holding aid pid' c' \<longrightarrow> m = n)
      \<and> distinct (map ps_attempt (w_wire w)) \<and> (\<forall>e \<in> set (w_wire w). posting_ok st (w_db w) e)
      \<and> no_resend (w_wire w))"

lemma command_from_trade: "trade_of p = trade_of q \<Longrightarrow> command_from p st = command_from q st"
  by (simp add: command_from_def trade_of_def)

lemma carries_keeps: "keeps X db db' \<Longrightarrow> carries st db pid c \<Longrightarrow> carries st db' pid c"
  by (auto simp: keeps_def carries_def moves_def dest!: evolvesD split: option.splits
      intro: command_from_trade[THEN trans])

lemma posting_keeps:
  "keeps X db db' \<Longrightarrow> posting_ok st db e \<Longrightarrow> (may_have_left e \<longrightarrow> ps_attempt e \<notin> X) \<Longrightarrow> posting_ok st db' e"
  using carries_keeps keeps_sent keeps_attempt unfolding posting_ok_def by fastforce

lemma inv_db:
  assumes inv: "exec_inv st w" and k: "keeps X (w_db w) db'" "database_ok db'"
    and holding: "\<And>n aid pid c. w_workers w n = Holding aid pid c \<Longrightarrow> aid \<notin> X"
    and left: "\<And>e. e \<in> set (w_wire w) \<Longrightarrow> may_have_left e \<Longrightarrow> ps_attempt e \<notin> X"
  shows "exec_inv st (w\<lparr>w_db := db'\<rparr>)"
proof -
  have "worker_ok st (w\<lparr>w_db := db'\<rparr>) (w_workers w n)" for n
    using inv holding[of n] carries_keeps[OF k(1)] keeps_sent[OF k(1)]
    by (cases "w_workers w n") (auto simp: exec_inv_def worker_ok_def dest: spec[of _ n])
  moreover have "posting_ok st db' e" if "e \<in> set (w_wire w)" for e
    using posting_keeps[OF k(1)] inv left that unfolding exec_inv_def by blast
  ultimately show ?thesis using inv k(2) by (simp add: exec_inv_def)
qed

lemma inv_keeps: "exec_inv st w \<Longrightarrow> keeps {} (w_db w) db' \<Longrightarrow> database_ok db' \<Longrightarrow> exec_inv st (w\<lparr>w_db := db'\<rparr>)"
  by (rule inv_db[of st w "{}"]) auto

lemma inv_worker_ok: "exec_inv st w \<Longrightarrow> w_workers w n = x \<Longrightarrow> worker_ok st w x"
  unfolding exec_inv_def by blast

lemma inv_worker:
  assumes inv: "exec_inv st w" and x: "worker_ok st w x"
    and new: "\<And>aid pid c m pid' c'. x = Holding aid pid c \<Longrightarrow> w_workers w m = Holding aid pid' c' \<Longrightarrow> False"
  shows "exec_inv st (set_worker n x w)"
proof -
  let ?w = "set_worker n x w"
  have same: "worker_ok st ?w y = worker_ok st w y" for y
    by (simp add: worker_ok_def set_worker_def split: worker.split)
  have at: "w_workers ?w m = (if m = n then x else w_workers w m)" for m by (simp add: set_worker_def)
  have "l = m" if "w_workers ?w l = Holding aid pid c" "w_workers ?w m = Holding aid pid' c'" for l m aid pid c pid' c'
  proof (rule ccontr)
    assume "l \<noteq> m"
    then show False using that new inv unfolding at exec_inv_def by (metis (full_types))
  qed
  moreover have "worker_ok st ?w (w_workers ?w m)" for m
    unfolding same at using x inv_worker_ok[OF inv, of m] by simp
  moreover have "w_db ?w = w_db w" "w_wire ?w = w_wire w" by (simp_all add: set_worker_def)
  ultimately show ?thesis using inv unfolding exec_inv_def by (intro conjI) (blast | simp)+
qed

lemma inv_idle: "exec_inv st w \<Longrightarrow> exec_inv st (set_worker n Idle w)"
  by (rule inv_worker) (auto simp: worker_ok_def)

lemma no_resend_snoc:
  "no_resend (es @ [e]) \<longleftrightarrow> no_resend es \<and> (\<forall>e' \<in> set es. may_have_left e' \<longrightarrow> ps_proposal e' \<noteq> ps_proposal e)"
  by (induction es) (auto simp: list_all_iff)

text \<open>One sent attempt per proposal: the unique index.\<close>

lemma sent_rows_unique:
  assumes ok: "database_ok db" and rows: "sent_row db a pid" "sent_row db b pid"
  shows "a = b"
proof -
  obtain x y where x: "find_attempt db a = Some x" "ea_proposal_id x = pid" "ea_sent_to_broker x"
    and y: "find_attempt db b = Some y" "ea_proposal_id y = pid" "ea_sent_to_broker y"
    using rows by (auto simp: sent_row_def split: option.splits)
  have in_db: "x \<in> set (db_attempts db)" "y \<in> set (db_attempts db)" "ea_id x = a" "ea_id y = b"
    using x(1) y(1) by (auto simp: find_attempt_def dest: find_row_Some)
  have "distinct (map ea_proposal_id (filter ea_sent_to_broker (db_attempts db)))"
    using ok by (simp add: database_ok_def attempts_table_ok_def sent_once_def)
  then have "inj_on ea_proposal_id (set (filter ea_sent_to_broker (db_attempts db)))" by (simp add: distinct_map)
  then have "x = y" using in_db x y by (auto dest: inj_onD)
  then show ?thesis using in_db by simp
qed

section \<open>Every step keeps it\<close>

lemma second_look_carries:
  "second_look st env control revalidate pending slot pid now db = Send command rv version \<Longrightarrow> carries st db pid command"
  by (auto simp: second_look_def carries_def bindE_eq_Inr split: option.splits sum.splits if_splits prod.splits)

lemma enqueue_for_run_ok: "database_ok db \<Longrightarrow> database_ok (snd (enqueue_for_run thesis_of run_id db))"
proof -
  assume ok: "database_ok db"
  show ?thesis
  proof (cases "thesis_of run_id")
    case (Some t)
    then show ?thesis using enqueue_ok[OF ok]
      by (simp add: enqueue_for_run_def enqueue_for_thesis_def case_prod_beta)
  qed (simp add: enqueue_for_run_def ok)
qed

lemma record_reply_ok:
  assumes ok: "database_ok db" and r: "record_reply thesis_of aid pid reply now db = (db', r)"
  shows "database_ok db'"
proof (cases reply)
  case (Rejected exc)
  have "database_ok d" if "record_rejection_tx aid pid exc now db = Inr (d, x)" for d x
    using that by (simp add: record_rejection_tx_def transaction_Inr)
  then show ?thesis using r ok Rejected enqueue_for_run_ok
    by (auto simp: record_reply_def record_rejection_def split: sum.splits option.splits)
qed (use r run_tx_ok[OF ok] in \<open>auto simp: record_reply_def record_success_def retract_unsent_def
      record_ambiguous_def with_rows_def\<close>)

lemma record_ambiguous_ok:
  "database_ok db \<Longrightarrow> record_ambiguous aid pid category detail now db = (db', r) \<Longrightarrow> database_ok db'"
  unfolding record_ambiguous_def with_rows_def by (rule run_tx_ok)

lemma record_refusal_ok:
  "database_ok db \<Longrightarrow> record_refusal pid command refusal now db = (db', r) \<Longrightarrow> database_ok db'"
  unfolding record_refusal_def by (rule run_tx_ok)

lemma record_conclusion_ok:
  "database_ok db \<Longrightarrow> record_conclusion facts result now ord n detail db = (db', r) \<Longrightarrow> database_ok db'"
  unfolding record_conclusion_def by (rule run_tx_ok)

lemma recover_keeps:
  assumes "recover_sent_attempt aid pid now db = (db', r)"
  shows "keeps {} db db'" "database_ok db \<Longrightarrow> database_ok db'"
  using assms record_ambiguous_keeps record_ambiguous_ok
  by (auto simp: recover_sent_attempt_def split: option.splits if_splits)

lemma mark_stranded_keeps:
  "mark_stranded now found db = (db', r) \<Longrightarrow> keeps {} db db' \<and> (database_ok db \<longrightarrow> database_ok db')"
proof (induction found arbitrary: db)
  case (Cons f found)
  obtain aid pid where f: "f = (aid, pid)" by (cases f)
  obtain d x where d: "record_ambiguous aid pid execution_failure.CRASH_RECOVERY
      ''a transmitted attempt had no recorded result after a restart'' now db = (d, x)"
    by (cases "record_ambiguous aid pid execution_failure.CRASH_RECOVERY
      ''a transmitted attempt had no recorded result after a restart'' now db")
  have k: "keeps {} db d" "database_ok db \<longrightarrow> database_ok d"
    using record_ambiguous_keeps[OF d] record_ambiguous_ok[OF _ d] by auto
  show ?case
  proof (cases x)
    case (Inl e)
    then show ?thesis using Cons.prems f d k by simp
  next
    case (Inr y)
    then have "mark_stranded now found d = (db', r)" using Cons.prems f d by simp
    then show ?thesis using Cons.IH k keeps_trans by blast
  qed
qed simp

lemma recover_incomplete_keeps:
  assumes "recover_incomplete st now db = (db', r)"
  shows "keeps {} db db'" "database_ok db \<Longrightarrow> database_ok db'"
  using assms mark_stranded_keeps
  by (auto simp: recover_incomplete_def Let_def split: prod.splits sum.splits)

lemma outside_keeps: "outside db db' \<Longrightarrow> keeps {} db db'"
  by (simp add: outside_def keeps_def find_attempt_def)

lemma claim_step:
  assumes inv: "exec_inv st w" and x: "w_workers w n = Checked pid command rv version"
    and c: "claim_and_mark_sent st env fromiso pid command rv version now (w_db w) = (db', Inr (Some (aid, snapshot)))"
  shows "exec_inv st (set_worker n (Holding aid pid command) (w\<lparr>w_db := db'\<rparr>))"
proof (rule inv_worker)
  have ok: "database_ok (w_db w)" using inv by (simp add: exec_inv_def)
  show inv': "exec_inv st (w\<lparr>w_db := db'\<rparr>)"
    by (rule inv_keeps[OF inv claim_keeps[OF c] claim_ok[OF ok c]])
  note f = claim_fresh[OF c]
  have new: "\<not> sent_row (w_db w) aid q" for q using f(1) by (simp add: sent_row_def)
  have "carries st (w_db w) pid command"
    using inv_worker_ok[OF inv x] by (simp_all add: worker_ok_def)
  then have "carries st db' pid command" by (rule carries_keeps[OF claim_keeps[OF c]])
  moreover have "aid \<notin> ps_attempt ` set (w_wire w)"
    using inv f(1) by (auto simp: exec_inv_def posting_ok_def)
  ultimately show "worker_ok st (w\<lparr>w_db := db'\<rparr>) (Holding aid pid command)"
    using f(2) by (simp add: worker_ok_def)
  fix aid' pid' c' m pid'' c''
  assume h: "Holding aid pid command = Holding aid' pid' c'" "w_workers (w\<lparr>w_db := db'\<rparr>) m = Holding aid' pid'' c''"
  then have "worker_ok st w (Holding aid pid'' c'')" by (intro inv_worker_ok[OF inv, of m]) simp
  then show False using new by (simp add: worker_ok_def)
qed

lemma post_step:
  fixes reply
  assumes inv: "exec_inv st w" and x: "w_workers w n = Holding aid pid command"
  defines "e \<equiv> \<lparr>ps_attempt = aid, ps_proposal = pid, ps_command = command, ps_reply = reply\<rparr>"
  shows "exec_inv st (set_worker n (Answered aid pid reply) (w\<lparr>w_wire := w_wire w @ [e]\<rparr>))"
proof -
  have h: "sent_row (w_db w) aid pid" "carries st (w_db w) pid command" "aid \<notin> ps_attempt ` set (w_wire w)"
    using inv_worker_ok[OF inv x] by (simp_all add: worker_ok_def)
  have e: "posting_ok st (w_db w) e" using h by (auto simp: posting_ok_def e_def sent_row_def split: option.splits)
  have "ps_proposal e' \<noteq> pid" if "e' \<in> set (w_wire w)" "may_have_left e'" for e'
  proof
    assume "ps_proposal e' = pid"
    then have "sent_row (w_db w) (ps_attempt e') pid"
      using inv that by (auto simp: exec_inv_def posting_ok_def)
    then have "ps_attempt e' = aid" using sent_rows_unique h(1) inv by (auto simp: exec_inv_def)
    then show False using h(3) that(1) by auto
  qed
  then have nr: "no_resend (w_wire w @ [e])" using inv by (auto simp: no_resend_snoc exec_inv_def e_def)
  let ?w = "set_worker n (Answered aid pid reply) (w\<lparr>w_wire := w_wire w @ [e]\<rparr>)"
  have "worker_ok st ?w (w_workers ?w m)" for m
  proof (cases "m = n")
    case True
    then show ?thesis by (auto simp: worker_ok_def set_worker_def e_def)
  next
    case False
    have "worker_ok st w (w_workers w m)" using inv by (simp add: exec_inv_def)
    moreover have "w_workers w m \<noteq> Holding aid q c" for q c using inv x False by (auto simp: exec_inv_def)
    ultimately show ?thesis using False
      by (cases "w_workers w m") (auto simp: worker_ok_def set_worker_def e_def)
  qed
  then show ?thesis using inv e nr h(3)
    by (auto simp: exec_inv_def set_worker_def e_def split: if_splits)
qed

lemma recorded_step:
  assumes inv: "exec_inv st w" and x: "w_workers w n = Answered aid pid reply"
    and r: "record_reply thesis_of aid pid reply now (w_db w) = (db', r)"
  shows "exec_inv st (set_worker n Idle (w\<lparr>w_db := db'\<rparr>))"
proof (rule inv_idle, rule inv_db[OF inv record_reply_keeps[OF r]])
  obtain e where e: "e \<in> set (w_wire w)" "ps_attempt e = aid" "ps_reply e = reply"
    using inv_worker_ok[OF inv x] by (auto simp: worker_ok_def)
  show "database_ok db'" using record_reply_ok[OF _ r] inv by (simp add: exec_inv_def)
  show "aid' \<notin> (case reply of NotSent _ \<Rightarrow> {aid} | _ \<Rightarrow> {})" if "w_workers w m = Holding aid' q c" for m aid' q c
  proof -
    have "aid' \<notin> ps_attempt ` set (w_wire w)"
      using inv_worker_ok[OF inv that] by (simp add: worker_ok_def)
    then show ?thesis using e by (auto split: submit_reply.split)
  qed
  show "ps_attempt e' \<notin> (case reply of NotSent _ \<Rightarrow> {aid} | _ \<Rightarrow> {})" if "e' \<in> set (w_wire w)" "may_have_left e'" for e'
  proof (cases "ps_attempt e' = aid")
    case True
    then have "e' = e" using that(1) e inv by (auto simp: exec_inv_def distinct_map dest: inj_onD)
    then show ?thesis using that(2) e(3) by (auto simp: may_have_left_def split: submit_reply.splits)
  qed (auto split: submit_reply.split)
qed

lemma exec_inv_step:
  assumes "exec_inv st w" "exec_step st env fromiso thesis_of w w'"
  shows "exec_inv st w'"
proof -
  have ok: "database_ok (w_db w)" using assms(1) by (simp add: exec_inv_def)
  show ?thesis using assms(2)
proof cases
  case (check n control revalidate pending slot pid now command rv version)
  then show ?thesis using assms(1) second_look_carries by (auto simp: worker_ok_def intro!: inv_worker)
next
  case (claim n pid command rv version now db' aid snapshot)
  then show ?thesis using claim_step[OF assms(1)] by blast
next
  case (lose n pid command rv version now db' r)
  show ?thesis unfolding lose(1)
    by (rule inv_idle, rule inv_keeps[OF assms(1) claim_keeps[OF lose(3)] claim_ok[OF ok lose(3)]])
next
  case (post n aid pid command reply)
  then show ?thesis using post_step[OF assms(1)] by blast
next
  case (recorded n aid pid reply now db' r)
  then show ?thesis using recorded_step[OF assms(1)] by blast
next
  case (crash n)
  then show ?thesis using inv_idle[OF assms(1)] by simp
next
  case (recover aid pid now db' r)
  then show ?thesis using inv_keeps[OF assms(1) recover_keeps] assms(1) by (simp add: exec_inv_def)
next
  case (recover_sweep now db' r')
  then show ?thesis using inv_keeps[OF assms(1) recover_incomplete_keeps] assms(1) by (simp add: exec_inv_def)
next
  case (refuse pid command refusal now db' r)
  show ?thesis unfolding refuse(1)
    by (rule inv_keeps[OF assms(1) record_refusal_keeps[OF refuse(2)] record_refusal_ok[OF ok refuse(2)]])
next
  case (reconcile facts result now ord candidates detail db' r'')
  show ?thesis unfolding reconcile(1)
    by (rule inv_keeps[OF assms(1) record_conclusion_keeps[OF reconcile(2)] record_conclusion_ok[OF ok reconcile(2)]])
next
  case (other db')
  then show ?thesis using inv_keeps[OF assms(1) outside_keeps] by (simp add: outside_def)
qed
qed

lemma exec_inv_start: "exec_start w \<Longrightarrow> exec_inv st w"
  by (simp add: exec_start_def exec_inv_def worker_ok_def)

interpretation exec: invariant_system exec_start "exec_step st env fromiso thesis_of" "exec_inv st"
  for st env fromiso thesis_of
  by unfold_locales (auto intro: exec_inv_start exec_inv_step)

section \<open>At most one order\<close>

lemma no_resend_split: "no_resend (xs @ e # ys) \<Longrightarrow> may_have_left e \<Longrightarrow> e' \<in> set ys \<Longrightarrow> ps_proposal e' \<noteq> ps_proposal e"
  by (induction xs) (auto simp: list_all_iff)

text \<open>
  C3: at most one order per proposal. Whatever workers, crashes, recoveries, reconciliations and other writers do,
  in whatever order: once bytes of an order for a proposal may have left, nothing is ever posted for that
  proposal again, and everything posted is the command its stored proposal stands for, under a recorded attempt.
\<close>

theorem at_most_one_order:
  assumes "reach exec_start (exec_step st env fromiso thesis_of) w"
  shows "(\<forall>xs e ys. w_wire w = xs @ e # ys \<and> may_have_left e \<longrightarrow> (\<forall>e' \<in> set ys. ps_proposal e' \<noteq> ps_proposal e))
    \<and> (\<forall>e \<in> set (w_wire w). carries st (w_db w) (ps_proposal e) (ps_command e)
         \<and> find_attempt (w_db w) (ps_attempt e) \<noteq> None
         \<and> (may_have_left e \<longrightarrow> sent_row (w_db w) (ps_attempt e) (ps_proposal e)))"
proof -
  have "exec_inv st w" by (rule exec.reach_inv[OF assms])
  then show ?thesis using no_resend_split by (fastforce simp: exec_inv_def posting_ok_def)
qed

section \<open>An order that leaves\<close>

definition idle_world :: "database \<Rightarrow> world" where
  "idle_world db = \<lparr>w_db = db, w_workers = (\<lambda>_. Idle), w_wire = []\<rparr>"

definition no_pending :: pending_order_count where
  "no_pending = \<lparr>pc_broker_ticker = ''ACME_US_EQ'', pc_pending = 0, pc_read_ok = True, pc_api_initiated = 0,
     pc_error_category = None\<rparr>"

lemma acme_second_look:
  "\<exists>rv command. second_look demo_settings ''demo'' running (\<lambda>_. Inr (Some rv)) no_pending True ''p1'' 2000000
     approved_database = Send command rv (tp_version acme_proposal)"
proof -
  obtain rv where rv: "rv_allowed rv" by (rule acme_still_good) auto
  have reasons: "permission_reasons demo_settings ''demo'' acme_proposal running @ state_reasons acme_proposal 2000000 False = []"
    by (simp add: permission_reasons_Nil state_reasons_Nil gates_open_def demo_settings_def broker_credentials_present_def
        trading_halted_def running_def inactive_def consent_given_def sendable_def acme_proposal_def dval_Dec)
  have "shares_available acme_proposal rv" by (simp add: shares_available_def acme_proposal_def)
  with rv have none: "rv_reasons rv @ opt_list (position_reason acme_proposal rv) = []"
    unfolding risk_reasons_Nil by (rule conjI)
  have out: "preflight_run demo_settings ''demo'' running (Inr (Some rv)) acme_proposal 2000000 False
     = Inr \<lparr>po_refusal = None, po_revalidation = Some rv, po_control = Some running,
         po_proposal_version = Some (tp_version acme_proposal)\<rparr>"
    unfolding preflight_run_def Let_def reasons by (simp add: none del: append_is_Nil_conv)
  have "okE (command_from acme_proposal demo_settings)" by code_simp
  then obtain command where c: "command_from acme_proposal demo_settings = Inr command" by (auto simp: okE_conv)
  have "pending_order_refusal demo_settings no_pending approved_database command = None"
    by (simp add: pending_order_refusal_def unresolved_sent_for_ticker_def no_pending_def approved_database_def
        empty_database_def demo_settings_def)
  then show ?thesis
    using approved_database_claimable(2) out c by (intro exI[of _ rv] exI[of _ command]) (simp add: second_look_def)
qed

lemma acme_order_leaves:
  "\<exists>w. reach exec_start (exec_step demo_settings ''demo'' (\<lambda>_. None) (\<lambda>_. None)) w
     \<and> (\<exists>e. w_wire w = [e] \<and> ps_proposal e = ''p1'' \<and> may_have_left e)"
proof -
  let ?step = "exec_step demo_settings ''demo'' (\<lambda>_. None) (\<lambda>_. None)"
  obtain rv command where s: "second_look demo_settings ''demo'' running (\<lambda>_. Inr (Some rv)) no_pending True ''p1'' 2000000
     approved_database = Send command rv (tp_version acme_proposal)" using acme_second_look by blast
  let ?w0 = "idle_world approved_database"
  let ?w1 = "set_worker 0 (Checked ''p1'' command rv (tp_version acme_proposal)) ?w0"
  have r1: "reach exec_start ?step ?w1"
    using approved_database_claimable(1) s
    by (intro reach_step[OF reach_init, of _ ?w0] exec_step.check) (simp_all add: exec_start_def idle_world_def)
  obtain db' aid snapshot where c: "claim_and_mark_sent demo_settings ''demo'' (\<lambda>_. None) ''p1'' command rv
      (tp_version acme_proposal) 2000000 approved_database = (db', Inr (Some (aid, snapshot)))"
    using claim_succeeds[OF approved_database_claimable] by blast
  let ?w2 = "set_worker 0 (Holding aid ''p1'' command) (?w1\<lparr>w_db := db'\<rparr>)"
  have r2: "reach exec_start ?step ?w2"
    using c by (intro reach_step[OF r1] exec_step.claim) (simp_all add: set_worker_def idle_world_def)
  let ?e = "\<lparr>ps_attempt = aid, ps_proposal = ''p1'', ps_command = command, ps_reply = Unexpected ''x''\<rparr>"
  have "reach exec_start ?step (set_worker 0 (Answered aid ''p1'' (Unexpected ''x'')) (?w2\<lparr>w_wire := w_wire ?w2 @ [?e]\<rparr>))"
    by (intro reach_step[OF r2] exec_step.post) (simp add: set_worker_def)
  moreover have "w_wire (set_worker 0 (Answered aid ''p1'' (Unexpected ''x'')) (?w2\<lparr>w_wire := w_wire ?w2 @ [?e]\<rparr>)) = [?e]"
    by (simp add: set_worker_def idle_world_def)
  moreover have "ps_proposal ?e = ''p1''" "may_have_left ?e" by (simp_all add: may_have_left_def)
  ultimately show ?thesis by blast
qed

lemma at_most_one_order_witness:
  "\<exists>(w :: world) e :: posting. w_wire w = [e] \<and> may_have_left e \<and> sent_row (w_db w) (ps_attempt e) ''p1''"
proof -
  obtain w e where w: "reach exec_start (exec_step demo_settings ''demo'' (\<lambda>_. None) (\<lambda>_. None)) w"
      "w_wire w = [e]" "ps_proposal e = ''p1''" "may_have_left e"
    using acme_order_leaves by blast
  have "sent_row (w_db w) (ps_attempt e) ''p1''" using at_most_one_order[OF w(1)] w(2,3,4) by auto
  then show ?thesis using w(2,4) by (intro exI[of _ w] exI[of _ e]) simp
qed

section \<open>The abstract order book\<close>

text \<open>
  What a client of the execution sees: each proposal's trade and status, and the list of all the orders that may have
  left for it. An abstract step either moves statuses along the table and sends nothing, or it sends one order,
  with the command the trade stands for, of a proposal that has sent none.
\<close>

record order_book =
  ob_row :: "uuid \<Rightarrow> ((uuid \<times> broker \<times> string \<times> string \<times> order_side \<times> order_type \<times> decimal) \<times> proposal_status) option"
  ob_orders :: "uuid \<Rightarrow> execution_command list"

definition stands_for ::
  "exec_settings \<Rightarrow> uuid \<times> broker \<times> string \<times> string \<times> order_side \<times> order_type \<times> decimal \<Rightarrow> execution_command \<Rightarrow> bool" where
  "stands_for st t c = (\<exists>p. trade_of p = t \<and> command_from p st = Inr c)"

inductive book_step :: "exec_settings \<Rightarrow> order_book \<Rightarrow> order_book \<Rightarrow> bool" for st where
  moved: "(\<And>pid t s. ob_row b pid = Some (t, s) \<Longrightarrow> \<exists>s'. ob_row b' pid = Some (t, s') \<and> reachable s s') \<Longrightarrow>
    ob_orders b' = ob_orders b \<Longrightarrow> book_step st b b'"
| ordered: "ob_orders b pid = [] \<Longrightarrow> ob_row b pid = Some (t, s) \<Longrightarrow> stands_for st t c \<Longrightarrow>
    book_step st b (b\<lparr>ob_orders := (ob_orders b)(pid := [c])\<rparr>)"

definition orders_left :: "posting list \<Rightarrow> uuid \<Rightarrow> execution_command list" where
  "orders_left wire pid = map ps_command (filter (\<lambda>e. ps_proposal e = pid \<and> may_have_left e) wire)"

definition book_of :: "world \<Rightarrow> order_book" where
  "book_of w = \<lparr>ob_row = (\<lambda>pid. map_option (\<lambda>p. (trade_of p, tp_status p)) (find_proposal (w_db w) pid)),
     ob_orders = orders_left (w_wire w)\<rparr>"

lemma book_set_worker [simp]: "book_of (set_worker n x w) = book_of w"
  by (simp add: book_of_def set_worker_def)

lemma book_moved:
  assumes "keeps X (w_db w) db'"
  shows "book_step st (book_of w) (book_of (w\<lparr>w_db := db'\<rparr>))"
  using assms by (intro book_step.moved) (auto simp: book_of_def keeps_def moves_def dest!: evolvesD)

lemma book_same: "book_step st b b"
  by (rule book_step.moved) (auto intro: reachable.refl)

lemma book_posted:
  assumes inv: "exec_inv st w" and x: "w_workers w n = Holding aid pid c"
  defines "e \<equiv> \<lambda>reply. \<lparr>ps_attempt = aid, ps_proposal = pid, ps_command = c, ps_reply = reply\<rparr>"
  shows "book_step st (book_of w) (book_of (w\<lparr>w_wire := w_wire w @ [e reply]\<rparr>))"
proof (cases "may_have_left (e reply)")
  case False
  then have "orders_left (w_wire w @ [e reply]) = orders_left (w_wire w)" by (simp add: orders_left_def fun_eq_iff)
  then show ?thesis by (simp add: book_of_def book_same[unfolded book_of_def])
next
  case True
  have inv': "exec_inv st (set_worker n (Answered aid pid reply) (w\<lparr>w_wire := w_wire w @ [e reply]\<rparr>))"
    using post_step[OF inv x] by (simp add: e_def)
  then have none: "orders_left (w_wire w) pid = []"
    by (auto simp: exec_inv_def set_worker_def no_resend_snoc orders_left_def filter_empty_conv e_def)
  have "orders_left (w_wire w @ [e reply]) = (orders_left (w_wire w))(pid := [c])"
    using True none by (auto simp: orders_left_def e_def fun_eq_iff)
  moreover obtain p where p: "find_proposal (w_db w) pid = Some p" "command_from p st = Inr c"
    using inv_worker_ok[OF inv x] by (auto simp: worker_ok_def carries_def split: option.splits)
  moreover have "ob_orders (book_of w) pid = []" using none by (simp add: book_of_def)
  ultimately show ?thesis
    using book_step.ordered[of "book_of w" pid "trade_of p" "tp_status p" st c]
    by (auto simp: book_of_def stands_for_def)
qed

text \<open>
  C4: the execution refines the order book. In every reachable world, every step of any worker, of a crash, a recovery,
  a reconciliation or another writer either sends nothing and only moves statuses along the table, or sends the
  order of one proposal's trade when no order of that proposal may have left before.
\<close>

theorem execution_refines_book:
  assumes "reach exec_start (exec_step st env fromiso thesis_of) w" "exec_step st env fromiso thesis_of w w'"
  shows "book_step st (book_of w) (book_of w')"
  using assms(2)
proof cases
  case (check n control revalidate pending slot pid now command rv version)
  then show ?thesis by (simp add: book_same)
next
  case (claim n pid command rv version now db' aid snapshot)
  then show ?thesis using book_moved[OF claim_keeps] by simp
next
  case (lose n pid command rv version now db' r)
  then show ?thesis using book_moved[OF claim_keeps] by simp
next
  case (post n aid pid command reply)
  then show ?thesis using book_posted[OF exec.reach_inv[OF assms(1)]] by simp
next
  case (recorded n aid pid reply now db' r)
  then show ?thesis using book_moved[OF record_reply_keeps] by simp
next
  case (crash n)
  then show ?thesis by (simp add: book_same)
next
  case (recover aid pid now db' r)
  then show ?thesis using book_moved[OF recover_keeps(1)] by simp
next
  case (recover_sweep now db' r')
  then show ?thesis using book_moved[OF recover_incomplete_keeps(1)] by simp
next
  case (refuse pid command refusal now db' r)
  show ?thesis unfolding refuse(1) by (rule book_moved[OF record_refusal_keeps[OF refuse(2)]])
next
  case (reconcile facts result now ord candidates detail db' r'')
  show ?thesis unfolding reconcile(1) by (rule book_moved[OF record_conclusion_keeps[OF reconcile(2)]])
next
  case (other db')
  then show ?thesis using book_moved[OF outside_keeps] by simp
qed

lemma execution_refines_book_witness:
  "\<exists>w :: world. w_wire w \<noteq> [] \<and> book_step demo_settings (book_of w) (book_of (set_worker 0 Idle w))"
proof -
  obtain w e where w: "reach exec_start (exec_step demo_settings ''demo'' (\<lambda>_. None) (\<lambda>_. None)) w" "w_wire w = [e]"
    using acme_order_leaves by blast
  have "book_step demo_settings (book_of w) (book_of (set_worker 0 Idle w))"
    by (rule execution_refines_book[OF w(1) exec_step.crash])
  then show ?thesis using w(2) by (intro exI[of _ w]) simp
qed

section \<open>A crash strands nothing\<close>

lemma job_frames:
  "db_jobs (set_attempt aid f db) = db_jobs db" "db_jobs (set_proposal pid g db) = db_jobs db"
  "db_jobs (add_audit t who act ety eid d db) = db_jobs db"
  by (simp_all add: frame_simps)

lemma notify_jobs_ok: "jobs_table_ok (db_jobs db) \<Longrightarrow> jobs_table_ok (db_jobs (notify pid event detail db))"
  by (simp add: notify_def enqueue_jobs_ok)

lemma enqueue_reconcile_jobs_ok: "jobs_table_ok (db_jobs db) \<Longrightarrow> jobs_table_ok (db_jobs (enqueue_reconcile aid db))"
  by (simp add: enqueue_reconcile_def enqueue_jobs_ok)

text \<open>
  The reconciliation of an attempt is queued: an unfinished job holds its dedupe key, and unless one did \<open>before\<close>
  it is a job that reconciles this attempt.
\<close>

definition reconciliation_queued :: "database \<Rightarrow> uuid \<Rightarrow> database \<Rightarrow> bool" where
  "reconciliation_queued before aid after =
     (\<exists>j \<in> set (db_jobs after). job_active j \<and> jb_dedupe_key j = Some (''reconcile:'' @ aid)
        \<and> (j \<in> set (db_jobs before) \<or> jb_type j = job_type_value job_type.RECONCILE_EXECUTION
              \<and> jb_payload j = JObj [(''attempt_id'', JStr aid)]))"

definition fresh_job_id :: "database \<Rightarrow> bool" where
  "fresh_job_id db = (db_uuids db (db_drawn db) \<notin> set (map jb_id (db_jobs db)))"

lemma enqueue_reconcile_queued:
  assumes "jobs_table_ok (db_jobs db)" "fresh_job_id db"
  shows "reconciliation_queued db aid (enqueue_reconcile aid db)"
  using assms by (force simp: reconciliation_queued_def enqueue_reconcile_def enqueue_def uuid4_def Let_def
      jobs_table_ok_def fresh_job_id_def job_active_def)

lemma notify_jobs_subset: "set (db_jobs db) \<subseteq> set (db_jobs (notify pid event detail db))"
  by (auto simp: notify_def enqueue_def uuid4_def Let_def)

text \<open>Writing one attempt and one proposal keeps the constraints when the two rows do.\<close>

lemma rows_ok:
  assumes ok: "database_ok db" and a: "find_attempt db aid = Some a" and p: "find_proposal db pid = Some p"
    and g: "same_keys p (g p)" "proposal_row_ok (g p)" "active (g p) \<longrightarrow> active p"
    and f: "ea_id (f a) = ea_id a" "ea_proposal_id (f a) = ea_proposal_id a"
      "ea_attempt_number (f a) = ea_attempt_number a" "ea_broker_environment (f a) = ea_broker_environment a"
      "ea_sent_to_broker (f a) \<longrightarrow> ea_sent_to_broker a" "attempt_row_ok (f a)"
    and db': "db_proposals db' = db_proposals (set_proposal pid g db)" "db_attempts db' = db_attempts (set_attempt aid f db)"
      "jobs_table_ok (db_jobs db')" "db_orders db' = db_orders db" "db_actions db' = db_actions db"
  shows "database_ok db'"
proof -
  have t: "proposals_table_ok (db_proposals db)" "attempts_table_ok (db_proposals db) (db_attempts db)"
    using ok by (simp_all add: database_ok_def)
  note P = proposals_ok_upd[where g = g and p = p, OF t(1) p[unfolded find_proposal_def] g]
  note A = attempts_ok_upd[where f = f and a = a, OF t(2) a[unfolded find_attempt_def] f]
  let ?ps = "upd_rows tp_id pid (\<lambda>q. written q (g q)) (db_proposals db)"
  have ids: "map tp_id ?ps = map tp_id (db_proposals db)" using arg_cong[OF P(2), of "map fst"] by (simp add: o_def)
  have "attempts_table_ok ?ps (upd_rows ea_id aid f (db_attempts db))" using A P(2) by (simp add: attempts_table_ok_def)
  moreover have "actions_table_ok ?ps (db_actions db)" using ok ids by (simp add: database_ok_def actions_table_ok_def)
  ultimately show ?thesis using ok P(1) db' by (simp add: database_ok_def set_proposal_def set_attempt_def)
qed

lemma recovery_succeeds:
  assumes ok: "database_ok db" and a: "find_attempt db aid = Some a" "ea_outcome a = execution_outcome.PENDING" "ea_sent_to_broker a"
    and p: "find_proposal db pid = Some p" "tp_status p = proposal_status.EXECUTING" and fresh: "fresh_job_id db"
  shows "\<exists>db' r. recover_sent_attempt aid pid now db = (db', Inr r) \<and> er_outcome r = Some execution_outcome.AMBIGUOUS
    \<and> er_reconcile_required r \<and> map_option ea_outcome (find_attempt db' aid) = Some execution_outcome.AMBIGUOUS
    \<and> map_option tp_status (find_proposal db' pid) = Some proposal_status.EXECUTION_AMBIGUOUS \<and> database_ok db'
    \<and> reconciliation_queued db aid db'"
proof -
  let ?text = "''a transmitted attempt was found with no recorded result; the process ''
             @ ''stopped between recording the send and recording the outcome''"
  let ?f = "ambiguous_attempt execution_failure.CRASH_RECOVERY ?text now"
  let ?g = "status_row proposal_status.EXECUTION_AMBIGUOUS
             ''the order may or may not have reached the broker; reconciliation required'' now"
  let ?db3 = "add_audit actor_type.SYSTEM ''system:execution'' ''execution.ambiguous'' ''trade_proposal'' (Some pid)
             (JObj [(''category'', JStr (execution_failure_value execution_failure.CRASH_RECOVERY)), (''resend_permitted'', JBool False),
                    (''reconciliation_required'', JBool True)]) (set_proposal pid ?g (set_attempt aid ?f db))"
  let ?db4 = "notify pid notification_event.EXECUTION_AMBIGUOUS
             (Some (execution_failure_value execution_failure.CRASH_RECOVERY @ '': do not resend, reconciliation required''))
             (enqueue_reconcile aid ?db3)"
  have t: "assert_transition proposal_status.EXECUTING proposal_status.EXECUTION_AMBIGUOUS = Inr ()"
    by (simp add: assert_transition_def can_transition_def)
  have ar: "attempt_row_ok a" and pr: "proposal_row_ok p"
    using ok a(1) p(1) by (auto simp: database_ok_def attempts_table_ok_def proposals_table_ok_def list_all_iff
        find_attempt_def find_proposal_def dest!: find_row_Some)
  have f: "db_proposals ?db4 = db_proposals (set_proposal pid ?g db)" "db_attempts ?db4 = db_attempts (set_attempt aid ?f db)"
    "db_orders ?db4 = db_orders db" "db_actions ?db4 = db_actions db"
    by (simp_all only: frame_simps) (simp_all add: set_proposal_def frame_simps)
  have "jobs_table_ok (db_jobs ?db4)"
    using ok by (intro notify_jobs_ok enqueue_reconcile_jobs_ok) (simp only: job_frames, simp add: database_ok_def)
  then have ok4: "database_ok ?db4"
    using ar pr p(2) a(2,3)
    by (intro rows_ok[OF ok a(1) p(1) _ _ _ _ _ _ _ _ _ f(1,2) _ f(3,4)])
      (auto simp: same_keys_def status_row_def proposal_row_ok_def active_def status_set_defs
        ambiguous_attempt_def attempt_row_ok_def)
  have r: "record_ambiguous aid pid execution_failure.CRASH_RECOVERY ?text now db = (?db4, Inr
            \<lparr>er_proposal_id = pid, er_transmitted = True, er_outcome = Some execution_outcome.AMBIGUOUS,
             er_attempt_id = Some aid, er_broker_order_id = None,
             er_status = Some proposal_status.EXECUTION_AMBIGUOUS,
             er_reason = ''the order may or may not have reached the broker'', er_failure = Some execution_failure.CRASH_RECOVERY,
             er_reconcile_required = True\<rparr>)"
    using a(1) p ok4 unfolding record_ambiguous_def with_rows_def run_tx_def transaction_def Let_def by (simp add: t)
  have "find_attempt ?db4 aid = Some (?f a)" "find_proposal ?db4 pid = Some (written p (?g p))"
    using f(1,2) a(1) p(1) find_set_attempt[where g = ?f and aid = aid and k = aid and db = db]
      find_set_proposal[where f = ?g and pid = pid and k = pid and db = db]
    by (simp_all add: find_attempt_def find_proposal_def)
  moreover have "reconciliation_queued db aid ?db4"
  proof -
    have jobs: "db_jobs ?db3 = db_jobs db" by (simp only: job_frames)
    have uuids: "db_uuids ?db3 = db_uuids db" "db_drawn ?db3 = db_drawn db"
      by (simp_all add: add_audit_def set_proposal_def set_attempt_def)
    have "jobs_table_ok (db_jobs ?db3)" "fresh_job_id ?db3"
      using ok fresh unfolding jobs uuids fresh_job_id_def by (auto simp: database_ok_def)
    from enqueue_reconcile_queued[OF this, of aid] show ?thesis
      using notify_jobs_subset unfolding reconciliation_queued_def jobs by blast
  qed
  ultimately show ?thesis using r ok4 a(1,2)
    by (simp add: recover_sent_attempt_def) (simp add: ambiguous_attempt_def)
qed

lemma outside_trans: "outside a b \<Longrightarrow> outside b c \<Longrightarrow> outside a c"
  unfolding outside_def by (metis evolves_trans)

text \<open>The two rows of a claim, as every later commit of the others finds them.\<close>

lemma claimed_rows:
  assumes claim: "claim_and_mark_sent st env fromiso pid command rv version now db = (db1, Inr (Some (aid, snapshot)))"
    and ok: "database_ok db" and others: "outside db1 db2"
  obtains p a where "find_proposal db pid = Some p" "claimable fromiso version now db p"
    "find_proposal db2 pid = Some (written p (claimed_row now p))" "find_attempt db2 aid = Some a"
    "db_attempts db2 = db_attempts db @ [a]" "database_ok db2" "ea_id a = aid" "ea_proposal_id a = pid"
    "ea_sent_to_broker a" "ea_outcome a = execution_outcome.PENDING" "ea_request_payload a = JObj (ec_as_dict command)"
    "ea_broker_environment a = tp_broker_environment p" "ea_broker_order_id a = None" "ea_sent_at a = Some now"
proof -
  obtain p a where c: "find_proposal db pid = Some p" "claimable fromiso version now db p"
      "db_attempts db1 = db_attempts db @ [a]" "db_proposals db1 = db_proposals (set_proposal pid (claimed_row now) db)"
      "ea_id a = aid" "ea_proposal_id a = pid" "ea_sent_to_broker a" "ea_outcome a = execution_outcome.PENDING"
      "ea_request_payload a = JObj (ec_as_dict command)" "ea_broker_environment a = tp_broker_environment p"
      "ea_broker_order_id a = None" "ea_sent_at a = Some now"
    using claim by (cases rule: claim_cases) auto
  have "find_proposal db1 pid = Some (written p (claimed_row now p))"
    using c(1,4) find_set_proposal[where f = "claimed_row now" and pid = pid and db = db and k = pid]
    by (simp add: find_proposal_def)
  then have p2: "find_proposal db2 pid = Some (written p (claimed_row now p))" using others by (auto simp: outside_def)
  have at: "db_attempts db2 = db_attempts db @ [a]" "database_ok db2" using others c(3) by (simp_all add: outside_def)
  have "find_attempt db2 aid = Some a"
    using claim_fresh(1)[OF claim] at(1) c(5) by (simp add: find_attempt_def find_row_append)
  then show thesis using that c p2 at by blast
qed



end
