(* ===== verification/Resolution.thy ===== *)
theory Resolution
  imports Exec_Protocol
begin

text \<open>
  What reconciliation may conclude: when it calls an order absent, and that it recognises the order a claim
  described, from the claim's stored payload to the conclusion.
\<close>

section \<open>Absence\<close>

lemma record_conclusion_result:
  assumes "record_conclusion facts result now ord candidates detail db = (db', Inr r)"
  shows "ro_result r = result \<or> ro_result r = reconciliation_result.INCONCLUSIVE"
    "ro_result r = reconciliation_result.ORDER_FOUND \<Longrightarrow> ord = Some v \<Longrightarrow> ro_broker_order_id r = Some (ov_broker_order_id v)"
  using assms
  by (auto simp: record_conclusion_def run_tx_def transaction_def reconciliation_outcome_of_def Let_def
      split: option.splits sum.splits if_splits)

lemma rows_survive_record_conclusion:
  assumes "record_conclusion facts result now ord candidates detail db = (db', Inr r)"
    and "find_attempt db (af_attempt_id facts) \<noteq> None" "find_proposal db (af_proposal_id facts) \<noteq> None"
  shows "ro_result r = result"
  using assms
  by (auto simp: record_conclusion_def run_tx_def transaction_def Let_def split: option.splits sum.splits if_splits)

lemma known_order_not_absent: "fst (known_order fetch search st facts oid now) \<noteq> reconciliation_result.ORDER_NOT_PLACED"
  by (simp add: known_order_def split: sum.split option.split)

lemma concluded_search_absent:
  "concluded_search st facts claimed s now = (reconciliation_result.ORDER_NOT_PLACED, ord, n, detail) \<longleftrightarrow>
     cs_complete s \<and> (\<forall>c \<in> set (cs_candidates s). matches c facts \<longrightarrow> ov_broker_order_id c \<in> claimed)
     \<and> (\<forall>sent. af_sent_at facts = Some sent \<longrightarrow> xs_reconcile_min_age st \<le> now - sent)
     \<and> ord = None \<and> n = 0
     \<and> detail = ''both broker read paths answered and no API-initiated order matches this ''
               @ ''attempt ('' @ show_int (cs_scanned s) @ '' order(s) scanned)''"
proof -
  let ?found = "filter (\<lambda>ord. matches ord facts \<and> ov_broker_order_id ord \<notin> claimed) (cs_candidates s)"
  have empty: "?found = [] \<longleftrightarrow> (\<forall>c \<in> set (cs_candidates s). matches c facts \<longrightarrow> ov_broker_order_id c \<in> claimed)"
    by (auto simp: filter_empty_conv)
  show ?thesis
  proof (cases "?found = []")
    case True
    then show ?thesis unfolding empty[symmetric]
      by (auto simp: concluded_search_def Let_def split: option.splits)
  next
    case False
    then have "fst (concluded_search st facts claimed s now) \<noteq> reconciliation_result.ORDER_NOT_PLACED"
      by (cases ?found; cases "tl ?found") (auto simp: concluded_search_def Let_def)
    then show ?thesis using False unfolding empty[symmetric] by auto
  qed
qed

text \<open>
  C11: absence is concluded only from evidence. When a reconciliation reports that the order was never placed, the
  attempt was open, of this process's environment and without an order id, both broker reads answered, the settle
  window was over, and no order they returned matches the attempt except ones other attempts own.
\<close>

theorem absence_needs_evidence:
  assumes "reconcile st environment b fetch search others aid now db = (db', Inr r)"
    and "ro_result r = reconciliation_result.ORDER_NOT_PLACED"
  shows "\<exists>a p facts. find_attempt db aid = Some a \<and> find_proposal db (ea_proposal_id a) = Some p \<and> facts_of a p = Inr facts
    \<and> needs_reconciliation facts \<and> ea_broker_environment a = environment \<and> or_else (ea_broker_order_id a) [] = []
    \<and> (\<forall>sent. ea_sent_at a = Some sent \<longrightarrow> xs_reconcile_min_age st \<le> now - sent)
    \<and> (let s = search (af_broker_ticker facts) (window_start st now facts) (window_end st now facts)
       in cs_complete s \<and> (\<forall>v \<in> set (cs_candidates s). matches v facts
            \<longrightarrow> ov_broker_order_id v \<in> claimed_order_ids b aid (others db)))"
proof -
  have result: "ro_result (reconciliation_outcome_of i x d) = x" for i x d by (simp add: reconciliation_outcome_of_def)
  obtain a where a: "find_attempt db aid = Some a"
    using assms by (cases "find_attempt db aid") (auto simp: reconcile_def result)
  obtain p where p: "find_proposal db (ea_proposal_id a) = Some p"
    using assms a by (cases "find_proposal db (ea_proposal_id a)") (auto simp: reconcile_def result)
  obtain facts where facts: "facts_of a p = Inr facts"
    using assms a p by (cases "facts_of a p") (auto simp: reconcile_def)
  have af: "af_broker_environment facts = ea_broker_environment a" "af_broker_order_id facts = ea_broker_order_id a"
      "af_sent_at facts = ea_sent_at a"
    using facts by (auto simp: facts_of_def bindE_eq_Inr)
  have opened: "needs_reconciliation facts" "af_broker_environment facts = environment"
    using assms a p facts by (auto simp: reconcile_def result reconciliation_outcome_of_def split: if_splits)
  let ?s = "search (af_broker_ticker facts) (window_start st now facts) (window_end st now facts)"
  let ?claimed = "claimed_order_ids b aid (others db)"
  obtain res ord n d where c: "(case af_broker_order_id facts of
       Some (c # cs) \<Rightarrow> known_order fetch search st facts (c # cs) now
     | _ \<Rightarrow> concluded_search st facts ?claimed ?s now) = (res, ord, n, d)" by (metis prod.exhaust)
  have "record_conclusion facts res now ord n d (others db) = (db', Inr r)"
    using assms(1) a p facts opened c by (simp add: reconcile_def)
  then have "res = reconciliation_result.ORDER_NOT_PLACED"
    using record_conclusion_result(1) assms(2) by fastforce
  then have "or_else (ea_broker_order_id a) [] = []
      \<and> concluded_search st facts ?claimed ?s now = (reconciliation_result.ORDER_NOT_PLACED, ord, n, d)"
    using c known_order_not_absent[of fetch search st facts _ now] unfolding af
    by (auto split: option.splits list.splits) (metis fst_conv)
  then show ?thesis using a p facts opened af by (auto simp: concluded_search_absent Let_def)
qed

section \<open>From a claim to its facts\<close>

text \<open>What reconciliation reads back of an attempt whose payload \<open>ec_as_dict\<close> wrote.\<close>

lemma claimed_facts:
  assumes "ea_request_payload a = JObj (ec_as_dict c)" "ec_broker_ticker c \<noteq> []"
  shows "facts_of a p = Inr
     \<lparr>af_attempt_id = ea_id a, af_proposal_id = ea_proposal_id a, af_outcome = ea_outcome a,
      af_broker_order_id = ea_broker_order_id a, af_broker_environment = ea_broker_environment a,
      af_broker_ticker = ec_broker_ticker c, af_signed_quantity = ec_signed_quantity c, af_sent_at = ea_sent_at a\<rparr>"
  using assms by (simp add: facts_of_def ec_as_dict_def stored_quantity_def jdec_def parse_dec_str or_text_def)

lemma own_candidate:
  assumes "v \<in> set (cs_candidates s)" "matches v facts" "ov_broker_order_id v \<notin> claimed"
  shows "(\<exists>n d. concluded_search st facts claimed s now = (reconciliation_result.ORDER_FOUND, Some v, n, d))
    \<or> (\<exists>n d. concluded_search st facts claimed s now = (reconciliation_result.MULTIPLE_CANDIDATES, None, n, d))"
proof -
  let ?found = "filter (\<lambda>ord. matches ord facts \<and> ov_broker_order_id ord \<notin> claimed) (cs_candidates s)"
  have v: "v \<in> set ?found" using assms by simp
  then obtain x xs where f: "?found = x # xs" by (cases ?found) auto
  show ?thesis
    using v unfolding f by (cases xs) (auto simp: concluded_search_def f)
qed

definition claim_facts :: "execution_outcome \<Rightarrow> uuid \<Rightarrow> uuid \<Rightarrow> string \<Rightarrow> execution_command \<Rightarrow> instant \<Rightarrow> attempt_facts" where
  "claim_facts outcome aid pid environment c sent =
     \<lparr>af_attempt_id = aid, af_proposal_id = pid, af_outcome = outcome,
      af_broker_order_id = None, af_broker_environment = environment,
      af_broker_ticker = ec_broker_ticker c, af_signed_quantity = ec_signed_quantity c, af_sent_at = Some sent\<rparr>"

lemma claim_facts_ids [simp]:
  "af_attempt_id (claim_facts outcome aid pid environment c sent) = aid"
  "af_proposal_id (claim_facts outcome aid pid environment c sent) = pid"
  by (simp_all add: claim_facts_def)

section \<open>While an attempt is undecided\<close>

text \<open>
  What may be committed between a claim and a reconciliation that finds the attempt undecided: anything that spares
  its row and only moves proposals along the table, the recording of its outcome as ambiguous, by its worker or by a
  recovery, and earlier reconciliations that reached no conclusion.
\<close>

inductive undecided :: "uuid \<Rightarrow> uuid \<Rightarrow> database \<Rightarrow> database \<Rightarrow> bool" for aid pid start where
  claimed: "undecided aid pid start start"
| spared: "undecided aid pid start db \<Longrightarrow> find_attempt db' aid = find_attempt db aid \<Longrightarrow> evolves db db' \<Longrightarrow>
    undecided aid pid start db'"
| ambiguous: "undecided aid pid start db \<Longrightarrow> record_ambiguous aid pid category detail now db = (db', r) \<Longrightarrow>
    undecided aid pid start db'"
| looked: "undecided aid pid start db \<Longrightarrow> record_conclusion facts result now ord n detail db = (db', r') \<Longrightarrow>
    result \<notin> {reconciliation_result.ORDER_FOUND, reconciliation_result.ORDER_NOT_PLACED} \<Longrightarrow>
    undecided aid pid start db'"

text \<open>The attempt still carries its command and no order id, and its outcome is open.\<close>

definition open_attempt ::
  "execution_outcome \<Rightarrow> uuid \<Rightarrow> uuid \<Rightarrow> string \<Rightarrow> execution_command \<Rightarrow> instant \<Rightarrow> database \<Rightarrow> bool" where
  "open_attempt outcome aid pid environment c sent db =
     (\<exists>a p. find_attempt db aid = Some a \<and> find_proposal db pid = Some p \<and> ea_id a = aid \<and> ea_proposal_id a = pid
        \<and> ea_outcome a = outcome \<and> outcome \<in> {execution_outcome.PENDING, execution_outcome.AMBIGUOUS}
        \<and> ea_request_payload a = JObj (ec_as_dict c) \<and> ea_broker_environment a = environment
        \<and> ea_broker_order_id a = None \<and> ea_sent_at a = Some sent)"

lemma open_keeps:
  assumes "open_attempt out aid pid environment c sent db" "evolves db db'"
    and "find_attempt db' aid = map_option f (find_attempt db aid)"
    and "\<And>a. ea_id (f a) = ea_id a" "\<And>a. ea_proposal_id (f a) = ea_proposal_id a"
      "\<And>a. ea_request_payload (f a) = ea_request_payload a" "\<And>a. ea_broker_environment (f a) = ea_broker_environment a"
      "\<And>a. ea_broker_order_id (f a) = ea_broker_order_id a" "\<And>a. ea_sent_at (f a) = ea_sent_at a"
      "\<And>a. ea_outcome (f a) = (if amb then execution_outcome.AMBIGUOUS else ea_outcome a)"
  shows "\<exists>out. open_attempt out aid pid environment c sent db'"
  using assms by (auto simp: open_attempt_def dest!: evolvesD)

lemma ambiguous_open:
  assumes o: "open_attempt out aid pid environment c sent db"
    and rec: "record_ambiguous aid pid category detail now db = (db', r)"
  shows "\<exists>out. open_attempt out aid pid environment c sent db'"
proof (cases rule: with_rows_cases[OF rec[unfolded record_ambiguous_def]])
  case (2 a p v)
  have "db_attempts db' = db_attempts (set_attempt aid (ambiguous_attempt category detail now) db)"
    using 2(3) by (auto simp: Let_def bindE_eq_Inr frame_simps set_proposal_def split: if_splits)
  then have a: "find_attempt db' aid = map_option (ambiguous_attempt category detail now) (find_attempt db aid)"
    using find_set_attempt[where g = "ambiguous_attempt category detail now" and aid = aid and k = aid and db = db]
    by (simp add: find_attempt_def)
  have "evolves db db'" using record_ambiguous_keeps[OF rec] by (simp add: keeps_def)
  from open_keeps[where amb = True, OF o this a] show ?thesis by (simp add: ambiguous_attempt_def)
qed (use o in blast)

lemma looked_open:
  assumes o: "open_attempt out aid pid environment c sent db"
    and rec: "record_conclusion facts result now ord n detail db = (db', r)"
    and result: "result \<notin> {reconciliation_result.ORDER_FOUND, reconciliation_result.ORDER_NOT_PLACED}"
  shows "\<exists>out. open_attempt out aid pid environment c sent db'"
proof (cases rule: run_tx_cases[OF rec[unfolded record_conclusion_def]])
  case (2 v)
  let ?f = "concluded_attempt facts result now ord n detail"
  have f: "?f = reconciled_attempt facts result now n detail"
    using result by (cases result) (auto simp: concluded_attempt_def fun_eq_iff Let_def)
  have "db' = db \<or> (\<exists>a. find_attempt db (af_attempt_id facts) = Some a
      \<and> db_attempts db' = db_attempts (set_attempt (af_attempt_id facts) (\<lambda>_. ?f a) db))"
    using 2(1) result by (cases result) (auto simp: Let_def frame_simps set_proposal_def split: option.splits if_splits)
  then show ?thesis
  proof (elim disjE exE conjE)
    fix a assume a: "find_attempt db (af_attempt_id facts) = Some a"
      "db_attempts db' = db_attempts (set_attempt (af_attempt_id facts) (\<lambda>_. ?f a) db)"
    have "ea_id (?f a) = af_attempt_id facts"
      using a(1) by (auto simp: find_attempt_def f reconciled_attempt_def dest: find_row_Some)
    then have "find_attempt db' aid = map_option (\<lambda>r. if aid = af_attempt_id facts then ?f a else r) (find_attempt db aid)"
      using a(2) find_set_attempt[where g = "\<lambda>_. ?f a" and aid = "af_attempt_id facts" and k = aid and db = db]
      by (simp add: find_attempt_def)
    then have a': "find_attempt db' aid = map_option (if aid = af_attempt_id facts then ?f else id) (find_attempt db aid)"
      using a(1) by (auto simp: option.map_ident option.map_id)
    have "evolves db db'" using record_conclusion_keeps[OF rec] by (simp add: keeps_def)
    from open_keeps[where amb = False, OF o this a'] show ?thesis by (simp add: f reconciled_attempt_def)
  qed (use o in blast)
qed (use o in blast)

lemma undecided_open:
  "undecided aid pid start db \<Longrightarrow> open_attempt out aid pid environment c sent start \<Longrightarrow>
     \<exists>out. open_attempt out aid pid environment c sent db"
proof (induction rule: undecided.induct)
  case (spared db db')
  then obtain out' where "open_attempt out' aid pid environment c sent db" by blast
  then show ?case by (rule open_keeps[where amb = False and f = id, OF _ spared(3)]) (simp_all add: spared(2) option.map_id)
qed (blast intro: ambiguous_open looked_open)+

lemma claim_open:
  assumes claim: "claim_and_mark_sent st env fromiso pid c rv version sent db = (db1, Inr (Some (aid, snapshot)))"
      "database_ok db" and env: "map_option tp_broker_environment (find_proposal db pid) = Some environment"
  shows "open_attempt execution_outcome.PENDING aid pid environment c sent db1"
proof -
  have "outside db1 db1" using claim_ok[OF claim(2,1)] by (simp add: outside_def evolves_same)
  then obtain p a where "find_proposal db pid = Some p" "find_proposal db1 pid = Some (written p (claimed_row sent p))"
      "find_attempt db1 aid = Some a" "ea_id a = aid" "ea_proposal_id a = pid"
      "ea_outcome a = execution_outcome.PENDING" "ea_request_payload a = JObj (ec_as_dict c)"
      "ea_broker_environment a = tp_broker_environment p" "ea_broker_order_id a = None" "ea_sent_at a = Some sent"
    by (rule claimed_rows[OF claim]) blast
  then show ?thesis using env by (simp add: open_attempt_def)
qed

lemma reconcile_open:
  assumes o: "open_attempt out aid pid environment c sent db" and ticker: "ec_broker_ticker c \<noteq> []"
  shows "reconcile st environment b fetch search others aid now db
     = (case concluded_search st (claim_facts out aid pid environment c sent) (claimed_order_ids b aid (others db))
              (search (ec_broker_ticker c) (sent - xs_reconcile_window st) (sent + xs_reconcile_window st)) now of
          (result, ord, n, detail) \<Rightarrow>
            record_conclusion (claim_facts out aid pid environment c sent) result now ord n detail (others db))"
proof -
  obtain a p where a: "find_proposal db pid = Some p" "find_attempt db aid = Some a" "ea_id a = aid" "ea_proposal_id a = pid"
      "ea_outcome a = out" "ea_request_payload a = JObj (ec_as_dict c)" "ea_broker_environment a = environment"
      "ea_broker_order_id a = None" "ea_sent_at a = Some sent"
    and out: "out \<in> {execution_outcome.PENDING, execution_outcome.AMBIGUOUS}"
    using o unfolding open_attempt_def by blast
  have f: "facts_of a p = Inr (claim_facts out aid pid environment c sent)"
    using claimed_facts[OF a(6) ticker] a by (simp add: claim_facts_def)
  have "needs_reconciliation (claim_facts out aid pid environment c sent)"
    using out by (auto simp: needs_reconciliation_def claim_facts_def)
  then show ?thesis using a f by (simp add: reconcile_def) (simp add: claim_facts_def window_start_def window_end_def)
qed

text \<open>
  C12: a claim's own order is recognised. When a worker claimed a command, its outcome was not decided since, and the
  broker's answered search lists an API-initiated market order of that ticker and signed quantity which no other
  attempt owns, a reconciliation by anyone reports that order, or several candidates, and not its absence; one that
  raises commits nothing.
\<close>

theorem own_order_is_recognised:
  assumes "claim_and_mark_sent st env fromiso pid c rv version sent db = (db1, Inr (Some (aid, snapshot)))"
    and "database_ok db" "undecided aid pid db1 db2"
    and "map_option tp_broker_environment (find_proposal db pid) = Some environment" "ec_broker_ticker c \<noteq> []"
    and "find_attempt (others db2) aid \<noteq> None" "find_proposal (others db2) pid \<noteq> None"
    and "v \<in> set (cs_candidates (search (ec_broker_ticker c) (sent - xs_reconcile_window st) (sent + xs_reconcile_window st)))"
    and "ov_placed_by_api v" "ov_broker_ticker v = Some (ec_broker_ticker c)"
      "upper (or_else (ov_order_type v) []) = order_type_value order_type.MARKET"
      "ov_signed_quantity v = Some q" "dec_eq q (ec_signed_quantity c)"
    and "ov_broker_order_id v \<notin> claimed_order_ids b aid (others db2)"
    and "reconcile st environment b fetch search others aid now db2 = (db3, outcome)"
  shows "case outcome of
      Inr r \<Rightarrow> (ro_result r = reconciliation_result.ORDER_FOUND \<and> ro_broker_order_id r = Some (ov_broker_order_id v))
        \<or> ro_result r = reconciliation_result.MULTIPLE_CANDIDATES
    | Inl e \<Rightarrow> db3 = others db2"
proof -
  obtain out where o: "open_attempt out aid pid environment c sent db2"
    using undecided_open[OF assms(3) claim_open[OF assms(1,2,4)]] by blast
  let ?facts = "claim_facts out aid pid environment c sent"
  have m: "matches v ?facts" using assms(9-13) by (simp add: matches_def claim_facts_def)
  obtain res ord n d where s: "concluded_search st ?facts (claimed_order_ids b aid (others db2))
      (search (ec_broker_ticker c) (sent - xs_reconcile_window st) (sent + xs_reconcile_window st)) now = (res, ord, n, d)"
    by (metis prod.exhaust)
  from own_candidate[OF assms(8) m assms(14), of st now] s
  have c: "res = reconciliation_result.ORDER_FOUND \<and> ord = Some v \<or> res = reconciliation_result.MULTIPLE_CANDIDATES" by auto
  have rec: "record_conclusion ?facts res now ord n d (others db2) = (db3, outcome)"
    using assms(15) unfolding reconcile_open[OF o assms(5)] s by simp
  show ?thesis
  proof (cases outcome)
    case (Inl e)
    then show ?thesis using rec by (auto simp: record_conclusion_def run_tx_def split: sum.splits)
  next
    case (Inr r)
    note rec = rec[unfolded Inr]
    have "ro_result r = res"
      by (rule rows_survive_record_conclusion[OF rec]) (use assms(6,7) in \<open>simp_all add: claim_facts_def\<close>)
    then show ?thesis using c record_conclusion_result(2)[OF rec, of v] Inr by auto
  qed
qed

section \<open>Examples\<close>

text \<open>Recording a conclusion that mirrors no order never fails.\<close>

lemma unmirrored_conclusion_succeeds:
  assumes ok: "database_ok db" and a: "find_attempt db (af_attempt_id facts) = Some a"
    and p: "find_proposal db (af_proposal_id facts) = Some p" and result: "result \<noteq> reconciliation_result.ORDER_FOUND"
  shows "\<exists>db' r. record_conclusion facts result now ord n detail db = (db', Inr r) \<and> ro_result r = result"
proof -
  let ?a = "concluded_attempt facts result now ord n detail a"
  let ?p = "concluded_row result now ord p"
  let ?aid = "af_attempt_id facts" and ?pid = "af_proposal_id facts"
  have ar: "attempt_row_ok a" and pr: "proposal_row_ok p"
    using ok a p by (auto simp: database_ok_def attempts_table_ok_def proposals_table_ok_def list_all_iff
        find_attempt_def find_proposal_def dest!: find_row_Some)
  have rows: "ea_id ?a = ea_id a" "ea_proposal_id ?a = ea_proposal_id a" "ea_attempt_number ?a = ea_attempt_number a"
      "ea_broker_environment ?a = ea_broker_environment a" "ea_sent_to_broker ?a \<longrightarrow> ea_sent_to_broker a" "attempt_row_ok ?a"
    using result ar by (auto simp: concluded_attempt_def reconciled_attempt_def absent_attempt_def attempt_row_ok_def Let_def
        split: reconciliation_result.splits)
  have prow: "same_keys p ?p" "proposal_row_ok ?p" "active ?p \<longrightarrow> active p"
    using result pr by (auto simp: concluded_row_def absent_row_def same_keys_def status_row_def proposal_row_ok_def active_def
        status_set_defs split: reconciliation_result.splits)
  let ?db3 = "\<lambda>d. add_audit actor_type.SYSTEM ''system:reconciliation'' ''execution.reconciled'' ''execution_attempt'' (Some ?aid) d
     (set_proposal ?pid (\<lambda>_. ?p) (set_attempt ?aid (\<lambda>_. ?a) db))"
  have "db_proposals (?db3 d) = db_proposals (set_proposal ?pid (\<lambda>_. ?p) db)"
    "db_attempts (?db3 d) = db_attempts (set_attempt ?aid (\<lambda>_. ?a) db)"
    "db_orders (?db3 d) = db_orders db" "db_actions (?db3 d) = db_actions db" "jobs_table_ok (db_jobs (?db3 d))" for d
    using ok by (simp_all only: job_frames) (simp_all add: frame_simps set_proposal_def database_ok_def)
  note f = this
  have ok3: "database_ok (?db3 d)" for d by (rule rows_ok[OF ok a p prow rows f(1,2,5,3,4)])
  have ok4: "database_ok (notify pid e m (?db3 d))" for pid e m d by (rule notify_ok[OF ok3])
  have ok5: "database_ok (notify pid e m (notify pid' e' m' (?db3 d)))" for pid e m pid' e' m' d by (rule notify_ok[OF ok4])
  have unmirrored: "(case (result, ord) of (reconciliation_result.ORDER_FOUND, Some found) \<Rightarrow> x found | _ \<Rightarrow> y) = y" for x y
    using result by (cases result) simp_all
  show ?thesis
    unfolding record_conclusion_def run_tx_def transaction_def Let_def unmirrored a p option.case
    by (simp add: ok3 ok4 ok5 del: insert_iff)
qed

text \<open>
  A claim whose worker stopped, ninety seconds later: a search that answered with nothing, and one that answered
  with two orders of the claim's shape.
\<close>

definition found_search :: "broker_order_view list \<Rightarrow> candidate_search" where
  "found_search vs = \<lparr>cs_candidates = vs, cs_pending_ok = True, cs_history_ok = True, cs_scanned = int (length vs),
     cs_error_category = None\<rparr>"

definition api_order :: "string \<Rightarrow> broker_order_view" where
  "api_order i = \<lparr>ov_broker_order_id = i, ov_broker_ticker = Some ''ACME_US_EQ'', ov_signed_quantity = Some (Dec 10 (-1)),
     ov_filled_quantity = None, ov_filled_value = None, ov_status = Some ''NEW'', ov_order_type = Some ''MARKET'', ov_side = None,
     ov_currency = None, ov_created_at = None, ov_initiated_from = Some ''API'', ov_raw = []\<rparr>"

lemma acme_claimed:
  obtains rv db1 aid snapshot where
    "claim_and_mark_sent demo_settings ''demo'' (\<lambda>_. None) ''p1'' (sample_command (Dec 1 0)) rv
       (tp_version acme_proposal) 2000000 approved_database = (db1, Inr (Some (aid, snapshot)))"
    "map_option tp_broker_environment (find_proposal approved_database ''p1'') = Some ''demo''"
    "ec_broker_ticker (sample_command (Dec 1 0)) \<noteq> []" "find_attempt db1 aid \<noteq> None" "find_proposal db1 ''p1'' \<noteq> None"
    "database_ok db1" "db_orders db1 = []"
proof -
  obtain rv where "rv_allowed rv" by (rule acme_still_good) auto
  obtain db1 aid snapshot where c: "claim_and_mark_sent demo_settings ''demo'' (\<lambda>_. None) ''p1'' (sample_command (Dec 1 0)) rv
      (tp_version acme_proposal) 2000000 approved_database = (db1, Inr (Some (aid, snapshot)))"
    using claim_succeeds[OF approved_database_claimable] by blast
  have ok: "database_ok db1" by (rule claim_ok[OF approved_database_claimable(1) c])
  then have o: "outside db1 db1" by (simp add: outside_def evolves_same)
  have "find_attempt db1 aid \<noteq> None" "find_proposal db1 ''p1'' \<noteq> None"
    by (rule claimed_rows[OF c approved_database_claimable(1) o]; simp)+
  moreover have "db_orders db1 = db_orders approved_database" using c by (cases rule: claim_cases) auto
  moreover have "map_option tp_broker_environment (find_proposal approved_database ''p1'') = Some ''demo''"
    using approved_database_claimable(2) by (simp add: acme_proposal_def)
  ultimately show thesis using that[OF c] ok
    by (simp add: sample_command_def approved_database_def empty_database_def)
qed

lemma absence_needs_evidence_witness:
  "\<exists>db1 aid db' r. reconcile demo_settings ''demo'' broker.TRADING212 (\<lambda>_. Inr None) (\<lambda>_ _ _. found_search []) id aid 92000000 db1
       = (db', Inr r) \<and> ro_result r = reconciliation_result.ORDER_NOT_PLACED
     \<and> (\<forall>sent. map_option ea_sent_at (find_attempt db1 aid) = Some (Some sent) \<longrightarrow> xs_reconcile_min_age demo_settings \<le> 92000000 - sent)"
proof -
  obtain rv db1 aid snapshot where c: "claim_and_mark_sent demo_settings ''demo'' (\<lambda>_. None) ''p1'' (sample_command (Dec 1 0)) rv
       (tp_version acme_proposal) 2000000 approved_database = (db1, Inr (Some (aid, snapshot)))"
    "map_option tp_broker_environment (find_proposal approved_database ''p1'') = Some ''demo''"
    "ec_broker_ticker (sample_command (Dec 1 0)) \<noteq> []" "find_attempt db1 aid \<noteq> None" "find_proposal db1 ''p1'' \<noteq> None"
    "database_ok db1" by (rule acme_claimed)
  let ?facts = "claim_facts execution_outcome.PENDING aid ''p1'' ''demo'' (sample_command (Dec 1 0)) 2000000"
  have s: "concluded_search demo_settings ?facts x (found_search []) 92000000
     = (reconciliation_result.ORDER_NOT_PLACED, None, 0,
        ''both broker read paths answered and no API-initiated order matches this '' @ ''attempt ('' @ show_int 0 @ '' order(s) scanned)'')" for x
    unfolding concluded_search_absent
    by (simp add: found_search_def cs_complete_def claim_facts_def demo_settings_def)
  obtain a p where rows: "find_attempt db1 aid = Some a" "find_proposal db1 ''p1'' = Some p" using c(4,5) by blast
  obtain db' r where r: "reconcile demo_settings ''demo'' broker.TRADING212 (\<lambda>_. Inr None) (\<lambda>_ _ _. found_search []) id aid 92000000 db1
       = (db', Inr r)" "ro_result r = reconciliation_result.ORDER_NOT_PLACED"
    using unmirrored_conclusion_succeeds[where facts = ?facts, unfolded claim_facts_ids, OF c(6) rows
        reconciliation_result.distinct(2)]
    unfolding reconcile_open[OF claim_open[OF c(1) approved_database_claimable(1) c(2)] c(3)] s prod.case id_apply by blast
  show ?thesis using absence_needs_evidence[OF r] r by fastforce
qed

lemma own_order_is_recognised_witness:
  "\<exists>db1 aid db3 r. reconcile demo_settings ''demo'' broker.TRADING212 (\<lambda>_. Inr None)
       (\<lambda>_ _ _. found_search [api_order ''1'', api_order ''2'']) id aid 92000000 db1 = (db3, Inr r)
     \<and> ro_result r = reconciliation_result.MULTIPLE_CANDIDATES"
proof -
  let ?s = "found_search [api_order ''1'', api_order ''2'']"
  obtain rv db1 aid snapshot where c: "claim_and_mark_sent demo_settings ''demo'' (\<lambda>_. None) ''p1'' (sample_command (Dec 1 0)) rv
       (tp_version acme_proposal) 2000000 approved_database = (db1, Inr (Some (aid, snapshot)))"
    "map_option tp_broker_environment (find_proposal approved_database ''p1'') = Some ''demo''"
    "ec_broker_ticker (sample_command (Dec 1 0)) \<noteq> []" "find_attempt db1 aid \<noteq> None" "find_proposal db1 ''p1'' \<noteq> None"
    "database_ok db1" "db_orders db1 = []" by (rule acme_claimed)
  let ?facts = "claim_facts execution_outcome.PENDING aid ''p1'' ''demo'' (sample_command (Dec 1 0)) 2000000"
  have "matches (api_order i) ?facts" for i
    by (simp add: matches_def claim_facts_def api_order_def sample_command_def ec_signed_quantity_def ov_placed_by_api_def) code_simp
  then have m: "concluded_search demo_settings ?facts {} ?s 92000000 = (reconciliation_result.MULTIPLE_CANDIDATES, None, 2,
      show_int 2 @ '' API-initiated orders match this attempt; the broker '' @ ''supports no client reference that could tell them apart'')"
    by (simp add: concluded_search_def found_search_def)
  have none: "claimed_order_ids broker.TRADING212 aid db1 = {}" using c(7) by (simp add: claimed_order_ids_def)
  obtain a p where rows: "find_attempt db1 aid = Some a" "find_proposal db1 ''p1'' = Some p" using c(4,5) by blast
  have ne: "reconciliation_result.MULTIPLE_CANDIDATES \<noteq> reconciliation_result.ORDER_FOUND" by simp
  obtain db3 r where r: "reconcile demo_settings ''demo'' broker.TRADING212 (\<lambda>_. Inr None) (\<lambda>_ _ _. ?s) id aid 92000000 db1 = (db3, Inr r)"
      "ro_result r = reconciliation_result.MULTIPLE_CANDIDATES"
    using unmirrored_conclusion_succeeds[where facts = ?facts and result = reconciliation_result.MULTIPLE_CANDIDATES,
        unfolded claim_facts_ids, OF c(6) rows ne]
    unfolding reconcile_open[OF claim_open[OF c(1) approved_database_claimable(1) c(2)] c(3)] none m prod.case id_apply by blast
  have up: "upper ''MARKET'' = ''MARKET''" by code_simp
  have "case Inr r :: reconciliation_outcome res of
      Inr r \<Rightarrow> (ro_result r = reconciliation_result.ORDER_FOUND \<and> ro_broker_order_id r = Some (ov_broker_order_id (api_order ''1'')))
        \<or> ro_result r = reconciliation_result.MULTIPLE_CANDIDATES
    | Inl e \<Rightarrow> db3 = id db1"
    by (rule own_order_is_recognised[OF c(1) approved_database_claimable(1) undecided.claimed c(2,3) _ _ _ _ _ _ _ _ _ r(1),
          of "api_order ''1''" "Dec 10 (-1)"])
      (use c(4,5) none in \<open>simp_all add: found_search_def api_order_def sample_command_def ov_placed_by_api_def dec_simps
        ec_signed_quantity_def dval_Dec up\<close>)
  then show ?thesis using r by blast
qed

end
