(* ===== verification/Authorization.thy ===== *)
theory Authorization
  imports Resolution
begin

text \<open>
  \<open>backend/stockbrain/proposals/service.py\<close>, \<open>authorize\<close> and \<open>revalidate\<close>, and
  \<open>broker/automation.py\<close>: the one act that makes a proposal \<open>APPROVED\<close>. The facts read from the
  network, the resolution of a thesis and the type of an event arrive as functions; \<open>others n\<close> is what
  other workers commit between the reads and the write.
\<close>

section \<open>Automation policy\<close>

record automation_capability =
  ac_broker :: broker
  ac_environment :: string
  ac_supported :: bool
  ac_blockers :: "string list"
  ac_detail :: string

definition ac_permitted :: "automation_capability \<Rightarrow> bool" where
  "ac_permitted c = (ac_supported c \<and> ac_blockers c = [])"

definition ac_as_dict :: "automation_capability \<Rightarrow> json" where
  "ac_as_dict c = JObj
     [(''broker'', JStr (broker_value (ac_broker c))), (''environment'', JStr (ac_environment c)),
      (''automation_supported'', JBool (ac_supported c)), (''permitted'', JBool (ac_permitted c)),
      (''blockers'', JList (map JStr (ac_blockers c))), (''detail'', JStr (ac_detail c))]"

definition trading212_automation_capability :: "exec_settings \<Rightarrow> automation_capability" where
  "trading212_automation_capability st =
     (let live = (xs_env st = broker_environment.LIVE)
      in \<lparr>ac_broker = broker.TRADING212, ac_environment = broker_environment_value (xs_env st), ac_supported = True,
          ac_blockers =
            (if \<not> broker_credentials_present st
             then [''Trading 212 API credentials are not configured, so no account state can be read''] else [])
            @ (if live \<and> \<not> xs_automated_consent_confirmed st
               then [''T212_AUTOMATED_TRADING_CONSENT_CONFIRMED is false: Trading 212's API Terms ''
                 @ ''clause 4.2(a) prohibit Algorithmic Trading, and clauses 6.6/6.7 require prior ''
                 @ ''written consent before a customised interface determines order parameters ''
                 @ ''automatically in the live environment''] else []),
          ac_detail =
            (if live
             then ''Live automatic authorization requires recorded Trading 212 written consent for ''
               @ ''automated order determination, in addition to every existing live-execution gate.''
             else ''Demo (paper) trading risks no real funds and is the supported path for exercising ''
               @ ''automatic authorization end to end.'')\<rparr>)"

text \<open>Every member of \<open>Broker\<close> is registered.\<close>

fun automation_capability_of :: "exec_settings \<Rightarrow> broker \<Rightarrow> automation_capability" where
  "automation_capability_of st broker.TRADING212 = trading212_automation_capability st"

record authorization_settings =
  az_exec :: exec_settings
  az_execution_policy :: execution_policy
  az_proposals_enabled :: bool

definition automation_blockers :: "authorization_settings \<Rightarrow> string list" where
  "automation_blockers az =
     (if az_execution_policy az \<noteq> execution_policy.AUTOMATIC
      then [''EXECUTION_POLICY is '' @ repr_str (execution_policy_value (az_execution_policy az))] else [])
     @ (if \<not> az_proposals_enabled az then [''PROPOSALS_ENABLED is false''] else [])
     @ ac_blockers (automation_capability_of (az_exec az) broker.TRADING212)"

definition automatic_authorization_permitted :: "authorization_settings \<Rightarrow> bool" where
  "automatic_authorization_permitted az = (automation_blockers az = [])"

definition policy_snapshot :: "authorization_settings \<Rightarrow> evaluator \<Rightarrow> authorization_source \<Rightarrow> json" where
  "policy_snapshot az el source = JObj
     [(''authorization_source'', JStr (authorization_source_value source)),
      (''execution_policy'', JStr (execution_policy_value (az_execution_policy az))),
      (''risk_policy_version'', JStr (rc_version (el_config el))),
      (''broker_environment'', JStr (broker_environment_value (xs_env (az_exec az)))),
      (''automation'', ac_as_dict (automation_capability_of (az_exec az) (el_broker el))),
      (''automatic_authorization_permitted'', JBool (automatic_authorization_permitted az)),
      (''automation_blockers'', JList (map JStr (automation_blockers az))),
      (''broker_order_transmitted'', JBool False),
      (''notice'', JStr (''Authorization records that deterministic risk allowed this trade and who ''
         @ ''signed it off. No broker order has been sent; order transmission is Phase 8.''))]"

section \<open>Guards\<close>

definition assert_not_halted :: "(string \<Rightarrow> instant option) \<Rightarrow> database \<Rightarrow> unit res" where
  "assert_not_halted fromiso db =
     (let blockers = control_blockers (control_snapshot_of fromiso db)
      in if blockers \<noteq> []
         then Inl (AuthorizationNotPermitted (''authorization is halted: '' @ join ''; '' blockers))
         else Inr ())"

definition assert_automation_permitted :: "authorization_settings \<Rightarrow> unit res" where
  "assert_automation_permitted az =
     (if \<not> automatic_authorization_permitted az
      then Inl (AuthorizationNotPermitted (''automatic authorization is not permitted: ''
        @ join ''; '' (automation_blockers az)))
      else Inr ())"

definition assert_authorizable :: "trade_proposal \<Rightarrow> authorization_source \<Rightarrow> instant \<Rightarrow> unit res" where
  "assert_authorizable p source now =
     (if tp_status p = proposal_status.INVALIDATED
      then Inl (ProposalInvalidated (or_text (or_else (tp_invalidation_reason p) []) ''the proposal was invalidated''))
      else if tp_status p \<notin> AUTHORIZABLE_STATUSES
      then Inl (ProposalAlreadyConsumed (''proposal is '' @ proposal_status_value (tp_status p)
        @ '' and can no longer be authorized''))
      else if tp_expires_at p \<le> now
      then Inl (ProposalExpired ''the proposal expired before it was authorized'')
      else if source = authorization_source.SYSTEM_AUTOMATIC \<and> tp_execution_policy p \<noteq> execution_policy.AUTOMATIC
      then Inl (AuthorizationNotPermitted
        (''this proposal was generated under the MANUAL execution policy and ''
         @ ''cannot be authorized by the system''))
      else Inr ())"

fun thesis_action_of :: "string \<Rightarrow> thesis_action res" where
  "thesis_action_of s =
     (case find (\<lambda>a. thesis_action_value a = s)
        [thesis_action.BUY, thesis_action.HOLD, thesis_action.REDUCE, thesis_action.SELL, thesis_action.NO_ACTION] of
        None \<Rightarrow> Inl (ValueError (repr_str s @ '' is not a valid ThesisAction''))
      | Some a \<Rightarrow> Inr a)"

definition research_action_of :: "trade_proposal \<Rightarrow> thesis_action res" where
  "research_action_of p = thesis_action_of (or_text (or_else (tp_research_action p) []) (thesis_action_value thesis_action.BUY))"

definition actor_type_of :: "authorization_source \<Rightarrow> actor_type" where
  "actor_type_of source = (if is_human source then actor_type.USER else actor_type.SYSTEM)"

section \<open>Identity\<close>

text \<open>The identity the engine judges; \<open>status\<close> is the resolution recorded for the thesis, when one is.\<close>

definition identity_of :: "broker_instrument option \<Rightarrow> resolution_status option \<Rightarrow> broker \<Rightarrow> instrument_identity" where
  "identity_of instrument status brk =
     (case instrument of
        None \<Rightarrow>
          \<lparr>inst_broker_instrument_id = ''None'', inst_broker = brk, inst_broker_ticker = [], inst_market_symbol = None,
           inst_resolution_status = or_else status resolution_status.NOT_FOUND, inst_is_active = False,
           inst_instrument_type = None, inst_currency = None, inst_exchange = None, inst_isin = None,
           inst_company_id = None, inst_max_open_quantity = None, inst_extended_hours = False,
           inst_quantity_precision = None\<rparr>
      | Some i \<Rightarrow>
          \<lparr>inst_broker_instrument_id = bi_id i, inst_broker = bi_broker i, inst_broker_ticker = bi_broker_ticker i,
           inst_market_symbol = bi_market_symbol i,
           inst_resolution_status = or_else status resolution_status.RESOLVED, inst_is_active = bi_is_active i,
           inst_instrument_type = bi_instrument_type i, inst_currency = bi_currency i, inst_exchange = bi_exchange i,
           inst_isin = bi_isin i, inst_company_id = bi_company_id i,
           inst_max_open_quantity = bi_max_open_quantity i, inst_extended_hours = bi_extended_hours i,
           inst_quantity_precision = bi_quantity_precision i\<rparr>)"

definition instrument_of :: "database \<Rightarrow> trade_proposal \<Rightarrow> broker_instrument option" where
  "instrument_of db p = Option.bind (tp_broker_instrument_id p) (find_instrument db)"

definition identity_from_proposal ::
  "(uuid \<Rightarrow> resolution_status option) \<Rightarrow> broker \<Rightarrow> database \<Rightarrow> trade_proposal \<Rightarrow> instrument_identity" where
  "identity_from_proposal resolution_of brk db p =
     identity_of (instrument_of db p) (Option.bind (tp_thesis_id p) resolution_of) brk"

text \<open>The context \<open>authorize\<close> and \<open>revalidate\<close> give the evaluation.\<close>

definition context_of ::
  "evaluator \<Rightarrow> (uuid \<Rightarrow> resolution_status option) \<Rightarrow> (uuid \<Rightarrow> string option) \<Rightarrow> thesis_action \<Rightarrow> decimal \<Rightarrow> string
     \<Rightarrow> database \<Rightarrow> trade_proposal \<Rightarrow> evaluation_context" where
  "context_of el resolution_of event_type_of action confidence account_id db p =
     \<lparr>ex_action = action, ex_confidence = confidence,
      ex_identity = identity_from_proposal resolution_of (el_broker el) db p, ex_account_id = account_id,
      ex_proposal = Some p, ex_event_type = Option.bind (tp_research_run_id p) event_type_of,
      ex_reduce_fraction = None\<rparr>"

section \<open>What authorization writes\<close>

definition apply_quote :: "quote_snapshot \<Rightarrow> trade_proposal \<Rightarrow> trade_proposal" where
  "apply_quote q p =
     p\<lparr>tp_quote := \<lparr>qc_provider = Some (q_provider q), qc_feed = Some (q_feed q), qc_bid = q_bid q, qc_ask = q_ask q,
         qc_mid = q_mid q, qc_spread = sa_spread (q_spread q), qc_spread_bps = sa_spread_bps (q_spread q),
         qc_spread_status = Some (spread_status_value (sa_status (q_spread q))),
         qc_timestamp = q_provider_timestamp q, qc_age_ms = q_age_ms q, qc_price_source = q_price_source q,
         qc_market_session = Some (market_session_value (q_session q)), qc_session_source = Some (q_session_source q)\<rparr>,
       tp_reference_currency := q_currency q\<rparr>"

definition apply_fx :: "fx_snapshot option \<Rightarrow> trade_proposal \<Rightarrow> trade_proposal res" where
  "apply_fx fx p =
     (case fx of
        None \<Rightarrow> Inr (p\<lparr>tp_fx := (tp_fx p)\<lparr>fc_required := False\<rparr>\<rparr>)
      | Some s \<Rightarrow>
          if fs_same_currency s then Inr (p\<lparr>tp_fx := (tp_fx p)\<lparr>fc_required := False\<rparr>\<rparr>)
          else bindE (fs_direction s) (\<lambda>direction. Inr
            (p\<lparr>tp_fx := \<lparr>fc_required = True, fc_rate = fs_rate s, fc_base_currency = fs_base_currency s,
                 fc_quote_currency = fs_quote_currency s, fc_direction = Some (fx_direction_value direction),
                 fc_provider = fs_provider s, fc_rate_grade = map_option fx_rate_grade_value (fs_grade s),
                 fc_rate_type = fs_rate_type s, fc_provider_timestamp = fs_provider_timestamp s,
                 fc_received_at = fs_received_at s, fc_age_seconds = fs_age_seconds s\<rparr>\<rparr>)))"

text \<open>\<open>ROUND_CEILING\<close>.\<close>

definition div_ceiling :: "int \<Rightarrow> int \<Rightarrow> int" where
  "div_ceiling n d = - ((- n) div d)"

definition quantize_ceiling :: "decimal \<Rightarrow> int \<Rightarrow> decimal res" where
  "quantize_ceiling = quantize div_ceiling"

text \<open>The row is refreshed to the values the evaluation judged; the quantity is not touched.\<close>

definition refreshed ::
  "risk_decision \<Rightarrow> rule_result list \<Rightarrow> quote_snapshot \<Rightarrow> account_state \<Rightarrow> fx_snapshot \<Rightarrow> trade_proposal
     \<Rightarrow> trade_proposal res" where
  "refreshed d rules quote account fx p =
     (let p1 = apply_quote quote p;
          price = (case sz_reference_price (rd_sizing d) of
            None \<Rightarrow> tp_reference_price p1
          | Some r \<Rightarrow> if dec_eq r 0 then tp_reference_price p1 else r);
          notional = tp_proposed_quantity p1 * price
      in bindE (fs_to_account_currency fx notional) (\<lambda>converted.
         bindE (quantize_ceiling converted (- 4)) (\<lambda>reservation.
         bindE (apply_fx (Some fx) (p1\<lparr>tp_reference_price := price, tp_estimated_notional := notional,
                  tp_estimated_notional_account_currency := Some reservation\<rparr>)) (\<lambda>p2. Inr
           (p2\<lparr>tp_max_quantity := Some (sz_max_quantity (rd_sizing d)), tp_max_notional := Some (sz_max_notional (rd_sizing d)),
               tp_account_currency := acct_currency account, tp_account_id := acct_account_id account,
               tp_risk := \<lparr>rk_outcome = Some (rd_outcome d), rk_policy_version = Some (rd_policy_version d),
                 rk_rules = JList (map rr_as_dict rules), rk_snapshot = rd_as_dict d,
                 rk_snapshot_hash = Some (rd_snapshot_hash d)\<rparr>,
               tp_sizing_reasons := JList (map (\<lambda>r. JObj [(''reason'', JStr r)]) (sz_reasons (rd_sizing d)))\<rparr>)))))"

definition approved_row ::
  "authorization_settings \<Rightarrow> evaluator \<Rightarrow> authorization_source \<Rightarrow> string \<Rightarrow> instant \<Rightarrow> trade_proposal \<Rightarrow> trade_proposal" where
  "approved_row az el source actor now p =
     p\<lparr>tp_status := proposal_status.APPROVED,
       tp_status_reason := Some ''deterministic risk revalidated at authorization'',
       tp_approved_at := Some now, tp_approved_by := Some actor, tp_approved_channel := channel source,
       tp_authorization_source := Some source, tp_authorization_policy_snapshot := policy_snapshot az el source,
       tp_updated_at := now\<rparr>"

definition evaluation_row ::
  "uuid \<Rightarrow> instant \<Rightarrow> uuid option \<Rightarrow> uuid \<Rightarrow> instrument_identity \<Rightarrow> risk_outcome \<Rightarrow> revalidation \<Rightarrow> string \<Rightarrow> risk_evaluation" where
  "evaluation_row eid created thesis_id pid identity outcome rv actor =
     \<lparr>re_id = eid, re_stage = ''AUTHORIZATION'', re_thesis_id = thesis_id, re_proposal_id = Some pid,
      re_broker_ticker = Some (inst_broker_ticker identity), re_outcome = outcome,
      re_policy_version = Some (rd_policy_version (rv_decision rv)),
      re_rules = JList (map rr_as_dict (rv_rules rv)), re_snapshot = rd_as_dict (rv_decision rv),
      re_snapshot_hash = Some (rd_snapshot_hash (rv_decision rv)), re_actor = Some actor,
      re_detail = (let t = join ''; '' (rv_reasons rv) in if t = [] then None else Some t),
      re_deferred = False, re_created_at = created\<rparr>"

record authorization_result =
  ar_proposal_id :: uuid
  ar_source :: authorization_source
  ar_actor :: string
  ar_authorized_at :: instant
  ar_evaluation_id :: uuid
  ar_decision :: risk_decision

text \<open>A refusal: the evaluation and the invalidation are committed, the exception is raised afterwards.\<close>

definition refuse_authorization ::
  "uuid \<Rightarrow> revalidation \<Rightarrow> authorization_source \<Rightarrow> string \<Rightarrow> instant \<Rightarrow> database \<Rightarrow> database" where
  "refuse_authorization pid rv source actor now db =
     (let reason = join ''; '' (rv_reasons rv)
      in notify pid notification_event.AUTHORIZATION_REFUSED (Some reason)
           (retire_approval_actions [pid] now
             (add_audit (actor_type_of source) actor ''proposal.authorization_refused'' ''trade_proposal'' (Some pid)
               (JObj [(''authorization_source'', JStr (authorization_source_value source)),
                      (''blocked_rules'', JList (map JStr (rv_rule_ids rv))),
                      (''reason'', JStr (take 1000 reason))])
               (set_proposal pid (invalidated reason now) db))))"

definition approve ::
  "authorization_settings \<Rightarrow> evaluator \<Rightarrow> uuid \<Rightarrow> trade_proposal \<Rightarrow> revalidation \<Rightarrow> authorization_source \<Rightarrow> string
     \<Rightarrow> instant \<Rightarrow> database \<Rightarrow> database" where
  "approve az el pid p1 rv source actor now db =
     retire_approval_actions [pid] now
       (add_audit (actor_type_of source) actor ''proposal.authorized'' ''trade_proposal'' (Some pid)
         (JObj [(''authorization_source'', JStr (authorization_source_value source)),
                (''execution_policy'', JStr (execution_policy_value (tp_execution_policy p1))),
                (''risk_policy_version'', JStr (rd_policy_version (rv_decision rv))),
                (''quantity'', jdec (tp_proposed_quantity p1)),
                (''reference_price'', jdec (tp_reference_price p1)),
                (''broker_order_transmitted'', JBool False)])
         (set_proposal pid (\<lambda>_. approved_row az el source actor now p1) db))"

text \<open>The block of the second transaction; \<open>Inl\<close> of its result is the refusal it commits.\<close>

definition authorize_locked ::
  "authorization_settings \<Rightarrow> evaluator \<Rightarrow> (uuid \<Rightarrow> resolution_status option) \<Rightarrow> (uuid \<Rightarrow> string option)
     \<Rightarrow> evaluation_facts \<Rightarrow> thesis_action \<Rightarrow> decimal \<Rightarrow> trade_proposal \<Rightarrow> uuid \<Rightarrow> authorization_source \<Rightarrow> string
     \<Rightarrow> instant \<Rightarrow> database \<Rightarrow> (database \<times> (py_error + authorization_result)) res" where
  "authorize_locked az el resolution_of event_type_of facts action confidence seen pid source actor now db =
     (case find_proposal db pid of
        None \<Rightarrow> Inl (ProposalAlreadyConsumed ''proposal not found'')
      | Some locked \<Rightarrow>
          if tp_version locked \<noteq> tp_version seen
          then Inl (ProposalAlreadyConsumed ''another actor changed this proposal while it was being authorized'')
          else bindE (assert_authorizable locked source now) (\<lambda>_.
          let cx = context_of el resolution_of event_type_of action confidence (tp_account_id locked) db locked
          in bindE (evaluate_proposal el db cx facts now) (\<lambda>rv.
          let outcome = (if rv_blocked rv \<noteq> [] then risk_outcome.BLOCK else rd_outcome (rv_decision rv));
              (eid, db1) = uuid4 db;
              row = evaluation_row eid (db_clock db) (tp_thesis_id seen) pid (ex_identity cx) outcome rv actor;
              db2 = db1\<lparr>db_evaluations := db_evaluations db1 @ [row]\<rparr>
          in if rv_blocked rv \<noteq> []
             then bindE (assert_transition (tp_status locked) proposal_status.INVALIDATED) (\<lambda>_.
               Inr (refuse_authorization pid rv source actor now db2,
                    Inl (RiskBlocked (join ''; '' (rv_reasons rv)) (rv_rule_ids rv))))
             else (case (ef_quote facts, ef_account facts, ef_fx facts) of
                 (Some quote, Some account, Some fx) \<Rightarrow>
                   if \<not> fs_usable fx then Inl AssertionError
                   else bindE (refreshed (rv_decision rv) (rv_rules rv) quote account fx locked) (\<lambda>p1.
                        bindE (assert_transition (tp_status locked) proposal_status.APPROVED) (\<lambda>_.
                        Inr (approve az el pid p1 rv source actor now db2,
                             Inr \<lparr>ar_proposal_id = pid, ar_source = source, ar_actor = actor, ar_authorized_at = now,
                                  ar_evaluation_id = eid, ar_decision = rv_decision rv\<rparr>)))
               | _ \<Rightarrow> Inl AssertionError))))"

definition authorize ::
  "authorization_settings \<Rightarrow> evaluator \<Rightarrow> (string \<Rightarrow> instant option) \<Rightarrow> (uuid \<Rightarrow> resolution_status option)
     \<Rightarrow> (uuid \<Rightarrow> string option) \<Rightarrow> (broker_instrument option \<Rightarrow> evaluation_facts) \<Rightarrow> (database \<Rightarrow> database)
     \<Rightarrow> uuid \<Rightarrow> authorization_source \<Rightarrow> string \<Rightarrow> instant \<Rightarrow> database \<Rightarrow> database \<times> authorization_result res" where
  "authorize az el fromiso resolution_of event_type_of load_facts others pid source actor now db =
     (let checks =
        bindE (assert_not_halted fromiso db) (\<lambda>_.
        bindE (if source = authorization_source.SYSTEM_AUTOMATIC then assert_automation_permitted az else Inr ()) (\<lambda>_.
        case find_proposal db pid of
          None \<Rightarrow> Inl (ProposalAlreadyConsumed ''proposal not found'')
        | Some p \<Rightarrow>
            bindE (assert_authorizable p source now) (\<lambda>_.
            bindE (research_action_of p) (\<lambda>action. Inr (p, action)))))
      in case checks of
           Inl e \<Rightarrow> (db, Inl e)
         | Inr (p, action) \<Rightarrow>
             (case run_tx (authorize_locked az el resolution_of event_type_of (load_facts (instrument_of db p)) action
                  (or_else (tp_research_confidence p) 0) p pid source actor now) (others db) of
                (db', Inl e) \<Rightarrow> (db', Inl e)
              | (db', Inr (Inl refusal)) \<Rightarrow> (db', Inl refusal)
              | (db', Inr (Inr r)) \<Rightarrow> (db', Inr r)))"

text \<open>\<open>revalidate\<close> asks the same question and writes nothing.\<close>

definition revalidate_proposal ::
  "evaluator \<Rightarrow> (uuid \<Rightarrow> resolution_status option) \<Rightarrow> (uuid \<Rightarrow> string option)
     \<Rightarrow> (broker_instrument option \<Rightarrow> evaluation_facts) \<Rightarrow> (database \<Rightarrow> database) \<Rightarrow> uuid \<Rightarrow> instant
     \<Rightarrow> database \<Rightarrow> revalidation option res" where
  "revalidate_proposal el resolution_of event_type_of load_facts others pid now db =
     (case find_proposal db pid of
        None \<Rightarrow> Inr None
      | Some p \<Rightarrow>
          bindE (research_action_of p) (\<lambda>action.
          case find_proposal (others db) pid of
            None \<Rightarrow> Inr None
          | Some fresh \<Rightarrow>
              bindE (evaluate_proposal el (others db)
                (context_of el resolution_of event_type_of action (or_else (tp_research_confidence p) 0)
                   (tp_account_id p) (others db) fresh)
                (load_facts (instrument_of db p)) now) (\<lambda>rv. Inr (Some rv))))"

section \<open>What authorization promises\<close>

lemma assert_not_halted_Inr: "assert_not_halted fromiso db = Inr u \<longleftrightarrow> \<not> trading_halted (control_snapshot_of fromiso db)"
  by (auto simp: assert_not_halted_def control_blockers_def trading_halted_def Let_def)

lemma assert_authorizable_Inr:
  "assert_authorizable p source now = Inr u \<longleftrightarrow>
     tp_status p \<in> AUTHORIZABLE_STATUSES \<and> now < tp_expires_at p
     \<and> (source = authorization_source.SYSTEM_AUTOMATIC \<longrightarrow> tp_execution_policy p = execution_policy.AUTOMATIC)"
  by (auto simp: assert_authorizable_def AUTHORIZABLE_STATUSES_def)

lemma apply_fx_Inr: "apply_fx fx p = Inr q \<Longrightarrow> \<exists>c. q = p\<lparr>tp_fx := c\<rparr>"
  by (auto simp: apply_fx_def bindE_eq_Inr split: option.splits if_splits)

lemma refreshed_fields:
  assumes "refreshed d rules quote account fx p = Inr p1"
  shows "trade_of p1 = trade_of p" "tp_status p1 = tp_status p" "tp_execution_policy p1 = tp_execution_policy p"
    "tp_invalidated_at p1 = tp_invalidated_at p" "tp_expires_at p1 = tp_expires_at p"
  using assms
  by (auto simp: refreshed_def apply_quote_def trade_of_def bindE_eq_Inr Let_def dest!: apply_fx_Inr)

lemma approved_row_fields [simp]:
  "tp_id (approved_row az el source actor now p) = tp_id p" "trade_of (approved_row az el source actor now p) = trade_of p"
  "tp_status (approved_row az el source actor now p) = proposal_status.APPROVED"
  "tp_authorization_source (approved_row az el source actor now p) = Some source"
  "tp_approved_by (approved_row az el source actor now p) = Some actor"
  "tp_approved_at (approved_row az el source actor now p) = Some now"
  "tp_execution_policy (approved_row az el source actor now p) = tp_execution_policy p"
  by (simp_all add: approved_row_def trade_of_def)

lemma rv_allowed_blocked: "rv_allowed rv \<longleftrightarrow> rv_blocked rv = []"
  by (simp add: rv_allowed_def)

text \<open>What the committed transaction of a successful authorization wrote.\<close>

lemma authorize_locked_approves:
  assumes "authorize_locked az el resolution_of event_type_of facts action confidence seen pid source actor now db = Inr (db', Inr r)"
  obtains p rv p1 where "find_proposal db pid = Some p" "tp_version p = tp_version seen"
    "tp_status p \<in> AUTHORIZABLE_STATUSES" "now < tp_expires_at p"
    "source = authorization_source.SYSTEM_AUTOMATIC \<longrightarrow> tp_execution_policy p = execution_policy.AUTOMATIC"
    "evaluate_proposal el db (context_of el resolution_of event_type_of action confidence (tp_account_id p) db p) facts now = Inr rv"
    "rv_allowed rv" "trade_of p1 = trade_of p" "ar_decision r = rv_decision rv"
    "db_proposals db' = db_proposals (set_proposal pid (\<lambda>_. approved_row az el source actor now p1) db)"
    "db_actions db' = db_actions (retire_approval_actions [pid] now db)"
    "db_attempts db' = db_attempts db" "db_orders db' = db_orders db"
proof -
  obtain p where p: "find_proposal db pid = Some p" "tp_version p = tp_version seen"
    "assert_authorizable p source now = Inr ()"
    using assms by (auto simp: authorize_locked_def bindE_eq_Inr split: option.splits if_splits)
  obtain rv where rv: "evaluate_proposal el db
      (context_of el resolution_of event_type_of action confidence (tp_account_id p) db p) facts now = Inr rv"
    using assms p by (auto simp: authorize_locked_def bindE_eq_Inr Let_def)
  have allowed: "rv_blocked rv = []"
    using assms p rv by (auto simp: authorize_locked_def bindE_eq_Inr Let_def case_prod_beta split: if_splits)
  obtain quote account fx p1 where w: "refreshed (rv_decision rv) (rv_rules rv) quote account fx p = Inr p1"
      "ar_decision r = rv_decision rv" "db' = approve az el pid p1 rv source actor now
         (snd (uuid4 db)\<lparr>db_evaluations := db_evaluations (snd (uuid4 db)) @ [evaluation_row (fst (uuid4 db)) (db_clock db)
            (tp_thesis_id seen) pid (ex_identity (context_of el resolution_of event_type_of action confidence (tp_account_id p) db p))
            (rd_outcome (rv_decision rv)) rv actor]\<rparr>)"
    using assms p rv allowed
    by (auto simp: authorize_locked_def bindE_eq_Inr Let_def case_prod_beta split: if_splits option.splits)
  show thesis
    using p rv allowed w refreshed_fields[OF w(1)] unfolding assert_authorizable_Inr
    by (intro that[of p rv p1])
      (simp_all add: rv_allowed_blocked approve_def frame_simps set_proposal_def uuid4_def retire_approval_actions_def)
qed

text \<open>The checks of the first session.\<close>

definition authorization_starts ::
  "authorization_settings \<Rightarrow> (string \<Rightarrow> instant option) \<Rightarrow> authorization_source \<Rightarrow> instant \<Rightarrow> uuid \<Rightarrow> database
     \<Rightarrow> trade_proposal \<Rightarrow> thesis_action \<Rightarrow> bool" where
  "authorization_starts az fromiso source now pid db seen action =
     (\<not> trading_halted (control_snapshot_of fromiso db) \<and> find_proposal db pid = Some seen
      \<and> (source = authorization_source.SYSTEM_AUTOMATIC \<longrightarrow> automatic_authorization_permitted az)
      \<and> assert_authorizable seen source now = Inr () \<and> research_action_of seen = Inr action)"

lemma automation_guard:
  "(source = authorization_source.SYSTEM_AUTOMATIC \<longrightarrow> automatic_authorization_permitted az) \<Longrightarrow>
     (if source = authorization_source.SYSTEM_AUTOMATIC then assert_automation_permitted az else Inr ()) = Inr ()"
  by (simp add: assert_automation_permitted_def)

lemma authorize_started:
  assumes "authorization_starts az fromiso source now pid db seen action"
  shows "authorize az el fromiso resolution_of event_type_of load_facts others pid source actor now db
     = (case run_tx (authorize_locked az el resolution_of event_type_of (load_facts (instrument_of db seen)) action
             (or_else (tp_research_confidence seen) 0) seen pid source actor now) (others db) of
          (db', Inl e) \<Rightarrow> (db', Inl e)
        | (db', Inr (Inl refusal)) \<Rightarrow> (db', Inl refusal)
        | (db', Inr (Inr r)) \<Rightarrow> (db', Inr r))"
proof -
  have n: "assert_not_halted fromiso db = Inr ()"
    using assms assert_not_halted_Inr[of fromiso db "()"] by (simp add: authorization_starts_def)
  show ?thesis using assms n by (simp add: authorize_def authorization_starts_def automation_guard)
qed

lemma authorize_starts:
  assumes "authorize az el fromiso resolution_of event_type_of load_facts others pid source actor now db = (db', Inr r)"
  obtains seen action where "authorization_starts az fromiso source now pid db seen action"
proof -
  have n: "assert_not_halted fromiso db = Inr ()"
    using assms by (cases "assert_not_halted fromiso db") (auto simp: authorize_def)
  obtain seen where seen: "find_proposal db pid = Some seen"
    using assms n by (cases "find_proposal db pid") (auto simp: authorize_def bindE_def Let_def split: sum.splits if_splits)
  have auto: "source = authorization_source.SYSTEM_AUTOMATIC \<longrightarrow> automatic_authorization_permitted az"
    using assms n by (cases "automatic_authorization_permitted az") (auto simp: authorize_def assert_automation_permitted_def)
  have check: "assert_authorizable seen source now = Inr ()"
    using assms n seen by (cases "assert_authorizable seen source now") (auto simp: authorize_def automation_guard[OF auto])
  obtain action where "research_action_of seen = Inr action"
    using assms n seen check
    by (cases "research_action_of seen") (auto simp: authorize_def automation_guard[OF auto])
  then show thesis using that[of seen action] n seen auto check assert_not_halted_Inr[of fromiso db "()"]
    by (simp add: authorization_starts_def)
qed

lemma authorize_commits:
  assumes "authorize az el fromiso resolution_of event_type_of load_facts others pid source actor now db = (db', Inr r)"
    and s: "authorization_starts az fromiso source now pid db seen action"
  shows "authorize_locked az el resolution_of event_type_of (load_facts (instrument_of db seen)) action
     (or_else (tp_research_confidence seen) 0) seen pid source actor now (others db) = Inr (db', Inr r) \<and> database_ok db'"
  using assms(1) unfolding authorize_started[OF s]
  by (auto simp: run_tx_def transaction_Inr split: sum.splits prod.splits)

text \<open>
  C6: an authorization rests on a fresh, allowing evaluation. When \<open>authorize\<close> succeeds, nothing was paused, the
  row is the version it looked at first, was waiting and unexpired, and the full evaluation of this proposal against
  the facts read afterwards allows it; an authorization by the system also needs the proposal's own automatic policy
  and every automation gate. It then is \<open>APPROVED\<close> in that name, stands for the very same trade, no button of
  it works any more, and no other proposal, attempt or order changed.
\<close>

theorem authorization_needs_fresh_risk:
  assumes "authorize az el fromiso resolution_of event_type_of load_facts others pid source actor now db = (db', Inr r)"
  shows "\<not> trading_halted (control_snapshot_of fromiso db)
    \<and> (\<exists>seen p rv action. find_proposal db pid = Some seen \<and> find_proposal (others db) pid = Some p
        \<and> tp_version p = tp_version seen \<and> tp_status p \<in> AUTHORIZABLE_STATUSES \<and> now < tp_expires_at p
        \<and> (source = authorization_source.SYSTEM_AUTOMATIC \<longrightarrow>
             tp_execution_policy p = execution_policy.AUTOMATIC \<and> automation_blockers az = [])
        \<and> research_action_of seen = Inr action
        \<and> evaluate_proposal el (others db)
            (context_of el resolution_of event_type_of action (or_else (tp_research_confidence seen) 0) (tp_account_id p) (others db) p)
            (load_facts (instrument_of db seen)) now = Inr rv
        \<and> rv_allowed rv \<and> ar_decision r = rv_decision rv
        \<and> (\<exists>p'. find_proposal db' pid = Some p' \<and> tp_status p' = proposal_status.APPROVED \<and> trade_of p' = trade_of p
              \<and> tp_authorization_source p' = Some source \<and> tp_approved_by p' = Some actor \<and> tp_approved_at p' = Some now))
    \<and> no_open_actions pid db' \<and> (\<forall>k. k \<noteq> pid \<longrightarrow> find_proposal db' k = find_proposal (others db) k)
    \<and> db_attempts db' = db_attempts (others db) \<and> db_orders db' = db_orders (others db)"
proof -
  obtain seen action where s: "authorization_starts az fromiso source now pid db seen action"
    by (rule authorize_starts[OF assms])
  obtain p rv p1 where w: "find_proposal (others db) pid = Some p" "tp_version p = tp_version seen"
      "tp_status p \<in> AUTHORIZABLE_STATUSES" "now < tp_expires_at p"
      "source = authorization_source.SYSTEM_AUTOMATIC \<longrightarrow> tp_execution_policy p = execution_policy.AUTOMATIC"
      "evaluate_proposal el (others db) (context_of el resolution_of event_type_of action (or_else (tp_research_confidence seen) 0)
         (tp_account_id p) (others db) p) (load_facts (instrument_of db seen)) now = Inr rv"
      "rv_allowed rv" "trade_of p1 = trade_of p" "ar_decision r = rv_decision rv"
      "db_proposals db' = db_proposals (set_proposal pid (\<lambda>_. approved_row az el source actor now p1) (others db))"
      "db_actions db' = db_actions (retire_approval_actions [pid] now (others db))"
      "db_attempts db' = db_attempts (others db)" "db_orders db' = db_orders (others db)"
    using authorize_commits[OF assms s] by (elim conjE authorize_locked_approves)
  let ?f = "\<lambda>_ :: trade_proposal. approved_row az el source actor now p1"
  have id: "tp_id p1 = pid" using w(8) row_id[OF w(1)] by (simp add: trade_of_def)
  have find: "find_proposal db' k = map_option (\<lambda>q. if k = pid then written q (?f q) else q) (find_proposal (others db) k)" for k
    using w(10) find_set_proposal[where f = ?f and pid = pid and db = "others db" and k = k] id by (simp add: find_proposal_def)
  have "tp_status p \<noteq> proposal_status.APPROVED" using w(3) by (auto simp: AUTHORIZABLE_STATUSES_def)
  then have "?f p \<noteq> p" by (metis approved_row_fields(3))
  then have "tp_status (written p (?f p)) = proposal_status.APPROVED"
      "tp_authorization_source (written p (?f p)) = Some source" "tp_approved_by (written p (?f p)) = Some actor"
      "tp_approved_at (written p (?f p)) = Some now"
    by (simp_all add: written_def)
  moreover have "find_proposal db' pid = Some (written p (?f p))" using find[of pid] w(1) by simp
  moreover have "trade_of (written p (?f p)) = trade_of p" using w(8) by simp
  moreover have "find_proposal db' k = find_proposal (others db) k" if "k \<noteq> pid" for k
    using find[of k] that by (simp add: option.map_ident)
  moreover have "no_open_actions pid db'"
    using w(11) retire_no_open[of pid "[pid]" now "others db"] by (simp add: no_open_actions_def)
  ultimately show ?thesis
    using s w unfolding authorization_starts_def automatic_authorization_permitted_def by blast
qed

section \<open>Refusals are kept\<close>

lemma evaluations_kept:
  "db_evaluations (notify pid event detail db) = db_evaluations db"
  "db_evaluations (retire_approval_actions pids now db) = db_evaluations db"
  "db_evaluations (add_audit t who act ety eid d db) = db_evaluations db"
  "db_evaluations (set_proposal pid g db) = db_evaluations db"
  by (simp_all add: notify_def enqueue_def uuid4_def Let_def retire_approval_actions_def add_audit_def set_proposal_def
      split: option.split)

lemma invalidated_ok:
  assumes "proposal_row_ok p"
  shows "proposal_row_ok (invalidated reason now p)" "same_keys p (invalidated reason now p)"
    "\<not> active (invalidated reason now p)"
  using assms
  by (auto simp: proposal_row_ok_def invalidated_def same_keys_def active_def status_set_defs)

lemma find_proposal_row_ok: "database_ok db \<Longrightarrow> find_proposal db pid = Some p \<Longrightarrow> proposal_row_ok p"
  by (auto simp: database_ok_def proposals_table_ok_def list_all_iff find_proposal_def dest!: find_row_Some)

text \<open>
  C7: a refused authorization is durable. If the checks pass and the fresh evaluation does not allow the proposal,
  \<open>authorize\<close> raises \<open>RiskBlocked\<close> naming exactly the blocking rules, and what it commits first is kept: the
  proposal is \<open>INVALIDATED\<close> with those reasons, its trade is what it was, an evaluation row records the block, no
  button works any more, and nothing else about proposals, attempts or orders changed.
\<close>

theorem refused_authorization_is_durable:
  assumes "authorization_starts az fromiso source now pid db seen action"
    and "find_proposal (others db) pid = Some p" "tp_version p = tp_version seen" "assert_authorizable p source now = Inr ()"
    and "evaluate_proposal el (others db)
      (context_of el resolution_of event_type_of action (or_else (tp_research_confidence seen) 0) (tp_account_id p) (others db) p)
      (load_facts (instrument_of db seen)) now = Inr rv"
    and "\<not> rv_allowed rv" "database_ok (others db)"
  shows "\<exists>db'. authorize az el fromiso resolution_of event_type_of load_facts others pid source actor now db
      = (db', Inl (RiskBlocked (join ''; '' (rv_reasons rv)) (rv_rule_ids rv)))
    \<and> rv_rule_ids rv \<noteq> [] \<and> database_ok db'
    \<and> (\<exists>p'. find_proposal db' pid = Some p' \<and> tp_status p' = proposal_status.INVALIDATED \<and> trade_of p' = trade_of p
         \<and> tp_invalidation_reason p' = Some (take 1000 (join ''; '' (rv_reasons rv))))
    \<and> (\<exists>row \<in> set (db_evaluations db'). re_proposal_id row = Some pid \<and> re_outcome row = risk_outcome.BLOCK
         \<and> re_stage row = ''AUTHORIZATION'')
    \<and> no_open_actions pid db' \<and> (\<forall>k. k \<noteq> pid \<longrightarrow> find_proposal db' k = find_proposal (others db) k)
    \<and> db_attempts db' = db_attempts (others db) \<and> db_orders db' = db_orders (others db)"
proof -
  let ?db = "others db" and ?reason = "join ''; '' (rv_reasons rv)"
  let ?cx = "context_of el resolution_of event_type_of action (or_else (tp_research_confidence seen) 0) (tp_account_id p) ?db p"
  let ?row = "evaluation_row (fst (uuid4 ?db)) (db_clock ?db) (tp_thesis_id seen) pid (ex_identity ?cx) risk_outcome.BLOCK rv actor"
  let ?db2 = "snd (uuid4 ?db)\<lparr>db_evaluations := db_evaluations (snd (uuid4 ?db)) @ [?row]\<rparr>"
  let ?db' = "refuse_authorization pid rv source actor now ?db2"
  have blocked: "rv_blocked rv \<noteq> []" using assms(6) by (simp add: rv_allowed_def)
  have "tp_status p \<in> AUTHORIZABLE_STATUSES" using assms(4) by (simp add: assert_authorizable_Inr)
  then have t: "assert_transition (tp_status p) proposal_status.INVALIDATED = Inr ()"
    by (auto simp: AUTHORIZABLE_STATUSES_def assert_transition_def can_transition_def INVALIDATION_TARGETS_def)
  have block: "authorize_locked az el resolution_of event_type_of (load_facts (instrument_of db seen)) action
      (or_else (tp_research_confidence seen) 0) seen pid source actor now ?db
      = Inr (?db', Inl (RiskBlocked ?reason (rv_rule_ids rv)))"
    using assms(2-5) blocked by (simp add: authorize_locked_def Let_def case_prod_beta t)
  have p2: "find_proposal ?db2 pid = Some p" using assms(2) by (simp add: find_proposal_def uuid4_def)
  have ok2: "database_ok ?db2" using assms(7) by (simp add: database_ok_def uuid4_def)
  have i: "proposal_row_ok (invalidated ?reason now p)" "same_keys p (invalidated ?reason now p)"
      "\<not> active (invalidated ?reason now p)"
    using find_proposal_row_ok[OF assms(7,2)] by (simp_all add: invalidated_ok)
  have ok: "database_ok ?db'"
    unfolding refuse_authorization_def Let_def
    using set_proposal_ok[where g = "invalidated ?reason now", OF ok2 p2 i(2,1)] i(3)
    by (intro notify_ok retire_actions_ok add_audit_ok) simp
  have "authorize az el fromiso resolution_of event_type_of load_facts others pid source actor now db
      = (?db', Inl (RiskBlocked ?reason (rv_rule_ids rv)))"
    unfolding authorize_started[OF assms(1)] run_tx_def transaction_def block using ok by simp
  moreover have "rv_rule_ids rv \<noteq> []" using blocked by (simp add: rv_rule_ids_def)
  moreover have "find_proposal ?db' k = map_option (\<lambda>q. if k = pid then written q (invalidated ?reason now q) else q) (find_proposal ?db k)" for k
    using find_set_proposal[where f = "invalidated ?reason now" and pid = pid and db = ?db2 and k = k]
    by (simp add: refuse_authorization_def Let_def frame_simps) (simp add: find_proposal_def frame_simps uuid4_def)
  note find = this
  have "find_proposal ?db' pid = Some (written p (invalidated ?reason now p))" using find[of pid] assms(2) by simp
  moreover have reason: "tp_invalidation_reason (written p q) = tp_invalidation_reason q" for q by (simp add: written_def)
  have "tp_invalidation_reason (written p (invalidated ?reason now p)) = Some (take 1000 ?reason)"
    unfolding reason by (simp add: invalidated_def)
  moreover have "tp_status (written p (invalidated ?reason now p)) = proposal_status.INVALIDATED"
      "trade_of (written p (invalidated ?reason now p)) = trade_of p" by simp_all
  moreover have "find_proposal ?db' k = find_proposal ?db k" if "k \<noteq> pid" for k
    using find[of k] that by (simp add: option.map_ident)
  moreover have "no_open_actions pid ?db'"
    using retire_no_open[of pid "[pid]" now] by (simp add: no_open_actions_def refuse_authorization_def Let_def frame_simps)
  moreover have "?row \<in> set (db_evaluations ?db')" by (simp add: refuse_authorization_def Let_def evaluations_kept)
  moreover have "re_proposal_id ?row = Some pid" "re_outcome ?row = risk_outcome.BLOCK" "re_stage ?row = ''AUTHORIZATION''"
    by (simp_all add: evaluation_row_def)
  moreover have "db_attempts ?db' = db_attempts ?db" "db_orders ?db' = db_orders ?db"
    by (simp_all add: refuse_authorization_def Let_def frame_simps uuid4_def set_proposal_def)
  ultimately show ?thesis using ok by blast
qed

section \<open>Examples\<close>

definition acme_instrument :: broker_instrument where
  "acme_instrument =
     \<lparr>bi_id = inst_broker_instrument_id acme_identity, bi_company_id = inst_company_id acme_identity,
      bi_broker = inst_broker acme_identity, bi_broker_ticker = inst_broker_ticker acme_identity,
      bi_isin = inst_isin acme_identity, bi_currency = inst_currency acme_identity,
      bi_instrument_type = inst_instrument_type acme_identity, bi_extended_hours = inst_extended_hours acme_identity,
      bi_max_open_quantity = inst_max_open_quantity acme_identity,
      bi_quantity_precision = inst_quantity_precision acme_identity, bi_exchange = inst_exchange acme_identity,
      bi_market_symbol = inst_market_symbol acme_identity, bi_is_active = inst_is_active acme_identity\<rparr>"

text \<open>One waiting proposal, generated under the risk configuration \<open>v\<close>.\<close>

definition waiting_row :: "string option \<Rightarrow> trade_proposal" where
  "waiting_row v = (pending_row ''p1'')\<lparr>tp_risk := (tp_risk acme_proposal)\<lparr>rk_policy_version := v\<rparr>\<rparr>"

definition waiting_database :: "string option \<Rightarrow> database" where
  "waiting_database v = empty_database\<lparr>db_proposals := [waiting_row v], db_instruments := [acme_instrument]\<rparr>"

definition manual_settings :: authorization_settings where
  "manual_settings = \<lparr>az_exec = demo_settings, az_execution_policy = execution_policy.MANUAL, az_proposals_enabled = True\<rparr>"

abbreviation acme_waiting :: "string option \<Rightarrow> evaluation_context" where
  "acme_waiting v \<equiv> context_of acme_evaluator (\<lambda>_. None) (\<lambda>_. None) thesis_action.BUY
     (or_else (tp_research_confidence (waiting_row v)) 0) (tp_account_id (waiting_row v)) (waiting_database v) (waiting_row v)"

lemma waiting_fields:
  "tp_id (waiting_row v) = ''p1''" "tp_account_id (waiting_row v) = ''A1''"
  "tp_research_confidence (waiting_row v) = Some (Dec 85 (- 2))" "tp_side (waiting_row v) = order_side.BUY"
  "tp_proposed_quantity (waiting_row v) = Dec 1 0" "tp_status (waiting_row v) = proposal_status.READY"
  "tp_fx (waiting_row v) = tp_fx acme_proposal" "tp_reference_price (waiting_row v) = tp_reference_price acme_proposal"
  "rk_policy_version (tp_risk (waiting_row v)) = v" "tp_expires_at (waiting_row v) = 900000000"
  "tp_broker_instrument_id (waiting_row v) = Some ''1''" "tp_research_action (waiting_row v) = Some ''BUY''"
  by (simp_all add: waiting_row_def pending_row_def acme_proposal_def)

lemma waiting_identity: "ex_identity (acme_waiting v) = acme_identity"
  by (simp add: context_of_def identity_from_proposal_def instrument_of_def waiting_fields find_instrument_def
      waiting_database_def acme_instrument_def identity_of_def acme_identity_def)

lemma waiting_found: "find_proposal (waiting_database v) ''p1'' = Some (waiting_row v)"
  by (simp add: find_proposal_def waiting_database_def waiting_fields)

lemma acme_waiting_inputs:
  "el_inputs acme_evaluator (waiting_database v) (acme_waiting v) acme_evaluation_facts (Some acme_account) 2000000
     = acme_inputs thesis_action.BUY"
proof -
  have none: "reserving_rows broker.TRADING212 ''A1'' (Some ''p1'') (waiting_database v) = []"
    by (simp add: reserving_rows_def waiting_database_def waiting_fields)
  have fx: "fc_rate (tp_fx acme_proposal) = None" by (simp add: acme_proposal_def)
  have cx: "ex_action (acme_waiting v) = thesis_action.BUY" "ex_confidence (acme_waiting v) = Dec 85 (- 2)"
      "ex_account_id (acme_waiting v) = ''A1''" "ex_proposal (acme_waiting v) = Some (waiting_row v)"
      "ex_event_type (acme_waiting v) = None" "ex_reduce_fraction (acme_waiting v) = None"
    by (simp_all add: context_of_def waiting_fields Option.bind_eq_None_conv)
  show ?thesis
    unfolding el_inputs_def cx waiting_identity
    by (simp add: acme_evaluator_def acme_evaluation_facts_def acme_inputs_def el_reserved_exposure_def none
        waiting_fields fx amounts_of_def dsum_def no_reservations_def ZERO_def dec_of_int_def default_risk_config_def Let_def)
qed

lemma acme_waiting_evaluated:
  obtains rv where "evaluate_proposal acme_evaluator (waiting_database v) (acme_waiting v) acme_evaluation_facts 2000000 = Inr rv"
    "rv_allowed rv \<longleftrightarrow> v \<in> {None, Some (rc_version default_risk_config)}"
    "sz_reference_price (rd_sizing (rv_decision rv)) = q_ask acme_quote" "rd_outcome (rv_decision rv) \<noteq> risk_outcome.BLOCK"
proof -
  obtain d where d: "evaluate (acme_inputs thesis_action.BUY) 2000000 = Inr d" "rd_allowed d"
      "sz_side (rd_sizing d) = Some order_side.BUY" "Dec 1 0 \<le> sz_max_quantity (rd_sizing d)"
      "sz_reference_price (rd_sizing d) = q_ask acme_quote"
    by (rule acme_sized_priced) blast
  let ?p = "waiting_row v" and ?fx = "Some (same_currency_snapshot ''USD'')"
  have c: "ex_proposal (acme_waiting v) = Some ?p" "ef_quote acme_evaluation_facts = Some acme_quote"
      "ef_fx acme_evaluation_facts = ?fx" "ef_account acme_evaluation_facts = Some acme_account"
    by (simp_all add: context_of_def acme_evaluation_facts_def)
  have w: "with_valuation (acme_waiting v) acme_evaluation_facts = Inr (Some acme_account)"
    unfolding with_valuation_def waiting_identity c
    by (simp add: acme_account_def acme_position_def acct_position_def acme_identity_def)
  have drift: "el_price_drift acme_evaluator ?p (Some acme_quote) = el_price_drift acme_evaluator acme_proposal (Some acme_quote)"
      "el_fx_drift acme_evaluator ?p ?fx = el_fx_drift acme_evaluator acme_proposal ?fx"
    by (simp_all add: el_price_drift_def el_fx_drift_def waiting_fields) (simp add: acme_proposal_def)
  have "okE (el_price_drift acme_evaluator acme_proposal (Some acme_quote))"
       "okE (el_fx_drift acme_evaluator acme_proposal ?fx)" by code_simp+
  then obtain rules where a: "authorization_rules acme_evaluator ?p d (Some acme_quote) ?fx 2000000 = Inr rules"
    by (auto simp: authorization_rules_def drift okE_conv)
  obtain rv where rv: "evaluate_proposal acme_evaluator (waiting_database v) (acme_waiting v) acme_evaluation_facts 2000000 = Inr rv"
      "rv_decision rv = d"
    unfolding evaluate_proposal_def w bindE_Inr acme_waiting_inputs d(1) c option.case a by simp
  have close: "price_close acme_evaluator ?p (Some acme_quote) = price_close acme_evaluator acme_proposal (Some acme_quote)"
      "rate_close acme_evaluator ?p ?fx = rate_close acme_evaluator acme_proposal ?fx"
    by (simp_all add: price_close_def rate_close_def waiting_fields acme_proposal_def split: option.split)
  have "rv_allowed rv \<longleftrightarrow> v \<in> {None, Some (rc_version (el_config acme_evaluator))}"
    using rv_allowed_parts[OF rv(1) c(1)] authorization_rules_clear[of acme_evaluator ?p d "Some acme_quote" ?fx 2000000]
      acme_close(2,3) d rv(2) unfolding c
    by (auto simp: rd_allowed_def waiting_fields close dec_le_iff)
  then show thesis using that[OF rv(1)] d rv(2) by (simp add: acme_evaluator_def rd_allowed_def)
qed

lemma waiting_starts:
  "authorization_starts manual_settings (\<lambda>_. None) authorization_source.HUMAN_WEB 2000000 ''p1'' (waiting_database v)
     (waiting_row v) thesis_action.BUY"
proof -
  have "research_action_of (waiting_row v) = thesis_action_of ''BUY''"
    by (simp add: research_action_of_def waiting_fields or_text_def)
  moreover have "thesis_action_of ''BUY'' = Inr thesis_action.BUY" by code_simp
  moreover have "assert_authorizable (waiting_row v) authorization_source.HUMAN_WEB 2000000 = Inr ()"
    by (simp add: assert_authorizable_def waiting_fields AUTHORIZABLE_STATUSES_def)
  moreover have "control_snapshot_of (\<lambda>_. None) (waiting_database v) = control_snapshot_of (\<lambda>_. None) empty_database"
    by (simp add: waiting_database_def control_snapshot_of_def setting_def)
  moreover have "\<not> trading_halted (control_snapshot_of (\<lambda>_. None) empty_database)" by code_simp
  ultimately show ?thesis by (simp add: authorization_starts_def waiting_found)
qed

lemma waiting_ok: "database_ok (waiting_database v)"
proof -
  have "proposal_row_ok (waiting_row v)"
    by (simp add: proposal_row_ok_def waiting_row_def pending_row_def acme_proposal_def dec_simps dval_Dec)
  then show ?thesis
    by (simp add: database_ok_def proposals_table_ok_def attempts_table_ok_def jobs_table_ok_def orders_table_ok_def
        actions_table_ok_def sent_once_def waiting_database_def empty_database_def)
qed

definition stale_version :: "string option" where
  "stale_version = Some (CHR ''x'' # rc_version default_risk_config)"

lemma refused_authorization_is_durable_witness:
  "\<exists>db' m ids. authorize manual_settings acme_evaluator (\<lambda>_. None) (\<lambda>_. None) (\<lambda>_. None) (\<lambda>_. acme_evaluation_facts) (\<lambda>d. d) ''p1''
      authorization_source.HUMAN_WEB ''op'' 2000000 (waiting_database stale_version) = (db', Inl (RiskBlocked m ids))
    \<and> map_option tp_status (find_proposal db' ''p1'') = Some proposal_status.INVALIDATED"
proof -
  have "stale_version \<notin> {None, Some (rc_version default_risk_config)}" by (simp add: stale_version_def)
  then obtain rv where rv: "evaluate_proposal acme_evaluator (waiting_database stale_version) (acme_waiting stale_version)
      acme_evaluation_facts 2000000 = Inr rv" "\<not> rv_allowed rv"
    by (metis acme_waiting_evaluated)
  have a: "assert_authorizable (waiting_row stale_version) authorization_source.HUMAN_WEB 2000000 = Inr ()"
    using waiting_starts[of stale_version] by (simp add: authorization_starts_def)
  obtain db' where "authorize manual_settings acme_evaluator (\<lambda>_. None) (\<lambda>_. None) (\<lambda>_. None) (\<lambda>_. acme_evaluation_facts) (\<lambda>d. d) ''p1''
      authorization_source.HUMAN_WEB ''op'' 2000000 (waiting_database stale_version)
      = (db', Inl (RiskBlocked (join ''; '' (rv_reasons rv)) (rv_rule_ids rv)))"
    "map_option tp_status (find_proposal db' ''p1'') = Some proposal_status.INVALIDATED"
    using refused_authorization_is_durable[OF waiting_starts[of stale_version] _ HOL.refl a, where others = "\<lambda>d. d"
        and el = acme_evaluator and resolution_of = "\<lambda>_. None" and event_type_of = "\<lambda>_. None"
        and load_facts = "\<lambda>_. acme_evaluation_facts" and rv = rv and actor = "''op''",
        OF waiting_found rv waiting_ok] by auto
  then show ?thesis by blast
qed

lemma acme_refreshed:
  assumes "sz_reference_price (rd_sizing d) = q_ask acme_quote"
  obtains p1 where "refreshed d rules acme_quote acme_account (same_currency_snapshot ''USD'') (waiting_row v) = Inr p1"
    "same_keys (waiting_row v) p1" "tp_reference_price p1 = Dec 10005 (- 2)" "tp_proposed_quantity p1 = Dec 1 0"
    "qc_age_ms (tp_quote p1) = 1000" "tp_invalidated_at p1 = None" "tp_execution_policy p1 = execution_policy.MANUAL"
proof -
  let ?fx = "same_currency_snapshot ''USD''"
  have "okE (bindE (fs_to_account_currency ?fx (Dec 1 0 * Dec 10005 (- 2))) (\<lambda>c. quantize_ceiling c (- 4)))" by code_simp
  then obtain c q where cq: "fs_to_account_currency ?fx (Dec 1 0 * Dec 10005 (- 2)) = Inr c" "quantize_ceiling c (- 4) = Inr q"
    by (auto simp: okE_conv bindE_eq_Inr)
  have price: "q_ask acme_quote = Some (Dec 10005 (- 2))" "\<not> dec_eq (Dec 10005 (- 2)) 0"
    by (simp add: acme_quote_def) code_simp
  have "fs_same_currency ?fx" by (simp add: same_currency_snapshot_def Let_def)
  moreover have "tp_invalidated_at (waiting_row v) = None" "tp_execution_policy (waiting_row v) = execution_policy.MANUAL"
    by (simp_all add: waiting_row_def pending_row_def acme_proposal_def)
  ultimately have "\<exists>p1. refreshed d rules acme_quote acme_account ?fx (waiting_row v) = Inr p1 \<and> same_keys (waiting_row v) p1
      \<and> tp_reference_price p1 = Dec 10005 (- 2) \<and> tp_proposed_quantity p1 = Dec 1 0 \<and> qc_age_ms (tp_quote p1) = q_age_ms acme_quote
      \<and> tp_invalidated_at p1 = None \<and> tp_execution_policy p1 = execution_policy.MANUAL"
    using cq price(2) assms unfolding price(1)
    by (simp add: refreshed_def apply_quote_def apply_fx_def waiting_fields same_keys_def acme_account_def Let_def)
  then show thesis using that by (auto simp: acme_quote_def)
qed

lemma authorization_needs_fresh_risk_witness:
  "\<exists>db' r. authorize manual_settings acme_evaluator (\<lambda>_. None) (\<lambda>_. None) (\<lambda>_. None) (\<lambda>_. acme_evaluation_facts) (\<lambda>d. d) ''p1''
      authorization_source.HUMAN_WEB ''op'' 2000000 (waiting_database None) = (db', Inr r)
    \<and> map_option tp_status (find_proposal db' ''p1'') = Some proposal_status.APPROVED"
proof -
  let ?db = "waiting_database None" and ?p = "waiting_row None"
  obtain rv where rv: "evaluate_proposal acme_evaluator ?db (acme_waiting None) acme_evaluation_facts 2000000 = Inr rv"
      "rv_allowed rv" "sz_reference_price (rd_sizing (rv_decision rv)) = q_ask acme_quote"
    by (rule acme_waiting_evaluated[of None]) auto
  obtain p1 where p1: "refreshed (rv_decision rv) (rv_rules rv) acme_quote acme_account (same_currency_snapshot ''USD'') ?p = Inr p1"
      "same_keys ?p p1" "tp_reference_price p1 = Dec 10005 (- 2)" "tp_proposed_quantity p1 = Dec 1 0"
      "qc_age_ms (tp_quote p1) = 1000" "tp_invalidated_at p1 = None" "tp_execution_policy p1 = execution_policy.MANUAL"
    by (rule acme_refreshed[OF rv(3)])
  let ?row = "evaluation_row (fst (uuid4 ?db)) (db_clock ?db) (tp_thesis_id ?p) ''p1'' (ex_identity (acme_waiting None))
      (rd_outcome (rv_decision rv)) rv ''op''"
  let ?db2 = "snd (uuid4 ?db)\<lparr>db_evaluations := db_evaluations (snd (uuid4 ?db)) @ [?row]\<rparr>"
  let ?approved = "approved_row manual_settings acme_evaluator authorization_source.HUMAN_WEB ''op'' 2000000 p1"
  let ?db' = "approve manual_settings acme_evaluator ''p1'' p1 rv authorization_source.HUMAN_WEB ''op'' 2000000 ?db2"
  have "database_ok ?db2" "find_proposal ?db2 ''p1'' = Some ?p"
    using waiting_ok[of None] waiting_found[of None] by (simp_all add: database_ok_def find_proposal_def uuid4_def)
  moreover have "same_keys ?p ?approved" "proposal_row_ok ?approved"
    using p1(2-7) by (simp_all add: same_keys_def approved_row_def proposal_row_ok_def dec_simps dval_Dec)
  moreover have "active ?p" by (simp add: active_def waiting_fields ACTIVE_STATUSES_def)
  ultimately have ok: "database_ok ?db'"
    unfolding approve_def
    by (intro retire_actions_ok add_audit_ok set_proposal_ok[where g = "\<lambda>_. ?approved"]) auto
  have facts: "ef_quote acme_evaluation_facts = Some acme_quote" "ef_account acme_evaluation_facts = Some acme_account"
      "ef_fx acme_evaluation_facts = Some (same_currency_snapshot ''USD'')" "fs_usable (same_currency_snapshot ''USD'')"
    by (simp_all add: acme_evaluation_facts_def same_currency_snapshot_def fs_usable_def Let_def)
  have t: "assert_transition (tp_status ?p) proposal_status.APPROVED = Inr ()"
    by (simp add: assert_transition_def can_transition_def waiting_fields)
  have a: "assert_authorizable ?p authorization_source.HUMAN_WEB 2000000 = Inr ()"
    using waiting_starts[of None] by (simp add: authorization_starts_def)
  obtain r where "authorize_locked manual_settings acme_evaluator (\<lambda>_. None) (\<lambda>_. None) acme_evaluation_facts thesis_action.BUY
      (or_else (tp_research_confidence ?p) 0) ?p ''p1'' authorization_source.HUMAN_WEB ''op'' 2000000 ?db = Inr (?db', Inr r)"
    using rv(1,2) p1(1) by (simp add: authorize_locked_def waiting_found a Let_def case_prod_beta rv_allowed_def facts t)
  then obtain r where r: "authorize manual_settings acme_evaluator (\<lambda>_. None) (\<lambda>_. None) (\<lambda>_. None) (\<lambda>_. acme_evaluation_facts)
      (\<lambda>d. d) ''p1'' authorization_source.HUMAN_WEB ''op'' 2000000 ?db = (?db', Inr r)"
    using ok by (simp add: authorize_started[OF waiting_starts] run_tx_def transaction_def)
  show ?thesis using authorization_needs_fresh_risk[OF r] r by auto
qed

end
