(* ===== verification/Exits.thy ===== *)
theory Exits
  imports Sizing
begin

text \<open>
  \<open>backend/stockbrain/risk/exits.py\<close>: the six exit rules of an open position in their declared
  precedence, the decaying profit target, and the floors shown to an operator. A percentage in
  a message is quantised, which can raise for an absurd price; the arithmetic of the rules
  themselves does not.
\<close>

definition EXIT_PRECEDENCE :: "string list" where
  "EXIT_PRECEDENCE =
     [''hard_stop'', ''volatility_stop'', ''trailing_stop'', ''thesis_superseded'', ''roi_target'',
      ''horizon_elapsed'']"

record exit_observation =
  ob_broker_ticker :: string
  ob_quantity :: decimal
  ob_quantity_available :: decimal
  ob_average_price :: decimal
  ob_current_price :: decimal
  ob_peak_price :: "decimal option"
  ob_peak_observations :: int
  ob_opened_at :: instant
  ob_horizon :: time_horizon
  ob_thesis_superseded :: bool
  ob_atr :: "decimal option"
  ob_atr_as_of :: "date option"

definition ob_gain :: "exit_observation \<Rightarrow> decimal res" where
  "ob_gain ob = ddiv (ob_current_price ob - ob_average_price ob) (ob_average_price ob)"

definition ob_minutes_held :: "exit_observation \<Rightarrow> instant \<Rightarrow> int" where
  "ob_minutes_held ob now = max 0 ((now - ob_opened_at ob) div (60 * usec))"

record exit_signal =
  xs_rule_id :: string
  xs_action :: thesis_action
  xs_reason :: string
  xs_rule :: rule_result
  xs_fraction :: "decimal option"

record exit_floors_view =
  xf_hard_stop :: decimal
  xf_volatility_floor :: "decimal option"
  xf_trailing_floor :: "decimal option"
  xf_roi_target_price :: "decimal option"
  xf_horizon_ends_at :: instant
  xf_nearest_floor :: decimal
  xf_nearest_rule :: string

section \<open>The decaying target and the armed floors\<close>

fun roi_scan ::
  "time_horizon \<Rightarrow> int \<Rightarrow> int \<times> decimal \<Rightarrow> (time_horizon \<times> int \<times> decimal) list \<Rightarrow> int \<times> decimal" where
  "roi_scan h minutes (threshold, target) [] = (threshold, target)"
| "roi_scan h minutes (threshold, target) ((row_h, row_minutes, row_target) # rows) =
     (if row_h \<noteq> h then roi_scan h minutes (threshold, target) rows
      else if row_minutes \<le> minutes \<and> threshold < row_minutes
      then roi_scan h minutes (row_minutes, row_target) rows
      else roi_scan h minutes (threshold, target) rows)"

definition roi_target_for :: "time_horizon \<Rightarrow> int \<Rightarrow> risk_config \<Rightarrow> decimal" where
  "roi_target_for h minutes c = snd (roi_scan h minutes (- 1, ZERO) (rc_exit_roi_decay c))"

definition fired :: "string \<Rightarrow> string \<Rightarrow> string \<Rightarrow> string \<Rightarrow> rule_result" where
  "fired rule_id reason observed threshold =
     verdict_of rule_id 1 rule_outcome.WARN reason (Some observed) (Some threshold)"

definition atr_fresh :: "exit_observation \<Rightarrow> risk_config \<Rightarrow> instant \<Rightarrow> bool" where
  "atr_fresh ob c now =
     (case ob_atr_as_of ob of
        None \<Rightarrow> False
      | Some as_of \<Rightarrow> date_of now - as_of \<le> rc_exit_atr_max_age_days c)"

definition volatility_armed ::
  "exit_observation \<Rightarrow> risk_config \<Rightarrow> instant \<Rightarrow> decimal option" where
  "volatility_armed ob c now =
     (case (ob_peak_price ob, ob_atr ob) of
        (Some peak, Some atr) \<Rightarrow>
          if ZERO < atr \<and> atr_fresh ob c now
             \<and> rc_exit_min_peak_observations c \<le> ob_peak_observations ob
          then Some (peak - rc_exit_atr_multiplier c * atr)
          else None
      | _ \<Rightarrow> None)"

definition trailing_armed :: "exit_observation \<Rightarrow> risk_config \<Rightarrow> decimal option res" where
  "trailing_armed ob c =
     (case ob_peak_price ob of
        None \<Rightarrow> Inr None
      | Some peak \<Rightarrow>
          if \<not> rc_exit_min_peak_observations c \<le> ob_peak_observations ob then Inr None
          else bindE (ddiv (peak - ob_average_price ob) (ob_average_price ob)) (\<lambda>run.
            Inr (if rc_exit_trailing_arm_pct c \<le> run
                 then Some (peak * (dec_of_int 1 - rc_exit_trailing_pct c)) else None)))"

definition pct_text :: "decimal \<Rightarrow> string res" where
  "pct_text d = bindE (quantize_even (d * dec_of_int 100) (- 2)) (\<lambda>q. Inr (dec_str q @ ''%''))"

section \<open>Which rule fires\<close>

definition signal ::
  "string \<Rightarrow> thesis_action \<Rightarrow> string \<Rightarrow> rule_result \<Rightarrow> exit_signal option res" where
  "signal rule_id action reason rule =
     Inr (Some \<lparr>xs_rule_id = rule_id, xs_action = action, xs_reason = reason, xs_rule = rule,
                xs_fraction = None\<rparr>)"

definition below :: "decimal \<Rightarrow> decimal option \<Rightarrow> bool" where
  "below price level = (case level of None \<Rightarrow> False | Some f \<Rightarrow> price < f)"

text \<open>Rules 4 to 6, once no floor is breached.\<close>

definition evaluate_thesis ::
  "exit_observation \<Rightarrow> risk_config \<Rightarrow> decimal \<Rightarrow> int \<Rightarrow> exit_signal option res" where
  "evaluate_thesis ob c gain minutes =
     (if ob_thesis_superseded ob
      then signal ''thesis_superseded'' thesis_action.SELL
             ''a newer thesis supersedes the one this position was opened on''
             (fired ''thesis_superseded'' ''the opening thesis has been superseded'' ''superseded''
                ''the opening thesis is current'')
      else
        let target = roi_target_for (ob_horizon ob) minutes c;
            horizon = time_horizon_value (ob_horizon ob)
        in if ZERO < target \<and> target \<le> gain
           then bindE (pct_text gain) (\<lambda>g. bindE (pct_text target) (\<lambda>t.
                  signal ''roi_target'' thesis_action.REDUCE
                    (''the position is up '' @ g @ '' against the '' @ t @ '' required ''
                     @ show_int minutes @ '' minutes into a '' @ horizon @ '' thesis'')
                    (fired ''roi_target'' ''the decaying profit target was met'' g t)))
           else if dec_eq target ZERO
           then bindE (pct_text gain) (\<lambda>g.
                  signal ''horizon_elapsed'' thesis_action.SELL
                    (''the '' @ horizon @ '' thesis has been held '' @ show_int minutes
                     @ '' minutes, past its horizon, at '' @ g)
                    (fired ''horizon_elapsed'' ''the thesis horizon elapsed''
                       (show_int minutes @ '' minutes'') ''within the thesis horizon''))
           else Inr None)"

definition evaluate_exit ::
  "exit_observation \<Rightarrow> risk_config \<Rightarrow> instant \<Rightarrow> exit_signal option res" where
  "evaluate_exit ob c now =
     (if ob_average_price ob \<le> ZERO \<or> ob_current_price ob \<le> ZERO then Inr None
      else if ob_quantity_available ob \<le> ZERO then Inr None
      else bindE (ob_gain ob) (\<lambda>gain.
        let minutes = ob_minutes_held ob now; price = ob_current_price ob;
            stop = - rc_exit_hard_stop_pct c; vol = volatility_armed ob c now
        in if gain < stop
           then bindE (pct_text gain) (\<lambda>g. bindE (pct_text stop) (\<lambda>f.
                  signal ''hard_stop'' thesis_action.SELL
                    (''the position is '' @ g @ '' against average cost, past the '' @ f @ '' floor'')
                    (fired ''hard_stop'' ''the hard stop was breached'' g f)))
           else if below price vol
           then signal ''volatility_stop'' thesis_action.SELL
                  (''the price fell to '' @ dec_str price @ '', through the volatility floor at ''
                   @ show_opt_dec vol @ '' ('' @ dec_str (rc_exit_atr_multiplier c) @ '' x ATR ''
                   @ show_opt_dec (ob_atr ob) @ '' below the peak of ''
                   @ show_opt_dec (ob_peak_price ob) @ '')'')
                  (fired ''volatility_stop'' ''the volatility floor was breached'' (dec_str price)
                     (show_opt_dec vol))
           else bindE (trailing_armed ob c) (\<lambda>trail.
             if below price trail
             then bindE (pct_text (rc_exit_trailing_pct c)) (\<lambda>p.
                    signal ''trailing_stop'' thesis_action.SELL
                      (''the price fell to '' @ dec_str price @ '' from a peak of ''
                       @ show_opt_dec (ob_peak_price ob) @ '', through the '' @ p
                       @ '' trailing floor at '' @ show_opt_dec trail)
                      (fired ''trailing_stop'' ''the trailing floor was breached'' (dec_str price)
                         (show_opt_dec trail)))
             else evaluate_thesis ob c gain minutes)))"

section \<open>The floors shown to an operator\<close>

definition horizon_ends_at :: "exit_observation \<Rightarrow> risk_config \<Rightarrow> instant res" where
  "horizon_ends_at ob c =
     (case map (\<lambda>(h, minutes, target). minutes)
             (filter (\<lambda>(h, minutes, target). h = ob_horizon ob \<and> dec_eq target ZERO) (rc_exit_roi_decay c)) of
        [] \<Rightarrow> Inl (ValueError (''no terminal (target == 0) ROI row for ''
                @ time_horizon_value (ob_horizon ob)))
      | m # ms \<Rightarrow> Inr (ob_opened_at ob + fold min ms m * 60 * usec))"

definition nearer :: "string \<times> decimal option \<Rightarrow> string \<times> decimal \<Rightarrow> string \<times> decimal" where
  "nearer candidate best =
     (case snd candidate of
        None \<Rightarrow> best
      | Some level \<Rightarrow> if snd best < level then (fst candidate, level) else best)"

definition exit_floors ::
  "exit_observation \<Rightarrow> risk_config \<Rightarrow> instant \<Rightarrow> exit_floors_view option res" where
  "exit_floors ob c now =
     (if ob_average_price ob \<le> ZERO \<or> ob_current_price ob \<le> ZERO \<or> ob_quantity_available ob \<le> ZERO
      then Inr None
      else
        let target = roi_target_for (ob_horizon ob) (ob_minutes_held ob now) c;
            hard = ob_average_price ob * (dec_of_int 1 - rc_exit_hard_stop_pct c);
            vol = volatility_armed ob c now
        in bindE (trailing_armed ob c) (\<lambda>trail.
           let roi = (if ZERO < target then Some (ob_average_price ob * (dec_of_int 1 + target)) else None);
               best = fold nearer
                 [(''volatility_stop'', vol), (''trailing_stop'', trail), (''roi_target'', roi)]
                 (''hard_stop'', hard)
           in bindE (horizon_ends_at ob c) (\<lambda>ends. Inr (Some
                \<lparr>xf_hard_stop = hard, xf_volatility_floor = vol, xf_trailing_floor = trail,
                 xf_roi_target_price = roi, xf_horizon_ends_at = ends,
                 xf_nearest_floor = snd best, xf_nearest_rule = fst best\<rparr>))))"

section \<open>The precedence, declaratively\<close>

definition usable_position :: "exit_observation \<Rightarrow> bool" where
  "usable_position ob =
     (0 < dval (ob_average_price ob) \<and> 0 < dval (ob_current_price ob) \<and> 0 < dval (ob_quantity_available ob))"

definition gain_of :: "exit_observation \<Rightarrow> decimal" where
  "gain_of ob = dquot (ob_current_price ob - ob_average_price ob) (ob_average_price ob)"

definition trailing_level :: "exit_observation \<Rightarrow> risk_config \<Rightarrow> decimal option" where
  "trailing_level ob c = (case trailing_armed ob c of Inl _ \<Rightarrow> None | Inr l \<Rightarrow> l)"

text \<open>The condition of each rule on its own, regardless of the others.\<close>

definition rule_fires :: "exit_observation \<Rightarrow> risk_config \<Rightarrow> instant \<Rightarrow> string \<Rightarrow> bool" where
  "rule_fires ob c now rule_id =
     (let target = roi_target_for (ob_horizon ob) (ob_minutes_held ob now) c
      in if rule_id = ''hard_stop'' then dval (gain_of ob) < dval (- rc_exit_hard_stop_pct c)
         else if rule_id = ''volatility_stop'' then below (ob_current_price ob) (volatility_armed ob c now)
         else if rule_id = ''trailing_stop'' then below (ob_current_price ob) (trailing_level ob c)
         else if rule_id = ''thesis_superseded'' then ob_thesis_superseded ob
         else if rule_id = ''roi_target'' then 0 < dval target \<and> dval target \<le> dval (gain_of ob)
         else rule_id = ''horizon_elapsed'' \<and> dval target = 0)"

definition exit_action :: "string \<Rightarrow> thesis_action" where
  "exit_action rule_id = (if rule_id = ''roi_target'' then thesis_action.REDUCE else thesis_action.SELL)"

lemma signal_eq: "signal n a why rule = Inr s \<longleftrightarrow> s = Some \<lparr>xs_rule_id = n, xs_action = a, xs_reason = why,
    xs_rule = rule, xs_fraction = None\<rparr>"
  by (auto simp: signal_def)

lemma usable_gain: "usable_position ob \<Longrightarrow> ob_gain ob = Inr (gain_of ob)"
  by (simp add: usable_position_def ob_gain_def gain_of_def ddiv_Inr)

lemma usable_trailing: "usable_position ob \<Longrightarrow> trailing_armed ob c = Inr (trailing_level ob c)"
  by (auto simp: usable_position_def trailing_level_def trailing_armed_def ddiv_def coeff_zero_iff split: option.splits)

lemma evaluate_exit_unusable: "\<not> usable_position ob \<Longrightarrow> evaluate_exit ob c now = Inr None"
  by (auto simp: usable_position_def evaluate_exit_def dec_simps not_less)

text \<open>The chain of the code over the declarative conditions.\<close>

lemma evaluate_exit_chain:
  assumes "usable_position ob" "evaluate_exit ob c now = Inr s"
  shows "map_option xs_rule_id s = find (rule_fires ob c now) EXIT_PRECEDENCE
    \<and> (\<forall>x. s = Some x \<longrightarrow> xs_action x = exit_action (xs_rule_id x) \<and> rr_rule_id (xs_rule x) = xs_rule_id x
          \<and> rr_outcome (xs_rule x) = rule_outcome.WARN)"
proof -
  have guard: "\<not> (ob_average_price ob \<le> ZERO \<or> ob_current_price ob \<le> ZERO)" "\<not> ob_quantity_available ob \<le> ZERO"
    using assms(1) by (auto simp: usable_position_def dec_simps)
  show ?thesis
    using assms(2)
    unfolding evaluate_exit_def if_not_P[OF guard(1)] if_not_P[OF guard(2)] usable_gain[OF assms(1)]
      usable_trailing[OF assms(1)] bindE_Inr Let_def evaluate_thesis_def EXIT_PRECEDENCE_def rule_fires_def
    by (auto simp: dec_simps bindE_eq_Inr signal_eq fired_def exit_action_def split: if_splits)
qed

text \<open>
  C20: one rule fires, in the declared precedence. For a usable position the signal names the
  first rule of \<open>EXIT_PRECEDENCE\<close> whose condition holds and there is none exactly when no
  condition holds; the profit target proposes a partial exit, every other rule a full one; a
  position that cannot be sold or has no cost basis produces no signal.
\<close>

theorem exit_precedence:
  assumes "evaluate_exit ob c now = Inr s"
  shows "map_option xs_rule_id s =
      (if usable_position ob then find (rule_fires ob c now) EXIT_PRECEDENCE else None)
    \<and> (\<forall>x. s = Some x \<longrightarrow> xs_action x = exit_action (xs_rule_id x)
          \<and> rr_outcome (xs_rule x) = rule_outcome.WARN)"
proof (cases "usable_position ob")
  case True
  then show ?thesis using evaluate_exit_chain[OF True assms] by auto
next
  case False
  then show ?thesis using evaluate_exit_unusable[OF False] assms by auto
qed

definition acme_exit :: "decimal \<Rightarrow> exit_observation" where
  "acme_exit price =
     \<lparr>ob_broker_ticker = ''ACME_US_EQ'', ob_quantity = Dec 4 0, ob_quantity_available = Dec 4 0,
      ob_average_price = Dec 100 0, ob_current_price = price, ob_peak_price = Some (Dec 110 0),
      ob_peak_observations = 5, ob_opened_at = 0, ob_horizon = time_horizon.DAYS,
      ob_thesis_superseded = False, ob_atr = None, ob_atr_as_of = None\<rparr>"

lemma exit_precedence_witness:
  "map_option xs_rule_id (case evaluate_exit (acme_exit (Dec 91 0)) default_risk_config 0 of Inl _ \<Rightarrow> None | Inr s \<Rightarrow> s)
     = Some ''hard_stop''
   \<and> find (rule_fires (acme_exit (Dec 91 0)) default_risk_config 0) EXIT_PRECEDENCE = Some ''hard_stop''"
proof -
  have "(case evaluate_exit (acme_exit (Dec 91 0)) default_risk_config 0 of Inl _ \<Rightarrow> False
    | Inr s \<Rightarrow> map_option xs_rule_id s = Some ''hard_stop'')" by code_simp
  then obtain s where s: "evaluate_exit (acme_exit (Dec 91 0)) default_risk_config 0 = Inr s"
    "map_option xs_rule_id s = Some ''hard_stop''" by (auto split: sum.splits)
  moreover have "usable_position (acme_exit (Dec 91 0))"
    by (simp add: usable_position_def acme_exit_def dval_Dec)
  ultimately show ?thesis using exit_precedence[OF s(1)] by simp
qed

section \<open>The hard stop, in prices\<close>

lemma quotient_below:
  fixes a b s :: rat
  assumes "0 < b" "a / b < - s" "0 \<le> s" "s < 1" "10 ^ 27 * \<bar>r - a / b\<bar> \<le> \<bar>a / b\<bar>" "- b \<le> a"
    and "10 ^ 24 * (- (s * b) - a) \<ge> b"
  shows "r < - s"
proof -
  have neg: "a / b < 0" using assms(2,3) by linarith
  have "- 1 \<le> a / b" using assms(1,6) by (simp add: pos_le_divide_eq)
  then have "\<bar>a / b\<bar> \<le> 1" using neg by simp
  then have "10 ^ 27 * \<bar>r - a / b\<bar> \<le> 1" using assms(5) by (rule order_trans[rotated])
  moreover have "10 ^ 27 * (r - a / b) \<le> 10 ^ 27 * \<bar>r - a / b\<bar>" by (intro mult_left_mono) simp_all
  ultimately have r: "10 ^ 27 * (r - a / b) \<le> 1" by (rule order_trans[rotated])
  have "10 ^ 24 * (- s - a / b) = 10 ^ 24 * (- (s * b) - a) / b"
    using assms(1) by (simp add: field_simps)
  also have "\<dots> \<ge> 1" using assms(1,7) by (simp add: pos_le_divide_eq)
  finally show ?thesis using r by simp
qed

lemma grid12_gap:
  fixes x y :: rat
  assumes "x = of_int a / 10 ^ 12" "y = of_int b / 10 ^ 12" "x < y"
  shows "1 / 10 ^ 12 \<le> y - x"
proof -
  have "a + 1 \<le> b" using assms by (simp add: divide_less_cancel)
  then have "(of_int (a + 1) :: rat) / 10 ^ 12 \<le> of_int b / 10 ^ 12"
    by (intro divide_right_mono) (simp_all only: of_int_le_iff, simp)
  then show ?thesis by (simp add: assms(1,2) add_divide_distrib)
qed

text \<open>
  The hard stop is exact. For prices with up to 8 decimals below a hundred billion and a
  stop with up to 4 decimals, the rule fires exactly when the price is below the average cost
  less the stop: neither the rounding of the gain nor the unary minus moves the floor.
\<close>

lemma hard_stop_exact:
  assumes "usable_position ob" "grid 8 19 (dval (ob_average_price ob))" "grid 8 19 (dval (ob_current_price ob))"
    and "grid 4 5 (dval (rc_exit_hard_stop_pct c))" "dec_ok (rc_exit_hard_stop_pct c)"
    and "0 \<le> dval (rc_exit_hard_stop_pct c)" "dval (rc_exit_hard_stop_pct c) < 1"
  shows "rule_fires ob c now ''hard_stop'' \<longleftrightarrow>
    dval (ob_current_price ob) < dval (ob_average_price ob) * (1 - dval (rc_exit_hard_stop_pct c))"
proof -
  let ?a = "dval (ob_average_price ob)" and ?p = "dval (ob_current_price ob)" and ?s = "dval (rc_exit_hard_stop_pct c)"
  have pos: "0 < ?a" "0 < ?p" using assms(1) by (simp_all add: usable_position_def)
  have diff: "dval (ob_current_price ob - ob_average_price ob) = ?p - ?a"
    by (rule grid_minus[OF assms(3,2)]) simp
  have nz: "coeff (ob_average_price ob) \<noteq> 0" using pos by (auto simp: coeff_zero_iff)
  have s: "dval (- rc_exit_hard_stop_pct c) = - ?s" "dec_ok (- rc_exit_hard_stop_pct c)"
    using assms(5) by (simp_all only: dval_uminus) (simp add: uminus_decimal_def)
  have fires: "rule_fires ob c now ''hard_stop'' \<longleftrightarrow> dval (gain_of ob) < - ?s"
    by (simp add: rule_fires_def Let_def s(1))
  have shape: "?p < ?a * (1 - ?s) \<longleftrightarrow> (?p - ?a) / ?a < - ?s"
    using pos by (simp add: pos_divide_less_eq algebra_simps)
  show ?thesis
  proof (cases "(?p - ?a) / ?a < - ?s")
    case False
    then have "- ?s \<le> dval (gain_of ob)"
      using quot.op_ge[OF nz s(2), of "ob_current_price ob - ob_average_price ob"] by (simp add: gain_of_def diff s(1))
    then show ?thesis using False by (simp add: fires shape)
  next
    case True
    have err: "10 ^ 27 * \<bar>dval (gain_of ob) - (?p - ?a) / ?a\<bar> \<le> \<bar>(?p - ?a) / ?a\<bar>"
      using quot.op_err[OF nz, of "ob_current_price ob - ob_average_price ob"] by (simp add: gain_of_def diff)
    have margin: "?a \<le> 10 ^ 24 * (- (?s * ?a) - (?p - ?a))"
    proof -
      obtain i j k :: int where g: "?a = of_int i / 10 ^ 8" "\<bar>i\<bar> < 10 ^ 19" "?p = of_int j / 10 ^ 8" "?s = of_int k / 10 ^ 4"
        using assms(2-4) by (auto simp: grid_def)
      have "1 / 10 ^ 12 \<le> ?a * (1 - ?s) - ?p"
      proof (rule grid12_gap)
        show "?p = of_int (j * 10 ^ 4) / 10 ^ 12" by (simp add: g(3))
        show "?a * (1 - ?s) = of_int (i * (10 ^ 4 - k)) / 10 ^ 12"
          by (simp add: g(1,4) field_simps)
      qed (use True shape in simp)
      moreover have "(of_int i :: rat) < of_int (10 ^ 19)" using g(2) by (simp only: of_int_less_iff)
      then have "?a < 10 ^ 11" by (simp add: g(1))
      ultimately show ?thesis by (simp add: algebra_simps)
    qed
    have "- ?a \<le> ?p - ?a" using pos by simp
    from quotient_below[OF pos(1) True assms(6,7) err this margin]
    have "dval (gain_of ob) < - ?s" .
    then show ?thesis using True by (simp add: fires shape)
  qed
qed

lemma hard_stop_exact_witness:
  "rule_fires (acme_exit (Dec 9199 (- 2))) default_risk_config 0 ''hard_stop''
   \<and> \<not> rule_fires (acme_exit (Dec 92 0)) default_risk_config 0 ''hard_stop''"
proof -
  have g: "grid 8 19 (dval (Dec 100 0))" by (rule gridI[of _ "100 * 10 ^ 8"]) (simp_all add: dval_Dec)
  have g1: "grid 8 19 (dval (Dec 9199 (- 2)))" by (rule gridI[of _ "9199 * 10 ^ 6"]) (simp_all add: dval_Dec)
  have g2: "grid 8 19 (dval (Dec 92 0))" by (rule gridI[of _ "92 * 10 ^ 8"]) (simp_all add: dval_Dec)
  have g3: "grid 4 5 (dval (Dec 8 (- 2)))" by (rule gridI[of _ 800]) (simp_all add: dval_Dec)
  have c: "rc_exit_hard_stop_pct default_risk_config = Dec 8 (- 2)" by (simp add: default_risk_config_def)
  have u: "usable_position (acme_exit p)" if "0 < dval p" for p
    using that by (simp add: usable_position_def acme_exit_def dval_Dec)
  have "rule_fires (acme_exit p) default_risk_config 0 ''hard_stop'' \<longleftrightarrow> dval p < 92"
    if "0 < dval p" "grid 8 19 (dval p)" for p
    using hard_stop_exact[OF u[OF that(1)], of default_risk_config 0] that(2) g g3
    by (simp add: c acme_exit_def dval_Dec dec_ok_def)
  then show ?thesis using g1 g2 by (simp add: dval_Dec)
qed

section \<open>What the operator sees\<close>

lemma nearer_fold:
  assumes "fold nearer cands (n, x) = (m, y)"
  shows "dval x \<le> dval y \<and> (\<forall>k l. (k, Some l) \<in> set cands \<longrightarrow> dval l \<le> dval y)
    \<and> ((m, y) = (n, x) \<or> (m, Some y) \<in> set cands)"
  using assms
proof (induction cands arbitrary: n x)
  case (Cons cand cands)
  obtain n' x' where step: "nearer cand (n, x) = (n', x')" by fastforce
  then have new: "dval x \<le> dval x'" "(n', x') = (n, x) \<or> (n', Some x') = cand"
      "\<And>l. snd cand = Some l \<Longrightarrow> dval l \<le> dval x'"
    by (cases cand; auto simp: nearer_def dec_simps not_less split: option.splits if_splits)+
  have "fold nearer cands (n', x') = (m, y)" using Cons.prems step by simp
  from Cons.IH[OF this] show ?case using new by (auto 0 3 intro: order_trans)
qed simp

text \<open>
  The floors shown are the floors the rules act on, and the nearest one is the highest. For a
  position the view covers, the volatility and trailing rules fire exactly when the price is
  below the floor shown; the nearest floor is one of the levels and none of them is higher.
\<close>

lemma floors_match_rules:
  assumes "exit_floors ob c now = Inr (Some f)"
  shows "usable_position ob
    \<and> (rule_fires ob c now ''volatility_stop'' \<longleftrightarrow> below (ob_current_price ob) (xf_volatility_floor f))
    \<and> (rule_fires ob c now ''trailing_stop'' \<longleftrightarrow> below (ob_current_price ob) (xf_trailing_floor f))
    \<and> (\<forall>l \<in> {Some (xf_hard_stop f), xf_volatility_floor f, xf_trailing_floor f, xf_roi_target_price f}.
          \<forall>x. l = Some x \<longrightarrow> dval x \<le> dval (xf_nearest_floor f))
    \<and> (xf_nearest_rule f, Some (xf_nearest_floor f)) \<in>
        {(''hard_stop'', Some (xf_hard_stop f)), (''volatility_stop'', xf_volatility_floor f),
         (''trailing_stop'', xf_trailing_floor f), (''roi_target'', xf_roi_target_price f)}"
proof -
  have u: "usable_position ob"
    using assms by (auto simp: exit_floors_def usable_position_def dec_simps split: if_splits)
  then have guard: "\<not> (ob_average_price ob \<le> ZERO \<or> ob_current_price ob \<le> ZERO \<or> ob_quantity_available ob \<le> ZERO)"
    by (auto simp: usable_position_def dec_simps)
  define cands where "cands = [(''volatility_stop'', xf_volatility_floor f), (''trailing_stop'', xf_trailing_floor f),
    (''roi_target'', xf_roi_target_price f)]"
  have f: "xf_volatility_floor f = volatility_armed ob c now" "xf_trailing_floor f = trailing_level ob c"
    "fold nearer cands (''hard_stop'', xf_hard_stop f) = (xf_nearest_rule f, xf_nearest_floor f)"
    using assms unfolding exit_floors_def if_not_P[OF guard] usable_trailing[OF u] Let_def bindE_Inr bindE_eq_Inr cands_def
    by auto
  have near: "dval (xf_hard_stop f) \<le> dval (xf_nearest_floor f)"
    "\<And>k l. (k, Some l) \<in> set cands \<Longrightarrow> dval l \<le> dval (xf_nearest_floor f)"
    "(xf_nearest_rule f, xf_nearest_floor f) = (''hard_stop'', xf_hard_stop f)
       \<or> (xf_nearest_rule f, Some (xf_nearest_floor f)) \<in> set cands"
    using nearer_fold[OF f(3)] by blast+
  have "\<forall>l \<in> {Some (xf_hard_stop f), xf_volatility_floor f, xf_trailing_floor f, xf_roi_target_price f}.
      \<forall>x. l = Some x \<longrightarrow> dval x \<le> dval (xf_nearest_floor f)"
    using near(1) near(2)[of "''volatility_stop''"] near(2)[of "''trailing_stop''"] near(2)[of "''roi_target''"]
    by (auto simp: cands_def)
  moreover have "(xf_nearest_rule f, Some (xf_nearest_floor f)) \<in>
        {(''hard_stop'', Some (xf_hard_stop f)), (''volatility_stop'', xf_volatility_floor f),
         (''trailing_stop'', xf_trailing_floor f), (''roi_target'', xf_roi_target_price f)}"
    using near(3) by (auto simp: cands_def)
  ultimately show ?thesis using u f(1,2) by (simp add: rule_fires_def Let_def)
qed

lemma floors_match_rules_witness:
  "\<exists>f. exit_floors (acme_exit (Dec 105 0)) default_risk_config 0 = Inr (Some f)
     \<and> \<not> below (Dec 105 0) (xf_trailing_floor f)"
proof -
  have "(case exit_floors (acme_exit (Dec 105 0)) default_risk_config 0 of Inl _ \<Rightarrow> False | Inr v \<Rightarrow> \<not> is_none v)"
    by code_simp
  then obtain f where f: "exit_floors (acme_exit (Dec 105 0)) default_risk_config 0 = Inr (Some f)"
    by (auto simp: is_none_def split: sum.splits option.splits)
  have "\<not> rule_fires (acme_exit (Dec 105 0)) default_risk_config 0 ''trailing_stop''" by code_simp
  then show ?thesis using floors_match_rules[OF f] f by (simp add: acme_exit_def)
qed

text \<open>
  The level called nearest need not be below the price. The profit target takes part in the
  comparison, so for a new position quoted at its cost the view names the target of 106, which
  a falling price never reaches, and hides the stop at 92.
\<close>

lemma nearest_floor_above_price:
  "\<exists>f. exit_floors ((acme_exit (Dec 100 0))\<lparr>ob_peak_price := None\<rparr>) default_risk_config 0 = Inr (Some f)
     \<and> xf_nearest_rule f = ''roi_target'' \<and> dval (Dec 100 0) < dval (xf_nearest_floor f)
     \<and> dval (xf_hard_stop f) = 92"
proof -
  have "(case exit_floors ((acme_exit (Dec 100 0))\<lparr>ob_peak_price := None\<rparr>) default_risk_config 0 of
      Inl _ \<Rightarrow> False
    | Inr v \<Rightarrow> (case v of None \<Rightarrow> False
        | Some f \<Rightarrow> xf_nearest_rule f = ''roi_target'' \<and> Dec 100 0 < xf_nearest_floor f
            \<and> dec_eq (xf_hard_stop f) (Dec 92 0)))"
    by code_simp
  then show ?thesis by (auto simp: dec_simps split: sum.splits option.splits)
qed

definition tight_trailing :: settings where
  "tight_trailing = default_settings\<lparr>st_risk_exit_trailing_pct := Dec 99 (- 3)\<rparr>"

text \<open>
  A trailing floor can sit below the entry price. The validator refuses only a trailing
  distance at or above the arm threshold; with 9.9 percent under a peak armed at 10 percent the
  settings are accepted and the armed floor of a position bought at 100 is 99.11.
\<close>

lemma trailing_floor_below_entry:
  "\<exists>c floor_price. validate_exit_policy tight_trailing = Inr () \<and> risk_config_from_settings tight_trailing = Inr c
     \<and> trailing_armed (acme_exit (Dec 110 0)) c = Inr (Some floor_price)
     \<and> dval floor_price < dval (ob_average_price (acme_exit (Dec 110 0)))"
proof -
  have "validate_exit_policy tight_trailing = Inr ()" by code_simp
  moreover have "(case risk_config_from_settings tight_trailing of Inl _ \<Rightarrow> False | Inr c \<Rightarrow>
      (case trailing_armed (acme_exit (Dec 110 0)) c of Inl _ \<Rightarrow> False | Inr l \<Rightarrow> below (Dec 9912 (- 2)) l = False \<and> l \<noteq> None
        \<and> below (Dec 9911 (- 2)) l = False))"
    by code_simp
  then obtain c l where c: "risk_config_from_settings tight_trailing = Inr c"
      "trailing_armed (acme_exit (Dec 110 0)) c = Inr (Some l)" "\<not> Dec 9912 (- 2) < l"
    by (auto simp: below_def split: sum.splits)
  moreover have "dval l < dval (ob_average_price (acme_exit (Dec 110 0)))"
    using c(3) by (simp add: dec_simps acme_exit_def dval_Dec)
  ultimately show ?thesis by blast
qed

end
