(* ===== verification/Generation.thy ===== *)
theory Generation
  imports Authorization Exits
begin

text \<open>
  \<open>backend/stockbrain/proposals/service.py\<close>, \<open>generate\<close>, \<open>generate_exit\<close> and the automatic authorization
  after them, with \<open>jobs/notifications.py\<close>: how a thesis or an exit sig becomes a proposal. The research
  tables are read twice, as \<open>rt 0\<close> and \<open>rt 1\<close>; \<open>others\<close> is what other workers commit between the reads
  and the write.
\<close>

section \<open>Candidates\<close>

record research_run_row =
  rn_id :: uuid
  rn_event_id :: "uuid option"
  rn_event_type :: "string option"
  rn_company_id :: "uuid option"
  rn_impact_id :: "uuid option"
  rn_broker_instrument_id :: "uuid option"

record impact_row =
  im_resolution_status :: resolution_status
  im_broker_instrument_id :: "uuid option"

record research_tables =
  rt_thesis :: "uuid \<Rightarrow> thesis_row option"
  rt_run_of :: "uuid \<Rightarrow> research_run_row option"
  rt_impact :: "uuid \<Rightarrow> impact_row option"

record candidate =
  cd_thesis :: thesis_row
  cd_run :: research_run_row
  cd_impact_id :: "uuid option"
  cd_instrument :: "broker_instrument option"
  cd_identity :: instrument_identity
  cd_action :: thesis_action
  cd_confidence :: decimal

text \<open>The listing the resolver selected, else the fallback.\<close>

definition listing_of :: "impact_row option \<Rightarrow> uuid option \<Rightarrow> uuid option" where
  "listing_of impact fallback =
     (case impact of
        Some i \<Rightarrow>
          if im_resolution_status i = resolution_status.RESOLVED \<and> im_broker_instrument_id i \<noteq> None
          then im_broker_instrument_id i else fallback
      | None \<Rightarrow> fallback)"

definition load_candidate :: "research_tables \<Rightarrow> broker \<Rightarrow> database \<Rightarrow> uuid \<Rightarrow> candidate option" where
  "load_candidate rt brk db thesis_id =
     (case rt_thesis rt thesis_id of
        None \<Rightarrow> None
      | Some thesis \<Rightarrow>
          (case rt_run_of rt thesis_id of
             None \<Rightarrow> None
           | Some run \<Rightarrow>
               let impact = Option.bind (rn_impact_id run) (rt_impact rt);
                   instrument = Option.bind (listing_of impact (rn_broker_instrument_id run)) (find_instrument db)
               in Some \<lparr>cd_thesis = thesis, cd_run = run,
                    cd_impact_id = (if impact = None then None else rn_impact_id run), cd_instrument = instrument,
                    cd_identity = identity_of instrument (map_option im_resolution_status impact) brk,
                    cd_action = th_action thesis, cd_confidence = th_confidence thesis\<rparr>))"

text \<open>Under the lock the resolver's verdict and the listing are read again.\<close>

definition reload_impact :: "research_tables \<Rightarrow> candidate \<Rightarrow> impact_row option" where
  "reload_impact rt cd = Option.bind (cd_impact_id cd) (rt_impact rt)"

definition reload_instrument :: "research_tables \<Rightarrow> database \<Rightarrow> candidate \<Rightarrow> broker_instrument option" where
  "reload_instrument rt db cd =
     Option.bind (listing_of (reload_impact rt cd) (map_option bi_id (cd_instrument cd))) (find_instrument db)"

definition reload_identity :: "research_tables \<Rightarrow> broker \<Rightarrow> database \<Rightarrow> candidate \<Rightarrow> instrument_identity" where
  "reload_identity rt brk db cd =
     identity_of (reload_instrument rt db cd) (map_option im_resolution_status (reload_impact rt cd)) brk"

section \<open>Pipeline notifications\<close>

text \<open>\<open>prefs\<close> is the operator's preference for the category of an event, when there is a preference store.\<close>

definition enqueue_pipeline_notification ::
  "(string \<Rightarrow> bool) option \<Rightarrow> uuid \<Rightarrow> string \<Rightarrow> database \<Rightarrow> bool \<times> database" where
  "enqueue_pipeline_notification prefs entity_id event db =
     (case prefs of
        None \<Rightarrow> (False, db)
      | Some enabled \<Rightarrow>
          if \<not> enabled event then (False, db)
          else let (job_id, db') = enqueue (job_type_value job_type.SEND_NOTIFICATION)
                     (JObj [(''entity_id'', JStr entity_id), (''pipeline_event'', JStr event)])
                     40 None 1 (Some (''pipeline-notify:'' @ entity_id @ '':'' @ event)) db
               in (job_id \<noteq> None, db'))"

section \<open>Building a proposal\<close>

definition dedupe_key :: "authorization_settings \<Rightarrow> evaluator \<Rightarrow> uuid \<Rightarrow> string \<Rightarrow> string" where
  "dedupe_key az el thesis_id broker_ticker =
     sha256_hex (thesis_id @ '':'' @ broker_value (el_broker el) @ '':'' @ broker_ticker @ '':''
       @ execution_policy_value (az_execution_policy az) @ '':'' @ rc_version (el_config el))"

definition no_fx :: fx_columns where
  "no_fx = \<lparr>fc_required = False, fc_rate = None, fc_base_currency = None, fc_quote_currency = None,
     fc_direction = None, fc_provider = None, fc_rate_grade = None, fc_rate_type = None,
     fc_provider_timestamp = None, fc_received_at = None, fc_age_seconds = None\<rparr>"

text \<open>\<open>created\<close> is the server's clock, which fills the two time columns; the id is drawn when the row is flushed.\<close>

definition build_proposal ::
  "authorization_settings \<Rightarrow> evaluator \<Rightarrow> uuid \<Rightarrow> instant \<Rightarrow> candidate \<Rightarrow> uuid option \<Rightarrow> instrument_identity
     \<Rightarrow> risk_decision \<Rightarrow> quote_snapshot \<Rightarrow> account_state \<Rightarrow> fx_snapshot option \<Rightarrow> instant \<Rightarrow> trade_proposal res" where
  "build_proposal az el pid created cd iid identity d quote account fx now =
     (let sizing = rd_sizing d; rules = JList (map rr_as_dict (rd_rules d))
      in case (sz_side sizing, sz_reference_price sizing) of
           (Some side, Some price) \<Rightarrow>
             bindE (quantize_ceiling (sz_notional_account_currency sizing) (- 4)) (\<lambda>reservation.
             apply_fx fx (apply_quote quote
               \<lparr>tp_id = pid, tp_thesis_id = Some (th_id (cd_thesis cd)), tp_company_id = rn_company_id (cd_run cd),
                tp_broker_instrument_id = iid,
                tp_research_run_id = Some (rn_id (cd_run cd)), tp_broker = el_broker el,
                tp_broker_ticker = inst_broker_ticker identity, tp_account_id = acct_account_id account,
                tp_broker_environment = broker_environment_value (xs_env (az_exec az)), tp_side = side,
                tp_order_type = order_type.MARKET, tp_proposed_quantity = sz_quantity sizing,
                tp_reference_price = price, tp_reference_currency = q_currency quote,
                tp_estimated_notional = sz_target_notional sizing, tp_account_currency = acct_currency account,
                tp_estimated_notional_account_currency = Some reservation,
                tp_quote = \<lparr>qc_provider = None, qc_feed = None, qc_bid = None, qc_ask = None, qc_mid = None,
                  qc_spread = None, qc_spread_bps = None, qc_spread_status = None,
                  qc_timestamp = q_provider_timestamp quote, qc_age_ms = q_age_ms quote,
                  qc_price_source = q_price_source quote, qc_market_session = None, qc_session_source = None\<rparr>,
                tp_fx = no_fx,
                tp_risk = \<lparr>rk_outcome = Some (rd_outcome d), rk_policy_version = Some (rd_policy_version d),
                  rk_rules = rules, rk_snapshot = rd_as_dict d, rk_snapshot_hash = Some (rd_snapshot_hash d)\<rparr>,
                tp_research_confidence = Some (cd_confidence cd),
                tp_research_action = Some (thesis_action_value (cd_action cd)),
                tp_execution_policy = az_execution_policy az, tp_authorization_source = None,
                tp_authorization_policy_snapshot = JObj [],
                tp_dedupe_key = Some (dedupe_key az el (th_id (cd_thesis cd)) (inst_broker_ticker identity)),
                tp_invalidated_at = None, tp_invalidation_reason = None,
                tp_sizing_reasons = JList (map (\<lambda>r. JObj [(''reason'', JStr r)]) (sz_reasons sizing)),
                tp_max_quantity = Some (sz_max_quantity sizing), tp_max_notional = Some (sz_max_notional sizing),
                tp_status = proposal_status.READY,
                tp_status_reason = Some ''deterministic risk allowed this trade; awaiting authorization'',
                tp_expires_at = now + rc_proposal_ttl_minutes (el_config el) * 60000000,
                tp_approved_at = None, tp_approved_by = None, tp_approved_channel = None, tp_rejected_at = None,
                tp_rejected_by = None, tp_executed_at = None, tp_created_at = created, tp_updated_at = created,
                tp_version = 1\<rparr>))
         | _ \<Rightarrow> Inl AssertionError)"

section \<open>Generation\<close>

record generation_result =
  gr_thesis_id :: "uuid option"
  gr_created :: bool
  gr_proposal_id :: "uuid option"
  gr_evaluation_id :: "uuid option"
  gr_outcome :: risk_outcome
  gr_reason :: string
  gr_authorized :: bool
  gr_blocks :: "string list"

definition not_created :: "uuid option \<Rightarrow> string \<Rightarrow> generation_result" where
  "not_created thesis_id reason =
     \<lparr>gr_thesis_id = thesis_id, gr_created = False, gr_proposal_id = None, gr_evaluation_id = None,
      gr_outcome = risk_outcome.BLOCK, gr_reason = reason, gr_authorized = False, gr_blocks = []\<rparr>"

definition generation_row ::
  "uuid \<Rightarrow> instant \<Rightarrow> uuid \<Rightarrow> string option \<Rightarrow> risk_outcome \<Rightarrow> string \<Rightarrow> json \<Rightarrow> json \<Rightarrow> string option \<Rightarrow> string
     \<Rightarrow> string \<Rightarrow> risk_evaluation" where
  "generation_row eid created thesis_id ticker outcome version rules snapshot snapshot_hash actor detail =
     \<lparr>re_id = eid, re_stage = ''GENERATION'', re_thesis_id = Some thesis_id, re_proposal_id = None,
      re_broker_ticker = ticker, re_outcome = outcome, re_policy_version = Some version, re_rules = rules,
      re_snapshot = snapshot, re_snapshot_hash = snapshot_hash, re_actor = Some actor,
      re_detail = (if detail = [] then None else Some detail), re_deferred = False, re_created_at = created\<rparr>"

definition add_evaluation :: "risk_evaluation \<Rightarrow> database \<Rightarrow> database" where
  "add_evaluation row db = db\<lparr>db_evaluations := db_evaluations db @ [row]\<rparr>"

definition set_evaluation :: "uuid \<Rightarrow> (risk_evaluation \<Rightarrow> risk_evaluation) \<Rightarrow> database \<Rightarrow> database" where
  "set_evaluation eid f db = db\<lparr>db_evaluations := upd_rows re_id eid f (db_evaluations db)\<rparr>"

definition add_proposal :: "trade_proposal \<Rightarrow> database \<Rightarrow> database" where
  "add_proposal p db = db\<lparr>db_proposals := db_proposals db @ [p]\<rparr>"

text \<open>Why nothing was proposed: the blocks, else what the sizing said.\<close>

definition refusal_text :: "risk_decision \<Rightarrow> string" where
  "refusal_text d = or_text (join ''; '' (rd_blocks d)) (join ''; '' (sz_reasons (rd_sizing d)))"

text \<open>A refusal that only names the state of the market is retried while its thesis is young.\<close>

definition deferred_refusal :: "int \<Rightarrow> candidate \<Rightarrow> risk_decision \<Rightarrow> instant \<Rightarrow> bool" where
  "deferred_refusal max_hours cd d now =
     (rd_block_rule_ids d \<noteq> [] \<and> set (rd_block_rule_ids d) \<subseteq> TRANSIENT_RULE_IDS
      \<and> now - th_created_at (cd_thesis cd) \<le> max_hours * 3600000000)"

definition refused_generation ::
  "(string \<Rightarrow> bool) option \<Rightarrow> int \<Rightarrow> candidate \<Rightarrow> risk_decision \<Rightarrow> uuid \<Rightarrow> instant \<Rightarrow> database
     \<Rightarrow> database \<times> generation_result" where
  "refused_generation prefs max_hours cd d eid now db =
     (let run_id = rn_id (cd_run cd); reason = refusal_text d;
          result = (not_created (Some (th_id (cd_thesis cd))) reason)
            \<lparr>gr_evaluation_id := Some eid, gr_outcome := rd_outcome d, gr_blocks := rd_blocks d\<rparr>
      in if deferred_refusal max_hours cd d now
         then (snd (enqueue_pipeline_notification prefs run_id ''PROPOSAL_DEFERRED''
                 (set_evaluation eid (\<lambda>row. row\<lparr>re_deferred := True\<rparr>) db)),
               result\<lparr>gr_reason := ''deferred: '' @ reason\<rparr>)
         else if cd_action cd \<in> RISK_REDUCING_ACTIONS \<and> ''current_position'' \<in> set (rd_block_rule_ids d)
         then (db, result)
         else if cd_action cd \<in> {thesis_action.BUY, thesis_action.SELL, thesis_action.REDUCE}
         then (snd (enqueue_pipeline_notification prefs run_id ''PROPOSAL_BLOCKED'' db), result)
         else (db, result))"

text \<open>
  The flush that meets a taken key, a second live proposal or any other constraint rolls everything back, and the
  result says that somebody already did this. \<open>finish\<close> is what the transaction writes after a flush that passed.
\<close>

definition insert_generated ::
  "trade_proposal \<Rightarrow> risk_decision \<Rightarrow> uuid \<Rightarrow> uuid \<Rightarrow> string \<Rightarrow> (database \<Rightarrow> database) \<Rightarrow> string \<Rightarrow> database \<Rightarrow> database
     \<Rightarrow> database \<times> generation_result" where
  "insert_generated p d thesis_id eid taken finish reason start db =
     (let db1 = add_proposal p db
      in if database_ok db1
         then (finish (set_evaluation eid (\<lambda>row. row\<lparr>re_proposal_id := Some (tp_id p)\<rparr>) db1),
               \<lparr>gr_thesis_id = Some thesis_id, gr_created = True, gr_proposal_id = Some (tp_id p),
                gr_evaluation_id = Some eid, gr_outcome = rd_outcome d, gr_reason = reason,
                gr_authorized = False, gr_blocks = []\<rparr>)
         else (start, (not_created (Some thesis_id) taken)\<lparr>gr_outcome := rd_outcome d\<rparr>))"

definition generated_audit :: "uuid \<Rightarrow> trade_proposal \<Rightarrow> risk_decision \<Rightarrow> database \<Rightarrow> database" where
  "generated_audit thesis_id p d =
     add_audit actor_type.SYSTEM ''system:generator'' ''proposal.generated'' ''trade_proposal'' (Some (tp_id p))
       (JObj [(''thesis_id'', JStr thesis_id), (''broker_ticker'', JStr (tp_broker_ticker p)),
              (''side'', JStr (order_side_value (tp_side p))), (''quantity'', jdec (tp_proposed_quantity p)),
              (''notional'', jdec (tp_estimated_notional p)), (''currency'', JStr (tp_account_currency p)),
              (''risk_outcome'', JStr (risk_outcome_value (rd_outcome d))),
              (''risk_policy_version'', JStr (rd_policy_version d)),
              (''execution_policy'', JStr (execution_policy_value (tp_execution_policy p)))])"

definition generate_locked ::
  "authorization_settings \<Rightarrow> evaluator \<Rightarrow> research_tables \<Rightarrow> (string \<Rightarrow> bool) option \<Rightarrow> int \<Rightarrow> evaluation_facts
     \<Rightarrow> uuid \<Rightarrow> candidate \<Rightarrow> instant \<Rightarrow> database \<Rightarrow> (database \<times> generation_result) res" where
  "generate_locked az el rt prefs max_hours facts thesis_id cd now db =
     (let identity = reload_identity rt (el_broker el) db cd;
          cx = \<lparr>ex_action = cd_action cd, ex_confidence = cd_confidence cd, ex_identity = identity,
                ex_account_id = (case ef_account facts of None \<Rightarrow> ''default'' | Some a \<Rightarrow> acct_account_id a),
                ex_proposal = None, ex_event_type = rn_event_type (cd_run cd), ex_reduce_fraction = None\<rparr>
      in bindE (evaluate_proposal el db cx facts now) (\<lambda>rv.
         let d = rv_decision rv; (eid, db1) = uuid4 db;
             db2 = add_evaluation (generation_row eid (db_clock db) thesis_id (Some (inst_broker_ticker identity))
               (rd_outcome d) (rd_policy_version d) (JList (map rr_as_dict (rd_rules d))) (rd_as_dict d)
               (Some (rd_snapshot_hash d)) ''system:generator'' (refusal_text d)) db1
         in if \<not> rd_allowed d then Inr (refused_generation prefs max_hours cd d eid now db2)
            else (case (ef_quote facts, ef_account facts) of
                    (Some quote, Some account) \<Rightarrow>
                      let (pid, db3) = uuid4 db2
                      in bindE (build_proposal az el pid (db_clock db) cd (map_option bi_id (reload_instrument rt db cd))
                           identity d quote account (ef_fx facts) now) (\<lambda>p.
                         Inr (insert_generated p d thesis_id eid
                           ''a live proposal already exists for this thesis or listing''
                           (\<lambda>db4. let db5 = generated_audit thesis_id p d db4
                                  in if tp_execution_policy p = execution_policy.MANUAL
                                     then notify pid notification_event.PROPOSAL_MANUAL None db5 else db5)
                           ''proposal generated'' db db3))
                  | _ \<Rightarrow> Inl AssertionError)))"

section \<open>Automatic authorization\<close>

text \<open>\<open>str(exc)\<close> of the exceptions the caller catches; any other leaves it.\<close>

fun caught_refusal :: "py_error \<Rightarrow> string option" where
  "caught_refusal (RiskBlocked m ids) = Some m"
| "caught_refusal (ProposalExpired m) = Some m"
| "caught_refusal (ProposalInvalidated m) = Some m"
| "caught_refusal (ProposalAlreadyConsumed m) = Some m"
| "caught_refusal (AuthorizationNotPermitted m) = Some m"
| "caught_refusal _ = None"

text \<open>\<open>auth\<close> is \<open>authorize\<close> of the new proposal by the system.\<close>

definition try_automatic_authorization ::
  "authorization_settings \<Rightarrow> (uuid \<Rightarrow> database \<Rightarrow> database \<times> authorization_result res) \<Rightarrow> uuid \<Rightarrow> generation_result
     \<Rightarrow> database \<Rightarrow> database \<times> generation_result res" where
  "try_automatic_authorization az auth pid result db =
     (if az_execution_policy az = execution_policy.AUTOMATIC \<and> automatic_authorization_permitted az
      then (case auth pid db of
              (db1, Inr _) \<Rightarrow>
                run_tx (\<lambda>db. Inr (notify pid notification_event.PROPOSAL_AUTO_AUTHORIZED None db,
                  result\<lparr>gr_authorized := True\<rparr>)) db1
            | (db1, Inl e) \<Rightarrow>
                (case caught_refusal e of
                   None \<Rightarrow> (db1, Inl e)
                 | Some m \<Rightarrow> run_tx (\<lambda>db. Inr (notify pid notification_event.AUTHORIZATION_REFUSED (Some m) db, result)) db1))
      else (db, Inr result))"

section \<open>Proposals from theses\<close>

definition record_action_refusal ::
  "evaluator \<Rightarrow> uuid \<Rightarrow> candidate \<Rightarrow> rule_result \<Rightarrow> database \<Rightarrow> database \<times> generation_result res" where
  "record_action_refusal el thesis_id cd rule = run_tx (\<lambda>db.
     let (eid, db1) = uuid4 db; ticker = inst_broker_ticker (cd_identity cd)
     in Inr (add_evaluation (generation_row eid (db_clock db) thesis_id (if ticker = [] then None else Some ticker)
               risk_outcome.BLOCK (rc_version (el_config el)) (JList [rr_as_dict rule])
               (JObj [(''action'', JStr (thesis_action_value (cd_action cd))), (''reason'', JStr (rr_reason rule))])
               None ''system:generator'' (rr_reason rule)) db1,
             (not_created (Some thesis_id) (rr_reason rule))
               \<lparr>gr_evaluation_id := Some eid, gr_blocks := [rr_reason rule]\<rparr>))"

definition generate ::
  "authorization_settings \<Rightarrow> evaluator \<Rightarrow> (string \<Rightarrow> instant option) \<Rightarrow> (nat \<Rightarrow> research_tables)
     \<Rightarrow> (string \<Rightarrow> bool) option \<Rightarrow> int \<Rightarrow> (broker_instrument option \<Rightarrow> evaluation_facts)
     \<Rightarrow> (uuid \<Rightarrow> database \<Rightarrow> database \<times> authorization_result res) \<Rightarrow> (database \<Rightarrow> database) \<Rightarrow> uuid \<Rightarrow> instant
     \<Rightarrow> database \<Rightarrow> database \<times> generation_result res" where
  "generate az el fromiso rt prefs max_hours load_facts auth others thesis_id now db =
     (let blockers = control_blockers (control_snapshot_of fromiso db)
      in if blockers \<noteq> []
         then (db, Inr (not_created (Some thesis_id) (''proposal generation is halted: '' @ join ''; '' blockers)))
         else (case load_candidate (rt 0) (el_broker el) db thesis_id of
                 None \<Rightarrow> (db, Inr (not_created (Some thesis_id) ''thesis or research run not found''))
               | Some cd \<Rightarrow>
                   let rule = action_is_executable (cd_action cd)
                   in if rr_outcome rule = rule_outcome.BLOCK then record_action_refusal el thesis_id cd rule db
                      else (case run_tx (generate_locked az el (rt 1) prefs max_hours (load_facts (cd_instrument cd))
                                   thesis_id cd now) (others db) of
                              (db', Inl e) \<Rightarrow> (db', Inl e)
                            | (db', Inr result) \<Rightarrow>
                                (case gr_proposal_id result of
                                   None \<Rightarrow> (db', Inr result)
                                 | Some pid \<Rightarrow> try_automatic_authorization az auth pid result db'))))"

section \<open>Proposals from exit signals\<close>

definition origin_proposal :: "authorization_settings \<Rightarrow> evaluator \<Rightarrow> string \<Rightarrow> database \<Rightarrow> trade_proposal option" where
  "origin_proposal az el ticker db =
     latest_by (\<lambda>p. or_else (tp_executed_at p) 0)
       (filter (\<lambda>p. tp_broker p = el_broker el \<and> tp_broker_ticker p = ticker
          \<and> tp_broker_environment p = broker_environment_value (xs_env (az_exec az)) \<and> tp_side p = order_side.BUY
          \<and> tp_status p = proposal_status.EXECUTED \<and> tp_thesis_id p \<noteq> None \<and> tp_executed_at p \<noteq> None)
        (db_proposals db))"

text \<open>The row of an exit: no dedupe key, the signal's reason and rule, and the signal's action.\<close>

definition exit_row :: "exit_signal \<Rightarrow> risk_decision \<Rightarrow> trade_proposal \<Rightarrow> trade_proposal" where
  "exit_row sig d p =
     p\<lparr>tp_dedupe_key := None,
       tp_sizing_reasons := JList (map (\<lambda>r. JObj [(''reason'', JStr r)]) (xs_reason sig # sz_reasons (rd_sizing d))),
       tp_risk := (tp_risk p)\<lparr>rk_rules := JList (map rr_as_dict (rd_rules d @ [xs_rule sig]))\<rparr>,
       tp_research_action := Some (thesis_action_value (xs_action sig))\<rparr>"

definition exit_audit :: "exit_signal \<Rightarrow> uuid \<Rightarrow> trade_proposal \<Rightarrow> risk_decision \<Rightarrow> database \<Rightarrow> database" where
  "exit_audit sig thesis_id p d =
     add_audit actor_type.SYSTEM (''system:exit:'' @ xs_rule_id sig) ''proposal.exit_generated'' ''trade_proposal''
       (Some (tp_id p))
       (JObj [(''thesis_id'', JStr thesis_id), (''broker_ticker'', JStr (tp_broker_ticker p)),
              (''exit_rule'', JStr (xs_rule_id sig)), (''exit_reason'', JStr (xs_reason sig)),
              (''side'', JStr (order_side_value (tp_side p))), (''quantity'', jdec (tp_proposed_quantity p)),
              (''risk_outcome'', JStr (risk_outcome_value (rd_outcome d))),
              (''risk_policy_version'', JStr (rd_policy_version d)),
              (''execution_policy'', JStr (execution_policy_value (tp_execution_policy p)))])"

text \<open>\<open>exits\<close> is \<open>EXECUTION_AUTO_AUTHORIZE_EXITS\<close>.\<close>

definition auto_authorizes_exits :: "authorization_settings \<Rightarrow> bool \<Rightarrow> bool" where
  "auto_authorizes_exits az exits =
     (exits \<and> az_execution_policy az = execution_policy.AUTOMATIC \<and> automatic_authorization_permitted az)"

definition auto_exit :: "authorization_settings \<Rightarrow> bool \<Rightarrow> exit_signal \<Rightarrow> bool" where
  "auto_exit az exits sig =
     (auto_authorizes_exits az exits
      \<or> (xs_action sig = thesis_action.BUY \<and> az_execution_policy az = execution_policy.AUTOMATIC
         \<and> automatic_authorization_permitted az))"

definition generate_exit_locked ::
  "authorization_settings \<Rightarrow> evaluator \<Rightarrow> research_tables \<Rightarrow> bool \<Rightarrow> evaluation_facts \<Rightarrow> exit_signal \<Rightarrow> uuid
     \<Rightarrow> candidate \<Rightarrow> instant \<Rightarrow> database \<Rightarrow> (database \<times> generation_result) res" where
  "generate_exit_locked az el rt exits facts sig thesis_id cd now db =
     (let identity = reload_identity rt (el_broker el) db cd;
          cx = \<lparr>ex_action = cd_action cd, ex_confidence = cd_confidence cd, ex_identity = identity,
                ex_account_id = (case ef_account facts of None \<Rightarrow> ''default'' | Some a \<Rightarrow> acct_account_id a),
                ex_proposal = None, ex_event_type = None, ex_reduce_fraction = xs_fraction sig\<rparr>
      in bindE (evaluate_proposal el db cx facts now) (\<lambda>rv.
         let d = rv_decision rv; (eid, db1) = uuid4 db;
             db2 = add_evaluation (generation_row eid (db_clock db) thesis_id (Some (inst_broker_ticker identity))
               (rd_outcome d) (rd_policy_version d) (JList (map rr_as_dict (rd_rules d @ [xs_rule sig]))) (rd_as_dict d)
               (Some (rd_snapshot_hash d)) (''system:exit:'' @ xs_rule_id sig)
               (or_text (join ''; '' (rd_blocks d)) (xs_reason sig))) db1
         in if \<not> rd_allowed d
            then Inr (db2, (not_created (Some thesis_id) (refusal_text d))
                   \<lparr>gr_evaluation_id := Some eid, gr_outcome := rd_outcome d, gr_blocks := rd_blocks d\<rparr>)
            else (case (ef_quote facts, ef_account facts) of
                    (Some quote, Some account) \<Rightarrow>
                      let (pid, db3) = uuid4 db2
                      in bindE (build_proposal az el pid (db_clock db) cd (map_option bi_id (reload_instrument rt db cd))
                           identity d quote account (ef_fx facts) now) (\<lambda>p0.
                         let p = exit_row sig d p0
                         in Inr (insert_generated p d thesis_id eid ''a live proposal already exists for this listing''
                              (\<lambda>db4. let db5 = exit_audit sig thesis_id p d db4
                                     in if \<not> auto_exit az exits sig
                                        then notify pid notification_event.PROPOSAL_MANUAL None db5 else db5)
                              (xs_reason sig) db db3))
                  | _ \<Rightarrow> Inl AssertionError)))"

definition generate_exit ::
  "authorization_settings \<Rightarrow> evaluator \<Rightarrow> (string \<Rightarrow> instant option) \<Rightarrow> (nat \<Rightarrow> research_tables) \<Rightarrow> bool
     \<Rightarrow> (broker_instrument option \<Rightarrow> evaluation_facts) \<Rightarrow> (uuid \<Rightarrow> database \<Rightarrow> database \<times> authorization_result res)
     \<Rightarrow> (database \<Rightarrow> database) \<Rightarrow> string \<Rightarrow> exit_signal \<Rightarrow> uuid option \<Rightarrow> instant
     \<Rightarrow> database \<Rightarrow> database \<times> generation_result res" where
  "generate_exit az el fromiso rt exits load_facts auth others ticker sig thesis now db =
     (let blockers = control_blockers (control_snapshot_of fromiso db)
      in if blockers \<noteq> []
         then (db, Inr (not_created None (''proposal generation is halted: '' @ join ''; '' blockers)))
         else (case Option.bind (origin_proposal az el ticker db) tp_thesis_id of
                 None \<Rightarrow> (db, Inr (not_created None (ticker @ '' has no executed StockBrain buy to exit against, ''
                   @ ''so there is no thesis this exit could supersede'')))
               | Some origin \<Rightarrow>
                   let thesis_id = or_else thesis origin
                   in (case load_candidate (rt 0) (el_broker el) db thesis_id of
                         None \<Rightarrow> (db, Inr (not_created (Some thesis_id)
                           ''the opening thesis or its research run is no longer present''))
                       | Some cd0 \<Rightarrow>
                           let cd = cd0\<lparr>cd_action := xs_action sig\<rparr>
                           in (case run_tx (generate_exit_locked az el (rt 1) exits (load_facts (cd_instrument cd)) sig
                                      thesis_id cd now) (others db) of
                                 (db', Inl e) \<Rightarrow> (db', Inl e)
                               | (db', Inr result) \<Rightarrow>
                                   (case gr_proposal_id result of
                                      Some pid \<Rightarrow>
                                        if auto_exit az exits sig
                                        then try_automatic_authorization az auth pid result db' else (db', Inr result)
                                    | None \<Rightarrow> (db', Inr result))))))"

section \<open>What generation promises\<close>

lemma evaluation_frames [frame_simps]:
  "db_proposals (add_evaluation row db) = db_proposals db" "db_proposals (set_evaluation eid f db) = db_proposals db"
  "db_attempts (add_evaluation row db) = db_attempts db" "db_attempts (set_evaluation eid f db) = db_attempts db"
  "db_orders (add_evaluation row db) = db_orders db" "db_orders (set_evaluation eid f db) = db_orders db"
  by (simp_all add: add_evaluation_def set_evaluation_def)

lemma pipeline_frames [frame_simps]:
  "db_proposals (snd (enqueue_pipeline_notification prefs e ev db)) = db_proposals db"
  "db_attempts (snd (enqueue_pipeline_notification prefs e ev db)) = db_attempts db"
  "db_orders (snd (enqueue_pipeline_notification prefs e ev db)) = db_orders db"
  by (simp_all add: enqueue_pipeline_notification_def frame_simps case_prod_beta Let_def split: option.split)

lemma refused_generation_keeps:
  assumes "refused_generation prefs h cd d eid now db = (db', r)"
  shows "db_proposals db' = db_proposals db" "\<not> gr_created r" "gr_proposal_id r = None"
  using assms by (auto simp: refused_generation_def Let_def not_created_def frame_simps split: if_splits)

lemma insert_generated_cases:
  assumes "insert_generated p d t eid taken finish reason start db = (db', r)"
  obtains "database_ok (add_proposal p db)" "gr_created r" "gr_proposal_id r = Some (tp_id p)"
      "db' = finish (set_evaluation eid (\<lambda>row. row\<lparr>re_proposal_id := Some (tp_id p)\<rparr>) (add_proposal p db))"
  | "\<not> database_ok (add_proposal p db)" "\<not> gr_created r" "gr_proposal_id r = None" "db' = start"
  using assms by (auto simp: insert_generated_def not_created_def Let_def split: if_splits)

definition thesis_context ::
  "evaluator \<Rightarrow> research_tables \<Rightarrow> evaluation_facts \<Rightarrow> candidate \<Rightarrow> database \<Rightarrow> evaluation_context" where
  "thesis_context el rt facts cd db =
     \<lparr>ex_action = cd_action cd, ex_confidence = cd_confidence cd,
      ex_identity = reload_identity rt (el_broker el) db cd,
      ex_account_id = (case ef_account facts of None \<Rightarrow> ''default'' | Some a \<Rightarrow> acct_account_id a),
      ex_proposal = None, ex_event_type = rn_event_type (cd_run cd), ex_reduce_fraction = None\<rparr>"

lemma uuid_frames: "db_proposals (snd (uuid4 db)) = db_proposals db" "db_attempts (snd (uuid4 db)) = db_attempts db"
  "db_orders (snd (uuid4 db)) = db_orders db"
  by (simp_all add: uuid4_def)

lemma generate_locked_cases:
  assumes "generate_locked az el rt prefs h facts thesis_id cd now db = Inr (db', r)"
  obtains "\<not> gr_created r" "gr_proposal_id r = None" "db_proposals db' = db_proposals db"
  | rv pid quote account p where "evaluate_proposal el db (thesis_context el rt facts cd db) facts now = Inr rv"
      "rd_allowed (rv_decision rv)" "ef_quote facts = Some quote" "ef_account facts = Some account"
      "build_proposal az el pid (db_clock db) cd (map_option bi_id (reload_instrument rt db cd))
         (reload_identity rt (el_broker el) db cd) (rv_decision rv) quote account (ef_fx facts) now = Inr p"
      "proposals_table_ok (db_proposals db @ [p])" "gr_created r" "gr_proposal_id r = Some (tp_id p)"
      "db_proposals db' = db_proposals db @ [p]" "db_attempts db' = db_attempts db" "db_orders db' = db_orders db"
proof -
  obtain rv where rv: "evaluate_proposal el db (thesis_context el rt facts cd db) facts now = Inr rv"
    using assms by (auto simp: generate_locked_def thesis_context_def bindE_eq_Inr Let_def)
  let ?d = "rv_decision rv"
  show thesis
  proof (cases "rd_allowed ?d")
    case False
    then show thesis
      using assms rv refused_generation_keeps
      by (intro that(1)) (fastforce simp: generate_locked_def thesis_context_def Let_def case_prod_beta frame_simps uuid_frames)+
  next
    case True
    obtain quote account where q: "ef_quote facts = Some quote" "ef_account facts = Some account"
      using assms rv True
      by (auto simp: generate_locked_def thesis_context_def Let_def case_prod_beta split: option.splits)
    obtain pid eid p db3 finish reason taken where p: "build_proposal az el pid (db_clock db) cd
          (map_option bi_id (reload_instrument rt db cd)) (reload_identity rt (el_broker el) db cd) ?d quote account
          (ef_fx facts) now = Inr p"
        and i: "insert_generated p ?d thesis_id eid taken finish reason db db3 = (db', r)"
        and f: "db_proposals db3 = db_proposals db" "db_attempts db3 = db_attempts db" "db_orders db3 = db_orders db"
          "\<And>x. db_proposals (finish x) = db_proposals x" "\<And>x. db_attempts (finish x) = db_attempts x"
          "\<And>x. db_orders (finish x) = db_orders x"
      using assms rv True q
      by (auto simp: generate_locked_def thesis_context_def Let_def case_prod_beta bindE_eq_Inr frame_simps uuid_frames
          generated_audit_def)
    show thesis using i
    proof (cases rule: insert_generated_cases)
      case 1
      then show thesis
        by (intro that(2)[OF rv True q p]) (simp_all add: f frame_simps add_proposal_def database_ok_def)
    next
      case 2
      then show thesis by (intro that(1)) simp_all
    qed
  qed
qed

lemma build_proposal_fields:
  assumes "build_proposal az el pid created cd iid identity d quote account fx now = Inr p"
  shows "tp_id p = pid" "tp_status p = proposal_status.READY" "sz_side (rd_sizing d) = Some (tp_side p)"
    "tp_proposed_quantity p = sz_quantity (rd_sizing d)" "sz_reference_price (rd_sizing d) = Some (tp_reference_price p)"
    "tp_broker_ticker p = inst_broker_ticker identity" "tp_broker p = el_broker el" "tp_account_id p = acct_account_id account"
    "tp_thesis_id p = Some (th_id (cd_thesis cd))" "tp_authorization_source p = None"
    "tp_execution_policy p = az_execution_policy az"
    "tp_dedupe_key p = Some (dedupe_key az el (th_id (cd_thesis cd)) (inst_broker_ticker identity))"
    "tp_expires_at p = now + rc_proposal_ttl_minutes (el_config el) * 60000000"
  using assms
  by (auto simp: build_proposal_def Let_def bindE_eq_Inr apply_quote_def split: option.splits dest!: apply_fx_Inr)

lemma generate_commits:
  assumes "generate az el fromiso rt prefs h load_facts auth others thesis_id now db = (db', Inr r)"
    and cd: "load_candidate (rt 0) (el_broker el) db thesis_id = Some cd"
  obtains "\<not> gr_created r" "db_proposals db' = db_proposals db"
  | db1 r1 where "\<not> trading_halted (control_snapshot_of fromiso db)"
      "rr_outcome (action_is_executable (cd_action cd)) \<noteq> rule_outcome.BLOCK"
      "generate_locked az el (rt 1) prefs h (load_facts (cd_instrument cd)) thesis_id cd now (others db) = Inr (db1, r1)"
      "database_ok db1"
      "(case gr_proposal_id r1 of None \<Rightarrow> (db1, Inr r1) | Some pid \<Rightarrow> try_automatic_authorization az auth pid r1 db1) = (db', Inr r)"
proof (cases "trading_halted (control_snapshot_of fromiso db)")
  case True
  then show thesis using assms(1)
    by (intro that(1)) (auto simp: generate_def halted_iff_blockers not_created_def)
next
  case running: False
  show thesis
  proof (cases "rr_outcome (action_is_executable (cd_action cd)) = rule_outcome.BLOCK")
    case True
    then have "record_action_refusal el thesis_id cd (action_is_executable (cd_action cd)) db = (db', Inr r)"
      using assms running by (simp add: generate_def halted_iff_blockers)
    then show thesis
      by (intro that(1)) (auto simp: record_action_refusal_def run_tx_def transaction_def not_created_def Let_def
          case_prod_beta frame_simps uuid_frames split: sum.splits if_splits)
  next
    case False
    then have "(case run_tx (generate_locked az el (rt 1) prefs h (load_facts (cd_instrument cd)) thesis_id cd now) (others db) of
          (db', Inl e) \<Rightarrow> (db', Inl e)
        | (db', Inr result) \<Rightarrow>
            (case gr_proposal_id result of
               None \<Rightarrow> (db', Inr result)
             | Some pid \<Rightarrow> try_automatic_authorization az auth pid result db')) = (db', Inr r)"
      using assms running by (simp add: generate_def halted_iff_blockers)
    then obtain db1 r1 where "run_tx (generate_locked az el (rt 1) prefs h (load_facts (cd_instrument cd)) thesis_id cd now)
          (others db) = (db1, Inr r1)"
        "(case gr_proposal_id r1 of None \<Rightarrow> (db1, Inr r1) | Some pid \<Rightarrow> try_automatic_authorization az auth pid r1 db1) = (db', Inr r)"
      by (auto split: sum.splits prod.splits)
    then show thesis using running False
      by (intro that(2)[of db1 r1]) (auto simp: run_tx_def transaction_Inr split: sum.splits prod.splits)
  qed
qed

lemma automatic_created: "try_automatic_authorization az auth pid r db = (db', Inr r') \<Longrightarrow> gr_created r' = gr_created r"
  by (auto simp: try_automatic_authorization_def run_tx_def transaction_def split: if_splits prod.splits sum.splits option.splits)

text \<open>
  C8: every proposal rests on an allowing evaluation. When \<open>generate\<close> reports a creation, nothing was paused, the
  thesis calls for a trade, the engine allowed exactly this trade on facts read for it, and the committed row waits
  \<open>READY\<close>, unauthorized, with the engine's side, quantity and price on the listing the resolver selected. Every
  row that was there is unchanged, no attempt or order appeared, the constraints hold, and only
  then the automatic authorization may act on it.
\<close>

theorem generated_proposal_is_allowed:
  assumes "generate az el fromiso rt prefs h load_facts auth others thesis_id now db = (db', Inr r)" "gr_created r"
  shows "\<not> trading_halted (control_snapshot_of fromiso db)
    \<and> (\<exists>cd rv p db1 r1. load_candidate (rt 0) (el_broker el) db thesis_id = Some cd
        \<and> rr_outcome (action_is_executable (cd_action cd)) \<noteq> rule_outcome.BLOCK
        \<and> evaluate_proposal el (others db) (thesis_context el (rt 1) (load_facts (cd_instrument cd)) cd (others db))
            (load_facts (cd_instrument cd)) now = Inr rv
        \<and> rd_allowed (rv_decision rv)
        \<and> db_proposals db1 = db_proposals (others db) @ [p] \<and> database_ok db1
        \<and> db_attempts db1 = db_attempts (others db) \<and> db_orders db1 = db_orders (others db)
        \<and> tp_status p = proposal_status.READY \<and> tp_authorization_source p = None
        \<and> sz_side (rd_sizing (rv_decision rv)) = Some (tp_side p)
        \<and> tp_proposed_quantity p = sz_quantity (rd_sizing (rv_decision rv))
        \<and> sz_reference_price (rd_sizing (rv_decision rv)) = Some (tp_reference_price p)
        \<and> tp_broker_ticker p = inst_broker_ticker (reload_identity (rt 1) (el_broker el) (others db) cd)
        \<and> tp_thesis_id p = Some (th_id (cd_thesis cd))
        \<and> try_automatic_authorization az auth (tp_id p) r1 db1 = (db', Inr r))"
proof -
  have "load_candidate (rt 0) (el_broker el) db thesis_id \<noteq> None"
    using assms by (cases "load_candidate (rt 0) (el_broker el) db thesis_id")
      (auto simp: generate_def not_created_def Let_def split: if_splits)
  then obtain cd where cd: "load_candidate (rt 0) (el_broker el) db thesis_id = Some cd" by blast
  show ?thesis using assms(1) cd
  proof (cases rule: generate_commits)
    case 1
    then show ?thesis using assms(2) by simp
  next
    case (2 db1 r1)
    have "gr_created r1 = gr_created r"
      using 2(5) automatic_created by (auto split: option.splits)
    then have "gr_created r1" using assms(2) by simp
    with 2(3) show ?thesis
    proof (cases rule: generate_locked_cases)
      case 1
      then show ?thesis using \<open>gr_created r1\<close> by simp
    next
      case c: (2 rv pid quote account p)
      show ?thesis using cd 2 c build_proposal_fields[OF c(5)]
        by (intro conjI exI[of _ cd] exI[of _ rv] exI[of _ p] exI[of _ db1] exI[of _ r1]) simp_all
    qed
  qed
qed

text \<open>
  C9: a redelivered job proposes nothing twice. If a row already carries the key of this thesis, listing, policy and
  risk configuration, whatever its status, then \<open>generate\<close> creates nothing and leaves all proposals as they are.
\<close>

theorem redelivery_creates_nothing:
  assumes "generate az el fromiso rt prefs h load_facts auth others thesis_id now db = (db', Inr r)"
    and "load_candidate (rt 0) (el_broker el) db thesis_id = Some cd"
    and "q \<in> set (db_proposals (others db))"
    and "tp_dedupe_key q = Some (dedupe_key az el (th_id (cd_thesis cd))
           (inst_broker_ticker (reload_identity (rt 1) (el_broker el) (others db) cd)))"
  shows "\<not> gr_created r \<and> (db_proposals db' = db_proposals db \<or> db_proposals db' = db_proposals (others db))"
  using assms(1,2)
proof (cases rule: generate_commits)
  case 1
  then show ?thesis by simp
next
  case (2 db1 r1)
  from 2(3) show ?thesis
  proof (cases rule: generate_locked_cases)
    case 1
    then show ?thesis using 2(5) by auto
  next
    case c: (2 rv pid quote account p)
    have "tp_dedupe_key p = tp_dedupe_key q" using build_proposal_fields(12)[OF c(5)] assms(4) by simp
    moreover have "distinct (map tp_dedupe_key (filter (\<lambda>p. tp_dedupe_key p \<noteq> None) (db_proposals (others db) @ [p])))"
      using c(6) by (simp add: proposals_table_ok_def)
    ultimately have False using assms(3,4) by (auto simp: image_iff)
    then show ?thesis ..
  qed
qed

section \<open>Examples\<close>

definition acme_thesis :: thesis_row where
  "acme_thesis = \<lparr>th_id = ''t1'', th_original_thesis_id = None, th_action = thesis_action.BUY,
     th_confidence = Dec 85 (- 2), th_created_at = 0\<rparr>"

definition acme_run :: research_run_row where
  "acme_run = \<lparr>rn_id = ''r1'', rn_event_id = None, rn_event_type = None, rn_company_id = Some ''7'',
     rn_impact_id = None, rn_broker_instrument_id = Some ''1''\<rparr>"

definition acme_research :: research_tables where
  "acme_research = \<lparr>rt_thesis = (\<lambda>_. Some acme_thesis), rt_run_of = (\<lambda>_. Some acme_run), rt_impact = (\<lambda>_. None)\<rparr>"

definition listed_database :: "trade_proposal list \<Rightarrow> database" where
  "listed_database ps = empty_database\<lparr>db_instruments := [acme_instrument], db_proposals := ps\<rparr>"

definition acme_candidate :: candidate where
  "acme_candidate = \<lparr>cd_thesis = acme_thesis, cd_run = acme_run, cd_impact_id = None, cd_instrument = Some acme_instrument,
     cd_identity = acme_identity, cd_action = thesis_action.BUY, cd_confidence = Dec 85 (- 2)\<rparr>"

lemma acme_loaded: "load_candidate acme_research broker.TRADING212 (listed_database ps) ''t1'' = Some acme_candidate"
  by (simp add: load_candidate_def acme_research_def acme_run_def listing_of_def listed_database_def find_instrument_def
      acme_candidate_def acme_thesis_def acme_instrument_def identity_of_def acme_identity_def Let_def)

lemma acme_reloaded: "reload_identity acme_research broker.TRADING212 (listed_database ps) acme_candidate = acme_identity"
  by (simp add: reload_identity_def reload_instrument_def reload_impact_def acme_candidate_def listing_of_def
      listed_database_def find_instrument_def acme_instrument_def identity_of_def acme_identity_def)

lemma acme_thesis_evaluated:
  assumes "\<forall>p \<in> set ps. tp_status p \<notin> set EXPOSURE_RESERVING_STATUSES"
  obtains rv where "evaluate_proposal acme_evaluator (listed_database ps)
      (thesis_context acme_evaluator acme_research acme_evaluation_facts acme_candidate (listed_database ps)) acme_evaluation_facts 2000000 = Inr rv"
    "rd_allowed (rv_decision rv)" "sz_side (rd_sizing (rv_decision rv)) = Some order_side.BUY"
    "sz_reference_price (rd_sizing (rv_decision rv)) = Some (Dec 10005 (- 2))" "sz_quantity (rd_sizing (rv_decision rv)) = Dec 3 0"
    "sz_notional_account_currency (rd_sizing (rv_decision rv)) = Dec 30015 (- 2)"
proof -
  obtain d where d: "evaluate (acme_inputs thesis_action.BUY) 2000000 = Inr d" "rd_allowed d"
      "sz_side (rd_sizing d) = Some order_side.BUY" "sz_reference_price (rd_sizing d) = q_ask acme_quote"
      "sz_quantity (rd_sizing d) = Dec 3 0" "sz_notional_account_currency (rd_sizing d) = Dec 30015 (- 2)"
    by (rule acme_sized_priced) blast
  let ?cx = "thesis_context acme_evaluator acme_research acme_evaluation_facts acme_candidate (listed_database ps)"
  have b: "el_broker acme_evaluator = broker.TRADING212" by (simp add: acme_evaluator_def)
  have cx: "ex_action ?cx = thesis_action.BUY" "ex_confidence ?cx = Dec 85 (- 2)" "ex_identity ?cx = acme_identity"
      "ex_account_id ?cx = ''A1''" "ex_proposal ?cx = None" "ex_event_type ?cx = None" "ex_reduce_fraction ?cx = None"
    by (simp_all add: thesis_context_def b acme_reloaded) (simp_all add: acme_candidate_def acme_run_def
        acme_evaluation_facts_def acme_account_def)
  have none: "reserving_rows broker.TRADING212 ''A1'' None (listed_database ps) = []"
    using assms by (simp add: reserving_rows_def listed_database_def empty_database_def filter_empty_conv)
  have i: "el_inputs acme_evaluator (listed_database ps) ?cx acme_evaluation_facts (Some acme_account) 2000000
      = acme_inputs thesis_action.BUY"
    unfolding el_inputs_def cx
    by (simp add: acme_evaluator_def acme_evaluation_facts_def acme_inputs_def el_reserved_exposure_def none
        amounts_of_def dsum_def no_reservations_def ZERO_def dec_of_int_def default_risk_config_def Let_def)
  have w: "with_valuation ?cx acme_evaluation_facts = Inr (Some acme_account)"
    unfolding with_valuation_def cx
    by (simp add: acme_evaluation_facts_def acme_account_def acme_position_def acct_position_def acme_identity_def)
  obtain rv where "evaluate_proposal acme_evaluator (listed_database ps) ?cx acme_evaluation_facts 2000000 = Inr rv" "rv_decision rv = d"
    unfolding evaluate_proposal_def w bindE_Inr i d(1) cx option.case by simp
  then show thesis using that d by (simp add: acme_quote_def)
qed

lemma acme_built:
  assumes "sz_side (rd_sizing d) = Some order_side.BUY" "sz_reference_price (rd_sizing d) = Some (Dec 10005 (- 2))"
    "sz_quantity (rd_sizing d) = Dec 3 0" "sz_notional_account_currency (rd_sizing d) = Dec 30015 (- 2)"
  obtains p where "build_proposal manual_settings acme_evaluator pid created acme_candidate iid acme_identity d acme_quote
      acme_account (ef_fx acme_evaluation_facts) 2000000 = Inr p"
    "proposal_row_ok p" "tp_id p = pid" "tp_execution_policy p = execution_policy.MANUAL"
proof -
  have "okE (quantize_ceiling (Dec 30015 (- 2)) (- 4))" by code_simp
  then obtain q where q: "quantize_ceiling (Dec 30015 (- 2)) (- 4) = Inr q" by (auto simp: okE_conv)
  have fx: "ef_fx acme_evaluation_facts = Some (same_currency_snapshot ''USD'')" "fs_same_currency (same_currency_snapshot ''USD'')"
    by (simp_all add: acme_evaluation_facts_def same_currency_snapshot_def Let_def)
  have "\<exists>p. build_proposal manual_settings acme_evaluator pid created acme_candidate iid acme_identity d acme_quote
      acme_account (ef_fx acme_evaluation_facts) 2000000 = Inr p \<and> qc_age_ms (tp_quote p) = 1000 \<and> tp_invalidated_at p = None"
    using assms by (simp add: build_proposal_def Let_def q fx apply_fx_def apply_quote_def) (simp add: acme_quote_def)
  then obtain p where p: "build_proposal manual_settings acme_evaluator pid created acme_candidate iid acme_identity d acme_quote
      acme_account (ef_fx acme_evaluation_facts) 2000000 = Inr p" "qc_age_ms (tp_quote p) = 1000" "tp_invalidated_at p = None"
    by blast
  note f = build_proposal_fields[OF p(1)]
  have "proposal_row_ok p"
    using assms f(2-5,10) p(2,3) by (simp add: proposal_row_ok_def dec_simps dval_Dec)
  then show thesis using that[OF p(1)] f(1,11) by (simp add: manual_settings_def)
qed

definition acme_generate :: "database \<Rightarrow> database \<times> generation_result res" where
  "acme_generate db = generate manual_settings acme_evaluator (\<lambda>_. None) (\<lambda>_. acme_research) None 24 (\<lambda>_. acme_evaluation_facts)
     (\<lambda>_ db. (db, Inl AssertionError)) (\<lambda>d. d) ''t1'' 2000000 db"

lemma acme_running: "\<not> trading_halted (control_snapshot_of (\<lambda>_. None) (listed_database ps))"
proof -
  have "control_snapshot_of (\<lambda>_. None) (listed_database ps) = control_snapshot_of (\<lambda>_. None) empty_database"
    by (simp add: listed_database_def control_snapshot_of_def setting_def)
  moreover have "\<not> trading_halted (control_snapshot_of (\<lambda>_. None) empty_database)" by code_simp
  ultimately show ?thesis by simp
qed

lemma acme_generates: "\<exists>db' r p. acme_generate (listed_database []) = (db', Inr r) \<and> gr_created r
    \<and> db_proposals db' = [p] \<and> tp_dedupe_key p = Some (dedupe_key manual_settings acme_evaluator ''t1'' ''ACME_US_EQ'')"
proof -
  let ?db = "listed_database []"
  obtain rv where rv: "evaluate_proposal acme_evaluator ?db
      (thesis_context acme_evaluator acme_research acme_evaluation_facts acme_candidate ?db) acme_evaluation_facts 2000000 = Inr rv"
    "rd_allowed (rv_decision rv)" "sz_side (rd_sizing (rv_decision rv)) = Some order_side.BUY"
    "sz_reference_price (rd_sizing (rv_decision rv)) = Some (Dec 10005 (- 2))" "sz_quantity (rd_sizing (rv_decision rv)) = Dec 3 0"
    "sz_notional_account_currency (rd_sizing (rv_decision rv)) = Dec 30015 (- 2)"
    by (rule acme_thesis_evaluated[of "[]"]) auto
  let ?d = "rv_decision rv"
  let ?row = "generation_row (fst (uuid4 ?db)) (db_clock ?db) ''t1'' (Some (inst_broker_ticker acme_identity))
               (rd_outcome ?d) (rd_policy_version ?d) (JList (map rr_as_dict (rd_rules ?d))) (rd_as_dict ?d)
               (Some (rd_snapshot_hash ?d)) ''system:generator'' (refusal_text ?d)"
  let ?db2 = "add_evaluation ?row (snd (uuid4 ?db))"
  obtain p where p: "build_proposal manual_settings acme_evaluator (fst (uuid4 ?db2)) (db_clock ?db) acme_candidate
      (map_option bi_id (reload_instrument acme_research ?db acme_candidate)) acme_identity ?d acme_quote
      acme_account (ef_fx acme_evaluation_facts) 2000000 = Inr p"
    "proposal_row_ok p" "tp_id p = fst (uuid4 ?db2)" "tp_execution_policy p = execution_policy.MANUAL"
    by (rule acme_built[OF rv(3-6)])
  let ?db3 = "snd (uuid4 ?db2)"
  have ok: "database_ok (add_proposal p ?db3)"
    using p(2) by (simp add: database_ok_def add_proposal_def uuid4_def add_evaluation_def listed_database_def empty_database_def
        proposals_table_ok_def attempts_table_ok_def sent_once_def jobs_table_ok_def orders_table_ok_def actions_table_ok_def)
  have set_ok: "database_ok (set_evaluation eid f db) = database_ok db" for eid f db
    by (simp add: database_ok_def set_evaluation_def)
  let ?db5 = "notify (tp_id p) notification_event.PROPOSAL_MANUAL None (generated_audit ''t1'' p ?d
      (set_evaluation (fst (uuid4 ?db)) (\<lambda>row. row\<lparr>re_proposal_id := Some (tp_id p)\<rparr>) (add_proposal p ?db3)))"
  have ok5: "database_ok ?db5"
    unfolding generated_audit_def by (intro notify_ok add_audit_ok) (simp add: set_ok ok)
  have facts: "ef_quote acme_evaluation_facts = Some acme_quote" "ef_account acme_evaluation_facts = Some acme_account"
    by (simp_all add: acme_evaluation_facts_def)
  have b: "el_broker acme_evaluator = broker.TRADING212" by (simp add: acme_evaluator_def)
  obtain r where r: "generate_locked manual_settings acme_evaluator acme_research None 24 acme_evaluation_facts ''t1'' acme_candidate
      2000000 ?db = Inr (?db5, r)" "gr_created r" "gr_proposal_id r = Some (tp_id p)"
    using rv(1,2) p ok
    by (simp add: generate_locked_def thesis_context_def b acme_reloaded Let_def case_prod_beta facts insert_generated_def)
  have x: "rr_outcome (action_is_executable (cd_action acme_candidate)) \<noteq> rule_outcome.BLOCK"
    by (simp add: acme_candidate_def) code_simp
  have "acme_generate ?db = (?db5, Inr r)"
    using acme_running acme_loaded x r ok5
    by (simp add: acme_generate_def generate_def halted_iff_blockers b run_tx_def transaction_def
        try_automatic_authorization_def manual_settings_def[symmetric]) (simp add: manual_settings_def)
  moreover have "db_proposals ?db5 = [p]"
    by (simp add: frame_simps generated_audit_def add_proposal_def uuid_frames listed_database_def empty_database_def)
  moreover have "tp_dedupe_key p = Some (dedupe_key manual_settings acme_evaluator ''t1'' ''ACME_US_EQ'')"
    using build_proposal_fields(12)[OF p(1)] by (simp add: acme_candidate_def acme_thesis_def acme_identity_def)
  ultimately show ?thesis using r(2) by blast
qed

lemma generated_proposal_is_allowed_witness:
  "\<exists>db' r. acme_generate (listed_database []) = (db', Inr r) \<and> gr_created r \<and> \<not> trading_halted (control_snapshot_of (\<lambda>_. None) (listed_database []))"
proof -
  obtain db' r where r: "acme_generate (listed_database []) = (db', Inr r)" "gr_created r" using acme_generates by blast
  then show ?thesis using generated_proposal_is_allowed[OF r(1)[unfolded acme_generate_def] r(2)] by blast
qed

text \<open>A withdrawn proposal of the same thesis and listing.\<close>

definition withdrawn :: trade_proposal where
  "withdrawn = (pending_row ''p0'')\<lparr>tp_status := proposal_status.CANCELLED,
     tp_dedupe_key := Some (dedupe_key manual_settings acme_evaluator ''t1'' ''ACME_US_EQ'')\<rparr>"

lemma redelivery_creates_nothing_witness:
  "\<exists>db' r. acme_generate (listed_database [withdrawn]) = (db', Inr r) \<and> \<not> gr_created r"
proof -
  let ?db = "listed_database [withdrawn]"
  have free: "\<forall>p \<in> set [withdrawn]. tp_status p \<notin> set EXPOSURE_RESERVING_STATUSES"
    by (simp add: withdrawn_def EXPOSURE_RESERVING_STATUSES_def ACTIVE_STATUSES_def)
  obtain rv where rv: "evaluate_proposal acme_evaluator ?db
      (thesis_context acme_evaluator acme_research acme_evaluation_facts acme_candidate ?db) acme_evaluation_facts 2000000 = Inr rv"
    "rd_allowed (rv_decision rv)" "sz_side (rd_sizing (rv_decision rv)) = Some order_side.BUY"
    "sz_reference_price (rd_sizing (rv_decision rv)) = Some (Dec 10005 (- 2))" "sz_quantity (rd_sizing (rv_decision rv)) = Dec 3 0"
    "sz_notional_account_currency (rd_sizing (rv_decision rv)) = Dec 30015 (- 2)"
    by (rule acme_thesis_evaluated[OF free])
  let ?d = "rv_decision rv"
  let ?row = "generation_row (fst (uuid4 ?db)) (db_clock ?db) ''t1'' (Some (inst_broker_ticker acme_identity))
               (rd_outcome ?d) (rd_policy_version ?d) (JList (map rr_as_dict (rd_rules ?d))) (rd_as_dict ?d)
               (Some (rd_snapshot_hash ?d)) ''system:generator'' (refusal_text ?d)"
  let ?db2 = "add_evaluation ?row (snd (uuid4 ?db))"
  obtain p where p: "build_proposal manual_settings acme_evaluator (fst (uuid4 ?db2)) (db_clock ?db) acme_candidate
      (map_option bi_id (reload_instrument acme_research ?db acme_candidate)) acme_identity ?d acme_quote
      acme_account (ef_fx acme_evaluation_facts) 2000000 = Inr p"
    by (rule acme_built[OF rv(3-6)]) blast
  have key: "tp_dedupe_key p = Some (dedupe_key manual_settings acme_evaluator ''t1'' ''ACME_US_EQ'')"
    using build_proposal_fields(12)[OF p] by (simp add: acme_candidate_def acme_thesis_def acme_identity_def)
  let ?db3 = "snd (uuid4 ?db2)"
  have taken: "\<not> database_ok (add_proposal p ?db3)"
    using key by (simp add: database_ok_def proposals_table_ok_def add_proposal_def uuid_frames frame_simps listed_database_def
        withdrawn_def)
  have ok: "database_ok ?db"
    by (simp add: listed_database_def empty_database_def withdrawn_def pending_row_def acme_proposal_def proposal_row_ok_def
        database_ok_def proposals_table_ok_def attempts_table_ok_def sent_once_def jobs_table_ok_def orders_table_ok_def
        actions_table_ok_def dec_simps dval_Dec)
  have facts: "ef_quote acme_evaluation_facts = Some acme_quote" "ef_account acme_evaluation_facts = Some acme_account"
    by (simp_all add: acme_evaluation_facts_def)
  have b: "el_broker acme_evaluator = broker.TRADING212" by (simp add: acme_evaluator_def)
  obtain r where r: "generate_locked manual_settings acme_evaluator acme_research None 24 acme_evaluation_facts ''t1'' acme_candidate
      2000000 ?db = Inr (?db, r)" "gr_proposal_id r = None"
    using rv(1,2) p taken
    by (simp add: generate_locked_def thesis_context_def b acme_reloaded Let_def case_prod_beta facts insert_generated_def
        not_created_def)
  have x: "rr_outcome (action_is_executable (cd_action acme_candidate)) \<noteq> rule_outcome.BLOCK"
    by (simp add: acme_candidate_def) code_simp
  have g: "acme_generate ?db = (?db, Inr r)"
    using acme_running acme_loaded x r ok
    by (simp add: acme_generate_def generate_def halted_iff_blockers b run_tx_def transaction_def)
  have "withdrawn \<in> set (db_proposals ?db)" "tp_dedupe_key withdrawn = Some (dedupe_key manual_settings acme_evaluator
      (th_id (cd_thesis acme_candidate)) (inst_broker_ticker (reload_identity acme_research (el_broker acme_evaluator) ?db acme_candidate)))"
    by (simp_all add: b acme_reloaded) (simp_all add: listed_database_def withdrawn_def acme_candidate_def acme_thesis_def acme_identity_def)
  then have "\<not> gr_created r"
    using redelivery_creates_nothing[OF g[unfolded acme_generate_def] acme_loaded[folded b]] by blast
  then show ?thesis using g by blast
qed

end
