(* ===== verification/Telegram_Tokens.thy ===== *)
theory Telegram_Tokens
  imports Authorization
begin

text \<open>
  \<open>backend/stockbrain/telegram/tokens.py\<close>: opaque single-use tokens, stored as SHA-256. The random text of a
  token is an argument. An operation that runs inside a caller's transaction takes and returns the database.
\<close>

section \<open>Payloads\<close>

definition CALLBACK_PREFIX :: string where
  "CALLBACK_PREFIX = ''sb:''"

definition MAX_CALLBACK_DATA_BYTES :: nat where
  "MAX_CALLBACK_DATA_BYTES = 64"

definition token_hash :: "string \<Rightarrow> string" where
  "token_hash raw = sha256_hex raw"

definition callback_data :: "string \<Rightarrow> string" where
  "callback_data raw = CALLBACK_PREFIX @ raw"

definition is_alnum :: "char \<Rightarrow> bool" where
  "is_alnum c = (let n = of_char c :: nat
     in (48 \<le> n \<and> n \<le> 57) \<or> (65 \<le> n \<and> n \<le> 90) \<or> (97 \<le> n \<and> n \<le> 122))"

definition token_shaped :: "string \<Rightarrow> bool" where
  "token_shaped raw = (length raw = 43 \<and> list_all (\<lambda>c. is_alnum c \<or> c \<in> set ''-_'') raw)"

definition parse_callback_data :: "string option \<Rightarrow> string option" where
  "parse_callback_data data =
     (let text = or_else data []
      in if text = [] \<or> take (length CALLBACK_PREFIX) text \<noteq> CALLBACK_PREFIX then None
         else let raw = drop (length CALLBACK_PREFIX) text in if token_shaped raw then Some raw else None)"

section \<open>Tokens\<close>

record issued_token =
  it_raw :: string
  it_action_id :: uuid
  it_stage :: approval_stage
  it_expires_at :: instant

definition it_callback_data :: "issued_token \<Rightarrow> string" where
  "it_callback_data t = callback_data (it_raw t)"

record resolved_action =
  ra_action_id :: uuid
  ra_proposal_id :: uuid
  ra_stage :: approval_stage
  ra_user_id :: int
  ra_chat_id :: "int option"
  ra_parent_action_id :: "uuid option"
  ra_message_id :: "int option"

definition message_context :: "int option \<Rightarrow> (string \<times> json) list" where
  "message_context message_id = (case message_id of None \<Rightarrow> [] | Some m \<Rightarrow> [(''message_id'', JInt m)])"

definition mint ::
  "string \<Rightarrow> uuid \<Rightarrow> approval_stage \<Rightarrow> int \<Rightarrow> int option \<Rightarrow> instant \<Rightarrow> uuid option \<Rightarrow> int option \<Rightarrow> database
     \<Rightarrow> database \<times> issued_token" where
  "mint raw pid stage user_id chat_id expires_at parent message_id db =
     (let (aid, db1) = uuid4 db;
          action = \<lparr>aa_id = aid, aa_proposal_id = pid, aa_channel = approval_channel.TELEGRAM, aa_stage = stage,
            aa_opaque_token_hash = token_hash raw, aa_user_identifier = show_int user_id,
            aa_chat_identifier = map_option show_int chat_id, aa_parent_action_id = parent,
            aa_expires_at = expires_at, aa_consumed_at = None, aa_context = message_context message_id\<rparr>
      in (db1\<lparr>db_actions := db_actions db1 @ [action]\<rparr>,
          \<lparr>it_raw = raw, it_action_id = aid, it_stage = stage, it_expires_at = expires_at\<rparr>))"

definition attach_message :: "uuid list \<Rightarrow> int \<Rightarrow> int \<Rightarrow> database \<Rightarrow> database" where
  "attach_message ids message_id chat_id db =
     (if ids = [] then db
      else db\<lparr>db_actions := map (\<lambda>a. if aa_id a \<in> set ids
             then a\<lparr>aa_context := [(''message_id'', JInt message_id), (''chat_id'', JInt chat_id)]\<rparr> else a) (db_actions db)\<rparr>)"

definition find_token :: "database \<Rightarrow> string \<Rightarrow> approval_action option" where
  "find_token db raw = find (\<lambda>a. aa_opaque_token_hash a = token_hash raw) (db_actions db)"

text \<open>\<open>isinstance(value, int)\<close>; a Boolean is one.\<close>

definition int_of_json :: "json option \<Rightarrow> int option" where
  "int_of_json j = (case j of Some (JInt n) \<Rightarrow> Some n | Some (JBool b) \<Rightarrow> Some (of_bool b) | _ \<Rightarrow> None)"

text \<open>\<open>str(chat_id)\<close>\<close>

definition str_opt :: "int option \<Rightarrow> string" where
  "str_opt c = (case c of None \<Rightarrow> ''None'' | Some n \<Rightarrow> show_int n)"

definition consume :: "uuid \<Rightarrow> instant \<Rightarrow> database \<Rightarrow> database" where
  "consume aid now db =
     db\<lparr>db_actions := upd_rows aa_id aid (\<lambda>a. a\<lparr>aa_consumed_at := Some now\<rparr>) (db_actions db)\<rparr>"

definition resolve_and_consume ::
  "string \<Rightarrow> int \<Rightarrow> int option \<Rightarrow> approval_stage list option \<Rightarrow> instant \<Rightarrow> database
     \<Rightarrow> (database \<times> resolved_action) res" where
  "resolve_and_consume raw user_id chat_id expected now db =
     (case find_token db raw of
        None \<Rightarrow> Inl (ApprovalActionInvalid ''no approval action matches this token'')
      | Some a \<Rightarrow>
          if aa_user_identifier a \<noteq> show_int user_id
          then Inl (ApprovalActionForeign ''this action belongs to a different Telegram user'')
          else if aa_chat_identifier a \<noteq> None
               \<and> aa_chat_identifier a \<noteq> Some (str_opt chat_id)
          then Inl (ApprovalActionForeign ''this action belongs to a different Telegram chat'')
          else if aa_consumed_at a \<noteq> None then Inl (ApprovalActionConsumed ''this approval action was already used'')
          else if aa_expires_at a \<le> now then Inl (ApprovalActionExpired ''this approval action expired'')
          else if (case expected of None \<Rightarrow> False | Some stages \<Rightarrow> aa_stage a \<notin> set stages)
          then Inl (ApprovalActionInvalid ''this approval action is not valid here'')
          else Inr (consume (aa_id a) now db,
            \<lparr>ra_action_id = aa_id a, ra_proposal_id = aa_proposal_id a, ra_stage = aa_stage a, ra_user_id = user_id,
             ra_chat_id = chat_id, ra_parent_action_id = aa_parent_action_id a,
             ra_message_id = int_of_json (map_of (aa_context a) ''message_id'')\<rparr>))"

definition retire_open_actions :: "uuid \<Rightarrow> uuid option \<Rightarrow> instant \<Rightarrow> database \<Rightarrow> database \<times> nat" where
  "retire_open_actions pid exclude now db =
     (let due = (\<lambda>a. aa_proposal_id a = pid \<and> aa_consumed_at a = None \<and> Some (aa_id a) \<noteq> exclude)
      in (db\<lparr>db_actions := map (\<lambda>a. if due a then a\<lparr>aa_consumed_at := Some now\<rparr> else a) (db_actions db)\<rparr>,
          length (filter due (db_actions db))))"

definition open_messages :: "uuid \<Rightarrow> database \<Rightarrow> (int \<times> int) list" where
  "open_messages pid db =
     rev (remdups (rev (List.map_filter (\<lambda>a.
       (case (int_of_json (map_of (aa_context a) ''chat_id''), int_of_json (map_of (aa_context a) ''message_id'')) of
          (Some c, Some m) \<Rightarrow> Some (c, m) | _ \<Rightarrow> None))
       (filter (\<lambda>a. aa_proposal_id a = pid \<and> aa_channel a = approval_channel.TELEGRAM) (db_actions db)))))"

section \<open>What tokens promise\<close>

text \<open>
  The payload of a button. What a minted token puts on a button is read back as that token and fits the limit
  of the chat; anything that is not the prefix and 43 url-safe characters is no token.
\<close>

lemma callback_roundtrip:
  "parse_callback_data data = Some raw \<longleftrightarrow>
     data = Some (callback_data raw) \<and> token_shaped raw \<and> length (callback_data raw) \<le> MAX_CALLBACK_DATA_BYTES"
proof (cases data)
  case (Some s)
  have "take 3 s = ''sb:'' \<and> drop 3 s = raw \<longleftrightarrow> s = ''sb:'' @ raw"
    by (metis append_eq_conv_conj append_take_drop_id length_Cons list.size(3) numeral_3_eq_3)
  then show ?thesis using Some
    by (auto simp: parse_callback_data_def callback_data_def CALLBACK_PREFIX_def Let_def numeral_3_eq_3
        MAX_CALLBACK_DATA_BYTES_def token_shaped_def)
qed (simp add: parse_callback_data_def)

text \<open>The holder of a token: the user and the chat it was issued to.\<close>

definition holder :: "approval_action \<Rightarrow> int \<Rightarrow> int option \<Rightarrow> bool" where
  "holder a user_id chat_id \<longleftrightarrow> aa_user_identifier a = show_int user_id
     \<and> (aa_chat_identifier a = None \<or> aa_chat_identifier a = Some (str_opt chat_id))"

definition redeemable :: "approval_action \<Rightarrow> int \<Rightarrow> int option \<Rightarrow> approval_stage list option \<Rightarrow> instant \<Rightarrow> bool" where
  "redeemable a user_id chat_id expected now \<longleftrightarrow>
     holder a user_id chat_id \<and> aa_consumed_at a = None \<and> now < aa_expires_at a
     \<and> (case expected of None \<Rightarrow> True | Some stages \<Rightarrow> aa_stage a \<in> set stages)"

lemma find_token_Some:
  assumes "actions_table_ok ps (db_actions db)"
  shows "find_token db raw = Some a \<longleftrightarrow> a \<in> set (db_actions db) \<and> aa_opaque_token_hash a = token_hash raw"
proof -
  have "distinct (map aa_opaque_token_hash as) \<Longrightarrow>
      find (\<lambda>a. aa_opaque_token_hash a = h) as = Some a \<longleftrightarrow> a \<in> set as \<and> aa_opaque_token_hash a = h" for as h
    by (induction as) (auto simp: image_iff)
  then show ?thesis using assms by (simp add: find_token_def actions_table_ok_def)
qed

lemma resolve_Inr:
  "resolve_and_consume raw user_id chat_id expected now db = Inr (db', r) \<longleftrightarrow>
     (\<exists>a. find_token db raw = Some a \<and> redeemable a user_id chat_id expected now \<and> db' = consume (aa_id a) now db
        \<and> r = \<lparr>ra_action_id = aa_id a, ra_proposal_id = aa_proposal_id a, ra_stage = aa_stage a, ra_user_id = user_id,
             ra_chat_id = chat_id, ra_parent_action_id = aa_parent_action_id a,
             ra_message_id = int_of_json (map_of (aa_context a) ''message_id'')\<rparr>)"
  by (auto simp: resolve_and_consume_def redeemable_def holder_def split: option.splits)

lemma consume_actions:
  "db_actions (consume aid now db) = map (\<lambda>a. if aa_id a = aid then a\<lparr>aa_consumed_at := Some now\<rparr> else a) (db_actions db)"
  by (simp add: consume_def upd_rows_def)

lemma find_token_consume:
  "find_token (consume aid now db) raw =
     map_option (\<lambda>a. if aa_id a = aid then a\<lparr>aa_consumed_at := Some now\<rparr> else a) (find_token db raw)"
proof -
  have "find P (map f xs) = map_option f (find P xs)" if "\<And>x. P (f x) = P x" for P f and xs :: "approval_action list"
    using that by (induction xs) auto
  then show ?thesis unfolding find_token_def consume_actions by simp
qed

text \<open>
  C34: redeeming a token. A token is redeemed exactly when a row carries its digest, was issued to this user and
  chat, is unconsumed and unexpired and has an expected stage; it then names the proposal and the stage of the row,
  consumes that row and nothing else, and no second redemption by anybody succeeds.
\<close>

theorem token_is_redeemed_once:
  assumes "actions_table_ok (db_proposals db) (db_actions db)"
  shows "(resolve_and_consume raw user_id chat_id expected now db = Inr (db', r) \<longleftrightarrow>
      (\<exists>a. a \<in> set (db_actions db) \<and> aa_opaque_token_hash a = token_hash raw \<and> redeemable a user_id chat_id expected now
         \<and> db' = consume (aa_id a) now db
         \<and> r = \<lparr>ra_action_id = aa_id a, ra_proposal_id = aa_proposal_id a, ra_stage = aa_stage a, ra_user_id = user_id,
              ra_chat_id = chat_id, ra_parent_action_id = aa_parent_action_id a,
              ra_message_id = int_of_json (map_of (aa_context a) ''message_id'')\<rparr>))
    \<and> (resolve_and_consume raw user_id chat_id expected now db = Inr (db', r) \<longrightarrow>
        \<not> okE (resolve_and_consume raw user2 chat2 expected2 later db'))"
proof (intro conjI impI)
  assume "resolve_and_consume raw user_id chat_id expected now db = Inr (db', r)"
  then obtain a where "find_token db raw = Some a" "db' = consume (aa_id a) now db" by (auto simp: resolve_Inr)
  then have "find_token db' raw = Some (a\<lparr>aa_consumed_at := Some now\<rparr>)" by (simp add: find_token_consume)
  then have "resolve_and_consume raw user2 chat2 expected2 later db' \<noteq> Inr x" for x
    by (cases x) (simp add: resolve_Inr redeemable_def)
  then show "\<not> okE (resolve_and_consume raw user2 chat2 expected2 later db')" by (simp add: okE_conv)
qed (simp add: resolve_Inr find_token_Some[OF assms] conj_assoc)

section \<open>A button to tap\<close>

definition approve_button :: approval_action where
  "approve_button =
     \<lparr>aa_id = ''a1'', aa_proposal_id = ''p1'', aa_channel = approval_channel.TELEGRAM, aa_stage = approval_stage.APPROVE,
      aa_opaque_token_hash = token_hash ''t'', aa_user_identifier = show_int 7, aa_chat_identifier = Some (show_int 7),
      aa_parent_action_id = None, aa_expires_at = 5000000, aa_consumed_at = None, aa_context = []\<rparr>"

definition button_database :: database where
  "button_database = (waiting_database None)\<lparr>db_actions := [approve_button]\<rparr>"

lemma button_tables: "actions_table_ok (db_proposals button_database) (db_actions button_database)"
  by (simp add: actions_table_ok_def button_database_def waiting_database_def approve_button_def waiting_fields)

lemma token_is_redeemed_once_witness:
  "\<exists>db' r. resolve_and_consume ''t'' 7 (Some 7) None 2000000 button_database = Inr (db', r)
     \<and> ra_stage r = approval_stage.APPROVE \<and> \<not> okE (resolve_and_consume ''t'' 7 (Some 7) None 2000001 db')"
proof -
  have "redeemable approve_button 7 (Some 7) None 2000000"
    by (simp add: redeemable_def holder_def approve_button_def str_opt_def)
  then obtain db' r where r: "resolve_and_consume ''t'' 7 (Some 7) None 2000000 button_database = Inr (db', r)"
      "ra_stage r = approval_stage.APPROVE"
    using token_is_redeemed_once[OF button_tables, of "''t''" 7 "Some 7" None 2000000]
    by (auto simp: button_database_def approve_button_def)
  then show ?thesis
    using token_is_redeemed_once[OF button_tables, of "''t''" 7 "Some 7" None 2000000 db' r 7 "Some 7" None 2000001] by blast
qed

end
