(* ===== verification/PyWords.thy ===== *)
theory PyWords
  imports PyText
begin

text \<open>
  Words, fields and runs of characters: \<open>str.split\<close> with and without a separator, \<open>re.sub\<close> of a
  repeated character class, and \<open>repr\<close> of any ASCII string. Shared by the chat formatting and the
  instrument identities.
\<close>

section \<open>Splitting\<close>

lemma lstrip_Cons: "lstrip s = c # t \<Longrightarrow> \<not> is_space c"
  by (metis lstrip_def hd_dropWhile list.sel(1) neq_Nil_conv)

text \<open>\<open>s.split()\<close>\<close>

function words :: "string \<Rightarrow> string list" where
  "words s =
     (let t = lstrip s
      in if t = [] then []
         else takeWhile (\<lambda>c. \<not> is_space c) t # words (dropWhile (\<lambda>c. \<not> is_space c) t))"
  by pat_completeness auto

termination
proof (relation "measure length")
  fix s t assume t: "t = lstrip s" "t \<noteq> []"
  then obtain c u where c: "lstrip s = c # u" by (cases "lstrip s") auto
  have "length (dropWhile (\<lambda>c. \<not> is_space c) (c # u)) < length (c # u)"
    using lstrip_Cons[OF c] by (simp add: length_dropWhile_le le_imp_less_Suc)
  moreover have "length (lstrip s) \<le> length s" by (simp add: lstrip_def length_dropWhile_le)
  ultimately show "(dropWhile (\<lambda>c. \<not> is_space c) t, s) \<in> measure length" using t c by simp
qed simp

declare words.simps [simp del]

text \<open>\<open>s.split(c)\<close> for a separator of one character\<close>

fun split_on :: "char \<Rightarrow> string \<Rightarrow> string list" where
  "split_on c [] = [[]]"
| "split_on c (x # xs) =
     (if x = c then [] # split_on c xs
      else case split_on c xs of [] \<Rightarrow> [[x]] | l # ls \<Rightarrow> (x # l) # ls)"

lemma split_on_props: "split_on c s \<noteq> []" "filter (\<lambda>x. x \<noteq> c) s = concat (split_on c s)"
  "l \<in> set (split_on c s) \<Longrightarrow> c \<notin> set l"
  by (induction s arbitrary: l) (auto split: list.splits if_splits)

section \<open>Runs\<close>

text \<open>\<open>re.sub("[...]+", r, s)\<close>: every longest run of characters of the class becomes \<open>r\<close>.\<close>

function sub_runs :: "(char \<Rightarrow> bool) \<Rightarrow> string \<Rightarrow> string \<Rightarrow> string" where
  "sub_runs P r [] = []"
| "sub_runs P r (c # cs) = (if P c then r @ sub_runs P r (dropWhile P cs) else c # sub_runs P r cs)"
  by pat_completeness auto

termination
  by (relation "measure (\<lambda>(P, r, s). length s)") (auto simp: length_dropWhile_le le_imp_less_Suc)

lemma sub_runs_id: "list_all (\<lambda>c. \<not> P c) s \<Longrightarrow> sub_runs P r s = s"
  by (induction s) auto

text \<open>A replacement by one character of the class: the result has no run longer than one, of that character only.\<close>

fun runs_single :: "(char \<Rightarrow> bool) \<Rightarrow> char \<Rightarrow> string \<Rightarrow> bool" where
  "runs_single P x [] = True"
| "runs_single P x (c # cs) = ((P c \<longrightarrow> c = x \<and> (cs = [] \<or> \<not> P (hd cs))) \<and> runs_single P x cs)"

lemma hd_sub_runs: "s \<noteq> [] \<Longrightarrow> \<not> P (hd s) \<Longrightarrow> sub_runs P r s \<noteq> [] \<and> hd (sub_runs P r s) = hd s"
  by (cases s) auto

lemma sub_runs_single: "P x \<Longrightarrow> runs_single P x (sub_runs P [x] s)"
proof (induction P "[x]" s rule: sub_runs.induct)
  case (2 P c cs)
  show ?case
  proof (cases "P c")
    case True
    have "sub_runs P [x] (dropWhile P cs) = [] \<or> \<not> P (hd (sub_runs P [x] (dropWhile P cs)))"
    proof (cases "dropWhile P cs")
      case Nil
      show ?thesis unfolding Nil by simp
    next
      case (Cons d ds)
      then show ?thesis using hd_sub_runs[of "dropWhile P cs" P "[x]"] hd_dropWhile[of P cs] by simp
    qed
    then show ?thesis using 2 True by simp
  qed (use 2 in auto)
qed simp

lemma sub_runs_of_single: "runs_single P x s \<Longrightarrow> sub_runs P [x] s = s"
proof (induction s)
  case (Cons c cs)
  then have "P c \<Longrightarrow> dropWhile P cs = cs" by (cases cs) auto
  then show ?case using Cons by auto
qed simp

lemma sub_runs_idem: "P x \<Longrightarrow> sub_runs P [x] (sub_runs P [x] s) = sub_runs P [x] s"
  by (rule sub_runs_of_single[OF sub_runs_single])

lemma set_sub_runs: "c \<in> set (sub_runs P [x] s) \<Longrightarrow> c = x \<or> c \<in> set s \<and> \<not> P c"
  by (induction P "[x]" s rule: sub_runs.induct) (auto split: if_splits dest: set_dropWhileD)

section \<open>Words joined by single blanks\<close>

definition clean_word :: "string \<Rightarrow> bool" where
  "clean_word w \<longleftrightarrow> w \<noteq> [] \<and> list_all (\<lambda>c. \<not> is_space c) w"

lemma lstrip_clean: "clean_word w \<Longrightarrow> lstrip (w @ s) = w @ s"
  by (cases w) (auto simp: clean_word_def lstrip_def)

lemma span_clean:
  "list_all (\<lambda>c. \<not> is_space c) w \<Longrightarrow> takeWhile (\<lambda>c. \<not> is_space c) (w @ CHR '' '' # s) = w
     \<and> dropWhile (\<lambda>c. \<not> is_space c) (w @ CHR '' '' # s) = CHR '' '' # s"
  by (induction w) (auto simp: is_space_def)

lemma words_skip: "words (CHR '' '' # s) = words s"
  by (subst (1 2) words.simps) (simp add: lstrip_def is_space_def)

lemma words_Nil [simp]: "words [] = []"
  by (simp add: words.simps lstrip_def)

lemma words_single: "clean_word w \<Longrightarrow> words w = [w]"
proof -
  assume w: "clean_word w"
  have "takeWhile (\<lambda>c. \<not> is_space c) w = w" "dropWhile (\<lambda>c. \<not> is_space c) w = []"
    using w by (simp_all add: clean_word_def list_all_iff)
  moreover have "words w = takeWhile (\<lambda>c. \<not> is_space c) w # words (dropWhile (\<lambda>c. \<not> is_space c) w)"
    using lstrip_clean[OF w, of "[]"] w by (subst words.simps) (simp add: clean_word_def Let_def)
  ultimately show ?thesis by (simp only: words_Nil)
qed

lemma words_join: "list_all clean_word ws \<Longrightarrow> words (join '' '' ws) = ws"
proof (induction "'' ''" ws rule: join.induct)
  case (3 x y ys)
  have "words (x @ CHR '' '' # join '' '' (y # ys)) = x # words (CHR '' '' # join '' '' (y # ys))"
    using 3(2) lstrip_clean[of x] span_clean[of x]
    by (subst words.simps) (simp add: clean_word_def Let_def)
  then show ?case using 3 by (simp add: words_skip)
qed (simp_all add: words_single)

lemma words_clean: "list_all clean_word (words s)"
proof (induction s rule: words.induct)
  case (1 s)
  show ?case
  proof (cases "lstrip s")
    case (Cons c t)
    have "clean_word (takeWhile (\<lambda>c. \<not> is_space c) (lstrip s))"
      using lstrip_Cons[OF Cons] Cons by (auto simp: clean_word_def list_all_iff dest: set_takeWhileD)
    then show ?thesis using 1 Cons by (subst words.simps) (simp add: Let_def)
  qed (simp add: words.simps)
qed

lemma set_words: "w \<in> set (words s) \<Longrightarrow> set w \<subseteq> set s"
proof (induction s rule: words.induct)
  case (1 s)
  have sub: "set (lstrip s) \<subseteq> set s" by (auto simp: lstrip_def dest: set_dropWhileD)
  show ?case
  proof (cases "lstrip s = []")
    case False
    then have "w = takeWhile (\<lambda>c. \<not> is_space c) (lstrip s)
        \<or> w \<in> set (words (dropWhile (\<lambda>c. \<not> is_space c) (lstrip s)))"
      using 1(2) by (subst (asm) words.simps) (auto simp: Let_def)
    then show ?thesis using 1(1)[OF refl False] sub by (auto dest: set_takeWhileD set_dropWhileD)
  qed (use 1(2) in \<open>simp add: words.simps\<close>)
qed

lemma strip_clean_join:
  assumes "list_all clean_word ws"
  shows "strip (join '' '' ws) = join '' '' ws"
proof -
  have l: "lstrip (join '' '' ws) = join '' '' ws"
  proof (cases ws)
    case (Cons x ys)
    then show ?thesis using assms lstrip_clean[of x "[]"] by (cases ys) (simp_all add: lstrip_clean)
  qed (simp add: lstrip_def)
  have e: "ws \<noteq> [] \<Longrightarrow> list_all clean_word ws \<Longrightarrow> \<exists>u c. join '' '' ws = u @ [c] \<and> \<not> is_space c" for ws
  proof (induction "'' ''" ws rule: join.induct)
    case (2 x)
    then have "x \<noteq> []" "\<not> is_space (last x)" by (auto simp: clean_word_def list_all_iff)
    then show ?case by (metis append_butlast_last_id join.simps(2))
  next
    case (3 x y ys)
    then obtain u c where "join '' '' (y # ys) = u @ [c]" "\<not> is_space c" by auto
    then have "join '' '' (x # y # ys) = (x @ '' '' @ u) @ [c]" by simp
    then show ?case using \<open>\<not> is_space c\<close> by blast
  qed simp
  have "rstrip (join '' '' ws) = join '' '' ws"
    using e[of ws] assms by (cases "ws = []") (auto simp: rstrip_def)
  then show ?thesis by (simp add: strip_def l)
qed

lemma runs_single_append:
  "list_all (\<lambda>c. \<not> P c) w \<Longrightarrow> runs_single P x s \<Longrightarrow> runs_single P x (w @ s)"
  by (induction w) auto

lemma runs_single_join:
  assumes "\<And>w. w \<in> set ws \<Longrightarrow> w \<noteq> [] \<and> list_all (\<lambda>c. \<not> P c) w"
  shows "runs_single P x (join [x] ws)"
  using assms
proof (induction "[x]" ws rule: join.induct)
  case (2 w)
  then show ?case using runs_single_append[of P w x "[]"] by simp
next
  case (3 w y ys)
  have y: "y \<noteq> []" "list_all (\<lambda>c. \<not> P c) y" using 3(2)[of y] by auto
  have "\<not> P (hd (join [x] (y # ys)))" using y by (cases ys; cases y) auto
  then have "runs_single P x (x # join [x] (y # ys))" using 3 by auto
  then show ?case using runs_single_append[of P w x] 3(2)[of w] by auto
qed simp

section \<open>Representation\<close>

text \<open>\<open>repr(s)\<close>: double quotes when the text holds a single quote and no double one.\<close>

definition hex2 :: "nat \<Rightarrow> string" where
  "hex2 n = (let d = (\<lambda>k. ''0123456789abcdef'' ! k) in [d (n div 16 mod 16), d (n mod 16)])"

definition repr_char :: "char \<Rightarrow> char \<Rightarrow> string" where
  "repr_char q c =
     (let n = of_char c :: nat
      in if c = q \<or> c = CHR 0x5C then [CHR 0x5C, c]
         else if n = 10 then [CHR 0x5C, CHR ''n''] else if n = 13 then [CHR 0x5C, CHR ''r'']
         else if n = 9 then [CHR 0x5C, CHR ''t'']
         else if n < 32 \<or> n = 127 then [CHR 0x5C, CHR ''x''] @ hex2 n
         else [c])"

definition py_repr :: "string \<Rightarrow> string" where
  "py_repr s =
     (let q = (if CHR 0x27 \<in> set s \<and> CHR 0x22 \<notin> set s then CHR 0x22 else CHR 0x27)
      in [q] @ concat (map (repr_char q) s) @ [q])"

definition repr_opt :: "string option \<Rightarrow> string" where
  "repr_opt v = (case v of None \<Rightarrow> ''None'' | Some s \<Rightarrow> py_repr s)"

end
