(* ===== verification/Telegram_Text.thy ===== *)
theory Telegram_Text
  imports PyWords
begin

text \<open>
  \<open>backend/stockbrain/telegram/formatting.py\<close>, escaping and splitting of messages, and
  \<open>telegram/auth.py\<close>, who may talk to the bot. The ellipsis and the symbols of the labels are
  their UTF-8 bytes.
\<close>

section \<open>Escaping\<close>

text \<open>\<open>s.replace(c, r)\<close> for a pattern of one character\<close>

definition replace_char :: "char \<Rightarrow> string \<Rightarrow> string \<Rightarrow> string" where
  "replace_char c r s = concat (map (\<lambda>x. if x = c then r else [x]) s)"

text \<open>\<open>html.escape(s, quote=False)\<close>\<close>

definition html_escape :: "string \<Rightarrow> string" where
  "html_escape s =
     replace_char CHR ''>'' ''&gt;'' (replace_char CHR ''<'' ''&lt;'' (replace_char CHR ''&'' ''&amp;'' s))"

definition esc :: "string \<Rightarrow> string" where
  "esc = html_escape"

definition bold :: "string \<Rightarrow> string" where
  "bold s = ''<b>'' @ esc s @ ''</b>''"

definition code_text :: "string \<Rightarrow> string" where
  "code_text s = ''<code>'' @ esc s @ ''</code>''"

definition ellipsis :: string where
  "ellipsis = [CHR 0xE2, CHR 0x80, CHR 0xA6]"

text \<open>The limit is at least 0 wherever \<open>trim\<close> is called.\<close>

definition trim :: "string option \<Rightarrow> nat \<Rightarrow> string \<Rightarrow> string" where
  "trim v limit fallback =
     (case v of
        None \<Rightarrow> fallback
      | Some s \<Rightarrow>
          if strip s = [] then fallback
          else let t = join '' '' (words (strip s))
               in esc (if limit < length t then rstrip (take (max 1 (limit - 1)) t) @ ellipsis else t))"

section \<open>Ages\<close>

text \<open>\<open>int(delta.total_seconds())\<close> truncates toward zero.\<close>

definition age :: "instant option \<Rightarrow> instant \<Rightarrow> string" where
  "age v now =
     (case v of
        None \<Rightarrow> ''-''
      | Some t \<Rightarrow>
          let delta = now - t; seconds = sgn delta * (abs delta div 1000000)
          in if seconds < 0 then ''in the future''
             else if seconds < 60 then show_int seconds @ ''s ago''
             else if seconds < 3600 then show_int (seconds div 60) @ ''m ago''
             else if seconds < 86400 then show_int (seconds div 3600) @ ''h ago''
             else show_int (seconds div 86400) @ ''d ago'')"

section \<open>Splitting a message\<close>

definition CHUNK_TARGET :: nat where
  "CHUNK_TARGET = 3900"

definition newline :: char where
  "newline = CHR 0x0A"

record chunking =
  ck_chunks :: "string list"
  ck_current :: "string list"
  ck_size :: nat

text \<open>\<open>chunks.append("\\n".join(current)); current, size = [], 0\<close>\<close>

definition flush :: "chunking \<Rightarrow> chunking" where
  "flush k = \<lparr>ck_chunks = ck_chunks k @ [join [newline] (ck_current k)], ck_current = [], ck_size = 0\<rparr>"

text \<open>The inner loop ends only for a positive limit.\<close>

partial_function (option) hard_split :: "nat \<Rightarrow> string \<Rightarrow> chunking \<Rightarrow> (string \<times> chunking) option" where
  "hard_split limit line k =
     (if limit < length line
      then let k1 = (if ck_current k \<noteq> [] then flush k else k)
           in hard_split limit (drop limit line) (k1\<lparr>ck_chunks := ck_chunks k1 @ [take limit line]\<rparr>)
      else Some (line, k))"

definition add_line :: "nat \<Rightarrow> string \<Rightarrow> chunking \<Rightarrow> chunking" where
  "add_line limit line k =
     (let k1 = (if limit < ck_size k + length line + 1 \<and> ck_current k \<noteq> [] then flush k else k)
      in k1\<lparr>ck_current := ck_current k1 @ [line], ck_size := ck_size k1 + length line + 1\<rparr>)"

fun chunk_lines :: "nat \<Rightarrow> string list \<Rightarrow> chunking \<Rightarrow> chunking option" where
  "chunk_lines limit [] k = Some k"
| "chunk_lines limit (line # ls) k =
     (case hard_split limit line k of
        None \<Rightarrow> None
      | Some (rest, k1) \<Rightarrow> chunk_lines limit ls (add_line limit rest k1))"

definition chunk :: "string \<Rightarrow> nat \<Rightarrow> string list option" where
  "chunk s limit =
     (if length s \<le> limit then Some [s]
      else map_option (\<lambda>k. if ck_current k \<noteq> [] then ck_chunks k @ [join [newline] (ck_current k)] else ck_chunks k)
        (chunk_lines limit (split_on newline s) \<lparr>ck_chunks = [], ck_current = [], ck_size = 0\<rparr>))"

section \<open>Who may talk to the bot\<close>

datatype auth_outcome = ALLOWED | NO_ALLOWLIST | UNKNOWN_USER | UNKNOWN_CHAT | GROUP_CHATS_DISABLED | INCOMPLETE_UPDATE

definition PRIVATE_CHAT_TYPE :: string where
  "PRIVATE_CHAT_TYPE = ''private''"

record telegram_identity =
  ti_user_id :: int
  ti_chat_id :: int
  ti_chat_type :: string

definition is_private :: "telegram_identity \<Rightarrow> bool" where
  "is_private i = (ti_chat_type i = PRIVATE_CHAT_TYPE)"

record auth_decision =
  ad_outcome :: auth_outcome
  ad_identity :: "telegram_identity option"

definition ad_allowed :: "auth_decision \<Rightarrow> bool" where
  "ad_allowed d = (ad_outcome d = ALLOWED)"

fun auth_reason :: "auth_outcome \<Rightarrow> string" where
  "auth_reason ALLOWED = ''authorised''"
| "auth_reason NO_ALLOWLIST = ''no Telegram user is allowlisted, so nobody is authorised''"
| "auth_reason UNKNOWN_USER = ''this Telegram user id is not allowlisted''"
| "auth_reason UNKNOWN_CHAT = ''this chat is not allowlisted''"
| "auth_reason GROUP_CHATS_DISABLED = ''group chats are disabled for this deployment''"
| "auth_reason INCOMPLETE_UPDATE = ''the update carried no numeric user and chat''"

record telegram_authorizer =
  au_users :: "int list"
  au_chats :: "int list"
  au_allow_group_chats :: bool

definition check_identity :: "telegram_authorizer \<Rightarrow> telegram_identity option \<Rightarrow> auth_decision" where
  "check_identity az identity =
     (case identity of
        None \<Rightarrow> \<lparr>ad_outcome = INCOMPLETE_UPDATE, ad_identity = None\<rparr>
      | Some i \<Rightarrow>
          let outcome =
            (if au_users az = [] then NO_ALLOWLIST
             else if ti_user_id i \<notin> set (au_users az) then UNKNOWN_USER
             else if is_private i
             then (if ti_chat_id i = ti_user_id i \<or> ti_chat_id i \<in> set (au_chats az) then ALLOWED else UNKNOWN_CHAT)
             else if \<not> au_allow_group_chats az then GROUP_CHATS_DISABLED
             else if ti_chat_id i \<notin> set (au_chats az) then UNKNOWN_CHAT
             else ALLOWED)
          in \<lparr>ad_outcome = outcome, ad_identity = identity\<rparr>)"

definition identity_from :: "int option \<Rightarrow> int option \<Rightarrow> string option \<Rightarrow> telegram_identity option" where
  "identity_from user_id chat_id chat_type =
     (case (user_id, chat_id, chat_type) of
        (Some u, Some c, Some t) \<Rightarrow>
          if t = [] then None else Some \<lparr>ti_user_id = u, ti_chat_id = c, ti_chat_type = t\<rparr>
      | _ \<Rightarrow> None)"

section \<open>Escaped text\<close>

fun esc_char :: "char \<Rightarrow> string" where
  "esc_char c = (if c = CHR ''&'' then ''&amp;'' else if c = CHR ''<'' then ''&lt;''
     else if c = CHR ''>'' then ''&gt;'' else [c])"

lemma replace_char_simps [simp]:
  "replace_char c r [] = []" "replace_char c r (x # s) = (if x = c then r else [x]) @ replace_char c r s"
  "replace_char c r (s @ t) = replace_char c r s @ replace_char c r t"
  by (simp_all add: replace_char_def)

lemma esc_chars: "esc s = concat (map esc_char s)"
  by (induction s) (simp_all add: esc_def html_escape_def)

text \<open>Reading the three entities back\<close>

fun html_unescape :: "string \<Rightarrow> string" where
  "html_unescape [] = []"
| "html_unescape (c # s) =
     (if c = CHR ''&'' \<and> take 4 s = ''amp;'' then CHR ''&'' # html_unescape (drop 4 s)
      else if c = CHR ''&'' \<and> take 3 s = ''lt;'' then CHR ''<'' # html_unescape (drop 3 s)
      else if c = CHR ''&'' \<and> take 3 s = ''gt;'' then CHR ''>'' # html_unescape (drop 3 s)
      else c # html_unescape s)"

text \<open>
  C36: escaping is total. The escaped text of any value holds no angle bracket, so it opens no tag, and reading its
  entities back gives the value.
\<close>

theorem escaped_text_is_inert:
  "CHR ''<'' \<notin> set (esc s) \<and> CHR ''>'' \<notin> set (esc s) \<and> html_unescape (esc s) = s"
proof (induction s)
  case (Cons c s)
  have "html_unescape (esc_char c @ esc s) = c # html_unescape (esc s)" by simp
  then show ?case using Cons by (auto simp: esc_chars)
qed (simp add: esc_chars)

section \<open>What splitting promises\<close>

abbreviation letters :: "string \<Rightarrow> string" where
  "letters \<equiv> filter (\<lambda>c. c \<noteq> newline)"

lemma letters_join: "letters (join [newline] ls) = letters (concat ls)"
  by (induction "[newline]" ls rule: join.induct) simp_all

lemma length_join: "ls \<noteq> [] \<Longrightarrow> length (join [newline] ls) + 1 = sum_list (map (\<lambda>l. length l + 1) ls)"
  by (induction "[newline]" ls rule: join.induct) simp_all

definition ck_ok :: "nat \<Rightarrow> chunking \<Rightarrow> bool" where
  "ck_ok limit k =
     ((\<forall>p\<in>set (ck_chunks k). length p \<le> limit)
      \<and> ck_size k = sum_list (map (\<lambda>l. length l + 1) (ck_current k))
      \<and> ck_size k \<le> limit + 1)"

definition ck_letters :: "chunking \<Rightarrow> string" where
  "ck_letters k = letters (concat (ck_chunks k) @ concat (ck_current k))"

lemma flush_ok:
  assumes "ck_ok limit k" "ck_current k \<noteq> []"
  shows "ck_ok limit (flush k) \<and> ck_letters (flush k) = ck_letters k \<and> ck_current (flush k) = [] \<and> ck_size (flush k) = 0"
  using assms length_join[of "ck_current k"] by (auto simp: ck_ok_def flush_def ck_letters_def letters_join)

lemma hard_split_short: "length line \<le> limit \<Longrightarrow> hard_split limit line k = Some (line, k)"
  by (subst hard_split.simps) simp

lemma hard_split_long:
  "limit < length line \<Longrightarrow> hard_split limit line k = hard_split limit (drop limit line)
     ((if ck_current k \<noteq> [] then flush k else k)\<lparr>ck_chunks :=
        ck_chunks (if ck_current k \<noteq> [] then flush k else k) @ [take limit line]\<rparr>)"
  by (subst hard_split.simps) (simp add: Let_def)

lemma hard_split_returns:
  assumes "0 < limit" "ck_ok limit k"
  shows "\<exists>rest k'. hard_split limit line k = Some (rest, k') \<and> ck_ok limit k' \<and> length rest \<le> limit
    \<and> ck_letters k' @ letters rest = ck_letters k @ letters line"
  using assms(2)
proof (induction "length line" arbitrary: line k rule: less_induct)
  case less
  show ?case
  proof (cases "limit < length line")
    case True
    define k1 where "k1 = (if ck_current k \<noteq> [] then flush k else k)"
    have k1: "ck_ok limit k1" "ck_letters k1 = ck_letters k" "ck_current k1 = []"
      using flush_ok[OF less.prems] less.prems by (auto simp: k1_def)
    let ?k2 = "k1\<lparr>ck_chunks := ck_chunks k1 @ [take limit line]\<rparr>"
    have "ck_ok limit ?k2" using k1 by (simp add: ck_ok_def)
    moreover have "length (drop limit line) < length line" using True assms(1) by simp
    ultimately obtain rest k' where r: "hard_split limit (drop limit line) ?k2 = Some (rest, k')" "ck_ok limit k'"
        "length rest \<le> limit" "ck_letters k' @ letters rest = ck_letters ?k2 @ letters (drop limit line)"
      using less.hyps by blast
    have "letters (take limit line) @ letters (drop limit line) = letters line"
      by (simp flip: filter_append)
    then have "ck_letters ?k2 @ letters (drop limit line) = ck_letters k @ letters line"
      using k1 by (simp add: ck_letters_def)
    then show ?thesis using r True by (simp add: hard_split_long k1_def)
  qed (use less.prems in \<open>simp add: hard_split_short\<close>)
qed

lemma add_line_ok:
  assumes "ck_ok limit k" "length line \<le> limit"
  shows "ck_ok limit (add_line limit line k) \<and> ck_letters (add_line limit line k) = ck_letters k @ letters line
    \<and> ck_current (add_line limit line k) \<noteq> []"
  using assms flush_ok[OF assms(1)]
  by (auto simp: add_line_def Let_def ck_ok_def ck_letters_def)

lemma chunk_lines_returns:
  assumes "0 < limit" "ck_ok limit k"
  shows "\<exists>k'. chunk_lines limit ls k = Some k' \<and> ck_ok limit k' \<and> ck_letters k' = ck_letters k @ letters (concat ls)
    \<and> (ls \<noteq> [] \<longrightarrow> ck_current k' \<noteq> [])"
  using assms(2)
proof (induction ls arbitrary: k)
  case (Cons line ls)
  obtain rest k1 where r: "hard_split limit line k = Some (rest, k1)" "ck_ok limit k1" "length rest \<le> limit"
      "ck_letters k1 @ letters rest = ck_letters k @ letters line"
    using hard_split_returns[OF assms(1) Cons.prems] by blast
  note a = add_line_ok[OF r(2,3)]
  obtain k' where k': "chunk_lines limit ls (add_line limit rest k1) = Some k'" "ck_ok limit k'"
      "ck_letters k' = ck_letters (add_line limit rest k1) @ letters (concat ls)" "ls \<noteq> [] \<longrightarrow> ck_current k' \<noteq> []"
    using Cons.IH a by blast
  have "ck_letters k' = ck_letters k @ letters (concat (line # ls))"
    using a r(4) k'(3) by (simp only: concat.simps filter_append append_assoc[symmetric])
  moreover have "ck_current k' \<noteq> []" using k'(1,4) a by (cases ls) auto
  ultimately show ?case using k'(1,2) r(1) by simp
qed simp

text \<open>
  C35: splitting a message. For every positive limit \<open>chunk\<close> returns; every part fits the limit, there is at
  least one, and apart from line ends the parts are the message.
\<close>

theorem chunk_returns_fitting_parts:
  assumes "0 < limit"
  shows "\<exists>parts. chunk s limit = Some parts \<and> parts \<noteq> [] \<and> (\<forall>p\<in>set parts. length p \<le> limit)
    \<and> letters (concat parts) = letters s"
proof (cases "length s \<le> limit")
  case False
  let ?k = "\<lparr>ck_chunks = [], ck_current = [], ck_size = 0\<rparr>"
  obtain k where k: "chunk_lines limit (split_on newline s) ?k = Some k" "ck_ok limit k"
      "ck_letters k = letters (concat (split_on newline s))" "ck_current k \<noteq> []"
    using chunk_lines_returns[OF assms, of ?k "split_on newline s"] split_on_props(1)[of newline s]
    by (auto simp: ck_ok_def ck_letters_def)
  have "letters s = letters (concat (split_on newline s))"
    by (simp flip: split_on_props(2))
  then have "letters (concat (ck_chunks k @ [join [newline] (ck_current k)])) = letters s"
    using k(3) by (simp add: ck_letters_def letters_join)
  moreover have "\<forall>p\<in>set (ck_chunks k @ [join [newline] (ck_current k)]). length p \<le> limit"
    using k(2) length_join[OF k(4)] by (auto simp: ck_ok_def)
  moreover have "chunk s limit = Some (ck_chunks k @ [join [newline] (ck_current k)])"
    using False k(1,4) by (simp add: chunk_def)
  ultimately show ?thesis by blast
qed (simp add: chunk_def)

lemma chunk_returns_fitting_parts_witness:
  "\<exists>parts. chunk ''ab'' 1 = Some parts \<and> parts \<noteq> [] \<and> (\<forall>p\<in>set parts. length p \<le> 1) \<and> letters (concat parts) = letters ''ab''"
  using chunk_returns_fitting_parts[of 1 "''ab''"] by simp

text \<open>A message of one full line and a line end is split into that line and an empty part, which the chat refuses.\<close>

lemma empty_part: "chunk (replicate 3900 CHR ''x'' @ [newline]) CHUNK_TARGET = Some [replicate 3900 CHR ''x'', []]"
proof -
  have split: "split_on newline (replicate n CHR ''x'' @ [newline]) = [replicate n CHR ''x'', []]" for n
    by (induction n) (simp_all add: newline_def)
  show ?thesis
    by (simp add: chunk_def CHUNK_TARGET_def split hard_split_short add_line_def flush_def del: replicate.simps)
qed

text \<open>An escaped line longer than the limit is cut inside an entity.\<close>

lemma chunk_one_line:
  assumes "newline \<notin> set s" "limit < length s" "length s \<le> 2 * limit"
  shows "chunk s limit = Some [take limit s, drop limit s]"
proof -
  have "newline \<notin> set t \<Longrightarrow> split_on newline t = [t]" for t by (induction t) auto
  then show ?thesis using assms by (simp add: chunk_def hard_split_long hard_split_short add_line_def)
qed

lemma entity_cut:
  assumes "2 \<le> limit" "limit + 8 \<le> 2 * limit"
  shows "chunk (esc (replicate (limit - 2) CHR ''x'' @ ''&&'')) limit
    = Some [replicate (limit - 2) CHR ''x'' @ ''&a'', ''mp;&amp;'']"
proof -
  have "esc (replicate n CHR ''x'' @ t) = replicate n CHR ''x'' @ esc t" for n t
    by (induction n) (simp_all add: esc_chars)
  moreover have "esc ''&&'' = ''&amp;&amp;''" by (simp add: esc_chars)
  ultimately have e: "esc (replicate n CHR ''x'' @ ''&&'') = replicate n CHR ''x'' @ ''&amp;&amp;''" for n by metis
  have "newline \<notin> set (replicate (limit - 2) CHR ''x'' @ ''&amp;&amp;'')" by (auto simp: newline_def)
  moreover have "take limit (replicate (limit - 2) c @ a # b # t) = replicate (limit - 2) c @ [a, b]"
    "drop limit (replicate (limit - 2) c @ a # b # t) = t" for a b c :: char and t
    using assms(1) by (simp_all add: Suc_diff_le numeral_2_eq_2)
  ultimately show ?thesis unfolding e using assms
    by (subst chunk_one_line) simp_all
qed

section \<open>What the allowlist promises\<close>

text \<open>
  Who is served. An update is accepted exactly when it carries a user, a chat and a kind of chat, the user is
  listed, and the chat is the user's own, or listed, where a group needs the switch as well; an empty list serves
  nobody, whatever else is configured.
\<close>

lemma served_exactly_the_listed:
  "(ad_allowed (check_identity az (identity_from user chat kind)) \<longleftrightarrow>
     (\<exists>u c k. user = Some u \<and> chat = Some c \<and> kind = Some k \<and> k \<noteq> [] \<and> u \<in> set (au_users az)
        \<and> (if k = PRIVATE_CHAT_TYPE then c = u \<or> c \<in> set (au_chats az)
           else au_allow_group_chats az \<and> c \<in> set (au_chats az))))"
proof -
  have "ad_allowed (check_identity az (Some i)) \<longleftrightarrow> ti_user_id i \<in> set (au_users az)
      \<and> (if is_private i then ti_chat_id i = ti_user_id i \<or> ti_chat_id i \<in> set (au_chats az)
         else au_allow_group_chats az \<and> ti_chat_id i \<in> set (au_chats az))" for i
    by (simp add: ad_allowed_def check_identity_def Let_def)
  then show ?thesis
    by (cases user; cases chat; cases kind)
      (simp_all add: identity_from_def is_private_def ad_allowed_def check_identity_def)
qed

end
