(* ===== verification/Telegram_Approvals.thy ===== *)
theory Telegram_Approvals
  imports Telegram_Tokens Telegram_Text
begin

text \<open>
  \<open>backend/stockbrain/telegram/approvals.py\<close>: the server side of every button. \<open>Approve\<close> authorizes
  nothing; it mints the \<open>CONFIRM\<close> token whose redemption calls \<open>authorize\<close>. A view of a proposal is its row;
  the two long texts \<open>messages.py\<close> renders of it arrive as functions, the random texts of tokens as \<open>secrets\<close>. Each
  transaction is one step, so that other writers can come between two of them. What calls \<open>authorize\<close> returns the
  calls it made, with their arguments.
\<close>

section \<open>Results\<close>

definition MAX_ALERT_CHARS :: nat where
  "MAX_ALERT_CHARS = 200"

definition telegram_actor :: "int \<Rightarrow> string" where
  "telegram_actor user_id = ''telegram:'' @ show_int user_id"

record button =
  bu_label :: string
  bu_callback_data :: string

record callback_result =
  cb_alert :: string
  cb_text :: "string option"
  cb_keyboard :: "button list list"
  cb_clear_original_keyboard :: bool
  cb_original_suffix :: "string option"
  cb_proposal_id :: "uuid option"
  cb_minted_action_ids :: "uuid list"

definition short_alert :: "callback_result \<Rightarrow> string" where
  "short_alert r = take MAX_ALERT_CHARS (cb_alert r)"

definition alert_only :: "string \<Rightarrow> callback_result" where
  "alert_only alert = \<lparr>cb_alert = alert, cb_text = None, cb_keyboard = [], cb_clear_original_keyboard = False,
     cb_original_suffix = None, cb_proposal_id = None, cb_minted_action_ids = []\<rparr>"

text \<open>\<open>user_message\<close> of the exceptions a redemption raises; \<open>None\<close> for the ones \<open>handle\<close> does not catch.\<close>

fun user_message :: "py_error \<Rightarrow> string option" where
  "user_message (ApprovalActionInvalid _) = Some ''This button is no longer valid. Use /proposals for the current state.''"
| "user_message (ApprovalActionConsumed _) = Some ''This button has already been used.''"
| "user_message (ApprovalActionExpired _) = Some ''This button expired. Use /proposals to start again.''"
| "user_message (ApprovalActionForeign _) = Some ''This button was not issued to you.''"
| "user_message _ = None"

definition AUTHORIZATION_NOTICE :: string where
  "AUTHORIZATION_NOTICE =
     ''Authorizing records that deterministic risk allowed the trade and who signed ''
     @ ''it off. Transmission is a separate, separately gated step, and every order is ''
     @ ''sent at most once.''"

definition REASON_LIMIT :: nat where
  "REASON_LIMIT = 200"

definition em_dash :: string where
  "em_dash = [CHR 0xE2, CHR 0x80, CHR 0x94]"

definition render_terminal_status :: "trade_proposal \<Rightarrow> string" where
  "render_terminal_status p =
     (if tp_status p = proposal_status.APPROVED
      then bold ''AUTHORIZED'' @ '' '' @ em_dash @ '' ''
        @ esc (case tp_authorization_source p of None \<Rightarrow> [] | Some src \<Rightarrow> authorization_source_value src)
        @ '' '' @ [CHR 0xC2, CHR 0xB7] @ '' '' @ esc AUTHORIZATION_NOTICE
      else bold (proposal_status_value (tp_status p))
        @ (let reason = or_else (tp_status_reason p) []
           in if reason = [] then [] else '' '' @ em_dash @ '' '' @ trim (Some reason) REASON_LIMIT ''-''))"

section \<open>The coordinator\<close>

text \<open>What the coordinator calls of \<open>ProposalService\<close>; the service reads its own clock.\<close>

record proposal_service =
  sv_authorize :: "uuid \<Rightarrow> authorization_source \<Rightarrow> string \<Rightarrow> database \<Rightarrow> database \<times> authorization_result res"
  sv_reject :: "uuid \<Rightarrow> string \<Rightarrow> string option \<Rightarrow> database \<Rightarrow> database \<times> trade_proposal option res"

record coordinator =
  co_action_ttl_seconds :: int
  co_confirm_ttl_seconds :: int
  co_fromiso :: "string \<Rightarrow> instant option"
  co_proposals :: "proposal_service option"
  co_render_detail :: "trade_proposal \<Rightarrow> instant \<Rightarrow> string"
  co_render_confirmation :: "trade_proposal \<Rightarrow> instant \<Rightarrow> string"

definition awaiting_authorization :: "trade_proposal \<Rightarrow> bool" where
  "awaiting_authorization p = (tp_status p \<in> AUTHORIZABLE_STATUSES)"

definition is_manual :: "trade_proposal \<Rightarrow> bool" where
  "is_manual p = (tp_execution_policy p = execution_policy.MANUAL)"

definition in_seconds :: "instant \<Rightarrow> int \<Rightarrow> instant" where
  "in_seconds now s = now + s * 1000000"

section \<open>Keyboards\<close>

text \<open>The labels with their symbols in UTF-8.\<close>

definition keyboard_stages :: "trade_proposal \<Rightarrow> (approval_stage \<times> string) list" where
  "keyboard_stages p =
     (if is_manual p
      then [(approval_stage.APPROVE, [CHR 0xE2, CHR 0x9C, CHR 0x85] @ '' Approve''),
            (approval_stage.REJECT, [CHR 0xE2, CHR 0x9C, CHR 0x96] @ '' Reject'')] else [])
     @ [(approval_stage.DETAILS, [CHR 0xF0, CHR 0x9F, CHR 0x93, CHR 0x84] @ '' Details'')]"

fun mint_all ::
  "(nat \<Rightarrow> string) \<Rightarrow> uuid \<Rightarrow> approval_stage list \<Rightarrow> int \<Rightarrow> int \<Rightarrow> instant \<Rightarrow> int option \<Rightarrow> database
     \<Rightarrow> database \<times> issued_token list" where
  "mint_all secrets pid [] user_id chat_id expiry message_id db = (db, [])"
| "mint_all secrets pid (stage # stages) user_id chat_id expiry message_id db =
     (let (db1, t) = mint (secrets 0) pid stage user_id (Some chat_id) expiry None message_id db;
          (db2, ts) = mint_all (\<lambda>n. secrets (n + 1)) pid stages user_id chat_id expiry message_id db1
      in (db2, t # ts))"

definition issue_proposal_keyboard ::
  "coordinator \<Rightarrow> (nat \<Rightarrow> string) \<Rightarrow> trade_proposal \<Rightarrow> int \<Rightarrow> int \<Rightarrow> int option \<Rightarrow> instant \<Rightarrow> database
     \<Rightarrow> database \<times> (button list list \<times> uuid list) res" where
  "issue_proposal_keyboard co secrets p user_id chat_id message_id now db =
     (let expiry = min (in_seconds now (co_action_ttl_seconds co)) (tp_expires_at p);
          stages = keyboard_stages p
      in if \<not> awaiting_authorization p \<or> expiry \<le> now then (db, Inr ([], []))
         else case run_tx (\<lambda>db. Inr (mint_all secrets (tp_id p) (map fst stages) user_id chat_id expiry message_id db)) db of
                (db', Inl e) \<Rightarrow> (db', Inl e)
              | (db', Inr issued) \<Rightarrow>
                  let buttons = map2 (\<lambda>s t. \<lparr>bu_label = snd s, bu_callback_data = it_callback_data t\<rparr>) stages issued;
                      rows = (if length buttons = 3 then [take 2 buttons, drop 2 buttons] else [buttons])
                  in (db', Inr (filter (\<lambda>row. row \<noteq> []) rows, map it_action_id issued)))"

definition attach_to_message :: "uuid list \<Rightarrow> int \<Rightarrow> int \<Rightarrow> database \<Rightarrow> database \<times> unit res" where
  "attach_to_message ids message_id chat_id = run_tx (\<lambda>db. Inr (attach_message ids message_id chat_id db, ()))"

section \<open>Redeeming\<close>

definition find_action :: "database \<Rightarrow> uuid \<Rightarrow> approval_action option" where
  "find_action db aid = find_row aa_id aid (db_actions db)"

definition parent_is_valid :: "database \<Rightarrow> uuid \<Rightarrow> approval_stage \<Rightarrow> bool" where
  "parent_is_valid db aid stage =
     (if stage \<noteq> approval_stage.CONFIRM then True
      else case find_action db aid of
             None \<Rightarrow> False
           | Some child \<Rightarrow>
               (case Option.bind (aa_parent_action_id child) (find_action db) of
                  None \<Rightarrow> False
                | Some parent \<Rightarrow>
                    aa_stage parent = approval_stage.APPROVE
                    \<and> aa_proposal_id parent = aa_proposal_id child
                    \<and> aa_user_identifier parent = aa_user_identifier child
                    \<and> aa_chat_identifier parent = aa_chat_identifier child))"

text \<open>The first transaction of \<open>handle\<close>.\<close>

definition redeem :: "string \<Rightarrow> int \<Rightarrow> int \<Rightarrow> instant \<Rightarrow> database \<Rightarrow> database \<times> (resolved_action \<times> bool) res" where
  "redeem raw user_id chat_id now = run_tx (\<lambda>db.
     bindE (resolve_and_consume raw user_id (Some chat_id) None now db) (\<lambda>(db', action).
       Inr (db', (action, parent_is_valid db' (ra_action_id action) (ra_stage action)))))"

section \<open>The four buttons\<close>

definition retire_confirmations :: "uuid \<Rightarrow> int \<Rightarrow> instant \<Rightarrow> database \<Rightarrow> database" where
  "retire_confirmations pid user_id now db =
     db\<lparr>db_actions := map (\<lambda>a. if aa_proposal_id a = pid \<and> aa_user_identifier a = show_int user_id
            \<and> aa_stage a = approval_stage.CONFIRM \<and> aa_consumed_at a = None
          then a\<lparr>aa_consumed_at := Some now\<rparr> else a) (db_actions db)\<rparr>"

definition details ::
  "coordinator \<Rightarrow> (nat \<Rightarrow> string) \<Rightarrow> uuid \<Rightarrow> int \<Rightarrow> int \<Rightarrow> instant \<Rightarrow> database \<Rightarrow> database \<times> callback_result res" where
  "details co secrets pid user_id chat_id now db =
     (case find_proposal db pid of
        None \<Rightarrow> (db, Inr (alert_only ''That proposal no longer exists.''))
      | Some p \<Rightarrow>
          (case run_tx (\<lambda>db. Inr (retire_confirmations pid user_id now db, ())) db of
             (db1, Inl e) \<Rightarrow> (db1, Inl e)
           | (db1, Inr _) \<Rightarrow>
               (case issue_proposal_keyboard co secrets p user_id chat_id None now db1 of
                  (db2, Inl e) \<Rightarrow> (db2, Inl e)
                | (db2, Inr (keyboard, ids)) \<Rightarrow>
                    (db2, Inr \<lparr>cb_alert = ''Proposal details'', cb_text = Some (co_render_detail co p now),
                       cb_keyboard = keyboard, cb_clear_original_keyboard = False, cb_original_suffix = None,
                       cb_proposal_id = Some pid, cb_minted_action_ids = ids\<rparr>))))"

definition confirm_preflight :: "coordinator \<Rightarrow> trade_proposal \<Rightarrow> instant \<Rightarrow> database \<Rightarrow> string option" where
  "confirm_preflight co p now db =
     (let control = control_snapshot_of (co_fromiso co) db
      in if trading_halted control then Some (''Authorization is halted: '' @ join ''; '' (control_blockers control))
         else if \<not> is_manual p
         then Some (''This proposal was generated under the AUTOMATIC execution policy and is ''
           @ ''authorized by the system, not by a person.'')
         else if tp_status p \<notin> AUTHORIZABLE_STATUSES
         then Some (''The proposal is '' @ proposal_status_value (tp_status p) @ '' and can no longer be authorized.'')
         else if tp_expires_at p \<le> now then Some ''The proposal expired.''
         else None)"

definition confirm_label :: "trade_proposal \<Rightarrow> string" where
  "confirm_label p = ''CONFIRM '' @ or_text (or_else (tp_research_action p) []) (order_side_value (tp_side p))"

definition mint_confirmation ::
  "(nat \<Rightarrow> string) \<Rightarrow> uuid \<Rightarrow> uuid \<Rightarrow> int \<Rightarrow> int \<Rightarrow> instant \<Rightarrow> int option \<Rightarrow> database
     \<Rightarrow> database \<times> issued_token \<times> issued_token" where
  "mint_confirmation secrets pid parent_id user_id chat_id expiry message_id db =
     (let (db1, confirm) = mint (secrets 0) pid approval_stage.CONFIRM user_id (Some chat_id) expiry
            (Some parent_id) message_id db;
          (db2, back) = mint (secrets 1) pid approval_stage.DETAILS user_id (Some chat_id) expiry None message_id db1
      in (db2, (confirm, back)))"

definition begin_confirmation ::
  "coordinator \<Rightarrow> (nat \<Rightarrow> string) \<Rightarrow> uuid \<Rightarrow> uuid \<Rightarrow> int \<Rightarrow> int \<Rightarrow> int option \<Rightarrow> instant \<Rightarrow> database
     \<Rightarrow> database \<times> callback_result res" where
  "begin_confirmation co secrets pid parent_id user_id chat_id message_id now db =
     (case find_proposal db pid of
        None \<Rightarrow> (db, Inr (alert_only ''That proposal no longer exists.''))
      | Some p \<Rightarrow>
          (case confirm_preflight co p now db of
             Some refusal \<Rightarrow>
               (db, Inr \<lparr>cb_alert = refusal, cb_text = Some (bold ''Cannot approve'' @ [newline] @ esc refusal),
                  cb_keyboard = [], cb_clear_original_keyboard = True, cb_original_suffix = None,
                  cb_proposal_id = Some pid, cb_minted_action_ids = []\<rparr>)
           | None \<Rightarrow>
               let expiry = min (in_seconds now (co_confirm_ttl_seconds co)) (tp_expires_at p)
               in (case run_tx (\<lambda>db. Inr (mint_confirmation secrets pid parent_id user_id chat_id expiry message_id db)) db of
                   (db', Inl e) \<Rightarrow> (db', Inl e)
                 | (db', Inr (confirm, back)) \<Rightarrow>
                     (db', Inr \<lparr>cb_alert = ''Confirm to authorize'', cb_text = Some (co_render_confirmation co p now),
                        cb_keyboard =
                          [[\<lparr>bu_label = confirm_label p, bu_callback_data = it_callback_data confirm\<rparr>,
                            \<lparr>bu_label = [CHR 0xE2, CHR 0x97, CHR 0x80] @ '' Back'', bu_callback_data = it_callback_data back\<rparr>]],
                        cb_clear_original_keyboard = False, cb_original_suffix = None, cb_proposal_id = Some pid,
                        cb_minted_action_ids = [it_action_id confirm, it_action_id back]\<rparr>))))"

definition retire_tx :: "uuid \<Rightarrow> instant \<Rightarrow> database \<Rightarrow> database \<times> nat res" where
  "retire_tx pid now = run_tx (\<lambda>db. Inr (retire_open_actions pid None now db))"

definition refusal ::
  "coordinator \<Rightarrow> uuid \<Rightarrow> string \<Rightarrow> instant \<Rightarrow> database \<Rightarrow> database \<times> callback_result res" where
  "refusal co pid headline now db =
     (case retire_tx pid now db of
        (db', Inl e) \<Rightarrow> (db', Inl e)
      | (db', Inr _) \<Rightarrow>
          let p = find_proposal db' pid
          in (db', Inr \<lparr>cb_alert = headline,
               cb_text = Some (bold ''Refused'' @ [newline] @ esc headline
                 @ (case p of None \<Rightarrow> []
                    | Some row \<Rightarrow> [newline] @ ''Proposal is now '' @ esc (proposal_status_value (tp_status row)) @ ''.'')),
               cb_keyboard = [], cb_clear_original_keyboard = True,
               cb_original_suffix = map_option render_terminal_status p,
               cb_proposal_id = Some pid, cb_minted_action_ids = []\<rparr>))"

text \<open>The headline of the refusals \<open>_authorize\<close> catches.\<close>

fun refusal_headline :: "py_error \<Rightarrow> string option" where
  "refusal_headline (ProposalExpired _) = Some ''Expired before confirmation.''"
| "refusal_headline (ProposalInvalidated _) = Some ''The proposal was invalidated and needs new analysis.''"
| "refusal_headline (ProposalAlreadyConsumed _) = Some ''Another action already decided this proposal.''"
| "refusal_headline (AuthorizationNotPermitted m) = Some m"
| "refusal_headline (RiskBlocked m _) = Some (''Deterministic risk refused: '' @ m)"
| "refusal_headline _ = None"

definition finished ::
  "coordinator \<Rightarrow> uuid \<Rightarrow> string \<Rightarrow> string \<Rightarrow> instant \<Rightarrow> database \<Rightarrow> database \<times> callback_result res" where
  "finished co pid alert body now db =
     (case retire_tx pid now db of
        (db', Inl e) \<Rightarrow> (db', Inl e)
      | (db', Inr _) \<Rightarrow>
          (db', Inr \<lparr>cb_alert = alert, cb_text = Some body, cb_keyboard = [], cb_clear_original_keyboard = True,
             cb_original_suffix = map_option render_terminal_status (find_proposal db' pid),
             cb_proposal_id = Some pid, cb_minted_action_ids = []\<rparr>))"

type_synonym authorize_call = "uuid \<times> authorization_source \<times> string"

definition confirm_authorize ::
  "coordinator \<Rightarrow> uuid \<Rightarrow> int \<Rightarrow> instant \<Rightarrow> database \<Rightarrow> database \<times> authorize_call list \<times> callback_result res" where
  "confirm_authorize co pid user_id now db =
     (case co_proposals co of
        None \<Rightarrow> (db, [], Inr (alert_only ''The proposal service is not configured.''))
      | Some sv \<Rightarrow>
          let source = authorization_source.HUMAN_TELEGRAM; actor = telegram_actor user_id;
              (db1, answered) = sv_authorize sv pid source actor db;
              (db2, result) = (case answered of
                Inl e \<Rightarrow>
                  (case refusal_headline e of
                     None \<Rightarrow> (db1, Inl e)
                   | Some headline \<Rightarrow> refusal co pid headline now db1)
              | Inr _ \<Rightarrow>
                  finished co pid ''Authorized. Transmission is separately gated.''
                    (bold ''AUTHORIZED'' @ [newline] @ esc AUTHORIZATION_NOTICE) now db1)
          in (db2, [(pid, source, actor)], result))"

definition reject_button ::
  "coordinator \<Rightarrow> uuid \<Rightarrow> int \<Rightarrow> instant \<Rightarrow> database \<Rightarrow> database \<times> callback_result res" where
  "reject_button co pid user_id now db =
     (case co_proposals co of
        None \<Rightarrow> (db, Inr (alert_only ''The proposal service is not configured.''))
      | Some sv \<Rightarrow>
          (case sv_reject sv pid (telegram_actor user_id) (Some ''rejected from Telegram'') db of
             (db1, Inl (ProposalAlreadyConsumed _)) \<Rightarrow>
               refusal co pid ''Another action already decided this proposal.'' now db1
           | (db1, Inl e) \<Rightarrow> (db1, Inl e)
           | (db1, Inr _) \<Rightarrow> finished co pid ''Rejected.'' (bold ''REJECTED'') now db1))"

text \<open>What \<open>handle\<close> does with a redeemed action; three of the four buttons never call \<open>authorize\<close>.\<close>

definition quietly :: "database \<times> callback_result res \<Rightarrow> database \<times> authorize_call list \<times> callback_result res" where
  "quietly = (\<lambda>(db, result). (db, [], result))"

definition perform ::
  "coordinator \<Rightarrow> (nat \<Rightarrow> string) \<Rightarrow> resolved_action \<Rightarrow> int \<Rightarrow> int option \<Rightarrow> instant \<Rightarrow> database
     \<Rightarrow> database \<times> authorize_call list \<times> callback_result res" where
  "perform co secrets action chat_id message_id now db =
     (case ra_stage action of
        approval_stage.DETAILS \<Rightarrow> quietly (details co secrets (ra_proposal_id action) (ra_user_id action) chat_id now db)
      | approval_stage.APPROVE \<Rightarrow>
          quietly (begin_confirmation co secrets (ra_proposal_id action) (ra_action_id action) (ra_user_id action) chat_id
            message_id now db)
      | approval_stage.REJECT \<Rightarrow> quietly (reject_button co (ra_proposal_id action) (ra_user_id action) now db)
      | approval_stage.CONFIRM \<Rightarrow> confirm_authorize co (ra_proposal_id action) (ra_user_id action) now db)"

definition handle ::
  "coordinator \<Rightarrow> (nat \<Rightarrow> string) \<Rightarrow> string \<Rightarrow> int \<Rightarrow> int \<Rightarrow> int option \<Rightarrow> instant \<Rightarrow> database
     \<Rightarrow> database \<times> authorize_call list \<times> callback_result res" where
  "handle co secrets raw user_id chat_id message_id now db =
     (case redeem raw user_id chat_id now db of
        (db', Inl e) \<Rightarrow> (db', [], (case user_message e of None \<Rightarrow> Inl e | Some m \<Rightarrow> Inr (alert_only m)))
      | (db', Inr (action, parent_ok)) \<Rightarrow>
          if \<not> parent_ok
          then (db', [], Inr ((alert_only ''This confirmation is no longer linked to an approval. Start again.'')
                  \<lparr>cb_clear_original_keyboard := True\<rparr>))
          else perform co secrets action chat_id message_id now db')"

text \<open>The service the coordinator is built with: \<open>authorize\<close> and \<open>reject\<close> of the proposal service.\<close>

definition service_of ::
  "authorization_settings \<Rightarrow> evaluator \<Rightarrow> (string \<Rightarrow> instant option) \<Rightarrow> (uuid \<Rightarrow> resolution_status option)
     \<Rightarrow> (uuid \<Rightarrow> string option) \<Rightarrow> (broker_instrument option \<Rightarrow> evaluation_facts) \<Rightarrow> (database \<Rightarrow> database) \<Rightarrow> instant
     \<Rightarrow> proposal_service" where
  "service_of az el fromiso resolution_of event_type_of load_facts others clock =
     \<lparr>sv_authorize = (\<lambda>pid source actor.
        authorize az el fromiso resolution_of event_type_of load_facts others pid source actor clock),
      sv_reject = (\<lambda>pid actor reason db.
        case reject pid actor reason clock db of Inl e \<Rightarrow> (db, Inl e) | Inr (db', r) \<Rightarrow> (db', Inr r))\<rparr>"

section \<open>What the other writers do to tokens\<close>

text \<open>A later form of a row: at most consumed, and its message context rewritten.\<close>

definition row_later :: "approval_action \<Rightarrow> approval_action \<Rightarrow> bool" where
  "row_later a a' \<longleftrightarrow> a' = a\<lparr>aa_consumed_at := aa_consumed_at a', aa_context := aa_context a'\<rparr>
     \<and> (aa_consumed_at a \<noteq> None \<longrightarrow> aa_consumed_at a' \<noteq> None)"

definition actions_later :: "database \<Rightarrow> database \<Rightarrow> bool" where
  "actions_later db db' \<longleftrightarrow> list_all2 row_later (db_actions db) (db_actions db')"

definition open_confirm :: "uuid \<Rightarrow> int \<Rightarrow> approval_action \<Rightarrow> bool" where
  "open_confirm pid user_id a \<longleftrightarrow> aa_stage a = approval_stage.CONFIRM \<and> aa_consumed_at a = None
     \<and> aa_proposal_id a = pid \<and> aa_user_identifier a = show_int user_id"

definition open_confirms :: "database \<Rightarrow> uuid \<Rightarrow> int \<Rightarrow> nat" where
  "open_confirms db pid user_id = length (filter (open_confirm pid user_id) (db_actions db))"

lemma row_later_refl [simp]: "row_later a a"
  by (simp add: row_later_def)

lemma row_later_trans: "row_later a b \<Longrightarrow> row_later b c \<Longrightarrow> row_later a c"
  unfolding row_later_def by (cases a; cases b; cases c) auto

lemma actions_same: "db_actions db' = db_actions db \<Longrightarrow> actions_later db db'"
  by (simp add: actions_later_def list_all2_refl)

lemma actions_later_trans: "actions_later a b \<Longrightarrow> actions_later b c \<Longrightarrow> actions_later a c"
  unfolding actions_later_def by (rule list_all2_trans[OF row_later_trans])

lemma actions_mapped:
  assumes "db_actions db' = map f (db_actions db)" "\<And>a. row_later a (f a)"
  shows "actions_later db db'"
  using assms by (simp add: actions_later_def list.rel_map list_all2_refl)

lemma consumed_later:
  assumes "db_actions db' = map (\<lambda>a. if P a then a\<lparr>aa_consumed_at := Some now\<rparr> else a) (db_actions db)"
  shows "actions_later db db'"
  by (rule actions_mapped[OF assms]) (simp add: row_later_def)

lemma open_confirm_back: "open_confirm pid user_id b \<Longrightarrow> row_later a b \<Longrightarrow> open_confirm pid user_id a"
  unfolding row_later_def open_confirm_def by (cases a; cases b) auto

lemma open_confirms_later: "actions_later db db' \<Longrightarrow> open_confirms db' pid user_id \<le> open_confirms db pid user_id"
proof -
  have "list_all2 row_later as bs \<Longrightarrow>
      length (filter (open_confirm pid user_id) bs) \<le> length (filter (open_confirm pid user_id) as)" for as bs
    by (induction rule: list_all2_induct) (auto intro: le_SucI dest: open_confirm_back)
  then show "actions_later db db' \<Longrightarrow> ?thesis" by (simp add: actions_later_def open_confirms_def)
qed

lemma retire_later: "db_actions db' = db_actions (retire_approval_actions pids now db) \<Longrightarrow> actions_later db db'"
  by (rule consumed_later[where now = now and P = "\<lambda>a. aa_proposal_id a \<in> set pids \<and> aa_consumed_at a = None"])
    (simp add: retire_approval_actions_def)

lemma retire_open_later: "retire_open_actions pid exclude now db = (db', n) \<Longrightarrow> actions_later db db'"
  by (rule consumed_later[where now = now and P = "\<lambda>a. aa_proposal_id a = pid \<and> aa_consumed_at a = None \<and> Some (aa_id a) \<noteq> exclude"])
    (auto simp: retire_open_actions_def Let_def)

lemma retire_confirmations_later: "actions_later db (retire_confirmations pid user_id now db)"
  by (rule consumed_later[where now = now and P = "\<lambda>a. aa_proposal_id a = pid \<and> aa_user_identifier a = show_int user_id
            \<and> aa_stage a = approval_stage.CONFIRM \<and> aa_consumed_at a = None"])
    (simp add: retire_confirmations_def)

lemma consume_later: "actions_later db (consume aid now db)"
  by (rule consumed_later[where now = now and P = "\<lambda>a. aa_id a = aid"]) (simp add: consume_actions)

lemma attach_later: "actions_later db (attach_message ids message_id chat_id db)"
proof (cases "ids = []")
  case False
  show ?thesis
    by (rule actions_mapped[where f = "\<lambda>a. if aa_id a \<in> set ids
        then a\<lparr>aa_context := [(''message_id'', JInt message_id), (''chat_id'', JInt chat_id)]\<rparr> else a"])
      (simp_all add: attach_message_def False row_later_def)
qed (simp add: attach_message_def actions_same)

lemma run_tx_later:
  assumes "run_tx block db = (db', r)" "\<And>d v. block db = Inr (d, v) \<Longrightarrow> actions_later db d"
  shows "actions_later db db'"
  using assms(1) by (rule run_tx_cases) (auto intro: assms(2) actions_same)

text \<open>The contract of the proposal service toward the bot: it never adds or reopens a token.\<close>

locale retiring_services =
  fixes services :: "proposal_service option"
  assumes authorize_later: "services = Some sv \<Longrightarrow> sv_authorize sv pid source actor db = (db', r) \<Longrightarrow> actions_later db db'"
    and reject_later: "services = Some sv \<Longrightarrow> sv_reject sv pid actor reason db = (db', r') \<Longrightarrow> actions_later db db'"
begin

lemma retire_tx_later: "retire_tx pid now db = (db', r) \<Longrightarrow> actions_later db db'"
  unfolding retire_tx_def by (erule run_tx_later) (auto dest: retire_open_later)

lemma refusal_later: "refusal co pid headline now db = (db', r) \<Longrightarrow> actions_later db db'"
  by (auto simp: refusal_def Let_def split: prod.splits sum.splits dest: retire_tx_later)

lemma finished_later: "finished co pid alert body now db = (db', r) \<Longrightarrow> actions_later db db'"
  by (auto simp: finished_def split: prod.splits sum.splits dest: retire_tx_later)

lemma confirm_authorize_later:
  "co_proposals co = services \<Longrightarrow> confirm_authorize co pid user_id now db = (db', calls, r) \<Longrightarrow> actions_later db db'"
  unfolding confirm_authorize_def Let_def
  by (auto split: option.splits prod.splits sum.splits
      dest: authorize_later refusal_later finished_later intro: actions_same actions_later_trans)

lemma reject_button_later:
  "co_proposals co = services \<Longrightarrow> reject_button co pid user_id now db = (db', r) \<Longrightarrow> actions_later db db'"
  unfolding reject_button_def
  by (auto split: option.splits prod.splits sum.splits py_error.splits
      dest: reject_later refusal_later finished_later intro: actions_same actions_later_trans)

end

lemma authorize_retires:
  assumes "authorize az el fromiso resolution_of event_type_of load_facts others pid source actor now db = (db', r)"
    and "\<And>d. actions_later d (others d)"
  shows "actions_later db db'"
proof -
  have block: "authorize_locked az el resolution_of event_type_of facts action confidence seen pid source actor now d = Inr (d', v)
      \<Longrightarrow> actions_later d d'" for facts action confidence seen d d' v
    by (rule retire_later[where pids = "[pid]" and now = now])
      (auto simp: authorize_locked_def bindE_eq_Inr Let_def case_prod_beta approve_def refuse_authorization_def
        frame_simps uuid4_def set_proposal_def retire_approval_actions_def split: option.splits if_splits)
  show ?thesis
    using assms(1) unfolding authorize_def Let_def
    by (auto split: sum.splits prod.splits intro: actions_same
        dest!: run_tx_later[OF _ block] intro: actions_later_trans[OF assms(2)])
qed

lemma reject_retires: "reject pid actor reason now db = Inr (db', r) \<Longrightarrow> actions_later db db'"
  unfolding reject_def by (erule terminate_cases) (rule retire_later)

lemma services_retire:
  assumes "\<And>d. actions_later d (others d)"
  shows "retiring_services (Some (service_of az el fromiso resolution_of event_type_of load_facts others clock))"
  by unfold_locales
    (auto simp: service_of_def split: sum.splits intro: actions_same dest: reject_retires authorize_retires[OF _ assms])

interpretation own_service: retiring_services
  "Some (service_of az el fromiso resolution_of event_type_of load_facts (\<lambda>d. d) clock)"
  for az el fromiso resolution_of event_type_of load_facts clock
  by (rule services_retire) (simp add: actions_same)

section \<open>The bot as a system of steps\<close>

text \<open>
  The redeemed actions still to be performed, every redeemed action and every call of \<open>authorize\<close> that was made.
  Callbacks run concurrently: a redemption, a performance and every other writer's commit
  are steps of their own.
\<close>

record bot =
  bt_db :: database
  bt_pending :: "resolved_action list"
  bt_taps :: "resolved_action list"
  bt_calls :: "authorize_call list"

definition services_allowed :: "proposal_service option \<Rightarrow> bool" where
  "services_allowed services \<longleftrightarrow> services = None
     \<or> (\<exists>az el fromiso resolution_of event_type_of load_facts others clock. (\<forall>d. actions_later d (others d))
          \<and> services = Some (service_of az el fromiso resolution_of event_type_of load_facts others clock))"

inductive bot_step :: "coordinator \<Rightarrow> bot \<Rightarrow> bot \<Rightarrow> bool" for co where
  redeemed: "redeem raw u c now (bt_db b) = (db', Inr (act, True)) \<Longrightarrow>
     bot_step co b (b\<lparr>bt_db := db', bt_pending := bt_pending b @ [act], bt_taps := bt_taps b @ [act]\<rparr>)"
| unlinked: "redeem raw u c now (bt_db b) = (db', Inr (act, False)) \<Longrightarrow> bot_step co b (b\<lparr>bt_db := db'\<rparr>)"
| performed: "act \<in> set (bt_pending b) \<Longrightarrow> ra_chat_id act = Some c \<Longrightarrow> services_allowed services \<Longrightarrow>
     perform (co\<lparr>co_proposals := services\<rparr>) secrets act c message_id now (bt_db b) = (db', calls, r) \<Longrightarrow>
     bot_step co b (b\<lparr>bt_db := db', bt_pending := remove1 act (bt_pending b), bt_calls := bt_calls b @ calls\<rparr>)"
| keyboard: "issue_proposal_keyboard co secrets p u c message_id now (bt_db b) = (db', r') \<Longrightarrow>
     bot_step co b (b\<lparr>bt_db := db'\<rparr>)"
| attached: "attach_to_message ids message_id' c (bt_db b) = (db', r'') \<Longrightarrow> bot_step co b (b\<lparr>bt_db := db'\<rparr>)"
| elsewhere: "actions_later (bt_db b) db' \<Longrightarrow> bot_step co b (b\<lparr>bt_db := db'\<rparr>)"

definition bot_start :: "bot \<Rightarrow> bool" where
  "bot_start b \<longleftrightarrow> bt_pending b = [] \<and> bt_taps b = [] \<and> bt_calls b = []
     \<and> list_all (\<lambda>a. aa_stage a = approval_stage.CONFIRM \<longrightarrow> aa_consumed_at a \<noteq> None) (db_actions (bt_db b))"

definition acts_of :: "resolved_action list \<Rightarrow> approval_stage \<Rightarrow> uuid \<Rightarrow> int \<Rightarrow> nat" where
  "acts_of as stage pid u =
     length (filter (\<lambda>a. ra_stage a = stage \<and> ra_proposal_id a = pid \<and> ra_user_id a = u) as)"

text \<open>The calls made for a proposal in a user's name, from whatever source.\<close>

definition calls_of :: "bot \<Rightarrow> uuid \<Rightarrow> int \<Rightarrow> nat" where
  "calls_of b pid u = length (filter (\<lambda>(p, source, actor). p = pid \<and> actor = telegram_actor u) (bt_calls b))"

definition bot_inv :: "bot \<Rightarrow> bool" where
  "bot_inv b \<longleftrightarrow> (\<forall>pid u.
     calls_of b pid u + acts_of (bt_pending b) approval_stage.CONFIRM pid u + open_confirms (bt_db b) pid u
       + acts_of (bt_pending b) approval_stage.APPROVE pid u \<le> acts_of (bt_taps b) approval_stage.APPROVE pid u
     \<and> calls_of b pid u + acts_of (bt_pending b) approval_stage.CONFIRM pid u
       \<le> acts_of (bt_taps b) approval_stage.CONFIRM pid u)"

lemma acts_of_append [simp]: "acts_of (as @ bs) stage pid u = acts_of as stage pid u + acts_of bs stage pid u"
  by (simp add: acts_of_def)

lemma acts_of_single [simp]:
  "acts_of [act] stage pid u = of_bool (ra_stage act = stage \<and> ra_proposal_id act = pid \<and> ra_user_id act = u)"
  by (simp add: acts_of_def)

lemma acts_of_remove1:
  "act \<in> set as \<Longrightarrow> acts_of as stage pid u = acts_of (remove1 act as) stage pid u + acts_of [act] stage pid u"
  by (induction as) (auto simp: acts_of_def)

lemma show_int_eq [simp]: "show_int n = show_int m \<longleftrightarrow> n = m"
  using show_int_prefix[of n "[]" m "[]"] by (auto simp: delim_def)

lemma open_confirms_mint:
  "open_confirms (fst (mint raw pid stage u c expiry parent mid db)) k v =
     open_confirms db k v + of_bool (stage = approval_stage.CONFIRM \<and> pid = k \<and> u = v)"
  by (simp add: mint_def uuid4_def open_confirms_def open_confirm_def Let_def)

lemma open_confirms_mint_confirmation:
  "mint_confirmation secrets pid parent u c expiry mid db = (db', ts) \<Longrightarrow>
     open_confirms db' k v = open_confirms db k v + of_bool (pid = k \<and> u = v)"
  by (simp add: mint_confirmation_def case_prod_beta Let_def) (auto simp: open_confirms_mint)

lemma open_confirms_mint_all:
  "approval_stage.CONFIRM \<notin> set stages \<Longrightarrow>
     open_confirms (fst (mint_all secrets pid stages u c expiry mid db)) k v = open_confirms db k v"
proof (induction stages arbitrary: secrets db)
  case (Cons stage stages)
  then show ?case
    using open_confirms_mint[of "secrets 0" pid stage u "Some c" expiry None mid db k v]
    by (auto simp: case_prod_beta Let_def)
qed simp

lemma issue_open_confirms:
  assumes "issue_proposal_keyboard co secrets p u c mid now db = (db', r)"
  shows "open_confirms db' k v \<le> open_confirms db k v"
proof -
  have "approval_stage.CONFIRM \<notin> set (map fst (keyboard_stages p))"
    by (cases "is_manual p") (simp_all add: keyboard_stages_def)
  note m = open_confirms_mint_all[OF this, of secrets "tp_id p" u c _ mid db k v]
  show ?thesis using assms m unfolding issue_proposal_keyboard_def Let_def
    by (auto split: if_splits prod.splits sum.splits elim!: run_tx_cases simp del: mint_all.simps) (metis fst_conv order_refl)+
qed

lemma find_token_mem: "find_token db raw = Some a \<Longrightarrow> a \<in> set (db_actions db)"
  unfolding find_token_def find_Some_iff by (metis nth_mem)

lemma redeem_open_confirms:
  assumes "redeem raw u c now db = (db', Inr (act, linked))"
  shows "open_confirms db' k v + of_bool (ra_stage act = approval_stage.CONFIRM \<and> ra_proposal_id act = k \<and> ra_user_id act = v)
    \<le> open_confirms db k v"
proof -
  obtain a where a: "a \<in> set (db_actions db)" "redeemable a u (Some c) None now" "db' = consume (aa_id a) now db"
      "ra_stage act = aa_stage a" "ra_proposal_id act = aa_proposal_id a" "ra_user_id act = u"
    using assms unfolding redeem_def
    by (auto elim!: run_tx_cases simp: bindE_eq_Inr resolve_Inr dest!: find_token_mem)
  have "length (filter (open_confirm k v) (map (\<lambda>x. if aa_id x = aa_id a then x\<lparr>aa_consumed_at := Some now\<rparr> else x) as))
      + of_bool (a \<in> set as \<and> open_confirm k v a) \<le> length (filter (open_confirm k v) as)" for as
    by (induction as) (auto simp: open_confirm_def)
  from this[of "db_actions db"] show ?thesis
    using a by (auto simp: open_confirms_def consume_actions open_confirm_def redeemable_def holder_def)
qed

lemma telegram_actor_eq [simp]: "telegram_actor u = telegram_actor v \<longleftrightarrow> u = v"
  by (simp add: telegram_actor_def)

lemma confirm_calls:
  "confirm_authorize co pid u now db = (db', calls, r) \<Longrightarrow>
     calls = (if co_proposals co = None then [] else [(pid, authorization_source.HUMAN_TELEGRAM, telegram_actor u)])"
  by (auto simp: confirm_authorize_def Let_def split: option.splits prod.splits)

lemma perform_calls:
  "perform co secrets act c mid now db = (db', calls, r) \<Longrightarrow>
     length (filter (\<lambda>(p, source, actor). p = pid \<and> actor = telegram_actor u) calls)
       \<le> of_bool (ra_stage act = approval_stage.CONFIRM \<and> ra_proposal_id act = pid \<and> ra_user_id act = u)"
  by (cases "ra_stage act") (auto simp: perform_def quietly_def split: prod.splits dest!: confirm_calls)

lemma perform_open_confirms:
  assumes "perform (co\<lparr>co_proposals := services\<rparr>) secrets act c mid now db = (db', calls, r)" "services_allowed services"
  shows "open_confirms db' k v \<le> open_confirms db k v
    + of_bool (ra_stage act = approval_stage.APPROVE \<and> ra_proposal_id act = k \<and> ra_user_id act = v)"
proof -
  have later: "retiring_services services"
  proof (cases services)
    case None
    then show ?thesis by unfold_locales simp_all
  next
    case (Some sv)
    then show ?thesis using assms(2) services_retire unfolding services_allowed_def by blast
  qed
  show ?thesis
  proof (cases "ra_stage act")
    case APPROVE
    show ?thesis using assms(1) unfolding perform_def quietly_def begin_confirmation_def APPROVE approval_stage.case Let_def
      by (auto split: option.splits prod.splits sum.splits elim!: run_tx_cases simp: open_confirms_mint_confirmation)
  next
    case CONFIRM
    have "confirm_authorize (co\<lparr>co_proposals := services\<rparr>) (ra_proposal_id act) (ra_user_id act) now db = (db', calls, r)"
      using assms(1) CONFIRM by (simp add: perform_def)
    from open_confirms_later[OF retiring_services.confirm_authorize_later[OF later _ this]]
    have "open_confirms db' k v \<le> open_confirms db k v" by simp
    then show ?thesis by (rule trans_le_add1)
  next
    case REJECT
    have "reject_button (co\<lparr>co_proposals := services\<rparr>) (ra_proposal_id act) (ra_user_id act) now db = (db', r)"
      using assms(1) REJECT by (simp add: perform_def quietly_def split: prod.splits)
    from open_confirms_later[OF retiring_services.reject_button_later[OF later _ this]]
    have "open_confirms db' k v \<le> open_confirms db k v" by simp
    then show ?thesis by (rule trans_le_add1)
  next
    case DETAILS
    have "run_tx (\<lambda>db. Inr (retire_confirmations (ra_proposal_id act) (ra_user_id act) now db, ())) db = (d, r1)
        \<Longrightarrow> open_confirms d k v \<le> open_confirms db k v" for d r1
      by (rule open_confirms_later, erule run_tx_later) (auto intro: retire_confirmations_later)
    then show ?thesis using assms(1) unfolding perform_def quietly_def details_def DETAILS approval_stage.case
      by (auto split: option.splits prod.splits sum.splits dest!: issue_open_confirms[where k = k and v = v] intro: order_trans)
  qed
qed

lemma bot_inv_db:
  assumes "bot_inv b" "\<And>k v. open_confirms db' k v \<le> open_confirms (bt_db b) k v"
  shows "bot_inv (b\<lparr>bt_db := db'\<rparr>)"
  unfolding bot_inv_def
proof (intro allI)
  fix pid v
  show "calls_of (b\<lparr>bt_db := db'\<rparr>) pid v + acts_of (bt_pending (b\<lparr>bt_db := db'\<rparr>)) approval_stage.CONFIRM pid v
       + open_confirms (bt_db (b\<lparr>bt_db := db'\<rparr>)) pid v + acts_of (bt_pending (b\<lparr>bt_db := db'\<rparr>)) approval_stage.APPROVE pid v
       \<le> acts_of (bt_taps (b\<lparr>bt_db := db'\<rparr>)) approval_stage.APPROVE pid v
     \<and> calls_of (b\<lparr>bt_db := db'\<rparr>) pid v + acts_of (bt_pending (b\<lparr>bt_db := db'\<rparr>)) approval_stage.CONFIRM pid v
       \<le> acts_of (bt_taps (b\<lparr>bt_db := db'\<rparr>)) approval_stage.CONFIRM pid v"
    using assms(1)[unfolded bot_inv_def, rule_format, of pid v] assms(2)[of pid v] by (simp add: calls_of_def)
qed

lemma bot_inv_step:
  assumes "bot_inv b" "bot_step co b b'"
  shows "bot_inv b'"
  using assms(2)
proof cases
  case (redeemed raw u c now db' act)
  show ?thesis unfolding bot_inv_def
  proof (intro allI)
    fix pid v
    show "calls_of b' pid v + acts_of (bt_pending b') approval_stage.CONFIRM pid v + open_confirms (bt_db b') pid v
       + acts_of (bt_pending b') approval_stage.APPROVE pid v \<le> acts_of (bt_taps b') approval_stage.APPROVE pid v
     \<and> calls_of b' pid v + acts_of (bt_pending b') approval_stage.CONFIRM pid v
       \<le> acts_of (bt_taps b') approval_stage.CONFIRM pid v"
      using assms(1)[unfolded bot_inv_def, rule_format, of pid v] redeem_open_confirms[OF redeemed(2), of pid v]
      unfolding redeemed(1) by (simp add: calls_of_def)
  qed
next
  case (unlinked raw u c now db' act)
  have "open_confirms db' k v \<le> open_confirms (bt_db b) k v" for k v
    using redeem_open_confirms[OF unlinked(2), of k v] by linarith
  then show ?thesis unfolding unlinked(1) by (rule bot_inv_db[OF assms(1)])
next
  case (performed act c services secrets mid now db' calls r)
  show ?thesis unfolding bot_inv_def
  proof (intro allI)
    fix pid v
    show "calls_of b' pid v + acts_of (bt_pending b') approval_stage.CONFIRM pid v + open_confirms (bt_db b') pid v
       + acts_of (bt_pending b') approval_stage.APPROVE pid v \<le> acts_of (bt_taps b') approval_stage.APPROVE pid v
     \<and> calls_of b' pid v + acts_of (bt_pending b') approval_stage.CONFIRM pid v
       \<le> acts_of (bt_taps b') approval_stage.CONFIRM pid v"
      using assms(1)[unfolded bot_inv_def, rule_format, of pid v] perform_open_confirms[OF performed(5,4), of pid v]
        perform_calls[OF performed(5), of pid v]
        acts_of_remove1[OF performed(2), of approval_stage.CONFIRM pid v]
        acts_of_remove1[OF performed(2), of approval_stage.APPROVE pid v]
      unfolding performed(1) by (auto simp: calls_of_def)
  qed
next
  case (keyboard secrets p u c mid now db' r)
  show ?thesis unfolding keyboard(1) by (rule bot_inv_db[OF assms(1) issue_open_confirms[OF keyboard(2)]])
next
  case (attached ids mid c db' r)
  have "actions_later (bt_db b) db'"
    using attached(2) unfolding attach_to_message_def by (rule run_tx_later) (auto intro: attach_later)
  from bot_inv_db[OF assms(1) open_confirms_later[OF this]] show ?thesis unfolding attached(1) .
next
  case (elsewhere db')
  from bot_inv_db[OF assms(1) open_confirms_later[OF elsewhere(2)]] show ?thesis unfolding elsewhere(1) .
qed

lemma bot_inv_start: "bot_start b \<Longrightarrow> bot_inv b"
  by (simp add: bot_start_def bot_inv_def calls_of_def acts_of_def open_confirms_def open_confirm_def list_all_iff filter_empty_conv)

interpretation bot: invariant_system bot_start "bot_step co" bot_inv for co
  by unfold_locales (auto intro: bot_inv_start bot_inv_step)

text \<open>
  C10: two taps before an authorization. However callbacks, keyboards, other writers and duplicated deliveries
  interleave, the bot has called \<open>authorize\<close> for a proposal and a user at most as often as this user redeemed
  an \<open>APPROVE\<close> token of that proposal, and at most as often as a \<open>CONFIRM\<close> token.
\<close>

theorem two_taps_per_authorization:
  assumes "reach bot_start (bot_step co) b"
  shows "calls_of b pid user \<le> acts_of (bt_taps b) approval_stage.APPROVE pid user
    \<and> calls_of b pid user \<le> acts_of (bt_taps b) approval_stage.CONFIRM pid user"
  using bot.reach_inv[OF assms] unfolding bot_inv_def by (meson add_leE)

section \<open>A tapped button\<close>

lemma button_consumed_ok: "database_ok (consume ''a1'' 2000000 button_database)"
  using waiting_ok[of None] button_tables
  by (simp add: database_ok_def consume_def button_database_def actions_table_ok_def upd_rows_def approve_button_def)

definition button_coordinator :: coordinator where
  "button_coordinator =
     \<lparr>co_action_ttl_seconds = 900, co_confirm_ttl_seconds = 120, co_fromiso = (\<lambda>_. None), co_proposals = None,
      co_render_detail = (\<lambda>_ _. []), co_render_confirmation = (\<lambda>_ _. [])\<rparr>"

lemma two_taps_per_authorization_witness:
  "\<exists>b. reach bot_start (bot_step button_coordinator) b \<and> acts_of (bt_taps b) approval_stage.APPROVE ''p1'' 7 = 1
     \<and> calls_of b ''p1'' 7 \<le> acts_of (bt_taps b) approval_stage.APPROVE ''p1'' 7
     \<and> calls_of b ''p1'' 7 \<le> acts_of (bt_taps b) approval_stage.CONFIRM ''p1'' 7"
proof -
  define b where "b = \<lparr>bt_db = button_database, bt_pending = [], bt_taps = [], bt_calls = []\<rparr>"
  have start: "bot_start b" by (simp add: bot_start_def button_database_def approve_button_def b_def)
  have "redeemable approve_button 7 (Some 7) None 2000000" "find_token button_database ''t'' = Some approve_button"
    by (simp_all add: redeemable_def holder_def approve_button_def str_opt_def find_token_def button_database_def)
  then obtain act where act: "resolve_and_consume ''t'' 7 (Some 7) None 2000000 button_database
      = Inr (consume ''a1'' 2000000 button_database, act)"
      "ra_stage act = approval_stage.APPROVE" "ra_proposal_id act = ''p1''" "ra_user_id act = 7"
    using resolve_Inr[of "''t''" 7 "Some 7" None 2000000 button_database] by (auto simp: approve_button_def)
  define db where "db = consume ''a1'' 2000000 button_database"
  have "redeem ''t'' 7 7 2000000 button_database = (db, Inr (act, True))"
    using button_consumed_ok act(1,2) by (simp add: redeem_def run_tx_def transaction_def parent_is_valid_def db_def)
  then have r: "redeem ''t'' 7 7 2000000 (bt_db b) = (db, Inr (act, True))" by (simp add: b_def)
  define b1 where "b1 = b\<lparr>bt_db := db, bt_pending := bt_pending b @ [act], bt_taps := bt_taps b @ [act]\<rparr>"
  have "bot_step button_coordinator b b1" unfolding b1_def by (rule redeemed[OF r])
  moreover have "reach bot_start (bot_step button_coordinator) b" using start by (rule reach_init)
  ultimately have "reach bot_start (bot_step button_coordinator) b1" by (metis reach_step)
  moreover have "acts_of (bt_taps b1) approval_stage.APPROVE ''p1'' 7 = 1"
    using act(2-) by (simp add: b1_def b_def)
  ultimately show ?thesis using two_taps_per_authorization by blast
qed

text \<open>A redemption that is refused leaves the database as it was, whoever tapped.\<close>

lemma refused_tap_changes_nothing:
  "redeem raw user_id chat_id now db = (db', Inl e) \<Longrightarrow> db' = db
     \<and> handle co secrets raw user_id chat_id message_id now db
         = (db, [], case user_message e of None \<Rightarrow> Inl e | Some m \<Rightarrow> Inr (alert_only m))"
  unfolding redeem_def handle_def by (auto elim: run_tx_cases)

text \<open>\<open>handle\<close> runs a redemption and its performance as two steps of the system.\<close>

lemma handle_is_two_steps:
  assumes "redeem raw u c now (bt_db b) = (db', Inr (act, True))" "services_allowed (co_proposals co)"
    and "handle co secrets raw u c message_id now (bt_db b) = (db'', calls, r)"
  shows "\<exists>b1 b2. bot_step co b b1 \<and> bot_step co b1 b2 \<and> bt_db b2 = db'' \<and> bt_calls b2 = bt_calls b @ calls"
proof -
  have chat: "ra_chat_id act = Some c"
    using assms(1) by (auto simp: redeem_def bindE_eq_Inr resolve_Inr elim!: run_tx_cases)
  have p: "perform (co\<lparr>co_proposals := co_proposals co\<rparr>) secrets act c message_id now db' = (db'', calls, r)"
    using assms(1,3) by (simp add: handle_def)
  let ?b1 = "b\<lparr>bt_db := db', bt_pending := bt_pending b @ [act], bt_taps := bt_taps b @ [act]\<rparr>"
  have "bot_step co b ?b1" by (rule redeemed[OF assms(1)])
  moreover have "\<exists>b2. bot_step co ?b1 b2 \<and> bt_db b2 = db'' \<and> bt_calls b2 = bt_calls b @ calls"
    using performed[of act ?b1 c "co_proposals co" co secrets message_id now db'' calls r] chat assms(2) p by force
  ultimately show ?thesis by blast
qed

end
