(* ===== verification/Spec2Isabelle.thy ===== *)
theory Spec2Isabelle
  imports Generation Telegram_Approvals
begin

text \<open>
  Verification library of the StockBrain backend (\<open>src/backend/stockbrain\<close>).
\<close>

end
